(* ===== verification/Prelude.thy ===== *)
theory Prelude
  imports Main "HOL-Library.Word" "HOL-Library.Signed_Division" "HOL-Library.Multiset"
begin

text \<open>
  What the components of the development share: the collections of facts their proofs are
  carried by, the programs with an error result that Go's \<open>if err != nil\<close> code becomes, a
  small Hoare logic for them, Go's integers, and generic facts on lists and key lookups.
\<close>

named_theorems prog_defs
named_theorems triple_intros
named_theorems frame_intros
named_theorems table_simps

section \<open>Base types\<close>

text \<open>
  An instant is a number of microseconds since the epoch, the resolution of a timestamp
  column; a duration is a difference of instants. A UUID is its sixteen bytes.
\<close>

type_synonym time = int
type_synonym duration = int
type_synonym uuid = "128 word"

abbreviation second :: duration where "second \<equiv> 1000000"
abbreviation minute :: duration where "minute \<equiv> 60 * second"
abbreviation hour :: duration where "hour \<equiv> 60 * minute"

abbreviation uuid_nil :: uuid where "uuid_nil \<equiv> 0"

section \<open>Go's fixed-width integers\<close>

text \<open>
  A Go integer is read as the mathematical integer it stands for; a conversion to a narrower
  type, and an operation that may overflow, wraps to the type's width (two's complement).
\<close>

definition int64 :: "int \<Rightarrow> int" where
  "int64 x = signed_take_bit 63 x"

definition int32 :: "int \<Rightarrow> int" where
  "int32 x = signed_take_bit 31 x"

definition int16 :: "int \<Rightarrow> int" where
  "int16 x = signed_take_bit 15 x"

lemma int64_id: "- (2 ^ 63) \<le> x \<Longrightarrow> x < 2 ^ 63 \<Longrightarrow> int64 x = x"
  by (simp add: int64_def signed_take_bit_int_eq_self)

lemma int32_id: "- (2 ^ 31) \<le> x \<Longrightarrow> x < 2 ^ 31 \<Longrightarrow> int32 x = x"
  by (simp add: int32_def signed_take_bit_int_eq_self)

lemma int16_id: "- (2 ^ 15) \<le> x \<Longrightarrow> x < 2 ^ 15 \<Longrightarrow> int16 x = x"
  by (simp add: int16_def signed_take_bit_int_eq_self)

lemma int32_range: "- (2 ^ 31) \<le> int32 x \<and> int32 x < 2 ^ 31"
  using signed_take_bit_int_greater_eq_minus_exp [of 31 x] signed_take_bit_int_less_exp [of 31 x]
  by (simp add: int32_def)

lemma int16_range: "- (2 ^ 15) \<le> int16 x \<and> int16 x < 2 ^ 15"
  using signed_take_bit_int_greater_eq_minus_exp [of 15 x] signed_take_bit_int_less_exp [of 15 x]
  by (simp add: int16_def)

lemma int16_int16 [simp]: "int16 (int16 x) = int16 x"
  using int16_range [of x] by (simp add: int16_id)

lemma int32_int32 [simp]: "int32 (int32 x) = int32 x"
  using int32_range [of x] by (simp add: int32_id)

section \<open>Programs with an error result\<close>

text \<open>
  A Go function that reads and writes a state \<open>'s\<close> and returns a value or an error is a
  function of the state to \<open>'e + 'a\<close> and the new state. \<open>bindP\<close> is the idiom
  \<open>x, err := m(); if err != nil { return err }\<close>, \<open>tryP\<close> hands the result of \<open>m\<close> over as a
  value, for the places where the code looks at the error or drops it.
\<close>

type_synonym ('s, 'e, 'a) prog = "'s \<Rightarrow> ('e + 'a) \<times> 's"

definition retP :: "'a \<Rightarrow> ('s, 'e, 'a) prog" where
  "retP x = (\<lambda>s. (Inr x, s))"

definition failP :: "'e \<Rightarrow> ('s, 'e, 'a) prog" where
  "failP e = (\<lambda>s. (Inl e, s))"

definition bindP :: "('s, 'e, 'a) prog \<Rightarrow> ('a \<Rightarrow> ('s, 'e, 'b) prog) \<Rightarrow> ('s, 'e, 'b) prog" where
  "bindP m k = (\<lambda>s. case m s of (Inl e, s') \<Rightarrow> (Inl e, s') | (Inr x, s') \<Rightarrow> k x s')"

definition tryP :: "('s, 'e, 'a) prog \<Rightarrow> ('s, 'f, 'e + 'a) prog" where
  "tryP m = (\<lambda>s. case m s of (r, s') \<Rightarrow> (Inr r, s'))"

definition sumP :: "'e + 'a \<Rightarrow> ('s, 'e, 'a) prog" where
  "sumP r = (\<lambda>s. (r, s))"

definition getP :: "('s \<Rightarrow> 'a) \<Rightarrow> ('s, 'e, 'a) prog" where
  "getP f = (\<lambda>s. (Inr (f s), s))"

definition readP :: "('s \<Rightarrow> 'e + 'a) \<Rightarrow> ('s, 'e, 'a) prog" where
  "readP f = (\<lambda>s. (f s, s))"

text \<open>\<open>if c { return e }\<close> before the rest of a function.\<close>

definition rejectP :: "bool \<Rightarrow> 'e \<Rightarrow> ('s, 'e, 'a) prog \<Rightarrow> ('s, 'e, 'a) prog" where
  "rejectP c e m = (if c then failP e else m)"

text \<open>A call whose error, whatever it is, is replaced: \<open>if err != nil { return e }\<close>.\<close>

definition elseP :: "('s, 'e, 'a) prog \<Rightarrow> 'e \<Rightarrow> ('s, 'e, 'a) prog" where
  "elseP m e = (\<lambda>s. case m s of (Inl _, s') \<Rightarrow> (Inl e, s') | (Inr x, s') \<Rightarrow> (Inr x, s'))"

text \<open>A call whose error is translated: \<open>if err != nil { if errors.Is(err, a) { return b }; ... }\<close>.\<close>

definition errP :: "('s, 'e, 'a) prog \<Rightarrow> ('e \<Rightarrow> 'f) \<Rightarrow> ('s, 'f, 'a) prog" where
  "errP m f = (\<lambda>s. case m s of (Inl e, s') \<Rightarrow> (Inl (f e), s') | (Inr x, s') \<Rightarrow> (Inr x, s'))"

text \<open>A loop over a slice whose body may return an error.\<close>

fun eachP :: "('a \<Rightarrow> ('s, 'e, unit) prog) \<Rightarrow> 'a list \<Rightarrow> ('s, 'e, unit) prog" where
  "eachP f [] = retP ()"
| "eachP f (x # xs) = bindP (f x) (\<lambda>_. eachP f xs)"

fun mapP :: "('a \<Rightarrow> ('s, 'e, 'b) prog) \<Rightarrow> 'a list \<Rightarrow> ('s, 'e, 'b list) prog" where
  "mapP f [] = retP []"
| "mapP f (x # xs) = bindP (f x) (\<lambda>y. bindP (mapP f xs) (\<lambda>ys. retP (y # ys)))"

declare retP_def [prog_defs] failP_def [prog_defs] bindP_def [prog_defs] tryP_def [prog_defs]
  sumP_def [prog_defs] getP_def [prog_defs] readP_def [prog_defs] rejectP_def [prog_defs]
  elseP_def [prog_defs] errP_def [prog_defs]

lemma bindP_ret [simp]: "bindP (retP x) k = k x"
  by (simp add: prog_defs)

lemma bindP_fail [simp]: "bindP (failP e) k = failP e"
  by (simp add: prog_defs)

lemma bindP_assoc: "bindP (bindP m f) g = bindP m (\<lambda>x. bindP (f x) g)"
  by (auto simp: prog_defs fun_eq_iff split: sum.split prod.split)

lemma bindP_Inr:
  "bindP m k s = (Inr y, s'') \<longleftrightarrow> (\<exists>x s'. m s = (Inr x, s') \<and> k x s' = (Inr y, s''))"
  by (auto simp: bindP_def split: prod.splits sum.splits)

lemma bindP_Inl:
  "bindP m k s = (Inl e, s'') \<longleftrightarrow>
     m s = (Inl e, s'') \<or> (\<exists>x s'. m s = (Inr x, s') \<and> k x s' = (Inl e, s''))"
  by (auto simp: bindP_def split: prod.splits sum.splits)

lemma rejectP_Inr: "rejectP c e m s = (Inr y, s') \<longleftrightarrow> \<not> c \<and> m s = (Inr y, s')"
  by (simp add: prog_defs)

lemma readP_Inr: "readP f s = (Inr y, s') \<longleftrightarrow> f s = Inr y \<and> s' = s"
  by (auto simp: prog_defs)

lemma retP_Inr: "retP x s = (Inr y, s') \<longleftrightarrow> x = y \<and> s' = s"
  by (auto simp: prog_defs)

lemma sumP_Inr: "sumP r s = (Inr y, s') \<longleftrightarrow> r = Inr y \<and> s' = s"
  by (auto simp: prog_defs)

lemma getP_Inr: "getP f s = (Inr y, s') \<longleftrightarrow> f s = y \<and> s' = s"
  by (auto simp: prog_defs)

lemma failP_Inr: "failP e s = (Inr y, s') \<longleftrightarrow> False"
  by (simp add: prog_defs)

lemma elseP_Inr: "elseP m e s = (Inr y, s') \<longleftrightarrow> m s = (Inr y, s')"
  by (auto simp: prog_defs split: prod.splits sum.splits)

lemma errP_Inr: "errP m f s = (Inr y, s') \<longleftrightarrow> m s = (Inr y, s')"
  by (auto simp: prog_defs split: prod.splits sum.splits)

lemma errP_Inl: "errP m f s = (Inl e, s') \<longleftrightarrow> (\<exists>e0. m s = (Inl e0, s') \<and> e = f e0)"
  by (auto simp: prog_defs split: prod.splits sum.splits)

lemma tryP_Inr: "tryP m s = (Inr r, s') \<longleftrightarrow> m s = (r, s')"
  by (auto simp: prog_defs split: prod.splits)

lemmas prog_Inr = errP_Inr tryP_Inr bindP_Inr rejectP_Inr readP_Inr retP_Inr sumP_Inr getP_Inr failP_Inr elseP_Inr

subsection \<open>A Hoare logic for programs\<close>

text \<open>
  \<open>triple P m Q E\<close>: from a state where \<open>P\<close> holds, \<open>m\<close> ends in \<open>Q x\<close> when it returns
  \<open>x\<close> and in \<open>E e\<close> when it returns the error \<open>e\<close>. \<open>keeps I m\<close> is the special case that \<open>m\<close>
  preserves an invariant on both ways out.
\<close>

definition triple ::
  "('s \<Rightarrow> bool) \<Rightarrow> ('s, 'e, 'a) prog \<Rightarrow> ('a \<Rightarrow> 's \<Rightarrow> bool) \<Rightarrow> ('e \<Rightarrow> 's \<Rightarrow> bool) \<Rightarrow> bool" where
  "triple P m Q E \<longleftrightarrow>
     (\<forall>s. P s \<longrightarrow>
       (case fst (m s) of Inl e \<Rightarrow> E e (snd (m s)) | Inr x \<Rightarrow> Q x (snd (m s))))"

definition keeps :: "('s \<Rightarrow> bool) \<Rightarrow> ('s, 'e, 'a) prog \<Rightarrow> bool" where
  "keeps I m \<longleftrightarrow> (\<forall>s. I s \<longrightarrow> I (snd (m s)))"

lemma keeps_triple: "keeps I m \<longleftrightarrow> triple I m (\<lambda>_. I) (\<lambda>_. I)"
  by (auto simp: keeps_def triple_def split: sum.splits)

lemma keepsD: "keeps I m \<Longrightarrow> I s \<Longrightarrow> m s = (r, s') \<Longrightarrow> I s'"
  by (auto simp: keeps_def dest!: spec [of _ s])

lemma keepsI: "(\<And>s. I s \<Longrightarrow> I (snd (m s))) \<Longrightarrow> keeps I m"
  by (simp add: keeps_def)

lemma triple_bind:
  assumes "triple P m R E" and "\<And>x. triple (R x) (k x) Q E"
  shows "triple P (bindP m k) Q E"
  unfolding triple_def
proof (intro allI impI)
  fix s
  assume "P s"
  obtain r s' where m: "m s = (r, s')" by fastforce
  with assms(1) \<open>P s\<close> have r: "case r of Inl e \<Rightarrow> E e s' | Inr x \<Rightarrow> R x s'"
    by (auto simp: triple_def dest!: spec [of _ s] split: sum.splits)
  show "case fst (bindP m k s) of Inl e \<Rightarrow> E e (snd (bindP m k s))
      | Inr x \<Rightarrow> Q x (snd (bindP m k s))"
  proof (cases r)
    case (Inl e)
    with m r show ?thesis by (simp add: bindP_def)
  next
    case (Inr x)
    with r have "R x s'" by simp
    from m Inr have "bindP m k s = k x s'" by (simp add: bindP_def)
    with assms(2) [of x] \<open>R x s'\<close> show ?thesis
      by (simp add: triple_def split: sum.splits)
  qed
qed

lemma triple_weaken:
  "triple P m Q E \<Longrightarrow> (\<And>s. P' s \<Longrightarrow> P s) \<Longrightarrow> (\<And>x s. Q x s \<Longrightarrow> Q' x s) \<Longrightarrow>
     (\<And>e s. E e s \<Longrightarrow> E' e s) \<Longrightarrow> triple P' m Q' E'"
  by (auto simp: triple_def split: sum.splits)

lemma tripleD:
  "triple P m Q E \<Longrightarrow> P s \<Longrightarrow> m s = (Inr x, s') \<Longrightarrow> Q x s'"
  by (auto simp: triple_def dest!: spec [of _ s])

lemma tripleD_err:
  "triple P m Q E \<Longrightarrow> P s \<Longrightarrow> m s = (Inl e, s') \<Longrightarrow> E e s'"
  by (auto simp: triple_def dest!: spec [of _ s])

lemma keeps_ret [triple_intros]: "keeps I (retP x)"
  by (simp add: keeps_def prog_defs)

lemma keeps_fail [triple_intros]: "keeps I (failP e)"
  by (simp add: keeps_def prog_defs)

lemma keeps_sum [triple_intros]: "keeps I (sumP r)"
  by (simp add: keeps_def prog_defs)

lemma keeps_get [triple_intros]: "keeps I (getP f)"
  by (simp add: keeps_def prog_defs)

lemma keeps_read [triple_intros]: "keeps I (readP f)"
  by (simp add: keeps_def prog_defs)

lemma keeps_bind [triple_intros]:
  "keeps I m \<Longrightarrow> (\<And>x. keeps I (k x)) \<Longrightarrow> keeps I (bindP m k)"
  unfolding keeps_triple by (rule triple_bind)

lemma keeps_try [triple_intros]: "keeps I m \<Longrightarrow> keeps I (tryP m)"
  by (simp add: keeps_def tryP_def split: prod.split) (metis snd_conv)

lemma keeps_else [triple_intros]: "keeps I m \<Longrightarrow> keeps I (elseP m e)"
  by (simp add: keeps_def elseP_def split: prod.split sum.split) (metis snd_conv)

lemma keeps_err [triple_intros]: "keeps I m \<Longrightarrow> keeps I (errP m f)"
  by (simp add: keeps_def errP_def split: prod.split sum.split) (metis snd_conv)

lemma keeps_reject [triple_intros]: "keeps I m \<Longrightarrow> keeps I (rejectP c e m)"
  by (simp add: keeps_def prog_defs)

lemma keeps_if [triple_intros]: "keeps I m \<Longrightarrow> keeps I n \<Longrightarrow> keeps I (if b then m else n)"
  by simp

lemma keeps_option [triple_intros]:
  "keeps I m \<Longrightarrow> (\<And>x. keeps I (f x)) \<Longrightarrow> keeps I (case v of None \<Rightarrow> m | Some x \<Rightarrow> f x)"
  by (cases v) auto

lemma keeps_sum_case [triple_intros]:
  "(\<And>e. keeps I (f e)) \<Longrightarrow> (\<And>x. keeps I (g x)) \<Longrightarrow>
     keeps I (case v of Inl e \<Rightarrow> f e | Inr x \<Rightarrow> g x)"
  by (cases v) auto

lemma keeps_each [triple_intros]: "(\<And>x. keeps I (f x)) \<Longrightarrow> keeps I (eachP f xs)"
  by (induction xs) (auto intro: triple_intros)

lemma keeps_map [triple_intros]: "(\<And>x. keeps I (f x)) \<Longrightarrow> keeps I (mapP f xs)"
  by (induction xs) (auto intro!: triple_intros)

subsection \<open>What a program leaves alone\<close>

text \<open>\<open>frames f m\<close>: whatever \<open>m\<close> returns, it leaves what \<open>f\<close> reads of the state as it was.\<close>

definition frames :: "('s \<Rightarrow> 'x) \<Rightarrow> ('s, 'e, 'a) prog \<Rightarrow> bool" where
  "frames f m \<longleftrightarrow> (\<forall>s. f (snd (m s)) = f s)"

lemma framesD: "frames f m \<Longrightarrow> m s = (r, s') \<Longrightarrow> f s' = f s"
  by (metis frames_def snd_conv)

lemma frames_bind [frame_intros]: "frames f m \<Longrightarrow> (\<And>x. frames f (k x)) \<Longrightarrow> frames f (bindP m k)"
  by (simp add: frames_def bindP_def split: prod.split sum.split) (metis snd_conv)

lemma frames_simple [frame_intros]: "frames f (retP x)" "frames f (failP e)" "frames f (sumP r)"
    "frames f (readP g)" "frames f (getP h)"
  by (simp_all add: frames_def prog_defs)

lemma frames_err [frame_intros]: "frames f m \<Longrightarrow> frames f (errP m g)"
  by (simp add: frames_def errP_def split: prod.split sum.split) (metis snd_conv)

lemma frames_else [frame_intros]: "frames f m \<Longrightarrow> frames f (elseP m e)"
  by (simp add: frames_def elseP_def split: prod.split sum.split) (metis snd_conv)

lemma frames_try [frame_intros]: "frames f m \<Longrightarrow> frames f (tryP m)"
  by (simp add: frames_def tryP_def split: prod.split) (metis snd_conv)

lemma frames_reject [frame_intros]: "frames f m \<Longrightarrow> frames f (rejectP c e m)"
  by (simp add: frames_def prog_defs)

lemma frames_if [frame_intros]: "frames f m \<Longrightarrow> frames f n \<Longrightarrow> frames f (if b then m else n)"
  by simp

lemma frames_option [frame_intros]:
  "(\<And>x. frames f (g x)) \<Longrightarrow> frames f h \<Longrightarrow> frames f (case v of Some x \<Rightarrow> g x | None \<Rightarrow> h)"
  by (cases v) simp_all

lemma frames_sum [frame_intros]:
  "(\<And>x. frames f (g x)) \<Longrightarrow> (\<And>x. frames f (h x)) \<Longrightarrow> frames f (case v of Inl x \<Rightarrow> g x | Inr x \<Rightarrow> h x)"
  by (cases v) simp_all

lemma frames_each [frame_intros]: "(\<And>x. frames f (g x)) \<Longrightarrow> frames f (eachP g xs)"
  by (induction xs) (auto intro: frame_intros)

lemma frames_comp: "frames f m \<Longrightarrow> frames (\<lambda>s. g (f s)) m"
  by (simp add: frames_def)

section \<open>Lists with a key\<close>

text \<open>
  A table is a list of rows; \<open>lookup_by key k rows\<close> is the row with key \<open>k\<close>, the first one
  should there be more. With distinct keys it is a finite map, which the repositories'
  contracts are stated over.
\<close>

definition lookup_by :: "('r \<Rightarrow> 'k) \<Rightarrow> 'k \<Rightarrow> 'r list \<Rightarrow> 'r option" where
  "lookup_by key k rows = find (\<lambda>r. key r = k) rows"

lemma lookup_by_Nil [table_simps]: "lookup_by key k [] = None"
  by (simp add: lookup_by_def)

lemma lookup_by_Cons [table_simps]:
  "lookup_by key k (r # rows) = (if key r = k then Some r else lookup_by key k rows)"
  by (simp add: lookup_by_def)

lemma lookup_by_append [table_simps]:
  "lookup_by key k (xs @ ys) =
     (case lookup_by key k xs of None \<Rightarrow> lookup_by key k ys | Some r \<Rightarrow> Some r)"
  by (induction xs) (auto simp: table_simps)

lemma lookup_by_None: "lookup_by key k rows = None \<longleftrightarrow> k \<notin> key ` set rows"
  by (induction rows) (auto simp: table_simps)

lemma lookup_by_Some: "lookup_by key k rows = Some r \<Longrightarrow> r \<in> set rows \<and> key r = k"
  by (induction rows) (auto simp: table_simps split: if_splits)

lemma lookup_by_distinct:
  "distinct (map key rows) \<Longrightarrow> r \<in> set rows \<Longrightarrow> lookup_by key (key r) rows = Some r"
  by (induction rows) (auto simp: table_simps image_iff)

lemma lookup_by_map:
  "(\<And>r. key (f r) = key r) \<Longrightarrow> lookup_by key k (map f rows) = map_option f (lookup_by key k rows)"
  by (induction rows) (auto simp: table_simps)

lemma lookup_by_filter:
  "distinct (map key rows) \<Longrightarrow>
     lookup_by key k (filter P rows) =
       (case lookup_by key k rows of None \<Rightarrow> None | Some r \<Rightarrow> if P r then Some r else None)"
proof (induction rows)
  case Nil
  then show ?case by (simp add: table_simps)
next
  case (Cons r rows)
  show ?case
  proof (cases "key r = k")
    case True
    with Cons.prems have "lookup_by key k (filter P rows) = None"
      by (auto simp: lookup_by_None)
    with True show ?thesis by (simp add: table_simps)
  next
    case False
    with Cons show ?thesis by (simp add: table_simps)
  qed
qed

text \<open>Updating the rows that satisfy a condition keeps the keys.\<close>

definition update_where :: "('r \<Rightarrow> bool) \<Rightarrow> ('r \<Rightarrow> 'r) \<Rightarrow> 'r list \<Rightarrow> 'r list" where
  "update_where P f rows = map (\<lambda>r. if P r then f r else r) rows"

definition delete_where :: "('r \<Rightarrow> bool) \<Rightarrow> 'r list \<Rightarrow> 'r list" where
  "delete_where P rows = filter (\<lambda>r. \<not> P r) rows"

lemma map_update_where [table_simps]:
  "(\<And>r. key (f r) = key r) \<Longrightarrow> map key (update_where P f rows) = map key rows"
  by (simp add: update_where_def)

lemma image_update_where:
  "(\<And>r. key (f r) = key r) \<Longrightarrow> key ` set (update_where P f rows) = key ` set rows"
  using map_update_where [of key f P rows] by (metis set_map)

lemma lookup_update_where:
  "(\<And>r. key (f r) = key r) \<Longrightarrow>
     lookup_by key k (update_where P f rows) =
       map_option (\<lambda>r. if P r then f r else r) (lookup_by key k rows)"
  unfolding update_where_def by (rule lookup_by_map) simp

lemma length_update_where [simp]: "length (update_where P f rows) = length rows"
  by (simp add: update_where_def)

lemma set_update_where:
  "r \<in> set (update_where P f rows) \<Longrightarrow> r \<in> set rows \<or> (\<exists>r0 \<in> set rows. P r0 \<and> r = f r0)"
  by (auto simp: update_where_def)

lemma update_where_id: "(\<And>r. r \<in> set rows \<Longrightarrow> \<not> P r) \<Longrightarrow> update_where P f rows = rows"
  by (induction rows) (auto simp: update_where_def)

lemma update_where_none:
  "k \<notin> key ` set rows \<Longrightarrow> update_where (\<lambda>r. key r = k) f rows = rows"
  by (rule update_where_id) auto

lemma distinct_delete_where: "distinct (map key rows) \<Longrightarrow> distinct (map key (delete_where P rows))"
  by (simp add: delete_where_def distinct_map_filter)

lemma set_delete_where [simp]: "set (delete_where P rows) = {r \<in> set rows. \<not> P r}"
  by (simp add: delete_where_def)

section \<open>Sorting by a comparison\<close>

text \<open>
  \<open>ORDER BY\<close> and \<open>sort.Slice\<close> order rows by a comparison. Neither promises an order for
  rows that compare equal; the model keeps them in their old order (insertion sort).
\<close>

fun insert_by :: "('a \<Rightarrow> 'a \<Rightarrow> bool) \<Rightarrow> 'a \<Rightarrow> 'a list \<Rightarrow> 'a list" where
  "insert_by le x [] = [x]"
| "insert_by le x (y # ys) = (if le x y then x # y # ys else y # insert_by le x ys)"

fun sort_by :: "('a \<Rightarrow> 'a \<Rightarrow> bool) \<Rightarrow> 'a list \<Rightarrow> 'a list" where
  "sort_by le [] = []"
| "sort_by le (x # xs) = insert_by le x (sort_by le xs)"

lemma mset_insert_by [simp]: "mset (insert_by le x xs) = add_mset x (mset xs)"
  by (induction xs) auto

lemma mset_sort_by [simp]: "mset (sort_by le xs) = mset xs"
  by (induction xs) auto

lemma set_insert_by [simp]: "set (insert_by le x xs) = insert x (set xs)"
  by (induction xs) auto

lemma set_sort_by [simp]: "set (sort_by le xs) = set xs"
  by (induction xs) auto

lemma length_insert_by [simp]: "length (insert_by le x xs) = Suc (length xs)"
  by (induction xs) auto

lemma length_sort_by [simp]: "length (sort_by le xs) = length xs"
  by (induction xs) auto

definition total_preorder :: "('a \<Rightarrow> 'a \<Rightarrow> bool) \<Rightarrow> bool" where
  "total_preorder le \<longleftrightarrow>
     (\<forall>x y. le x y \<or> le y x) \<and> (\<forall>x y z. le x y \<longrightarrow> le y z \<longrightarrow> le x z)"

lemma sorted_insert_by:
  "total_preorder le \<Longrightarrow> sorted_wrt le xs \<Longrightarrow> sorted_wrt le (insert_by le x xs)"
  by (induction xs) (auto simp: total_preorder_def)

lemma sorted_sort_by: "total_preorder le \<Longrightarrow> sorted_wrt le (sort_by le xs)"
  by (induction xs) (auto intro: sorted_insert_by)

lemma insert_by_sorted: "\<forall>y \<in> set xs. le x y \<Longrightarrow> insert_by le x xs = x # xs"
  by (cases xs) auto

lemma sort_by_sorted: "sorted_wrt le xs \<Longrightarrow> sort_by le xs = xs"
  by (induction xs) (auto simp: insert_by_sorted)

text \<open>Where the order tells all elements apart there is one way to sort them.\<close>

lemma sorted_unique:
  assumes "sorted_wrt le xs" "sorted_wrt le ys" "mset xs = mset ys"
    and "\<forall>x \<in> set xs. \<forall>y \<in> set xs. le x y \<longrightarrow> le y x \<longrightarrow> x = y"
  shows "xs = ys"
  using assms
proof (induction xs arbitrary: ys)
  case (Cons x xs)
  from Cons.prems(3) obtain y ys' where ys: "ys = y # ys'" by (cases ys) auto
  have sets: "set (x # xs) = set ys" using Cons.prems(3) by (metis set_mset_mset)
  have "x = y"
  proof (rule ccontr)
    assume ne: "x \<noteq> y"
    with sets ys have "y \<in> set xs" "x \<in> set ys'" by auto
    with Cons.prems(1,2) ys have "le x y" "le y x" by auto
    with Cons.prems(4) \<open>y \<in> set xs\<close> ne show False by auto
  qed
  with Cons.prems ys Cons.IH [of ys'] show ?case by auto
qed simp

lemma sort_by_unique:
  assumes "total_preorder le" "mset xs = mset ys"
    and "\<forall>x \<in> set ys. \<forall>y \<in> set ys. le x y \<longrightarrow> le y x \<longrightarrow> x = y"
  shows "sort_by le xs = sort_by le ys"
proof -
  have "set xs = set ys" using assms(2) by (metis set_mset_mset)
  with assms show ?thesis
    by (intro sorted_unique [of le]) (simp_all add: sorted_sort_by)
qed

lemma insert_by_map:
  "(\<And>a b. le (f a) (f b) = le' a b) \<Longrightarrow> insert_by le (f x) (map f xs) = map f (insert_by le' x xs)"
  by (induction xs) auto

lemma sort_by_map:
  "(\<And>a b. le (f a) (f b) = le' a b) \<Longrightarrow> sort_by le (map f xs) = map f (sort_by le' xs)"
  by (induction xs) (auto simp: insert_by_map)

end
