(* ===== verification/Go_Strings.thy ===== *)
theory Go_Strings
  imports Prelude "HOL-Library.Sublist" "HOL-Library.Char_ord"
begin

text \<open>
  What the code uses of Go's strings. A Go string is a sequence of bytes, a HOL string is a
  list of 8-bit characters: \<open>len\<close> is \<open>length\<close>. Runes are decoded as Go decodes UTF-8, an
  invalid byte counting as one rune. \<open>strings.TrimSpace\<close>, \<open>strings.Contains\<close>,
  \<open>strings.Index\<close>, \<open>strings.TrimRight\<close> and \<open>strconv.Atoi\<close> follow their documentation.
\<close>

section \<open>Prefixes and substrings\<close>

definition has_prefix :: "string \<Rightarrow> string \<Rightarrow> bool" where
  "has_prefix s p \<longleftrightarrow> take (length p) s = p"

definition trim_prefix :: "string \<Rightarrow> string \<Rightarrow> string" where
  "trim_prefix s p = (if has_prefix s p then drop (length p) s else s)"

lemma has_prefix_append [simp]: "has_prefix (p @ s) p"
  by (simp add: has_prefix_def)

lemma trim_prefix_append [simp]: "trim_prefix (p @ s) p = s"
  by (simp add: trim_prefix_def)

lemma has_prefix_iff: "has_prefix s p \<longleftrightarrow> prefix p s"
  unfolding has_prefix_def prefix_def by (metis append_eq_conv_conj append_take_drop_id)

text \<open>\<open>strings.Contains\<close>: a match at some offset.\<close>

definition strings_contains :: "string \<Rightarrow> string \<Rightarrow> bool" where
  "strings_contains s sub = list_ex (\<lambda>i. has_prefix (drop i s) sub) [0..<Suc (length s)]"

lemma strings_contains_iff: "strings_contains s sub \<longleftrightarrow> sublist sub s"
proof
  assume "strings_contains s sub"
  then obtain i where "prefix sub (drop i s)"
    unfolding strings_contains_def list_ex_iff has_prefix_iff by blast
  then obtain zs where "drop i s = sub @ zs" by (auto simp: prefix_def)
  then have "s = take i s @ sub @ zs" by (metis append_take_drop_id)
  then show "sublist sub s" unfolding sublist_def by blast
next
  assume "sublist sub s"
  then obtain ps ss where s: "s = ps @ sub @ ss" unfolding sublist_def by blast
  then have "has_prefix (drop (length ps) s) sub" by simp
  moreover have "length ps \<in> set [0..<Suc (length s)]" using s by simp
  ultimately show "strings_contains s sub"
    unfolding strings_contains_def list_ex_iff by blast
qed

section \<open>Positions of a character\<close>

fun index_char :: "char \<Rightarrow> string \<Rightarrow> nat option" where
  "index_char c [] = None"
| "index_char c (x # xs) = (if x = c then Some 0 else map_option Suc (index_char c xs))"

fun last_index_char :: "char \<Rightarrow> string \<Rightarrow> nat option" where
  "last_index_char c [] = None"
| "last_index_char c (x # xs) =
     (case last_index_char c xs of
        Some i \<Rightarrow> Some (Suc i)
      | None \<Rightarrow> if x = c then Some 0 else None)"

lemma index_char_None: "index_char c s = None \<longleftrightarrow> c \<notin> set s"
  by (induction s) auto

lemma index_char_Some:
  "index_char c s = Some i \<Longrightarrow> i < length s \<and> s ! i = c \<and> c \<notin> set (take i s)"
  by (induction s arbitrary: i) (auto split: if_splits)

lemma last_index_char_None: "last_index_char c s = None \<longleftrightarrow> c \<notin> set s"
  by (induction s) (auto split: option.splits)

lemma last_index_char_Some:
  "last_index_char c s = Some i \<Longrightarrow> i < length s \<and> s ! i = c \<and> c \<notin> set (drop (Suc i) s)"
proof (induction s arbitrary: i)
  case Nil
  then show ?case by simp
next
  case (Cons x xs)
  show ?case
  proof (cases "last_index_char c xs")
    case None
    with Cons.prems show ?thesis by (auto simp: last_index_char_None split: if_splits)
  next
    case (Some j)
    with Cons.prems Cons.IH [OF Some] show ?thesis by auto
  qed
qed

section \<open>UTF-8\<close>

definition byte :: "char \<Rightarrow> nat" where
  "byte c = of_char c"

definition byte_in :: "string \<Rightarrow> nat \<Rightarrow> nat \<Rightarrow> nat \<Rightarrow> bool" where
  "byte_in cs i lo hi \<longleftrightarrow> i < length cs \<and> lo \<le> byte (cs ! i) \<and> byte (cs ! i) \<le> hi"

lemma byte_in_length: "byte_in cs i lo hi \<Longrightarrow> i < length cs"
  by (simp add: byte_in_def)

lemma byte_in_eq: "i + 1 \<le> length cs \<Longrightarrow> byte_in (cs @ ys) i lo hi = byte_in cs i lo hi"
  by (simp add: byte_in_def nth_append)

lemma byte_in_up: "byte_in cs i lo hi \<Longrightarrow> byte_in (cs @ ys) i lo hi"
  by (auto simp: byte_in_def nth_append)

text \<open>The width of the first rune: the ranges of the second byte exclude overlong forms,
  surrogates and values past U+10FFFF; anything invalid has width 1.\<close>

definition lead_width :: "nat \<Rightarrow> string \<Rightarrow> nat" where
  "lead_width b cs =
     (if 194 \<le> b \<and> b \<le> 223 then (if byte_in cs 0 128 191 then 2 else 1)
      else if 224 \<le> b \<and> b \<le> 239 then
        (if byte_in cs 0 (if b = 224 then 160 else 128) (if b = 237 then 159 else 191)
            \<and> byte_in cs 1 128 191 then 3 else 1)
      else if 240 \<le> b \<and> b \<le> 244 then
        (if byte_in cs 0 (if b = 240 then 144 else 128) (if b = 244 then 143 else 191)
            \<and> byte_in cs 1 128 191 \<and> byte_in cs 2 128 191 then 4 else 1)
      else 1)"

fun rune_width :: "string \<Rightarrow> nat" where
  "rune_width [] = 0"
| "rune_width (c # cs) = lead_width (byte c) cs"

lemma lead_width_2: "194 \<le> b \<Longrightarrow> b \<le> 223 \<Longrightarrow>
    lead_width b cs = (if byte_in cs 0 128 191 then 2 else 1)"
  by (simp add: lead_width_def split del: if_split)

lemma lead_width_3: "224 \<le> b \<Longrightarrow> b \<le> 239 \<Longrightarrow>
    lead_width b cs =
      (if byte_in cs 0 (if b = 224 then 160 else 128) (if b = 237 then 159 else 191)
          \<and> byte_in cs 1 128 191 then 3 else 1)"
  by (simp add: lead_width_def split del: if_split)

lemma lead_width_4: "240 \<le> b \<Longrightarrow> b \<le> 244 \<Longrightarrow>
    lead_width b cs =
      (if byte_in cs 0 (if b = 240 then 144 else 128) (if b = 244 then 143 else 191)
          \<and> byte_in cs 1 128 191 \<and> byte_in cs 2 128 191 then 4 else 1)"
  by (simp add: lead_width_def split del: if_split)

lemma lead_width_1: "b < 194 \<or> 244 < b \<Longrightarrow> lead_width b cs = 1"
  unfolding lead_width_def by (elim disjE) (simp_all split del: if_split)

lemma lead_width_bounds:
  "0 < lead_width b cs \<and> lead_width b cs \<le> 4 \<and> lead_width b cs \<le> Suc (length cs)"
proof -
  have in_range: "byte_in cs i lo hi \<Longrightarrow> Suc i \<le> length cs" for i lo hi
    using byte_in_length by (simp add: Suc_le_eq)
  consider "194 \<le> b" "b \<le> 223" | "224 \<le> b" "b \<le> 239" | "240 \<le> b" "b \<le> 244"
    | "b < 194 \<or> 244 < b" by linarith
  then show ?thesis
  proof cases
    case 1
    show ?thesis unfolding lead_width_2 [OF 1]
      using in_range [of 0] by simp
  next
    case 2
    show ?thesis unfolding lead_width_3 [OF 2] using in_range [of 1]
      by (simp del: One_nat_def split del: if_split) (auto split: if_split)
  next
    case 3
    show ?thesis unfolding lead_width_4 [OF 3] using in_range [of 2 128 191]
      by (cases "byte_in cs 2 128 191") simp_all
  next
    case 4
    then show ?thesis by (simp add: lead_width_1)
  qed
qed

lemma rune_width_pos: "s \<noteq> [] \<Longrightarrow> 0 < rune_width s"
  by (cases s) (simp_all add: lead_width_bounds)

lemma rune_width_le_length: "rune_width s \<le> length s"
  by (cases s) (simp_all add: lead_width_bounds)

lemma rune_width_le_4: "rune_width s \<le> 4"
  by (cases s) (simp_all add: lead_width_bounds)

function runes :: "string \<Rightarrow> string list" where
  "runes s = (if s = [] then [] else take (rune_width s) s # runes (drop (rune_width s) s))"
  by pat_completeness auto
termination
  by (relation "measure length") (auto simp: rune_width_pos)

declare runes.simps [simp del]

lemma runes_Nil [simp]: "runes [] = []"
  by (simp add: runes.simps)

lemma runes_step: "s \<noteq> [] \<Longrightarrow> runes s = take (rune_width s) s # runes (drop (rune_width s) s)"
  by (simp add: runes.simps [of s])

text \<open>\<open>len([]rune(s))\<close>\<close>

definition rune_count :: "string \<Rightarrow> nat" where
  "rune_count s = length (runes s)"

lemma concat_runes: "concat (runes s) = s"
proof (induction s rule: runes.induct)
  case (1 s)
  then show ?case by (cases "s = []") (simp_all add: runes_step [of s])
qed

lemma runes_nonempty: "r \<in> set (runes s) \<Longrightarrow> r \<noteq> []"
proof (induction s rule: runes.induct)
  case (1 s)
  show ?case
  proof (cases "s = []")
    case True
    with 1 show ?thesis by simp
  next
    case False
    then have "take (rune_width s) s \<noteq> []" using rune_width_pos [OF False] by simp
    with 1 False show ?thesis unfolding runes_step [OF False] by auto
  qed
qed

lemma rune_count_le_length: "rune_count s \<le> length s"
proof (induction s rule: runes.induct)
  case (1 s)
  show ?case
  proof (cases "s = []")
    case True
    then show ?thesis by (simp add: rune_count_def)
  next
    case False
    with 1 have "rune_count (drop (rune_width s) s) \<le> length s - rune_width s" by simp
    moreover have "0 < rune_width s" using False by (rule rune_width_pos)
    moreover have "rune_width s \<le> length s" by (rule rune_width_le_length)
    ultimately show ?thesis using False by (simp add: rune_count_def runes_step)
  qed
qed

lemma length_le_rune_count: "length s \<le> 4 * rune_count s"
proof (induction s rule: runes.induct)
  case (1 s)
  show ?case
  proof (cases "s = []")
    case True
    then show ?thesis by simp
  next
    case False
    with 1 have "length s - rune_width s \<le> 4 * rune_count (drop (rune_width s) s)" by simp
    moreover have "rune_width s \<le> 4" by (rule rune_width_le_4)
    ultimately show ?thesis using False by (simp add: rune_count_def runes_step)
  qed
qed

lemma runes_ascii: "\<forall>c \<in> set s. byte c < 128 \<Longrightarrow> runes s = map (\<lambda>c. [c]) s"
proof (induction s)
  case Nil
  then show ?case by simp
next
  case (Cons c cs)
  then have "rune_width (c # cs) = 1" by (simp add: lead_width_1)
  with Cons show ?case by (simp add: runes_step)
qed

lemma rune_count_ascii: "\<forall>c \<in> set s. byte c < 128 \<Longrightarrow> rune_count s = length s"
  by (simp add: rune_count_def runes_ascii)

section \<open>White space\<close>

text \<open>The encodings of the code points of \<open>unicode.IsSpace\<close>.\<close>

definition space_runes :: "nat list list" where
  "space_runes =
     [[9], [10], [11], [12], [13], [32], [194, 133], [194, 160], [225, 154, 128]]
     @ map (\<lambda>b. [226, 128, b]) [128..<139]
     @ [[226, 128, 168], [226, 128, 169], [226, 128, 175], [226, 129, 159], [227, 128, 128]]"

definition is_space_rune :: "string \<Rightarrow> bool" where
  "is_space_rune r \<longleftrightarrow> map byte r \<in> set space_runes"

definition trim_space :: "string \<Rightarrow> string" where
  "trim_space s = concat (rev (dropWhile is_space_rune (rev (dropWhile is_space_rune (runes s)))))"

text \<open>Cutting a string at the border of a rune leaves its runes as they were.\<close>

lemma lead_width_cut:
  assumes "lead_width b (cs @ ys) \<le> Suc (length cs)"
  shows "lead_width b cs = lead_width b (cs @ ys)"
proof -
  consider "194 \<le> b" "b \<le> 223" | "224 \<le> b" "b \<le> 239" | "240 \<le> b" "b \<le> 244"
    | "b < 194 \<or> 244 < b" by linarith
  then show ?thesis
  proof cases
    case 1
    show ?thesis using assms unfolding lead_width_2 [OF 1]
      by (auto simp: byte_in_eq byte_in_up Suc_le_eq split: if_splits)
  next
    case 2
    define lo hi where "lo = (if b = 224 then 160 else 128 :: nat)"
      and "hi = (if b = 237 then 159 else 191 :: nat)"
    note w = lead_width_3 [OF 2, folded lo_def hi_def]
    show ?thesis using assms unfolding w
      by (auto simp: byte_in_eq byte_in_up split: if_splits)
  next
    case 3
    define lo hi where "lo = (if b = 240 then 144 else 128 :: nat)"
      and "hi = (if b = 244 then 143 else 191 :: nat)"
    note w = lead_width_4 [OF 3, folded lo_def hi_def]
    show ?thesis using assms unfolding w
      by (auto simp: byte_in_eq byte_in_up split: if_splits)
  next
    case 4
    then show ?thesis by (simp add: lead_width_1)
  qed
qed

lemma rune_width_cut:
  "rune_width (xs @ ys) \<le> length xs \<Longrightarrow> xs \<noteq> [] \<Longrightarrow> rune_width xs = rune_width (xs @ ys)"
  by (cases xs) (simp_all add: lead_width_cut)

lemma runes_take: "runes (concat (take n (runes s))) = take n (runes s)"
proof (induction s arbitrary: n rule: runes.induct)
  case (1 s)
  show ?case
  proof (cases "s = [] \<or> n = 0")
    case True
    then show ?thesis by auto
  next
    case False
    then obtain m where n: "n = Suc m" and s: "s \<noteq> []" by (cases n) auto
    let ?w = "rune_width s"
    let ?rest = "concat (take m (runes (drop ?w s)))"
    have w: "length (take ?w s) = ?w" using rune_width_le_length [of s] by simp
    have s_eq: "s = (take ?w s @ ?rest) @ concat (drop m (runes (drop ?w s)))"
      using concat_runes [of "drop ?w s"]
      by (metis append.assoc append_take_drop_id concat_append)
    have "rune_width (take ?w s @ ?rest) = rune_width s"
      using rune_width_cut [of "take ?w s @ ?rest" "concat (drop m (runes (drop ?w s)))"]
        s_eq w s by (metis append_is_Nil_conv le_add1 length_append rune_width_pos
          length_greater_0_conv)
    moreover have "take ?w s @ ?rest \<noteq> []" using w rune_width_pos [OF s] by auto
    ultimately have "runes (take ?w s @ ?rest) = take ?w s # runes ?rest"
      using w by (simp add: runes_step)
    with 1 s n show ?thesis by (simp add: runes_step)
  qed
qed

lemma runes_drop: "runes (concat (drop n (runes s))) = drop n (runes s)"
proof (induction s arbitrary: n rule: runes.induct)
  case (1 s)
  show ?case
  proof (cases "s = [] \<or> n = 0")
    case True
    then show ?thesis by (auto simp: concat_runes)
  next
    case False
    then obtain m where "n = Suc m" and "s \<noteq> []" by (cases n) auto
    with 1 show ?thesis by (simp add: runes_step)
  qed
qed

lemma rev_dropWhile_rev: "\<exists>n. rev (dropWhile P (rev xs)) = take n xs"
  by (metis dropWhile_eq_drop drop_rev rev_rev_ident)

lemma runes_trim_space:
  "runes (trim_space s) =
     rev (dropWhile is_space_rune (rev (dropWhile is_space_rune (runes s))))"
proof -
  obtain n where n: "dropWhile is_space_rune (runes s) = drop n (runes s)"
    by (metis dropWhile_eq_drop)
  obtain m where m: "rev (dropWhile is_space_rune (rev (drop n (runes s)))) = take m (drop n (runes s))"
    using rev_dropWhile_rev by blast
  have "runes (concat (take m (runes (concat (drop n (runes s)))))) = take m (drop n (runes s))"
    using runes_take [of m "concat (drop n (runes s))"] by (simp add: runes_drop)
  then show ?thesis by (simp add: trim_space_def n m runes_drop)
qed

lemma dropWhile_rev_dropWhile:
  "dropWhile P (rev (dropWhile P (rev (dropWhile P xs)))) = rev (dropWhile P (rev (dropWhile P xs)))"
proof (cases "dropWhile P xs")
  case Nil
  then show ?thesis by (metis dropWhile.simps(1) rev.simps(1))
next
  case (Cons y ys)
  then have y: "\<not> P y" by (metis hd_dropWhile list.sel(1) list.distinct(1))
  then have "dropWhile P (rev ys @ [y]) = dropWhile P (rev ys) @ [y]"
  proof (cases "\<forall>z \<in> set ys. P z")
    case True
    with y show ?thesis using dropWhile_append2 [of "rev ys" P "[y]"] by simp
  next
    case False
    then show ?thesis by (metis dropWhile_append1 set_rev)
  qed
  with Cons y show ?thesis by simp
qed

theorem trim_space_idem: "trim_space (trim_space s) = trim_space s"
proof -
  have "trim_space (trim_space s) =
      concat (rev (dropWhile is_space_rune (rev (dropWhile is_space_rune (runes (trim_space s))))))"
    by (simp add: trim_space_def)
  also have "\<dots> = concat (runes (trim_space s))"
    by (simp add: runes_trim_space dropWhile_rev_dropWhile)
  finally show ?thesis by (simp add: concat_runes)
qed

lemma trim_space_Nil [simp]: "trim_space [] = []"
  by (simp add: trim_space_def)

section \<open>Trimming a set of characters on the right\<close>

definition trim_right :: "string \<Rightarrow> string \<Rightarrow> string" where
  "trim_right s cutset = rev (dropWhile (\<lambda>c. c \<in> set cutset) (rev s))"

lemma length_trim_right: "length (trim_right s cs) \<le> length s"
  using length_dropWhile_le [of "\<lambda>c. c \<in> set cs" "rev s"] by (simp add: trim_right_def)

lemma trim_right_prefix: "\<exists>t. s = trim_right s cs @ t"
  unfolding trim_right_def
  by (metis rev_append rev_rev_ident takeWhile_dropWhile_id)

lemma trim_right_shorter: "trim_right s cs \<noteq> s \<Longrightarrow> length (trim_right s cs) < length s"
  by (metis trim_right_prefix append_Nil2 length_0_conv length_append less_add_same_cancel1
      neq0_conv)

lemma trim_right_idem: "trim_right (trim_right s cs) cs = trim_right s cs"
  by (simp add: trim_right_def dropWhile_idem)

section \<open>Decimal numbers\<close>

definition is_digit :: "char \<Rightarrow> bool" where
  "is_digit c \<longleftrightarrow> 48 \<le> byte c \<and> byte c \<le> 57"

fun digits_val :: "int \<Rightarrow> string \<Rightarrow> int" where
  "digits_val acc [] = acc"
| "digits_val acc (c # cs) = digits_val (10 * acc + (int (byte c) - 48)) cs"

text \<open>
  \<open>strconv.Atoi\<close>: an optional sign, then at least one decimal digit and nothing else; \<open>None\<close>
  is its error, for the syntax or for a value outside 64 bits.
\<close>

definition atoi :: "string \<Rightarrow> int option" where
  "atoi s =
     (let neg = (s \<noteq> [] \<and> hd s = CHR ''-'');
          ds = (if s \<noteq> [] \<and> (hd s = CHR ''-'' \<or> hd s = CHR ''+'') then tl s else s);
          v = (if neg then - digits_val 0 ds else digits_val 0 ds)
      in if ds \<noteq> [] \<and> list_all is_digit ds \<and> - (2 ^ 63) \<le> v \<and> v < 2 ^ 63 then Some v else None)"

lemma atoi_range: "atoi s = Some v \<Longrightarrow> - (2 ^ 63) \<le> v \<and> v < 2 ^ 63"
  by (auto simp: atoi_def Let_def split: if_splits)

text \<open>\<open>%d\<close> of a non-negative number\<close>

fun digits_of :: "nat \<Rightarrow> string" where
  "digits_of n =
     (if n < 10 then [char_of (48 + n)] else digits_of (n div 10) @ [char_of (48 + n mod 10)])"

declare digits_of.simps [simp del]

definition itoa :: "int \<Rightarrow> string" where
  "itoa x = (if x < 0 then CHR ''-'' # digits_of (nat (- x)) else digits_of (nat x))"

lemma digits_val_append: "digits_val a (xs @ ys) = digits_val (digits_val a xs) ys"
  by (induction xs arbitrary: a) auto

lemma byte_char_of: "n < 256 \<Longrightarrow> byte (char_of n) = n"
  by (simp add: byte_def)

lemma is_digit_char_of: "n < 10 \<Longrightarrow> is_digit (char_of (48 + n :: nat))"
  by (simp add: is_digit_def byte_char_of)

lemma digits_of_digits: "list_all is_digit (digits_of n)"
proof (induction n rule: digits_of.induct)
  case (1 n)
  then show ?case
    by (subst digits_of.simps) (simp add: is_digit_char_of)
qed

lemma digits_of_val: "digits_val 0 (digits_of n) = int n"
proof (induction n rule: digits_of.induct)
  case (1 n)
  show ?case
  proof (cases "n < 10")
    case True
    then show ?thesis by (subst digits_of.simps) (simp add: byte_char_of)
  next
    case False
    with 1 have "digits_val 0 (digits_of (n div 10)) = int (n div 10)" by simp
    moreover have "byte (char_of (48 + n mod 10)) = 48 + n mod 10" by (simp add: byte_char_of)
    ultimately have "digits_val 0 (digits_of n) = 10 * int (n div 10) + int (n mod 10)"
      using False by (subst digits_of.simps) (simp only: digits_val_append if_False
          digits_val.simps add_diff_cancel_left' of_nat_add of_nat_numeral)
    also have "\<dots> = int (10 * (n div 10) + n mod 10)"
      by (simp only: of_nat_add of_nat_mult of_nat_numeral)
    also have "\<dots> = int n" by (simp only: mult_div_mod_eq)
    finally show ?thesis .
  qed
qed

lemma digits_of_nonempty: "digits_of n \<noteq> []"
  by (subst digits_of.simps) simp

lemma digits_of_no_sign:
  "hd (digits_of n) \<noteq> CHR ''-'' \<and> hd (digits_of n) \<noteq> CHR ''+''"
proof -
  have "is_digit (hd (digits_of n))"
    using digits_of_digits [of n] digits_of_nonempty [of n] by (cases "digits_of n") auto
  then show ?thesis by (auto simp: is_digit_def byte_def)
qed

theorem atoi_itoa: "- (2 ^ 63) \<le> x \<Longrightarrow> x < 2 ^ 63 \<Longrightarrow> atoi (itoa x) = Some x"
  using digits_of_no_sign [of "nat x"] digits_of_nonempty digits_of_digits
  by (auto simp: atoi_def itoa_def Let_def digits_of_val)

end
