(* ===== verification/Errors.thy ===== *)
theory Errors
  imports Go_Strings
begin

text \<open>
  The error values of the program. Every bounded context declares sentinels with
  \<open>errors.New\<close>; two sentinels are different values even when their texts agree, so each
  context has a datatype of its own. \<open>errors_is\<close> is \<open>errors.Is\<close>, \<open>err_text\<close> is the
  \<open>Error()\<close> method.
\<close>

section \<open>Sentinels\<close>

text \<open>\<open>internal/identity/domain/errors.go\<close>, and \<open>ErrPasswordMismatch\<close> of the commands\<close>

datatype identity_error =
    ErrEmptyName | ErrInvalidEmail | ErrPasswordTooShort | ErrInvalidRole | ErrUserBanned
  | ErrUserNotFound | ErrEmailConflict | ErrWrongPassword | ErrUnverifiedEmail
  | ErrPasswordMismatch

text \<open>\<open>internal/dictionary/domain/errors.go\<close>\<close>

datatype dictionary_error =
    ErrEmptyBanjar | ErrInvalidWordClass | ErrInvalidDialect | ErrInvalidSource
  | ErrInvalidStatus | ErrMeaningTooLong | ErrWordNotFound | ErrWordConflict | ErrWordDeleted

text \<open>\<open>internal/community/domain/errors.go\<close>\<close>

datatype community_error =
    ErrInvalidTransition | ErrForbidden | ErrTargetRequired | ErrContributionNotFound
  | ErrVoteNotFound | ErrBookmarkNotFound | ErrBookmarkConflict | ErrCommentNotFound
  | ErrBodyTooLong | ErrEmptyBody | ErrInvalidVoteTarget | ErrInvalidVoteValue

text \<open>the sentinels of \<open>internal/community/application/commands\<close>\<close>

datatype community_cmd_error =
    ErrEmailNotVerified | ErrTargetWordNotFound | ErrContributionForbidden
  | ErrVoteTargetNotFound | ErrBookmarkWordNotFound | ErrCommentWordNotFound

text \<open>\<open>internal/moderation/domain/errors.go\<close>\<close>

datatype moderation_error = ErrInvalidAuditAction | ErrCannotBanAdmin | ErrCannotSelfDemote

text \<open>\<open>internal/moderation/application/commands/errors.go\<close>\<close>

datatype moderation_cmd_error =
    ModContributionNotFound | ModContributionConflict | ModNoteRequired | ModUserNotFound
  | ModWordNotFound | ModInvalidRole | ModInvalidPayload

text \<open>\<open>internal/ai/domain\<close>\<close>

datatype ai_error = ErrCannotApproveQualityCheck | ErrAIInvalidTransition | ErrAIUnavailable

text \<open>\<open>internal/ai/application/commands\<close>\<close>

datatype ai_cmd_error =
    AiWordNotFound | AiContributionNotFound | AiRequestNotFound | AiRequestConflict
  | AiTextTooLong | AiEmptyText

text \<open>
  What the database answers to a statement it refuses: a unique or foreign key constraint
  (by name), a text that is no value of an enum type, a number out of its column's range, an
  operator that does not exist for the types of its operands, a negative \<open>LIMIT\<close> or \<open>OFFSET\<close>, a
  document for a \<open>JSONB\<close> column with a character that a text of the database cannot hold (\<open>\u0000\<close>).
\<close>

datatype sql_error =
    UniqueViolation string
  | ForeignKeyViolation string
  | InvalidEnum string
  | OutOfRange
  | UndefinedOperator string
  | NegativeLimit
  | NegativeOffset
  | UntranslatableCharacter

datatype err =
    Identity identity_error
  | Dictionary dictionary_error
  | Community community_error
  | CommunityCmd community_cmd_error
  | Moderation moderation_error
  | ModerationCmd moderation_cmd_error
  | Ai ai_error
  | AiCmd ai_cmd_error
  | TokenNotFound
  | InvalidToken
  | NoRows
  | Sql sql_error
  | Other string
  | Wrapped string err

section \<open>errors.Is and Error()\<close>

fun errors_is :: "err \<Rightarrow> err \<Rightarrow> bool" where
  "errors_is (Wrapped p e) t \<longleftrightarrow> Wrapped p e = t \<or> errors_is e t"
| "errors_is e t \<longleftrightarrow> e = t"

lemma errors_is_refl [simp]: "errors_is e e"
  by (cases e) auto

primrec identity_text :: "identity_error \<Rightarrow> string" where
  "identity_text ErrEmptyName = ''name is required''"
| "identity_text ErrInvalidEmail = ''invalid email address''"
| "identity_text ErrPasswordTooShort = ''password must be at least 8 characters''"
| "identity_text ErrInvalidRole = ''invalid role''"
| "identity_text ErrUserBanned = ''user is banned''"
| "identity_text ErrUserNotFound = ''user not found''"
| "identity_text ErrEmailConflict = ''email already registered''"
| "identity_text ErrWrongPassword = ''incorrect password''"
| "identity_text ErrUnverifiedEmail = ''email not verified''"
| "identity_text ErrPasswordMismatch = ''passwords do not match''"

primrec dictionary_text :: "dictionary_error \<Rightarrow> string" where
  "dictionary_text ErrEmptyBanjar = ''banjar word is required''"
| "dictionary_text ErrInvalidWordClass = ''invalid word class''"
| "dictionary_text ErrInvalidDialect = ''invalid dialect''"
| "dictionary_text ErrInvalidSource = ''invalid source''"
| "dictionary_text ErrInvalidStatus = ''invalid word status''"
| "dictionary_text ErrMeaningTooLong = ''meaning exceeds 2000 characters''"
| "dictionary_text ErrWordNotFound = ''word not found''"
| "dictionary_text ErrWordConflict =
     ''word already exists with the same banjar, dialect and homonym number''"
| "dictionary_text ErrWordDeleted = ''word has been deleted''"

primrec community_text :: "community_error \<Rightarrow> string" where
  "community_text ErrInvalidTransition = ''invalid status transition''"
| "community_text ErrForbidden = ''action not permitted for this user''"
| "community_text ErrTargetRequired =
     ''target_word_id is required for this contribution type''"
| "community_text ErrContributionNotFound = ''contribution not found''"
| "community_text ErrVoteNotFound = ''vote not found''"
| "community_text ErrBookmarkNotFound = ''bookmark not found''"
| "community_text ErrBookmarkConflict = ''bookmark already exists''"
| "community_text ErrCommentNotFound = ''comment not found''"
| "community_text ErrBodyTooLong = ''comment body exceeds 1000 characters''"
| "community_text ErrEmptyBody = ''comment body must not be empty''"
| "community_text ErrInvalidVoteTarget =
     ''invalid vote target type; must be '' @ [CHR 0x27] @ ''word'' @ [CHR 0x27]
       @ '' or '' @ [CHR 0x27] @ ''definition'' @ [CHR 0x27]"
| "community_text ErrInvalidVoteValue =
     ''invalid vote value; must be '' @ [CHR 0x27] @ ''up'' @ [CHR 0x27]
       @ '' or '' @ [CHR 0x27] @ ''down'' @ [CHR 0x27]"

primrec community_cmd_text :: "community_cmd_error \<Rightarrow> string" where
  "community_cmd_text ErrEmailNotVerified = ''email must be verified before contributing''"
| "community_cmd_text ErrTargetWordNotFound = ''target word not found''"
| "community_cmd_text ErrContributionForbidden =
     ''access to this contribution is not permitted''"
| "community_cmd_text ErrVoteTargetNotFound = ''vote target not found''"
| "community_cmd_text ErrBookmarkWordNotFound = ''word not found''"
| "community_cmd_text ErrCommentWordNotFound = ''word not found''"

primrec moderation_text :: "moderation_error \<Rightarrow> string" where
  "moderation_text ErrInvalidAuditAction = ''invalid audit action''"
| "moderation_text ErrCannotBanAdmin = ''cannot ban another admin''"
| "moderation_text ErrCannotSelfDemote = ''admin cannot change their own role''"

primrec moderation_cmd_text :: "moderation_cmd_error \<Rightarrow> string" where
  "moderation_cmd_text ModContributionNotFound = ''contribution not found''"
| "moderation_cmd_text ModContributionConflict = ''contribution is not pending''"
| "moderation_cmd_text ModNoteRequired = ''reviewer note is required''"
| "moderation_cmd_text ModUserNotFound = ''user not found''"
| "moderation_cmd_text ModWordNotFound = ''word not found''"
| "moderation_cmd_text ModInvalidRole =
     ''invalid role value; must be '' @ [CHR 0x27] @ ''user'' @ [CHR 0x27]
       @ '' or '' @ [CHR 0x27] @ ''admin'' @ [CHR 0x27]"
| "moderation_cmd_text ModInvalidPayload = ''contribution payload is malformed''"

primrec ai_text :: "ai_error \<Rightarrow> string" where
  "ai_text ErrCannotApproveQualityCheck = ''quality_check requests cannot be approved''"
| "ai_text ErrAIInvalidTransition = ''invalid state transition''"
| "ai_text ErrAIUnavailable = ''AI service unavailable''"

primrec ai_cmd_text :: "ai_cmd_error \<Rightarrow> string" where
  "ai_cmd_text AiWordNotFound = ''word not found''"
| "ai_cmd_text AiContributionNotFound = ''contribution not found''"
| "ai_cmd_text AiRequestNotFound = ''ai request not found''"
| "ai_cmd_text AiRequestConflict = ''ai request state conflict''"
| "ai_cmd_text AiTextTooLong = ''text exceeds 1000 character limit''"
| "ai_cmd_text AiEmptyText = ''text must not be empty''"

text \<open>The text of a database error is the driver's: a parameter.\<close>

primrec err_text :: "(sql_error \<Rightarrow> string) \<Rightarrow> err \<Rightarrow> string" where
  "err_text sql (Identity e) = identity_text e"
| "err_text sql (Dictionary e) = dictionary_text e"
| "err_text sql (Community e) = community_text e"
| "err_text sql (CommunityCmd e) = community_cmd_text e"
| "err_text sql (Moderation e) = moderation_text e"
| "err_text sql (ModerationCmd e) = moderation_cmd_text e"
| "err_text sql (Ai e) = ai_text e"
| "err_text sql (AiCmd e) = ai_cmd_text e"
| "err_text sql TokenNotFound = ''token not found or expired''"
| "err_text sql InvalidToken = ''invalid or expired token''"
| "err_text sql NoRows = ''sql: no rows in result set''"
| "err_text sql (Sql e) = sql e"
| "err_text sql (Other t) = t"
| "err_text sql (Wrapped p e) = p @ err_text sql e"

end
