(* ===== verification/External.thy ===== *)
theory External
  imports Errors "HOL-Library.List_Lexorder"
begin

text \<open>
  The code the program calls and that is not part of it, as parameters of the model:
  \<open>google/uuid\<close>, \<open>x/crypto/bcrypt\<close>, \<open>golang-jwt\<close>, the text of a PostgreSQL error, the
  collation and the text matching of PostgreSQL, SHA-256. What the proofs rely on is a named
  hypothesis here, and \<open>demo_ext\<close> shows that the hypotheses can hold together.
\<close>

section \<open>Claims of an access token (\<open>pkg/auth/auth.go\<close>)\<close>

text \<open>\<open>Claims\<close> with the registered claims that the program sets; \<open>NumericDate\<close>s count seconds. A token may come
  without an instant of expiry: the pointer is nil then.\<close>

record claims =
  cl_user_id :: string
  cl_role :: string
  cl_subject :: string
  cl_issued_at :: "int option"
  cl_expires_at :: "int option"

definition unexpired :: "time \<Rightarrow> claims \<Rightarrow> bool" where
  "unexpired now c = (case cl_expires_at c of None \<Rightarrow> True | Some t \<Rightarrow> now < t * second)"

datatype jwt_method = HMAC string | OtherMethod string

section \<open>The parameters\<close>

text \<open>
  \<open>x_uuid_parse\<close> returns, as \<open>uuid.Parse\<close> does, a UUID and whether it succeeded (some
  callers drop the error and use the value); \<open>x_new_uuid\<close> and \<open>x_rand_read\<close> are the values
  of the \<open>n\<close>-th draw from the system's entropy; \<open>x_bcrypt_hash\<close> takes its salt.
  \<open>x_jwt_parse now keyfunc token\<close> is \<open>jwt.ParseWithClaims\<close> at time \<open>now\<close>: the claims and
  the \<open>Valid\<close> flag of the token, or an error. \<open>x_text_match doc q\<close> is
  \<open>to_tsvector('simple', doc) @@ plainto_tsquery('simple', q)\<close>, \<open>x_ilike doc q\<close> is
  \<open>doc ILIKE '%' || q || '%'\<close>, \<open>x_text_le\<close> the order of the database's collation. \<open>x_scan l off i\<close> is the place at
  which a query with \<open>LIMIT l OFFSET off\<close> comes across the row \<open>i\<close>: rows that its \<open>ORDER BY\<close> does not tell apart come in this
  order, which PostgreSQL leaves open, for every query anew.
\<close>

record ext =
  x_uuid_parse :: "string \<Rightarrow> uuid \<times> bool"
  x_uuid_string :: "uuid \<Rightarrow> string"
  x_new_uuid :: "nat \<Rightarrow> uuid"
  x_rand_read :: "nat \<Rightarrow> nat \<Rightarrow> err + string"
  x_bcrypt_hash :: "nat \<Rightarrow> string \<Rightarrow> err + string"
  x_bcrypt_compare :: "string \<Rightarrow> string \<Rightarrow> bool"
  x_jwt_sign :: "jwt_method \<Rightarrow> string \<Rightarrow> claims \<Rightarrow> err + string"
  x_jwt_parse :: "time \<Rightarrow> (jwt_method \<Rightarrow> err + string) \<Rightarrow> string \<Rightarrow> err + claims \<times> bool"
  x_sql_text :: "sql_error \<Rightarrow> string"
  x_text_le :: "string \<Rightarrow> string \<Rightarrow> bool"
  x_scan :: "int \<Rightarrow> int \<Rightarrow> uuid \<Rightarrow> nat"
  x_text_match :: "string \<Rightarrow> string \<Rightarrow> bool"
  x_ilike :: "string \<Rightarrow> string \<Rightarrow> bool"
  x_sha256 :: "string \<Rightarrow> string"
  x_dial_and_send :: "time \<Rightarrow> string \<times> int \<times> string \<times> string \<Rightarrow> string list \<Rightarrow> err option"

section \<open>What their documentation says\<close>

definition uuid_text_ok :: "ext \<Rightarrow> bool" where
  "uuid_text_ok E \<longleftrightarrow> (\<forall>u. x_uuid_parse E (x_uuid_string E u) = (u, True))"

definition bcrypt_ok :: "ext \<Rightarrow> bool" where
  "bcrypt_ok E \<longleftrightarrow>
     (\<forall>salt p h. x_bcrypt_hash E salt p = Inr h \<longrightarrow> x_bcrypt_compare E h p)"

text \<open>\<open>pgx\<close> puts the SQLSTATE into the text of an error; that of a unique violation is 23505.\<close>

definition sql_text_ok :: "ext \<Rightarrow> bool" where
  "sql_text_ok E \<longleftrightarrow>
     (\<forall>c. sublist ''23505'' (x_sql_text E (UniqueViolation c)))"

text \<open>A deterministic collation is a linear order: only equal texts compare equal.\<close>

definition collation_ok :: "ext \<Rightarrow> bool" where
  "collation_ok E \<longleftrightarrow> total_preorder (x_text_le E) \<and> (\<forall>a b. x_text_le E a b \<longrightarrow> x_text_le E b a \<longrightarrow> a = b)"

text \<open>
  A token signed under a method parses, until it expires, with a key function that returns the same key for
  that method. Which other texts parse is not assumed anywhere.
\<close>

definition jwt_complete :: "ext \<Rightarrow> bool" where
  "jwt_complete E \<longleftrightarrow>
     (\<forall>now kf tok m key c. x_jwt_sign E m key c = Inr tok \<longrightarrow> kf m = Inr key \<longrightarrow>
        unexpired now c \<longrightarrow> x_jwt_parse E now kf tok = Inr (c, True))"

section \<open>The program's view of clock and entropy\<close>

text \<open>
  \<open>time.Now\<close>, \<open>uuid.New\<close>, \<open>rand.Read\<close> and bcrypt's salt are read from the state the
  services run on. An operation runs at one instant: all its readings of the clock agree.
\<close>

record 's runtime =
  rt_now :: "'s \<Rightarrow> time"
  rt_uuid :: "'s \<Rightarrow> uuid \<times> 's"
  rt_rand :: "nat \<Rightarrow> 's \<Rightarrow> (err + string) \<times> 's"
  rt_salt :: "'s \<Rightarrow> nat \<times> 's"

definition nowP :: "'s runtime \<Rightarrow> ('s, 'e, time) prog" where
  "nowP R = getP (rt_now R)"

definition uuidP :: "'s runtime \<Rightarrow> ('s, 'e, uuid) prog" where
  "uuidP R = (\<lambda>s. case rt_uuid R s of (u, s') \<Rightarrow> (Inr u, s'))"

definition saltP :: "'s runtime \<Rightarrow> ('s, 'e, nat) prog" where
  "saltP R = (\<lambda>s. case rt_salt R s of (n, s') \<Rightarrow> (Inr n, s'))"

declare nowP_def [prog_defs] uuidP_def [prog_defs] saltP_def [prog_defs]

section \<open>The hypotheses can hold together\<close>

text \<open>
  Concrete functions for the witnesses. A string is coded by its length in unary and its
  bytes, so that codes can be put one after the other; a UUID is written in unary; a hash is
  its password behind a letter; a token is the code of method, key and claims, and parsing
  it checks the key and the time.
\<close>

definition enc :: "string \<Rightarrow> string" where
  "enc s = replicate (length s) (CHR ''1'') @ CHR ''0'' # s"

definition dec :: "string \<Rightarrow> string \<times> string" where
  "dec t =
     (let n = length (takeWhile (\<lambda>c. c = CHR ''1'') t); r = drop (Suc n) t in (take n r, drop n r))"

lemma takeWhile_enc: "takeWhile (\<lambda>c. c = CHR ''1'') (enc s @ r) = replicate (length s) (CHR ''1'')"
proof -
  have "takeWhile (\<lambda>c. c = CHR ''1'') (replicate n (CHR ''1'') @ CHR ''0'' # r')
      = replicate n (CHR ''1'')" for n r'
    by (induction n) auto
  then show ?thesis by (simp add: enc_def)
qed

lemma dec_enc: "dec (enc s @ r) = (s, r)"
proof -
  have "drop (Suc (length s)) (enc s @ r) = s @ r" by (simp add: enc_def)
  then show ?thesis by (simp only: dec_def Let_def takeWhile_enc length_replicate) simp
qed

definition enc_int :: "int \<Rightarrow> string" where
  "enc_int x =
     enc (if x < 0 then CHR ''-'' # replicate (nat (- x)) (CHR ''1'') else replicate (nat x) (CHR ''1''))"

definition int_of_unary :: "string \<Rightarrow> int" where
  "int_of_unary s =
     (case s of
        [] \<Rightarrow> 0
      | c # cs \<Rightarrow> if c = CHR ''-'' then - int (length cs) else int (Suc (length cs)))"

lemma int_of_unary_enc:
  "int_of_unary (if x < 0 then CHR ''-'' # replicate (nat (- x)) (CHR ''1'')
                 else replicate (nat x) (CHR ''1'')) = x"
  by (cases "nat x") (auto simp: int_of_unary_def)

definition enc_date :: "int option \<Rightarrow> string" where
  "enc_date x = (case x of None \<Rightarrow> enc [] | Some n \<Rightarrow> enc ''s'' @ enc_int n)"

definition dec_date :: "string \<Rightarrow> int option \<times> string" where
  "dec_date t =
     (case dec t of (f, r) \<Rightarrow>
        if f = [] then (None, r) else (case dec r of (x, r') \<Rightarrow> (Some (int_of_unary x), r')))"

lemma dec_date_enc: "dec_date (enc_date x @ r) = (x, r)"
  by (cases x) (simp_all add: dec_date_def enc_date_def dec_enc enc_int_def int_of_unary_enc)

definition enc_method :: "jwt_method \<Rightarrow> string" where
  "enc_method m = (case m of HMAC n \<Rightarrow> enc (CHR ''h'' # n) | OtherMethod n \<Rightarrow> enc (CHR ''o'' # n))"

definition method_of :: "string \<Rightarrow> jwt_method" where
  "method_of s =
     (case s of
        [] \<Rightarrow> OtherMethod []
      | c # cs \<Rightarrow> if c = CHR ''h'' then HMAC cs else OtherMethod cs)"

definition demo_token :: "jwt_method \<Rightarrow> string \<Rightarrow> claims \<Rightarrow> string" where
  "demo_token m key c =
     enc_method m @ enc key @ enc (cl_user_id c) @ enc (cl_role c) @ enc (cl_subject c)
     @ enc_date (cl_issued_at c) @ enc_date (cl_expires_at c)"

definition demo_decode :: "string \<Rightarrow> jwt_method \<times> string \<times> claims" where
  "demo_decode t =
     (let (m, t) = dec t; (key, t) = dec t; (u, t) = dec t; (r, t) = dec t; (sub, t) = dec t;
          (iat, t) = dec_date t; (ex, t) = dec_date t
      in (method_of m, key,
          \<lparr>cl_user_id = u, cl_role = r, cl_subject = sub,
           cl_issued_at = iat, cl_expires_at = ex\<rparr>))"

lemma demo_decode_token: "demo_decode (demo_token m key c) = (m, key, c)"
proof -
  have "demo_decode (enc a @ enc key @ enc u @ enc r @ enc sub @ enc_date i @ enc_date x) =
      (method_of a, key, \<lparr>cl_user_id = u, cl_role = r, cl_subject = sub,
        cl_issued_at = i, cl_expires_at = x\<rparr>)" for a u r sub i x
    using dec_date_enc [of _ "[]"] by (simp add: demo_decode_def dec_enc dec_date_enc)
  then show ?thesis
    by (cases m) (simp_all add: demo_token_def enc_method_def method_of_def)
qed

definition demo_jwt_parse ::
  "time \<Rightarrow> (jwt_method \<Rightarrow> err + string) \<Rightarrow> string \<Rightarrow> err + claims \<times> bool" where
  "demo_jwt_parse now kf tok =
     (case demo_decode tok of (m, key, c) \<Rightarrow>
        if kf m = Inr key \<and> demo_token m key c = tok \<and> unexpired now c
        then Inr (c, True) else Inl InvalidToken)"

primrec demo_sql_text :: "sql_error \<Rightarrow> string" where
  "demo_sql_text (UniqueViolation c) = ''SQLSTATE 23505''"
| "demo_sql_text (ForeignKeyViolation c) = ''SQLSTATE 23503''"
| "demo_sql_text (InvalidEnum v) = ''SQLSTATE 22P02''"
| "demo_sql_text OutOfRange = ''SQLSTATE 22003''"
| "demo_sql_text (UndefinedOperator t) = ''SQLSTATE 42883''"
| "demo_sql_text NegativeLimit = ''SQLSTATE 2201W''"
| "demo_sql_text NegativeOffset = ''SQLSTATE 2201X''"
| "demo_sql_text UntranslatableCharacter = ''SQLSTATE 22P05''"

definition demo_ext :: ext where
  "demo_ext =
     \<lparr>x_uuid_parse = (\<lambda>s. (word_of_nat (length s), True)),
      x_uuid_string = (\<lambda>u. replicate (unat u) (CHR ''u'')),
      x_new_uuid = (\<lambda>n. word_of_nat (100 + n)),
      x_rand_read = (\<lambda>n k. Inr (replicate k (char_of n))),
      x_bcrypt_hash = (\<lambda>salt p. if 72 < length p then Inl (Other ''bcrypt'') else Inr (CHR ''$'' # p)),
      x_bcrypt_compare = (\<lambda>h p. h = CHR ''$'' # p),
      x_jwt_sign = (\<lambda>m key c. Inr (demo_token m key c)),
      x_jwt_parse = demo_jwt_parse,
      x_sql_text = demo_sql_text,
      x_text_le = (\<le>),
      x_scan = (\<lambda>_ _ _. 0),
      x_text_match = strings_contains,
      x_ilike = strings_contains,
      x_sha256 = (\<lambda>s. s), x_dial_and_send = (\<lambda>_ _ _. None)\<rparr>"

lemma demo_uuid_text_ok: "uuid_text_ok demo_ext"
  by (simp add: uuid_text_ok_def demo_ext_def)

lemma demo_bcrypt_ok: "bcrypt_ok demo_ext"
  by (auto simp: bcrypt_ok_def demo_ext_def split: if_splits)

lemma demo_sql_text_ok: "sql_text_ok demo_ext"
  by (simp add: sql_text_ok_def demo_ext_def strings_contains_def has_prefix_def upt_rec flip: strings_contains_iff)

lemma demo_collation_ok: "collation_ok demo_ext"
  by (auto simp: collation_ok_def total_preorder_def demo_ext_def)

lemma demo_jwt_complete: "jwt_complete demo_ext"
  by (simp add: jwt_complete_def demo_ext_def demo_jwt_parse_def demo_decode_token)

end
