(* ===== verification/Httperr.thy ===== *)
theory Httperr
  imports External
begin

text \<open>
  The HTTP surface: what a handler reads of a request, the response envelope of
  \<open>pkg/httperr/httperr.go\<close>, and the types of handlers and middleware.
\<close>

section \<open>Envelopes (\<open>pkg/httperr/httperr.go\<close>)\<close>

definition CodeValidation :: string where "CodeValidation = ''VALIDATION_ERROR''"
definition CodeUnauth :: string where "CodeUnauth = ''UNAUTHORIZED''"
definition CodeForbidden :: string where "CodeForbidden = ''FORBIDDEN''"
definition CodeNotFound :: string where "CodeNotFound = ''NOT_FOUND''"
definition CodeConflict :: string where "CodeConflict = ''CONFLICT''"
definition CodeRateLimited :: string where "CodeRateLimited = ''RATE_LIMITED''"
definition CodeAIUnavail :: string where "CodeAIUnavail = ''AI_UNAVAILABLE''"
definition CodeInternal :: string where "CodeInternal = ''INTERNAL_ERROR''"

record error_detail =
  ed_field :: string
  ed_message :: string

record error_response =
  er_code :: string
  er_message :: string
  er_details :: "error_detail list"

record pagination_meta =
  pm_page :: int
  pm_per_page :: int
  pm_total :: int
  pm_total_pages :: int

text \<open>The body of a response: the error envelope (\<open>success: false\<close>), the success envelope
  with or without \<open>meta\<close>, plain text, or none.\<close>

datatype 'd body =
    ErrorBody error_response
  | DataBody 'd
  | PageBody 'd pagination_meta
  | TextBody string
  | NoBody

text \<open>
  What a handler leaves: the response as the client gets it, and what it returns to the middleware
  around it: \<open>nil\<close>, an error, with the status sent before it, or nothing, because it panics.
\<close>

datatype return_value = ReturnsNil | ReturnsError nat string | Panics

record 'd response =
  rs_status :: nat
  rs_body :: "'d body"
  rs_return :: return_value

definition newError :: "string \<Rightarrow> string \<Rightarrow> error_detail list \<Rightarrow> error_response" where
  "newError code message details = \<lparr>er_code = code, er_message = message, er_details = details\<rparr>"

definition Validation :: "string \<Rightarrow> error_detail list \<Rightarrow> error_response" where
  "Validation message details = newError CodeValidation message details"

definition Unauthorized :: "string \<Rightarrow> error_response" where
  "Unauthorized message = newError CodeUnauth message []"

definition Forbidden :: "string \<Rightarrow> error_response" where
  "Forbidden message = newError CodeForbidden message []"

definition NotFound :: "string \<Rightarrow> error_response" where
  "NotFound message = newError CodeNotFound message []"

definition Conflict :: "string \<Rightarrow> error_response" where
  "Conflict message = newError CodeConflict message []"

definition RateLimited :: "string \<Rightarrow> error_response" where
  "RateLimited message = newError CodeRateLimited message []"

definition AIUnavailable :: "string \<Rightarrow> error_response" where
  "AIUnavailable message = newError CodeAIUnavail message []"

definition Internal :: "string \<Rightarrow> error_response" where
  "Internal message = newError CodeInternal message []"

abbreviation detail :: "string \<Rightarrow> string \<Rightarrow> error_detail" where
  "detail f m \<equiv> \<lparr>ed_field = f, ed_message = m\<rparr>"

definition Send :: "nat \<Rightarrow> error_response \<Rightarrow> 'd response" where
  "Send status resp = \<lparr>rs_status = status, rs_body = ErrorBody resp, rs_return = ReturnsNil\<rparr>"

definition OK :: "'d \<Rightarrow> 'd response" where
  "OK data = \<lparr>rs_status = 200, rs_body = DataBody data, rs_return = ReturnsNil\<rparr>"

definition Created :: "'d \<Rightarrow> 'd response" where
  "Created data = \<lparr>rs_status = 201, rs_body = DataBody data, rs_return = ReturnsNil\<rparr>"

definition Paginated :: "'d \<Rightarrow> pagination_meta \<Rightarrow> 'd response" where
  "Paginated data meta = \<lparr>rs_status = 200, rs_body = PageBody data meta, rs_return = ReturnsNil\<rparr>"

definition NoContent :: "'d response" where
  "NoContent = \<lparr>rs_status = 204, rs_body = NoBody, rs_return = ReturnsNil\<rparr>"

text \<open>
  The error handler of \<open>cmd/api/main.go\<close>, for an error that a handler returns: a Fiber error has
  a status of its own. The response replaces what the handler has sent before.
\<close>

definition ErrorHandler :: "nat option \<Rightarrow> string \<Rightarrow> 'd response" where
  "ErrorHandler fe text =
     (let code = (case fe of Some code \<Rightarrow> code | None \<Rightarrow> 500) in
      Send code \<lparr>er_code = ''INTERNAL_ERROR'', er_message = text, er_details = []\<rparr>)"

definition return_error :: "nat \<Rightarrow> nat option \<Rightarrow> string \<Rightarrow> 'd response" where
  "return_error sent fe text = (ErrorHandler fe text)\<lparr>rs_return := ReturnsError sent text\<rparr>"

text \<open>A handler that dereferences a nil pointer panics, which \<open>recover.New()\<close> turns into an error.\<close>

definition panic_response :: "'d response" where
  "panic_response =
     (ErrorHandler None ''runtime error: invalid memory address or nil pointer dereference'')\<lparr>rs_return := Panics\<rparr>"

section \<open>Requests\<close>

text \<open>
  \<open>rq_body\<close> is what \<open>BodyParser\<close> leaves in the request struct and whether it succeeded;
  \<open>rq_locals\<close> the claims a middleware injected. A missing header or parameter is the empty
  string, as in Fiber.
\<close>

record 'b request =
  rq_header :: "string \<Rightarrow> string"
  rq_query :: "string \<Rightarrow> string"
  rq_param :: "string \<Rightarrow> string"
  rq_ip :: string
  rq_body :: "'b \<times> bool"
  rq_locals :: "claims option"

text \<open>\<open>c.Query(key, default)\<close>: the default stands for an empty value.\<close>

definition query :: "'b request \<Rightarrow> string \<Rightarrow> string \<Rightarrow> string" where
  "query rq key dflt = (if rq_query rq key = [] then dflt else rq_query rq key)"

type_synonym ('s, 'b, 'd) handler = "'b request \<Rightarrow> 's \<Rightarrow> 'd response \<times> 's"
type_synonym ('s, 'b, 'd) middleware = "('s, 'b, 'd) handler \<Rightarrow> ('s, 'b, 'd) handler"

text \<open>The end of a handler: an error is mapped to a response, a result is rendered.\<close>

definition respond ::
  "(err \<Rightarrow> 'd response) \<Rightarrow> ('a \<Rightarrow> 'd response) \<Rightarrow> ('s, err, 'a) prog \<Rightarrow> 's \<Rightarrow> 'd response \<times> 's" where
  "respond on_err on_ok m s =
     (case m s of (Inl e, s') \<Rightarrow> (on_err e, s') | (Inr x, s') \<Rightarrow> (on_ok x, s'))"

lemma respond_keeps:
  "keeps I m \<Longrightarrow> I s \<Longrightarrow> respond on_err on_ok m s = (r, s') \<Longrightarrow> I s'"
  by (auto simp: respond_def split: prod.splits sum.splits dest: keepsD)

text \<open>The handlers that use the claims without a check panic when there are none.\<close>

definition with_claims :: "(claims \<Rightarrow> ('s, 'b, 'd) handler) \<Rightarrow> ('s, 'b, 'd) handler" where
  "with_claims h rq s =
     (case rq_locals rq of None \<Rightarrow> (panic_response, s) | Some c \<Rightarrow> h c rq s)"

end
