(* ===== verification/Auth.thy ===== *)
theory Auth
  imports Httperr
begin

text \<open>
  \<open>pkg/auth/auth.go\<close>: access tokens and the authentication middleware. The JWT library is a
  parameter; the signing secret, a package variable in the code, is an argument.
\<close>

definition AccessTokenTTL :: duration where "AccessTokenTTL = 15 * minute"
definition RefreshTokenTTL :: duration where "RefreshTokenTTL = 7 * 24 * hour"

text \<open>\<open>NumericDate\<close> truncates to seconds.\<close>

definition GenerateAccessToken :: "ext \<Rightarrow> string \<Rightarrow> time \<Rightarrow> string \<Rightarrow> string \<Rightarrow> err + string" where
  "GenerateAccessToken E secret now userID role =
     x_jwt_sign E (HMAC ''HS256'') secret
       \<lparr>cl_user_id = userID, cl_role = role, cl_subject = userID,
        cl_issued_at = Some (now div second), cl_expires_at = Some ((now + AccessTokenTTL) div second)\<rparr>"

definition token_key :: "string \<Rightarrow> jwt_method \<Rightarrow> err + string" where
  "token_key secret m = (case m of HMAC _ \<Rightarrow> Inr secret | OtherMethod _ \<Rightarrow> Inl InvalidToken)"

definition ParseToken :: "ext \<Rightarrow> string \<Rightarrow> time \<Rightarrow> string \<Rightarrow> err + claims" where
  "ParseToken E secret now tokenStr =
     (case x_jwt_parse E now (token_key secret) tokenStr of
        Inl _ \<Rightarrow> Inl InvalidToken
      | Inr (claims, valid) \<Rightarrow> if valid then Inr claims else Inl InvalidToken)"

definition GetClaims :: "'b request \<Rightarrow> claims option" where
  "GetClaims c = rq_locals c"

definition RequireAuth :: "ext \<Rightarrow> string \<Rightarrow> ('s \<Rightarrow> time) \<Rightarrow> ('s, 'b, 'd) middleware" where
  "RequireAuth E secret now next c s =
     (let header = rq_header c ''Authorization'' in
      if header = [] \<or> \<not> has_prefix header ''Bearer '' then
        (Send 401 (Unauthorized ''missing or invalid authorization header''), s)
      else
        (case ParseToken E secret (now s) (trim_prefix header ''Bearer '') of
           Inl _ \<Rightarrow> (Send 401 (Unauthorized ''invalid or expired token''), s)
         | Inr claims \<Rightarrow> next (c\<lparr>rq_locals := Some claims\<rparr>) s))"

definition TryAuth :: "ext \<Rightarrow> string \<Rightarrow> ('s \<Rightarrow> time) \<Rightarrow> ('s, 'b, 'd) middleware" where
  "TryAuth E secret now next c s =
     (let header = rq_header c ''Authorization'' in
      if has_prefix header ''Bearer '' then
        (case ParseToken E secret (now s) (trim_prefix header ''Bearer '') of
           Inl _ \<Rightarrow> next c s
         | Inr claims \<Rightarrow> next (c\<lparr>rq_locals := Some claims\<rparr>) s)
      else next c s)"

definition RequireRole :: "string list \<Rightarrow> ('s, 'b, 'd) middleware" where
  "RequireRole roles next c s =
     (case GetClaims c of
        None \<Rightarrow> (Send 401 (Unauthorized ''authentication required''), s)
      | Some claims \<Rightarrow>
          if cl_role claims \<notin> set roles
          then (Send 403 (Forbidden ''insufficient permissions''), s)
          else next c s)"

section \<open>Lemmas\<close>

lemma ParseToken_generated:
  assumes "jwt_complete E" and gen: "GenerateAccessToken E secret t u r = Inr tok"
    and "now < (t + AccessTokenTTL) div second * second"
  shows "ParseToken E secret now tok =
     Inr \<lparr>cl_user_id = u, cl_role = r, cl_subject = u,
          cl_issued_at = Some (t div second), cl_expires_at = Some ((t + AccessTokenTTL) div second)\<rparr>"
proof -
  have "token_key secret (HMAC ''HS256'') = Inr secret" by (simp add: token_key_def)
  then have "x_jwt_parse E now (token_key secret) tok =
      Inr (\<lparr>cl_user_id = u, cl_role = r, cl_subject = u, cl_issued_at = Some (t div second),
            cl_expires_at = Some ((t + AccessTokenTTL) div second)\<rparr>, True)"
    using assms unfolding jwt_complete_def GenerateAccessToken_def unexpired_def by fastforce
  then show ?thesis by (simp add: ParseToken_def)
qed

lemma whole_second: "(t::int) - second < t div second * second"
  by linarith

lemma RequireAuth_cases:
  obtains (reject) resp where "RequireAuth E secret now next c s = (resp, s)" "rs_status resp = 401"
  | (pass) tok cl where "rq_header c ''Authorization'' = ''Bearer '' @ tok"
      "ParseToken E secret (now s) tok = Inr cl"
      "RequireAuth E secret now next c s = next (c\<lparr>rq_locals := Some cl\<rparr>) s"
proof (cases "has_prefix (rq_header c ''Authorization'') ''Bearer ''")
  case False
  then show ?thesis by (intro reject [of "Send 401 (Unauthorized ''missing or invalid authorization header'')"])
      (simp_all add: RequireAuth_def Send_def)
next
  case True
  then obtain tok where tok: "rq_header c ''Authorization'' = ''Bearer '' @ tok"
    unfolding has_prefix_iff prefix_def by blast
  show ?thesis
  proof (cases "ParseToken E secret (now s) tok")
    case (Inl e)
    with tok show ?thesis
      by (intro reject [of "Send 401 (Unauthorized ''invalid or expired token'')"])
        (simp_all add: RequireAuth_def Send_def has_prefix_def trim_prefix_def)
  next
    case (Inr cl)
    with tok show ?thesis
      by (intro pass [of tok cl]) (simp_all add: RequireAuth_def has_prefix_def trim_prefix_def)
  qed
qed

end
