(* ===== verification/Redis.thy ===== *)
theory Redis
  imports External
begin

text \<open>
  The Redis server, which is not part of the program. The program sends it transactions of
  the commands below through a function \<open>exec\<close>, a parameter of every definition that uses it.
  \<open>redis_run\<close> states what the command reference documents for these commands (the program
  only uses timeouts of whole seconds, all positive), and the locale \<open>redis_server\<close> says that
  \<open>exec\<close> behaves like that. \<open>redis_mem\<close> is the server that is its own documentation.
\<close>

section \<open>Commands and replies\<close>

datatype command =
    Incr string
  | Expire string duration
  | SetTTL string string duration
  | Get string
  | Del string

datatype reply = IntReply int | StrReply string | OkReply | NilReply | ErrReply err

type_synonym redis_data = "string \<Rightarrow> (string \<times> time option) option"
type_synonym 's redis_exec = "command list \<Rightarrow> ('s, err, reply list) prog"

text \<open>A key whose time is over is not there.\<close>

definition alive :: "time \<Rightarrow> redis_data \<Rightarrow> string \<Rightarrow> (string \<times> time option) option" where
  "alive now d k =
     (case d k of
        None \<Rightarrow> None
      | Some (v, None) \<Rightarrow> Some (v, None)
      | Some (v, Some t) \<Rightarrow> if now < t then Some (v, Some t) else None)"

definition redis_get :: "time \<Rightarrow> redis_data \<Rightarrow> string \<Rightarrow> string option" where
  "redis_get now d k = map_option fst (alive now d k)"

fun redis_step :: "time \<Rightarrow> command \<Rightarrow> redis_data \<Rightarrow> reply \<times> redis_data" where
  "redis_step now (Incr k) d =
     (case alive now d k of
        None \<Rightarrow> (IntReply 1, d(k \<mapsto> (itoa 1, None)))
      | Some (v, t) \<Rightarrow>
          (case atoi v of
             None \<Rightarrow> (ErrReply (Other ''ERR value is not an integer or out of range''), d)
           | Some n \<Rightarrow>
               if n + 1 < 2 ^ 63 then (IntReply (n + 1), d(k \<mapsto> (itoa (n + 1), t)))
               else (ErrReply (Other ''ERR increment or decrement would overflow''), d)))"
| "redis_step now (Expire k w) d =
     (case alive now d k of
        None \<Rightarrow> (IntReply 0, d)
      | Some (v, t) \<Rightarrow> (IntReply 1, d(k \<mapsto> (v, Some (now + w)))))"
| "redis_step now (SetTTL k v w) d = (OkReply, d(k \<mapsto> (v, Some (now + w))))"
| "redis_step now (Get k) d =
     (case alive now d k of None \<Rightarrow> (NilReply, d) | Some (v, t) \<Rightarrow> (StrReply v, d))"
| "redis_step now (Del k) d =
     (case alive now d k of None \<Rightarrow> (IntReply 0, d) | Some v \<Rightarrow> (IntReply 1, d(k := None)))"

fun redis_run :: "time \<Rightarrow> command list \<Rightarrow> redis_data \<Rightarrow> reply list \<times> redis_data" where
  "redis_run now [] d = ([], d)"
| "redis_run now (c # cs) d =
     (case redis_step now c d of (r, d') \<Rightarrow>
      case redis_run now cs d' of (rs, d'') \<Rightarrow> (r # rs, d''))"

text \<open>The client turns an error reply, and a nil reply, into an error of the call.\<close>

definition redis_nil :: err where "redis_nil = Other ''redis: nil''"

fun first_err :: "reply list \<Rightarrow> err option" where
  "first_err [] = None"
| "first_err (ErrReply e # rs) = Some e"
| "first_err (NilReply # rs) = Some redis_nil"
| "first_err (r # rs) = first_err rs"

section \<open>The contract of the server\<close>

text \<open>
  \<open>clock\<close> is the server's clock, \<open>data\<close> its contents in the state of the program. A call that
  fails (the connection is lost, say) may or may not have been carried out.
\<close>

locale redis_server =
  fixes exec :: "'s redis_exec" and clock :: "'s \<Rightarrow> time" and data :: "'s \<Rightarrow> redis_data"
  assumes exec_ok: "exec cs s = (Inr rs, s') \<Longrightarrow>
      redis_run (clock s) cs (data s) = (rs, data s') \<and> clock s' = clock s"
    and exec_err: "exec cs s = (Inl e, s') \<Longrightarrow>
      (data s' = data s \<or> data s' = snd (redis_run (clock s) cs (data s))) \<and> clock s' = clock s"

text \<open>The same contract as a predicate, for the statements outside a locale.\<close>

definition redis_ok :: "'s redis_exec \<Rightarrow> ('s \<Rightarrow> time) \<Rightarrow> ('s \<Rightarrow> redis_data) \<Rightarrow> bool" where
  "redis_ok exec clock data \<longleftrightarrow> redis_server exec clock data"

record redis_store =
  rd_clock :: time
  rd_data :: redis_data

definition redis_mem :: "redis_store redis_exec" where
  "redis_mem cs s =
     (case redis_run (rd_clock s) cs (rd_data s) of (rs, d) \<Rightarrow> (Inr rs, s\<lparr>rd_data := d\<rparr>))"

interpretation mem: redis_server redis_mem rd_clock rd_data
  by unfold_locales (auto simp: redis_mem_def split: prod.splits)

lemma redis_mem_ok: "redis_ok redis_mem rd_clock rd_data"
  unfolding redis_ok_def by (rule mem.redis_server_axioms)

section \<open>Lemmas\<close>

lemma alive_upd [simp]:
  "alive now (d(k \<mapsto> (v, t))) k' =
     (if k' = k then (if t = None \<or> now < the t then Some (v, t) else None) else alive now d k')"
  by (cases t) (auto simp: alive_def)

lemma alive_del [simp]: "alive now (d(k := None)) k' = (if k' = k then None else alive now d k')"
  by (simp add: alive_def)

lemma redis_get_set:
  "0 < w \<Longrightarrow> redis_get now (snd (redis_step now (SetTTL k v w) d)) k = Some v"
  by (simp add: redis_get_def)

lemma redis_get_del: "redis_get now (snd (redis_step now (Del k) d)) k = None"
  by (auto simp: redis_get_def split: option.split)

lemma redis_step_other:
  "k \<noteq> k' \<Longrightarrow> c \<in> {Incr k, Expire k w, SetTTL k v w, Get k, Del k} \<Longrightarrow>
     redis_get t (snd (redis_step now c d)) k' = redis_get t d k'"
  by (auto simp: redis_get_def split: option.split)

end
