(* ===== verification/Ratelimit.thy ===== *)
theory Ratelimit
  imports Redis Httperr
begin

text \<open>
  \<open>pkg/ratelimit/middleware.go\<close>: the \<open>Counter\<close> interface, its Redis implementation and the two
  limiting middleware. The locale \<open>counter\<close> is the interface's contract; the Redis
  implementation meets it on every server that meets \<open>redis_server\<close>.
\<close>

section \<open>The code\<close>

record 's counter =
  ct_Increment :: "string \<Rightarrow> duration \<Rightarrow> ('s, err, int) prog"

fun incr_val :: "reply list \<Rightarrow> int" where
  "incr_val (IntReply n # rs) = n"
| "incr_val rs = 0"

definition RedisIncrement :: "'s redis_exec \<Rightarrow> string \<Rightarrow> duration \<Rightarrow> ('s, err, int) prog" where
  "RedisIncrement exec key window =
     bindP (exec [Incr key, Expire key window]) (\<lambda>replies.
       case first_err replies of
         Some err \<Rightarrow> failP err
       | None \<Rightarrow> retP (incr_val replies))"

definition NewRedisCounter :: "'s redis_exec \<Rightarrow> 's counter" where
  "NewRedisCounter exec = \<lparr>ct_Increment = RedisIncrement exec\<rparr>"

definition AdaptiveLimiter ::
  "'s counter \<Rightarrow> ('b request \<Rightarrow> string \<times> int) \<Rightarrow> duration \<Rightarrow> ('s, 'b, 'd) middleware" where
  "AdaptiveLimiter counter keyLimitFn window next c s =
     (case keyLimitFn c of (key, limit) \<Rightarrow>
        (case ct_Increment counter key window s of
           (Inl err, s') \<Rightarrow> next c s'
         | (Inr n, s') \<Rightarrow>
             if limit < n then (Send 429 (RateLimited ''rate limit exceeded''), s')
             else next c s'))"

definition Limiter ::
  "'s counter \<Rightarrow> ('b request \<Rightarrow> string) \<Rightarrow> int \<Rightarrow> duration \<Rightarrow> ('s, 'b, 'd) middleware" where
  "Limiter counter keyFn limit window next c s =
     (case ct_Increment counter (keyFn c) window s of
        (Inl err, s') \<Rightarrow> next c s'
      | (Inr n, s') \<Rightarrow>
          if limit < n then (Send 429 (RateLimited ''rate limit exceeded''), s')
          else next c s')"

section \<open>The contract of a counter\<close>

text \<open>\<open>hits s k\<close> is the number of requests counted under \<open>k\<close> that are still in force.\<close>

locale counter =
  fixes increment :: "string \<Rightarrow> duration \<Rightarrow> ('s, err, int) prog"
    and hits :: "'s \<Rightarrow> string \<Rightarrow> int"
  assumes increment_ok: "0 < w \<Longrightarrow> increment k w s = (Inr n, s') \<Longrightarrow> n = hits s k + 1 \<and> hits s' k = n"
    and increment_other: "0 < w \<Longrightarrow> increment k w s = (r, s') \<Longrightarrow> k' \<noteq> k \<Longrightarrow> hits s' k' = hits s k'"
begin

text \<open>What a limiter does is a function of the number of hits, or of the counter's failure.\<close>

lemma limiter_pass:
  assumes "0 < w" "increment (kf c) w s = (Inr n, s')" "hits s (kf c) < limit"
  shows "Limiter \<lparr>ct_Increment = increment\<rparr> kf limit w next c s = next c s'"
  using assms increment_ok [of w "kf c" s n s'] by (simp add: Limiter_def)

lemma limiter_reject:
  assumes "0 < w" "increment (kf c) w s = (Inr n, s')" "limit \<le> hits s (kf c)"
  shows "Limiter \<lparr>ct_Increment = increment\<rparr> kf limit w next c s =
    (Send 429 (RateLimited ''rate limit exceeded''), s')"
  using assms increment_ok [of w "kf c" s n s'] by (simp add: Limiter_def)

end

lemma limiter_fail_open:
  "ct_Increment ct (kf c) w s = (Inl e, s') \<Longrightarrow> Limiter ct kf limit w next c s = next c s'"
  by (simp add: Limiter_def)

lemma limiter_adaptive:
  "Limiter ct kf limit w next c s = AdaptiveLimiter ct (\<lambda>c. (kf c, limit)) w next c s"
  by (simp add: Limiter_def AdaptiveLimiter_def)

section \<open>The Redis implementation\<close>

text \<open>The count under a key; a value that is no number counts as none.\<close>

definition redis_hits :: "time \<Rightarrow> redis_data \<Rightarrow> string \<Rightarrow> int" where
  "redis_hits now d k =
     (case redis_get now d k of None \<Rightarrow> 0 | Some v \<Rightarrow> (case atoi v of None \<Rightarrow> 0 | Some n \<Rightarrow> n))"

lemma atoi_itoa_succ: "atoi v = Some n \<Longrightarrow> n + 1 < 2 ^ 63 \<Longrightarrow> atoi (itoa (n + 1)) = Some (n + 1)"
  using atoi_range [of v n] by (intro atoi_itoa) simp_all

lemma incr_expire_other:
  "k' \<noteq> k \<Longrightarrow>
     redis_get t (snd (redis_run now [Incr k, Expire k w] d)) k' = redis_get t d k'"
  by (auto simp: redis_get_def split: option.splits prod.splits)

lemma redis_hits_cong: "redis_get t d k = redis_get t' d' k \<Longrightarrow> redis_hits t d k = redis_hits t' d' k"
  by (simp add: redis_hits_def)

lemma atoi_one: "atoi (itoa 1) = Some 1"
  by (rule atoi_itoa) simp_all

lemma incr_expire:
  assumes "0 < w" and "redis_run now [Incr k, Expire k w] d = (rs, d')" and "first_err rs = None"
  shows "incr_val rs = redis_hits now d k + 1 \<and>
    d' = d(k \<mapsto> (itoa (redis_hits now d k + 1), Some (now + w))) \<and>
    redis_hits now d' k = redis_hits now d k + 1"
proof (cases "alive now d k")
  case None
  with assms show ?thesis
    by (auto simp: redis_hits_def redis_get_def atoi_one)
next
  case (Some p)
  obtain v t where p: "p = (v, t)" by fastforce
  show ?thesis
  proof (cases "atoi v")
    case None
    with Some p assms show ?thesis by (auto split: option.splits prod.splits)
  next
    case n: (Some n)
    show ?thesis
    proof (cases "n + 1 < 2 ^ 63")
      case False
      with Some p n assms show ?thesis by (auto split: option.splits prod.splits)
    next
      case True
      have "t = None \<or> now < the t"
        using Some p by (auto simp: alive_def split: option.splits prod.splits if_splits)
      with True Some p n assms show ?thesis
        by (auto simp: redis_hits_def redis_get_def atoi_itoa_succ [OF n])
    qed
  qed
qed

sublocale redis_server \<subseteq> counter "RedisIncrement exec" "\<lambda>s. redis_hits (clock s) (data s)"
proof unfold_locales
  fix w :: duration and k s n s'
  assume w: "0 < w" and "RedisIncrement exec k w s = (Inr n, s')"
  then obtain rs where run: "exec [Incr k, Expire k w] s = (Inr rs, s')"
    and rs: "first_err rs = None" "n = incr_val rs"
    by (auto simp: RedisIncrement_def bindP_Inr prog_Inr split: option.splits)
  from exec_ok [OF run]
  have "redis_run (clock s) [Incr k, Expire k w] (data s) = (rs, data s')" "clock s' = clock s"
    by simp_all
  with incr_expire [OF w _ rs(1)] rs(2)
  show "n = redis_hits (clock s) (data s) k + 1 \<and> redis_hits (clock s') (data s') k = n"
    by metis
next
  fix w :: duration and k s r s' k'
  assume "RedisIncrement exec k w s = (r, s')" and k: "k' \<noteq> k"
  then obtain r0 where run: "exec [Incr k, Expire k w] s = (r0, s')"
    by (auto simp: RedisIncrement_def prog_defs split: prod.splits sum.splits option.splits)
  have "redis_get (clock s') (data s') k' = redis_get (clock s) (data s) k'"
  proof (cases r0)
    case (Inl e)
    with run exec_err [of "[Incr k, Expire k w]" s e s'] incr_expire_other [OF k]
    show ?thesis by metis
  next
    case (Inr rs)
    with run exec_ok [of "[Incr k, Expire k w]" s rs s'] incr_expire_other [OF k]
    show ?thesis by (metis snd_conv)
  qed
  then show "redis_hits (clock s') (data s') k' = redis_hits (clock s) (data s) k'"
    by (rule redis_hits_cong)
qed

section \<open>A stream of requests\<close>

text \<open>
  Requests under one key that arrive at the given times, against the documented server; the
  handler behind the limiter answers with \<open>OK d\<close>. The result is the status of each response.
\<close>

fun serve ::
  "('b request \<Rightarrow> string) \<Rightarrow> int \<Rightarrow> duration \<Rightarrow> 'd \<Rightarrow> 'b request \<Rightarrow> time list \<Rightarrow> redis_store \<Rightarrow> nat list"
where
  "serve kf limit w d c [] s = []"
| "serve kf limit w d c (t # ts) s =
     (case Limiter (NewRedisCounter redis_mem) kf limit w (\<lambda>_ s. (OK d, s)) c (s\<lparr>rd_clock := t\<rparr>) of
        (resp, s') \<Rightarrow> rs_status resp # serve kf limit w d c ts s')"

text \<open>Consecutive requests less than a window apart\<close>

fun close_by :: "duration \<Rightarrow> time list \<Rightarrow> bool" where
  "close_by w (t # u # ts) \<longleftrightarrow> t \<le> u \<and> u < t + w \<and> close_by w (u # ts)"
| "close_by w ts \<longleftrightarrow> True"

lemma limiter_step:
  fixes s :: redis_store
  assumes w: "0 < w" and hits: "redis_hits t (rd_data s) (kf c) = int n" and n: "int n < 2 ^ 62"
    and val: "redis_get t (rd_data s) (kf c) = None \<or> redis_get t (rd_data s) (kf c) = Some (itoa (int n))"
  shows "Limiter (NewRedisCounter redis_mem) kf limit w next c (s\<lparr>rd_clock := t\<rparr>) =
    (let s' = s\<lparr>rd_clock := t,
                rd_data := (rd_data s)(kf c \<mapsto> (itoa (int (Suc n)), Some (t + w)))\<rparr>
     in if limit < int (Suc n) then (Send 429 (RateLimited ''rate limit exceeded''), s')
        else next c s')"
proof -
  obtain rs d where run: "redis_run t [Incr (kf c), Expire (kf c) w] (rd_data s) = (rs, d)"
    by fastforce
  have "atoi (itoa (int n)) = Some (int n)" using n by (intro atoi_itoa) simp_all
  then have ok: "first_err rs = None"
    using run val n by (auto simp: redis_get_def split: option.splits prod.splits)
  note step = incr_expire [OF w run ok, unfolded hits]
  from step have "d = (rd_data s)(kf c \<mapsto> (itoa (int (Suc n)), Some (t + w)))"
    by (simp add: add.commute)
  moreover from step have "incr_val rs = int (Suc n)" by simp
  ultimately show ?thesis
    by (simp add: Limiter_def NewRedisCounter_def RedisIncrement_def redis_mem_def run ok bindP_def
        retP_def Let_def del: redis_run.simps of_nat_Suc)
qed

lemma serve_from:
  assumes "0 < w" and "close_by w (t # ts)" and "int (n + length (t # ts)) < 2 ^ 62"
    and "redis_hits t (rd_data s) (kf c) = int n"
    and "redis_get t (rd_data s) (kf c) = None \<or> redis_get t (rd_data s) (kf c) = Some (itoa (int n))"
  shows "serve kf limit w d c (t # ts) s =
    map (\<lambda>i. if limit < int (n + Suc i) then 429 else 200) [0..<length (t # ts)]"
  using assms(2-)
proof (induction ts arbitrary: t n s)
  case Nil
  then show ?case
    using limiter_step [of w t s kf c n limit "\<lambda>_ s. (OK d, s)"] \<open>0 < w\<close>
    by (simp add: Let_def Send_def OK_def)
next
  case (Cons u ts)
  define s' where "s' = s\<lparr>rd_clock := t,
    rd_data := (rd_data s)(kf c \<mapsto> (itoa (int (Suc n)), Some (t + w)))\<rparr>"
  have u: "u < t + w" using Cons.prems(1) by simp
  have n62: "int n < 2 ^ 62" using Cons.prems(2) by simp
  have get': "redis_get u (rd_data s') (kf c) = Some (itoa (int (Suc n)))"
    using u by (simp add: s'_def redis_get_def)
  moreover have "atoi (itoa (int (Suc n))) = Some (int (Suc n))"
    using n62 by (intro atoi_itoa) simp_all
  ultimately have hits': "redis_hits u (rd_data s') (kf c) = int (Suc n)"
    by (simp add: redis_hits_def)
  have IH: "serve kf limit w d c (u # ts) s' =
      map (\<lambda>i. if limit < int (Suc n + Suc i) then 429 else 200) [0..<length (u # ts)]"
    using Cons.prems hits' get' by (intro Cons.IH) simp_all
  have "serve kf limit w d c (t # u # ts) s =
      (if limit < int (Suc n) then 429 else 200) # serve kf limit w d c (u # ts) s'"
    using limiter_step [of w t s kf c n limit "\<lambda>_ s. (OK d, s)"] \<open>0 < w\<close> Cons.prems n62
    by (simp add: Let_def Send_def OK_def s'_def del: of_nat_Suc)
  also have "\<dots> = map (\<lambda>i. if limit < int (n + Suc i) then 429 else 200) (0 # map Suc [0..<length (u # ts)])"
    by (simp only: IH list.map map_map comp_def) simp
  also have "0 # map Suc [0..<length (u # ts)] = [0..<length (t # u # ts)]"
    unfolding map_Suc_upt by (simp only: length_Cons upt_conv_Cons [of 0 "Suc (Suc (length ts))"] zero_less_Suc if_True)
  finally show ?case .
qed

end
