(* ===== verification/Platform.thy ===== *)
theory Platform
  imports Httperr
begin

text \<open>
  The small packages: the configuration read from the environment
  (\<open>pkg/config/config.go\<close>), the request id middleware (\<open>pkg/middleware/requestid.go\<close>) and the
  mailers (\<open>pkg/mailer/mailer.go\<close>). The environment is a function from names to values, the
  empty string for a variable that is not set; the SMTP dialer is a parameter.
\<close>

section \<open>Configuration\<close>

record config =
  AppPort :: string
  AppEnv :: string
  DBHost :: string
  DBPort :: string
  DBName :: string
  DBUser :: string
  DBPass :: string
  RedisAddr :: string
  RedisPass :: string
  JWTSecret :: string
  SMTPHost :: string
  SMTPPort :: int
  SMTPUser :: string
  SMTPPass :: string
  SMTPFrom :: string
  OpenRouterAPIKey :: string
  OpenRouterModel :: string
  OpenRouterBaseURL :: string

definition DSN :: "config \<Rightarrow> string" where
  "DSN c = ''postgres://'' @ DBUser c @ '':'' @ DBPass c @ ''@'' @ DBHost c @ '':'' @ DBPort c
     @ ''/'' @ DBName c @ ''?sslmode=disable''"

definition getEnv :: "(string \<Rightarrow> string) \<Rightarrow> string \<Rightarrow> string \<Rightarrow> string" where
  "getEnv env key fallback = (let v = env key in if v \<noteq> [] then v else fallback)"

definition required_env :: "string list" where
  "required_env =
     [''DB_HOST'', ''DB_PORT'', ''DB_NAME'', ''DB_USER'', ''DB_PASS'', ''REDIS_ADDR'',
      ''JWT_SECRET'', ''OPENROUTER_API_KEY'']"

text \<open>\<open>smtpPort, _ := strconv.Atoi(...)\<close>: \<open>Atoi\<close> returns 0 with a syntax error and the nearest
  64-bit value with a range error.\<close>

definition atoi_value :: "string \<Rightarrow> int" where
  "atoi_value s =
     (case atoi s of
        Some v \<Rightarrow> v
      | None \<Rightarrow>
          let neg = (s \<noteq> [] \<and> hd s = CHR ''-'');
              ds = (if s \<noteq> [] \<and> (hd s = CHR ''-'' \<or> hd s = CHR ''+'') then tl s else s)
          in if ds \<noteq> [] \<and> list_all is_digit ds then (if neg then - (2 ^ 63) else 2 ^ 63 - 1) else 0)"

definition Load :: "(string \<Rightarrow> string) \<Rightarrow> err + config" where
  "Load env =
     (case find (\<lambda>key. env key = []) required_env of
        Some key \<Rightarrow> Inl (Other (''missing required env var: '' @ key))
      | None \<Rightarrow>
          Inr \<lparr>AppPort = getEnv env ''APP_PORT'' ''3000'',
               AppEnv = getEnv env ''APP_ENV'' ''development'',
               DBHost = env ''DB_HOST'', DBPort = env ''DB_PORT'', DBName = env ''DB_NAME'',
               DBUser = env ''DB_USER'', DBPass = env ''DB_PASS'',
               RedisAddr = env ''REDIS_ADDR'', RedisPass = env ''REDIS_PASS'',
               JWTSecret = env ''JWT_SECRET'',
               SMTPHost = getEnv env ''SMTP_HOST'' [],
               SMTPPort = atoi_value (getEnv env ''SMTP_PORT'' ''587''),
               SMTPUser = getEnv env ''SMTP_USER'' [],
               SMTPPass = getEnv env ''SMTP_PASS'' [],
               SMTPFrom = getEnv env ''SMTP_FROM'' [],
               OpenRouterAPIKey = getEnv env ''OPENROUTER_API_KEY'' [],
               OpenRouterModel = getEnv env ''OPENROUTER_MODEL'' ''mistralai/mistral-7b-instruct:free'',
               OpenRouterBaseURL = getEnv env ''OPENROUTER_BASE_URL'' ''https://openrouter.ai/api/v1''\<rparr>)"

lemma Load_Inr_iff:
  "(\<exists>cfg. Load env = Inr cfg) \<longleftrightarrow> (\<forall>key \<in> set required_env. env key \<noteq> [])"
  by (auto simp: Load_def find_None_iff find_Some_iff split: option.split)

lemma Load_names_first_missing:
  "Load env = Inl e \<Longrightarrow>
     \<exists>pre key post. required_env = pre @ key # post \<and> env key = [] \<and> (\<forall>k \<in> set pre. env k \<noteq> [])
       \<and> e = Other (''missing required env var: '' @ key)"
proof -
  assume "Load env = Inl e"
  then obtain key where f: "find (\<lambda>key. env key = []) required_env = Some key"
    and e: "e = Other (''missing required env var: '' @ key)"
    by (auto simp: Load_def split: option.splits)
  from f obtain i where i: "i < length required_env" "env (required_env ! i) = []"
      "key = required_env ! i" "\<forall>j<i. env (required_env ! j) \<noteq> []"
    by (auto simp: find_Some_iff)
  have "required_env = take i required_env @ key # drop (Suc i) required_env"
    using i(1,3) by (simp add: id_take_nth_drop)
  moreover have "\<forall>k \<in> set (take i required_env). env k \<noteq> []"
    using i(1,4) by (auto simp: in_set_conv_nth)
  ultimately show ?thesis using e i(2,3) by blast
qed

section \<open>The request id\<close>

text \<open>The response together with its \<open>X-Request-ID\<close> header\<close>

definition RequestID ::
  "ext \<Rightarrow> ('s \<Rightarrow> uuid \<times> 's) \<Rightarrow> ('s, 'b, 'd) handler \<Rightarrow> 'b request \<Rightarrow> 's \<Rightarrow> (string \<times> 'd response) \<times> 's"
where
  "RequestID E new next c s =
     (let id = rq_header c ''X-Request-ID'' in
      if id = [] then
        (case new s of (u, s1) \<Rightarrow>
         case next c s1 of (resp, s2) \<Rightarrow> ((x_uuid_string E u, resp), s2))
      else (case next c s of (resp, s1) \<Rightarrow> ((id, resp), s1)))"

section \<open>Mail\<close>

text \<open>The interface \<open>Mailer\<close>, as operations on the state \<open>'s\<close>\<close>

record 's mailer =
  ml_verification :: "string \<Rightarrow> string \<Rightarrow> ('s, err, unit) prog"
  ml_reset :: "string \<Rightarrow> string \<Rightarrow> ('s, err, unit) prog"

record mail_message =
  mm_from :: string
  mm_to :: string
  mm_subject :: string
  mm_body :: string

record smtp_mailer =
  sm_host :: string
  sm_port :: int
  sm_user :: string
  sm_pass :: string
  sm_from :: string

abbreviation newline :: char where "newline \<equiv> CHR 0x0A"
abbreviation em_dash :: string where "em_dash \<equiv> [CHR 0xE2, CHR 0x80, CHR 0x94]"

type_synonym 's dialer = "string \<Rightarrow> int \<Rightarrow> string \<Rightarrow> string \<Rightarrow> mail_message \<Rightarrow> ('s, err, unit) prog"

definition smtp_send ::
  "'s dialer \<Rightarrow> smtp_mailer \<Rightarrow> string \<Rightarrow> string \<Rightarrow> string \<Rightarrow> ('s, err, unit) prog" where
  "smtp_send dial m to subject body =
     dial (sm_host m) (sm_port m) (sm_user m) (sm_pass m)
       \<lparr>mm_from = sm_from m, mm_to = to, mm_subject = subject, mm_body = body\<rparr>"

definition smtp_verification ::
  "'s dialer \<Rightarrow> smtp_mailer \<Rightarrow> string \<Rightarrow> string \<Rightarrow> ('s, err, unit) prog" where
  "smtp_verification dial m to token =
     (let link = ''https://your-domain.com/verify-email?token='' @ token;
          body = ''Click the link below to verify your email:'' @ [newline, newline] @ link
            @ [newline, newline] @ ''This link expires in 24 hours.''
      in smtp_send dial m to (''Verify Your Email '' @ em_dash @ '' Kamus Banjar'') body)"

definition smtp_reset ::
  "'s dialer \<Rightarrow> smtp_mailer \<Rightarrow> string \<Rightarrow> string \<Rightarrow> ('s, err, unit) prog" where
  "smtp_reset dial m to token =
     (let link = ''https://your-domain.com/reset-password?token='' @ token;
          body = ''Click the link below to reset your password:'' @ [newline, newline] @ link
            @ [newline, newline] @ ''This link expires in 1 hour.''
      in smtp_send dial m to (''Password Reset '' @ em_dash @ '' Kamus Banjar'') body)"

definition NewSMTPMailer :: "'s dialer \<Rightarrow> string \<Rightarrow> int \<Rightarrow> string \<Rightarrow> string \<Rightarrow> string \<Rightarrow> 's mailer" where
  "NewSMTPMailer dial host port user pass from =
     (let m = \<lparr>sm_host = host, sm_port = port, sm_user = user, sm_pass = pass, sm_from = from\<rparr>
      in \<lparr>ml_verification = smtp_verification dial m, ml_reset = smtp_reset dial m\<rparr>)"

text \<open>\<open>MockMailer\<close>, which \<open>cmd/api/main.go\<close> uses when no SMTP host is configured, keeps the
  addresses and tokens.\<close>

record mail_box =
  mb_verification :: "(string \<times> string) list"
  mb_reset :: "(string \<times> string) list"

definition mock_verification :: "string \<Rightarrow> string \<Rightarrow> (mail_box, err, unit) prog" where
  "mock_verification to token b =
     (Inr (), b\<lparr>mb_verification := mb_verification b @ [(to, token)]\<rparr>)"

definition mock_reset :: "string \<Rightarrow> string \<Rightarrow> (mail_box, err, unit) prog" where
  "mock_reset to token b = (Inr (), b\<lparr>mb_reset := mb_reset b @ [(to, token)]\<rparr>)"

end
