(* ===== verification/Pagination.thy ===== *)
theory Pagination
  imports Httperr
begin

text \<open>
  \<open>pkg/pagination/pagination.go\<close>: the page parameters of a request, the number of pages, and
  the \<open>LIMIT\<close> and \<open>OFFSET\<close> the repositories compute from them.
\<close>

definition DefaultPage :: int where "DefaultPage = 1"
definition DefaultPerPage :: int where "DefaultPerPage = 20"
definition MaxPerPage :: int where "MaxPerPage = 100"

record params =
  pg_page :: int
  pg_per_page :: int

definition Offset :: "params \<Rightarrow> int" where
  "Offset p = int64 (int64 (pg_page p - 1) * pg_per_page p)"

definition Limit :: "params \<Rightarrow> int" where
  "Limit p = pg_per_page p"

definition TotalPages :: "int \<Rightarrow> int \<Rightarrow> int" where
  "TotalPages tot perPage =
     (if perPage \<le> 0 then 0
      else let pages = tot sdiv perPage
           in if tot smod perPage \<noteq> 0 then pages + 1 else pages)"

definition parsePositiveInt :: "string \<Rightarrow> string \<Rightarrow> error_response + int" where
  "parsePositiveInt s field =
     (case atoi s of
        None \<Rightarrow> Inl (Validation (''invalid '' @ field) [detail field ''must be a positive integer''])
      | Some v \<Rightarrow> Inr v)"

definition Parse :: "'b request \<Rightarrow> error_response + params" where
  "Parse c =
     (case parsePositiveInt (query c ''page'' ''1'') ''page'' of
        Inl e \<Rightarrow> Inl e
      | Inr page \<Rightarrow>
     (case parsePositiveInt (query c ''per_page'' ''20'') ''per_page'' of
        Inl e \<Rightarrow> Inl e
      | Inr perPage \<Rightarrow>
          if page < 1 then
            Inl (Validation ''page must be >= 1'' [detail ''page'' ''must be >= 1''])
          else if perPage < 1 then
            Inl (Validation ''per_page must be >= 1'' [detail ''per_page'' ''must be >= 1''])
          else if MaxPerPage < perPage then
            Inl (Validation ''per_page exceeds maximum of 100'' [detail ''per_page'' ''must be <= 100''])
          else Inr \<lparr>pg_page = page, pg_per_page = perPage\<rparr>))"

text \<open>The repositories' \<open>int32(perPage)\<close> and \<open>int32((page - 1) * perPage)\<close>\<close>

definition sql_limit :: "int \<Rightarrow> int" where
  "sql_limit perPage = int32 perPage"

definition sql_offset :: "int \<Rightarrow> int \<Rightarrow> int" where
  "sql_offset page perPage = int32 (int64 (int64 (page - 1) * perPage))"

text \<open>The handlers of community and moderation compute the number of pages themselves:
  \<open>(total + perPage - 1) / perPage\<close>.\<close>

definition total_pages_inline :: "int \<Rightarrow> int \<Rightarrow> int" where
  "total_pages_inline tot perPage = int64 (tot + perPage - 1) sdiv perPage"

section \<open>Lemmas\<close>

lemma Parse_bounds:
  "Parse c = Inr p \<Longrightarrow>
     1 \<le> pg_page p \<and> pg_page p < 2 ^ 63 \<and> 1 \<le> pg_per_page p \<and> pg_per_page p \<le> 100"
  by (auto simp: Parse_def parsePositiveInt_def MaxPerPage_def split: option.splits if_splits
      dest!: atoi_range)

lemma sdiv_nonneg: "0 \<le> a \<Longrightarrow> 0 < b \<Longrightarrow> (a :: int) sdiv b = a div b"
  by (cases "a = 0") (simp_all add: signed_divide_int_def sgn_mult)

lemma smod_nonneg: "0 \<le> a \<Longrightarrow> 0 < b \<Longrightarrow> (a :: int) smod b = a mod b"
  by (cases "a = 0") (simp_all add: signed_modulo_int_def sdiv_nonneg minus_div_mult_eq_mod)

lemma ceil_div:
  fixes t :: int
  assumes "0 < p"
  shows "(t + p - 1) div p = (if t mod p \<noteq> 0 then t div p + 1 else t div p)"
proof -
  define q r where "q = t div p" and "r = t mod p"
  have t: "t = q * p + r" and r: "0 \<le> r" "r < p"
    using assms by (simp_all add: q_def r_def)
  have "(t + p - 1) div p = (r + p - 1 + q * p) div p"
    by (simp add: t algebra_simps)
  also have "\<dots> = q + (r + p - 1) div p"
    using assms by (simp only: div_mult_self1)
  also have "(r + p - 1) div p = (if r = 0 then 0 else 1)"
  proof (cases "r = 0")
    case True
    then show ?thesis using assms by (simp add: div_pos_pos_trivial)
  next
    case False
    then have "(r + p - 1) div p = (r - 1 + 1 * p) div p" by (simp add: algebra_simps)
    also have "\<dots> = 1 + (r - 1) div p" using assms by (simp only: div_mult_self1)
    also have "(r - 1) div p = 0" using False r by (simp add: div_pos_pos_trivial)
    finally show ?thesis using False by simp
  qed
  finally show ?thesis by (simp add: q_def r_def)
qed

lemma TotalPages_nonneg:
  "0 \<le> t \<Longrightarrow> 0 < p \<Longrightarrow> TotalPages t p = (t + p - 1) div p"
  by (simp add: TotalPages_def Let_def sdiv_nonneg smod_nonneg ceil_div)

lemma sql_limit_id: "Parse c = Inr p \<Longrightarrow> sql_limit (pg_per_page p) = pg_per_page p"
  using Parse_bounds [of c p] by (simp add: sql_limit_def int32_id)

lemma sql_offset_exact:
  assumes "1 \<le> page" and "1 \<le> perPage" and "(page - 1) * perPage < 2 ^ 31"
  shows "sql_offset page perPage = (page - 1) * perPage"
proof -
  have le: "page - 1 \<le> (page - 1) * perPage"
    using assms(1,2) mult_left_mono [of 1 perPage "page - 1"] by simp
  have "int64 (page - 1) = page - 1"
    using le assms(1,3) by (intro int64_id) simp_all
  moreover have "0 \<le> (page - 1) * perPage" using assms(1,2) by simp
  ultimately show ?thesis
    using assms(3) by (simp add: sql_offset_def int64_id int32_id)
qed

end
