(* ===== verification/Foundation_Properties.thy ===== *)
theory Foundation_Properties
  imports Auth Ratelimit Platform Pagination
begin

text \<open>
  Properties of the packages under \<open>pkg/\<close>: pagination, the rate limiter, access tokens and
  their middleware, the configuration.
\<close>

lemma int64_pages: "0 \<le> t \<Longrightarrow> 0 < p \<Longrightarrow> t + p < 2 ^ 63 \<Longrightarrow> total_pages_inline t p = (t + p - 1) div p"
  by (simp add: total_pages_inline_def int64_id sdiv_nonneg)

lemma ceil_least:
  fixes t p n :: int
  assumes "0 < p" "0 \<le> t"
  shows "t \<le> p * n \<longleftrightarrow> (t + p - 1) div p \<le> n"
proof -
  define q r where "q = (t + p - 1) div p" and "r = (t + p - 1) mod p"
  have e: "t + p - 1 = q * p + r" and r: "0 \<le> r" "r < p"
    using assms(1) by (simp_all add: q_def r_def)
  have "t \<le> p * n \<longleftrightarrow> q * p + r < (n + 1) * p" using e by (auto simp: algebra_simps)
  also have "\<dots> \<longleftrightarrow> q < n + 1"
  proof
    assume "q * p + r < (n + 1) * p"
    with r(1) have "q * p < (n + 1) * p" by linarith
    with assms(1) show "q < n + 1" by simp
  next
    assume "q < n + 1"
    with assms(1) have "q * p \<le> n * p" by simp
    with r(2) show "q * p + r < (n + 1) * p" by (simp add: algebra_simps)
  qed
  finally show ?thesis by (simp add: q_def)
qed

text \<open>The number of pages is the least number whose pages hold all rows, and the formula that
  the handlers of community and moderation repeat gives the same number, as long as the sum in it
  stays below \<open>2 ^ 63\<close>.\<close>

theorem total_pages_least:
  fixes t p :: int
  assumes "0 \<le> t" and "0 < p"
  shows "(t \<le> p * n \<longleftrightarrow> TotalPages t p \<le> n) \<and>
    (t + p < 2 ^ 63 \<longrightarrow> total_pages_inline t p = TotalPages t p)"
  using ceil_least [OF assms(2,1), of n] assms by (simp add: TotalPages_nonneg int64_pages)

theorem total_pages_least_witness:
  "(41 \<le> 20 * (3::int)) \<and> TotalPages 41 20 \<le> 3 \<and> \<not> TotalPages 41 20 \<le> 2 \<and> total_pages_inline 41 20 = 3"
  using total_pages_least [of 41 20 3] total_pages_least [of 41 20 2] by (simp add: TotalPages_def)

text \<open>C36. Page parameters that are accepted are in range, and their \<open>LIMIT\<close> and \<open>OFFSET\<close> are the exact
  rows of the page as long as the offset fits into the 32 bits it is cut to.\<close>

theorem page_window_exact:
  assumes "Parse c = Inr p" and "(pg_page p - 1) * pg_per_page p < 2 ^ 31"
  shows "1 \<le> pg_page p \<and> 1 \<le> pg_per_page p \<and> pg_per_page p \<le> MaxPerPage \<and>
    sql_limit (pg_per_page p) = pg_per_page p \<and>
    sql_offset (pg_page p) (pg_per_page p) = (pg_page p - 1) * pg_per_page p"
  using Parse_bounds [OF assms(1)] sql_limit_id [OF assms(1)]
    sql_offset_exact [of "pg_page p" "pg_per_page p"] assms(2)
  by (simp add: MaxPerPage_def)

definition page_request :: "string \<Rightarrow> string \<Rightarrow> unit request" where
  "page_request page perPage =
     \<lparr>rq_header = (\<lambda>_. []), rq_query = (\<lambda>k. if k = ''page'' then page else if k = ''per_page'' then perPage else []),
      rq_param = (\<lambda>_. []), rq_ip = [], rq_body = ((), True), rq_locals = None\<rparr>"

lemma Parse_page_request:
  "page \<noteq> [] \<Longrightarrow> perPage \<noteq> [] \<Longrightarrow> atoi page = Some i \<Longrightarrow> atoi perPage = Some n \<Longrightarrow>
     1 \<le> i \<Longrightarrow> 1 \<le> n \<Longrightarrow> n \<le> 100 \<Longrightarrow> Parse (page_request page perPage) = Inr \<lparr>pg_page = i, pg_per_page = n\<rparr>"
  by (simp add: Parse_def parsePositiveInt_def query_def page_request_def MaxPerPage_def)

lemma atoi_examples: "atoi ''3'' = Some 3" "atoi ''25'' = Some 25" "atoi ''16'' = Some 16"
  "atoi ''268435457'' = Some 268435457"
  by (simp_all add: atoi_def is_digit_def byte_def)

theorem page_window_exact_witness:
  "Parse (page_request ''3'' ''25'') = Inr \<lparr>pg_page = 3, pg_per_page = 25\<rparr> \<and>
   sql_limit 25 = 25 \<and> sql_offset 3 25 = 50"
  using page_window_exact [of "page_request ''3'' ''25''" "\<lparr>pg_page = 3, pg_per_page = 25\<rparr>"]
  by (simp add: Parse_page_request atoi_examples)

text \<open>The offset is cut to 32 bits without a check: a page far behind the end, which \<open>Parse\<close> accepts,
  is answered with the rows of the first page.\<close>

theorem offset_wraps_to_first_page:
  "Parse (page_request ''268435457'' ''16'') = Inr \<lparr>pg_page = 268435457, pg_per_page = 16\<rparr> \<and>
   sql_offset 268435457 16 = sql_offset 1 16"
proof -
  have "sql_offset 268435457 16 = 0" "sql_offset 1 16 = 0"
    by (simp_all add: sql_offset_def int64_def int32_def signed_take_bit_def take_bit_eq_mod bit_iff_odd)
  then show ?thesis by (simp add: Parse_page_request atoi_examples)
qed

section \<open>The rate limiter\<close>

text \<open>C14. Against Redis as documented, of requests under a key without a count, each less than a
  window after the one before, exactly the first \<open>limit\<close> pass and all later ones are answered with
  429: each request, refused ones included, prolongs the window.\<close>

theorem limiter_admits_first:
  assumes "0 < w" and "close_by w (t # ts)" and "int (length (t # ts)) < 2 ^ 62"
    and "redis_get t (rd_data s) (kf c) = None"
  shows "serve kf limit w d c (t # ts) s =
    map (\<lambda>i. if limit \<le> int i then 429 else 200) [0..<length (t # ts)]"
proof -
  have "redis_hits t (rd_data s) (kf c) = int 0" using assms(4) by (simp add: redis_hits_def)
  from serve_from [OF assms(1,2), of 0 s kf c limit d] assms(3,4) this show ?thesis by simp
qed

theorem limiter_admits_first_witness:
  "serve (\<lambda>_. ''k'') 2 10 () (page_request [] []) [0, 5, 12, 21] \<lparr>rd_clock = 0, rd_data = (\<lambda>_. None)\<rparr> =
     [200, 200, 429, 429]"
  using limiter_admits_first [of 10 0 "[5, 12, 21]" "\<lparr>rd_clock = 0, rd_data = (\<lambda>_. None)\<rparr>" "\<lambda>_. ''k''"
      "page_request [] []" 2 "()"]
  by (simp add: redis_get_def alive_def upt_rec)

section \<open>Access tokens\<close>

definition no_handler :: "(nat, unit, unit) handler" where
  "no_handler c s = (OK (), Suc s)"

text \<open>C32. A token that the server generated is accepted by the middleware until it expires, and the handler
  finds the user and the role it was generated for.\<close>

theorem generated_token_accepted:
  assumes "jwt_complete E" and "GenerateAccessToken E secret t u role = Inr tok"
    and "rq_header c ''Authorization'' = ''Bearer '' @ tok"
    and "now s \<le> t + AccessTokenTTL - second"
  shows "RequireAuth E secret now next c s =
    next (c\<lparr>rq_locals := Some \<lparr>cl_user_id = u, cl_role = role, cl_subject = u,
       cl_issued_at = Some (t div second), cl_expires_at = Some ((t + AccessTokenTTL) div second)\<rparr>\<rparr>) s"
proof -
  have "now s < (t + AccessTokenTTL) div second * second"
    using whole_second [of "t + AccessTokenTTL"] assms(4) by linarith
  from ParseToken_generated [OF assms(1,2) this] assms(3) show ?thesis
    by (simp add: RequireAuth_def has_prefix_def trim_prefix_def)
qed

definition bearer :: "string \<Rightarrow> unit request" where
  "bearer tok = (page_request [] [])\<lparr>rq_header := (\<lambda>_. ''Bearer '' @ tok)\<rparr>"

theorem generated_token_accepted_witness:
  "\<exists>tok. GenerateAccessToken demo_ext ''k'' 0 ''u'' ''admin'' = Inr tok \<and>
     snd (RequireAuth demo_ext ''k'' int no_handler (bearer tok) 5) = 6"
proof -
  obtain tok where tok: "GenerateAccessToken demo_ext ''k'' 0 ''u'' ''admin'' = Inr tok"
    by (auto simp: GenerateAccessToken_def demo_ext_def)
  have "int 5 \<le> 0 + AccessTokenTTL - second" by (simp add: AccessTokenTTL_def)
  with generated_token_accepted [OF demo_jwt_complete tok, of "bearer tok" int 5 no_handler] tok
  show ?thesis by (auto simp: bearer_def no_handler_def)
qed

section \<open>The configuration\<close>

text \<open>Loading the configuration succeeds exactly when no required variable is empty; otherwise the error
  names the first one, in the order of the list, that is.\<close>

theorem load_checks_required:
  "case Load env of
     Inr cfg \<Rightarrow> list_all (\<lambda>key. env key \<noteq> []) required_env \<and> JWTSecret cfg = env ''JWT_SECRET'' \<and>
       OpenRouterAPIKey cfg = env ''OPENROUTER_API_KEY''
   | Inl e \<Rightarrow> \<exists>pre key post. required_env = pre @ key # post \<and> env key = [] \<and>
       list_all (\<lambda>k. env k \<noteq> []) pre \<and> e = Other (''missing required env var: '' @ key)"
proof (cases "Load env")
  case (Inl e)
  with Load_names_first_missing [OF Inl] show ?thesis by (simp add: list_all_iff)
next
  case (Inr cfg)
  then have "\<forall>key \<in> set required_env. env key \<noteq> []" using Load_Inr_iff by blast
  moreover have "JWTSecret cfg = env ''JWT_SECRET''" "OpenRouterAPIKey cfg = getEnv env ''OPENROUTER_API_KEY'' []"
    using Inr by (auto simp: Load_def split: option.splits)
  ultimately show ?thesis by (simp add: Inr list_all_iff getEnv_def required_env_def)
qed

end
