(* ===== verification/Json.thy ===== *)
theory Json
  imports Prelude
begin

text \<open>
  JSON values as \<open>encoding/json\<close> decodes them into \<open>any\<close>. A number is its text; an object is
  the list of its fields, in which the first of two fields with one name counts. A Go
  \<open>map[string]any\<close> is \<open>None\<close> when it is nil.
\<close>

datatype json =
    JNull
  | JBool bool
  | JNum string
  | JStr string
  | JArr "json list"
  | JObj "(string \<times> json) list"

type_synonym json_map = "(string \<times> json) list option"

text \<open>What a column of type \<open>JSONB\<close> takes: documents without the character \<open>\u0000\<close> in a string or a key.\<close>

definition storable_text :: "string \<Rightarrow> bool" where
  "storable_text t \<longleftrightarrow> CHR 0x00 \<notin> set t"

fun jsonb_ok :: "json \<Rightarrow> bool" where
  "jsonb_ok (JStr t) = storable_text t"
| "jsonb_ok (JArr js) = (\<forall>j \<in> set js. jsonb_ok j)"
| "jsonb_ok (JObj fs) = (\<forall>f \<in> set fs. storable_text (fst f) \<and> jsonb_ok (snd f))"
| "jsonb_ok j = True"

definition jsonb_column_ok :: "json option \<Rightarrow> bool" where
  "jsonb_column_ok c = (case c of None \<Rightarrow> True | Some j \<Rightarrow> jsonb_ok j)"

text \<open>\<open>m[key]\<close>; reading a nil map is reading an empty one.\<close>

definition map_get :: "json_map \<Rightarrow> string \<Rightarrow> json option" where
  "map_get m key = (case m of None \<Rightarrow> None | Some fields \<Rightarrow> map_of fields key)"

text \<open>\<open>s, ok := m[key].(string)\<close> and its two uses\<close>

definition map_string :: "json_map \<Rightarrow> string \<Rightarrow> string option" where
  "map_string m key = (case map_get m key of Some (JStr s) \<Rightarrow> Some s | _ \<Rightarrow> None)"

definition map_string_or_empty :: "json_map \<Rightarrow> string \<Rightarrow> string" where
  "map_string_or_empty m key = (case map_string m key of Some s \<Rightarrow> s | None \<Rightarrow> [])"

text \<open>\<open>xs, ok := m[key].([]any)\<close> and \<open>o, _ := x.(map[string]any)\<close>\<close>

definition map_array :: "json_map \<Rightarrow> string \<Rightarrow> json list option" where
  "map_array m key = (case map_get m key of Some (JArr xs) \<Rightarrow> Some xs | _ \<Rightarrow> None)"

definition as_map :: "json \<Rightarrow> json_map" where
  "as_map j = (case j of JObj fields \<Rightarrow> Some fields | _ \<Rightarrow> None)"

text \<open>\<open>json.Marshal\<close> of a map and \<open>json.Unmarshal\<close> into one: \<open>null\<close> is the nil map, any other
  value that is no object is an error.\<close>

definition json_of_map :: "json_map \<Rightarrow> json" where
  "json_of_map m = (case m of None \<Rightarrow> JNull | Some fields \<Rightarrow> JObj fields)"

definition unmarshal_map :: "json \<Rightarrow> json_map option" where
  "unmarshal_map j =
     (case j of JNull \<Rightarrow> Some None | JObj fields \<Rightarrow> Some (Some fields) | _ \<Rightarrow> None)"

lemma unmarshal_json_of_map [simp]: "unmarshal_map (json_of_map m) = Some m"
  by (cases m) (simp_all add: json_of_map_def unmarshal_map_def)

end
