(* ===== verification/Community_Domain.thy ===== *)
theory Community_Domain
  imports Json External
begin

text \<open>
  \<open>internal/community/domain\<close>: contributions with their status, votes, bookmarks and comments.
\<close>

section \<open>Contributions (\<open>contribution.go\<close>)\<close>

definition ContributionTypeNewWord :: string where "ContributionTypeNewWord = ''new_word''"
definition ContributionTypeNewDefinition :: string where
  "ContributionTypeNewDefinition = ''new_definition''"
definition ContributionTypeNewExample :: string where "ContributionTypeNewExample = ''new_example''"
definition ContributionTypeEditWord :: string where "ContributionTypeEditWord = ''edit_word''"

definition StatusPending :: string where "StatusPending = ''pending''"
definition StatusApproved :: string where "StatusApproved = ''approved''"
definition StatusRejected :: string where "StatusRejected = ''rejected''"
definition StatusWithdrawn :: string where "StatusWithdrawn = ''withdrawn''"

lemma status_distinct [simp]:
  "StatusPending \<noteq> StatusApproved" "StatusPending \<noteq> StatusRejected" "StatusPending \<noteq> StatusWithdrawn"
  "StatusApproved \<noteq> StatusPending" "StatusRejected \<noteq> StatusPending" "StatusWithdrawn \<noteq> StatusPending"
  "StatusApproved \<noteq> StatusRejected" "StatusApproved \<noteq> StatusWithdrawn"
  "StatusRejected \<noteq> StatusWithdrawn" "StatusRejected \<noteq> StatusApproved"
  "StatusWithdrawn \<noteq> StatusApproved" "StatusWithdrawn \<noteq> StatusRejected"
  by (simp_all add: StatusPending_def StatusApproved_def StatusRejected_def StatusWithdrawn_def)

record contribution =
  cb_id :: uuid
  cb_type :: string
  cb_contributor :: uuid
  cb_target :: "uuid option"
  cb_payload :: json_map
  cb_status :: string
  cb_reviewer :: "uuid option"
  cb_note :: "string option"
  cb_submitted_at :: time
  cb_reviewed_at :: "time option"

definition NewContribution ::
  "'s runtime \<Rightarrow> uuid \<Rightarrow> string \<Rightarrow> uuid option \<Rightarrow> json_map \<Rightarrow> ('s, err, contribution) prog" where
  "NewContribution R contributorID ctype targetWordID payload =
     rejectP (ctype \<noteq> ContributionTypeNewWord \<and> targetWordID = None) (Community ErrTargetRequired) (
     bindP (uuidP R) (\<lambda>i.
     bindP (nowP R) (\<lambda>now.
     retP \<lparr>cb_id = i, cb_type = ctype, cb_contributor = contributorID, cb_target = targetWordID,
           cb_payload = payload, cb_status = StatusPending, cb_reviewer = None, cb_note = None,
           cb_submitted_at = now, cb_reviewed_at = None\<rparr>)))"

definition note_option :: "string \<Rightarrow> string option \<Rightarrow> string option" where
  "note_option note old = (if note \<noteq> [] then Some note else old)"

definition Approve :: "time \<Rightarrow> uuid \<Rightarrow> string \<Rightarrow> contribution \<Rightarrow> err + contribution" where
  "Approve now reviewerID note c =
     (if cb_status c \<noteq> StatusPending then Inl (Community ErrInvalidTransition)
      else Inr (c\<lparr>cb_status := StatusApproved, cb_reviewer := Some reviewerID,
                  cb_note := note_option note (cb_note c), cb_reviewed_at := Some now\<rparr>))"

definition Reject :: "time \<Rightarrow> uuid \<Rightarrow> string \<Rightarrow> contribution \<Rightarrow> err + contribution" where
  "Reject now reviewerID note c =
     (if cb_status c \<noteq> StatusPending then Inl (Community ErrInvalidTransition)
      else Inr (c\<lparr>cb_status := StatusRejected, cb_reviewer := Some reviewerID,
                  cb_note := note_option note (cb_note c), cb_reviewed_at := Some now\<rparr>))"

definition Withdraw :: "uuid \<Rightarrow> contribution \<Rightarrow> err + contribution" where
  "Withdraw callerID c =
     (if cb_contributor c \<noteq> callerID then Inl (Community ErrForbidden)
      else if cb_status c \<noteq> StatusPending then Inl (Community ErrInvalidTransition)
      else Inr (c\<lparr>cb_status := StatusWithdrawn\<rparr>))"

text \<open>The life of a contribution: the transitions that the three operations allow.\<close>

inductive contribution_step :: "contribution \<Rightarrow> contribution \<Rightarrow> bool" where
  approve: "Approve now r note c = Inr c' \<Longrightarrow> contribution_step c c'"
| reject: "Reject now r note c = Inr c' \<Longrightarrow> contribution_step c c'"
| withdraw: "Withdraw u c = Inr c' \<Longrightarrow> contribution_step c c'"

inductive_cases contribution_stepE: "contribution_step c c'"

lemma contribution_step_status:
  "contribution_step c c' \<Longrightarrow> cb_status c = StatusPending \<and>
     cb_status c' \<in> {StatusApproved, StatusRejected, StatusWithdrawn} \<and>
     (cb_status c' \<in> {StatusApproved, StatusRejected} \<longleftrightarrow> cb_status c' \<noteq> StatusWithdrawn) \<and>
     cb_id c' = cb_id c \<and> cb_type c' = cb_type c \<and> cb_contributor c' = cb_contributor c \<and>
     cb_target c' = cb_target c \<and> cb_payload c' = cb_payload c \<and>
     cb_submitted_at c' = cb_submitted_at c"
  by (auto elim!: contribution_stepE simp: Approve_def Reject_def Withdraw_def split: if_splits)

section \<open>Votes (\<open>vote.go\<close>)\<close>

definition VoteTargetWord :: string where "VoteTargetWord = ''word''"
definition VoteTargetDefinition :: string where "VoteTargetDefinition = ''definition''"
definition VoteUp :: string where "VoteUp = ''up''"
definition VoteDown :: string where "VoteDown = ''down''"

record vote =
  vt_id :: uuid
  vt_user :: uuid
  vt_type :: string
  vt_target :: uuid
  vt_value :: string
  vt_created_at :: time

definition CastVote_domain ::
  "'s runtime \<Rightarrow> uuid \<Rightarrow> string \<Rightarrow> uuid \<Rightarrow> string \<Rightarrow> ('s, err, vote) prog" where
  "CastVote_domain R userID targetType targetID value =
     rejectP (targetType \<noteq> VoteTargetWord \<and> targetType \<noteq> VoteTargetDefinition)
       (Community ErrInvalidVoteTarget) (
     rejectP (value \<noteq> VoteUp \<and> value \<noteq> VoteDown) (Community ErrInvalidVoteValue) (
     bindP (uuidP R) (\<lambda>i.
     bindP (nowP R) (\<lambda>now.
     retP \<lparr>vt_id = i, vt_user = userID, vt_type = targetType, vt_target = targetID,
           vt_value = value, vt_created_at = now\<rparr>))))"

section \<open>Bookmarks (\<open>bookmark.go\<close>)\<close>

record bookmark =
  bm_id :: uuid
  bm_user :: uuid
  bm_word :: uuid
  bm_created_at :: time

definition NewBookmark :: "'s runtime \<Rightarrow> uuid \<Rightarrow> uuid \<Rightarrow> ('s, err, bookmark) prog" where
  "NewBookmark R userID wordID =
     bindP (uuidP R) (\<lambda>i.
     bindP (nowP R) (\<lambda>now.
     retP \<lparr>bm_id = i, bm_user = userID, bm_word = wordID, bm_created_at = now\<rparr>))"

section \<open>Comments (\<open>comment.go\<close>)\<close>

definition CommentTargetWord :: string where "CommentTargetWord = ''word''"
definition CommentTargetContribution :: string where "CommentTargetContribution = ''contribution''"
definition maxCommentBody :: nat where "maxCommentBody = 1000"

record comment =
  cm_id :: uuid
  cm_user :: uuid
  cm_type :: string
  cm_target :: uuid
  cm_body :: string
  cm_flagged :: bool
  cm_created_at :: time
  cm_updated_at :: time

text \<open>The checks on a body that \<open>NewComment\<close> and \<open>Edit\<close> have in common\<close>

definition body_error :: "string \<Rightarrow> err option" where
  "body_error body =
     (if body = [] then Some (Community ErrEmptyBody)
      else if maxCommentBody < rune_count body then Some (Community ErrBodyTooLong)
      else None)"

definition NewComment ::
  "'s runtime \<Rightarrow> uuid \<Rightarrow> string \<Rightarrow> uuid \<Rightarrow> string \<Rightarrow> ('s, err, comment) prog" where
  "NewComment R userID targetType targetID body =
     (case body_error body of
        Some e \<Rightarrow> failP e
      | None \<Rightarrow>
          bindP (nowP R) (\<lambda>now.
          bindP (uuidP R) (\<lambda>i.
          retP \<lparr>cm_id = i, cm_user = userID, cm_type = targetType, cm_target = targetID,
                cm_body = body, cm_flagged = False, cm_created_at = now, cm_updated_at = now\<rparr>)))"

definition Edit :: "time \<Rightarrow> uuid \<Rightarrow> string \<Rightarrow> comment \<Rightarrow> err + comment" where
  "Edit now callerID newBody c =
     (if cm_user c \<noteq> callerID then Inl (Community ErrForbidden)
      else (case body_error newBody of
              Some e \<Rightarrow> Inl e
            | None \<Rightarrow> Inr (c\<lparr>cm_body := newBody, cm_updated_at := now\<rparr>)))"

definition Flag :: "time \<Rightarrow> comment \<Rightarrow> comment" where
  "Flag now c = c\<lparr>cm_flagged := True, cm_updated_at := now\<rparr>"

text \<open>The limit counts runes, so that a body that is accepted has at most 4000 bytes.\<close>

lemma body_ok_length:
  "body_error body = None \<Longrightarrow> 0 < length body \<and> rune_count body \<le> 1000 \<and> length body \<le> 4000"
  using length_le_rune_count [of body]
  by (auto simp: body_error_def maxCommentBody_def split: if_splits)

lemma body_ok_ascii:
  "\<forall>c \<in> set body. byte c < 128 \<Longrightarrow> body_error body = None \<longleftrightarrow> 0 < length body \<and> length body \<le> 1000"
  by (auto simp: body_error_def maxCommentBody_def rune_count_ascii)

end
