(* ===== verification/Database.thy ===== *)
theory Database
  imports Json External
begin

text \<open>
  The PostgreSQL database: the rows of the tables (the structs of the generated
  \<open>sqlc/models.go\<close>), the state, and what the schema of \<open>migrations\<close> promises of it. The SQL
  statements of the \<open>sqlc\<close> packages are modelled beside the repositories that use them, as
  programs over the state built with \<open>sqlP\<close>: the constraints are checked in order, the
  statement is refused with the error of the first that fails, and otherwise takes effect.

  \<open>db_now\<close> is the clock (\<open>time.Now\<close> and SQL's \<open>NOW()\<close>; an operation runs at one instant) and
  \<open>db_draws\<close> counts the draws of entropy. An \<open>ORDER BY\<close> that leaves rows tied keeps them in the
  order of insertion. A text with a NUL byte, which PostgreSQL refuses, is not modelled.
\<close>

section \<open>Rows\<close>

record user_row =
  ur_id :: uuid
  ur_name :: string
  ur_email :: string
  ur_password_hash :: string
  ur_role :: string
  ur_is_active :: bool
  ur_email_verified_at :: "time option"
  ur_created_at :: time
  ur_updated_at :: time

record word_row =
  wr_id :: uuid
  wr_banjar :: string
  wr_syllabified :: "string option"
  wr_dialect :: string
  wr_word_class :: string
  wr_homonym :: int
  wr_is_root :: bool
  wr_root :: "uuid option"
  wr_status :: string
  wr_source :: string
  wr_reference :: "string option"
  wr_created_by :: "uuid option"
  wr_created_at :: time
  wr_updated_at :: time
  wr_deleted_at :: "time option"

record definition_row =
  dr_id :: uuid
  dr_word :: uuid
  dr_meaning :: string
  dr_sort_order :: int
  dr_source :: string
  dr_upvotes :: int
  dr_downvotes :: int
  dr_created_at :: time
  dr_updated_at :: time

record example_row =
  xr_id :: uuid
  xr_word :: uuid
  xr_banjar :: string
  xr_indonesian :: string
  xr_source :: string
  xr_created_at :: time
  xr_updated_at :: time

record contribution_row =
  cr_id :: uuid
  cr_type :: string
  cr_contributor :: uuid
  cr_target :: "uuid option"
  cr_payload :: json
  cr_status :: string
  cr_reviewer :: "uuid option"
  cr_note :: "string option"
  cr_submitted_at :: time
  cr_reviewed_at :: "time option"

record vote_row =
  vr_id :: uuid
  vr_user :: uuid
  vr_type :: string
  vr_target :: uuid
  vr_value :: string
  vr_created_at :: time

record bookmark_row =
  br_id :: uuid
  br_user :: uuid
  br_word :: uuid
  br_created_at :: time

record comment_row =
  mr_id :: uuid
  mr_user :: uuid
  mr_type :: string
  mr_target :: uuid
  mr_body :: string
  mr_flagged :: bool
  mr_created_at :: time
  mr_updated_at :: time

record audit_row =
  ar_id :: uuid
  ar_actor :: uuid
  ar_action :: string
  ar_type :: string
  ar_target :: uuid
  ar_metadata :: "json option"
  ar_created_at :: time

record ai_row =
  qr_id :: uuid
  qr_type :: string
  qr_word :: "uuid option"
  qr_contribution :: "uuid option"
  qr_requested_by :: uuid
  qr_model :: string
  qr_prompt :: string
  qr_response :: "json option"
  qr_parsed :: "json option"
  qr_status :: string
  qr_review :: string
  qr_reviewed_by :: "uuid option"
  qr_reviewed_at :: "time option"
  qr_created_at :: time

section \<open>The state\<close>

record db =
  db_now :: time
  db_draws :: nat
  db_users :: "user_row list"
  db_words :: "word_row list"
  db_definitions :: "definition_row list"
  db_examples :: "example_row list"
  db_contributions :: "contribution_row list"
  db_votes :: "vote_row list"
  db_bookmarks :: "bookmark_row list"
  db_comments :: "comment_row list"
  db_audit_logs :: "audit_row list"
  db_ai_requests :: "ai_row list"

definition db_empty :: "time \<Rightarrow> db" where
  "db_empty t =
     \<lparr>db_now = t, db_draws = 0, db_users = [], db_words = [], db_definitions = [],
      db_examples = [], db_contributions = [], db_votes = [], db_bookmarks = [],
      db_comments = [], db_audit_logs = [], db_ai_requests = []\<rparr>"

definition db_runtime :: "ext \<Rightarrow> ('z db_scheme) runtime" where
  "db_runtime E =
     \<lparr>rt_now = db_now,
      rt_uuid = (\<lambda>d. (x_new_uuid E (db_draws d), d\<lparr>db_draws := Suc (db_draws d)\<rparr>)),
      rt_rand = (\<lambda>n d. (x_rand_read E (db_draws d) n, d\<lparr>db_draws := Suc (db_draws d)\<rparr>)),
      rt_salt = (\<lambda>d. (db_draws d, d\<lparr>db_draws := Suc (db_draws d)\<rparr>))\<rparr>"

section \<open>Statements\<close>

definition sqlP ::
  "('d \<Rightarrow> (bool \<times> sql_error) list) \<Rightarrow> ('d \<Rightarrow> 'a \<times> 'd) \<Rightarrow> ('d, err, 'a) prog" where
  "sqlP checks act =
     (\<lambda>d. case find fst (checks d) of
            Some (_, e) \<Rightarrow> (Inl (Sql e), d)
          | None \<Rightarrow> (case act d of (x, d') \<Rightarrow> (Inr x, d')))"

text \<open>A \<open>:one\<close> query: the first row, or \<open>sql.ErrNoRows\<close>\<close>

definition one_row :: "'r option \<Rightarrow> err + 'r" where
  "one_row r = (case r of None \<Rightarrow> Inl NoRows | Some x \<Rightarrow> Inr x)"

text \<open>\<open>LIMIT l OFFSET o\<close>\<close>

definition limit_offset :: "int \<Rightarrow> int \<Rightarrow> 'r list \<Rightarrow> err + 'r list" where
  "limit_offset l off rows =
     (if l < 0 then Inl (Sql NegativeLimit)
      else if off < 0 then Inl (Sql NegativeOffset)
      else Inr (take (nat l) (drop (nat off) rows)))"

text \<open>\<open>COUNT(*)::int\<close>\<close>

definition count_int :: "'r list \<Rightarrow> err + int" where
  "count_int rows =
     (if int (length rows) < 2 ^ 31 then Inr (int (length rows)) else Inl (Sql OutOfRange))"

text \<open>\<open>$n::text = '' OR column::text = $n::text\<close>\<close>

definition text_filter :: "string \<Rightarrow> string \<Rightarrow> bool" where
  "text_filter f v \<longleftrightarrow> f = [] \<or> v = f"

lemma sqlP_Inr:
  "sqlP checks act d = (Inr x, d') \<longleftrightarrow> (\<forall>c \<in> set (checks d). \<not> fst c) \<and> act d = (x, d')"
  by (auto simp: sqlP_def find_None_iff find_Some_iff split: option.splits prod.splits)

lemma sqlP_Inl: "sqlP checks act d = (Inl e, d') \<Longrightarrow> d' = d \<and> (\<exists>c. (True, c) \<in> set (checks d) \<and> e = Sql c)"
proof -
  assume e: "sqlP checks act d = (Inl e, d')"
  then obtain b c where "find fst (checks d) = Some (b, c)"
    by (auto simp: sqlP_def split: option.splits prod.splits)
  moreover from this have "(b, c) \<in> set (checks d)" "b"
    by (auto simp: find_Some_iff) (metis fst_conv)
  ultimately show ?thesis using e by (auto simp: sqlP_def)
qed

lemma keeps_sqlP:
  "(\<And>d. I d \<Longrightarrow> \<forall>c \<in> set (checks d). \<not> fst c \<Longrightarrow> I (snd (act d))) \<Longrightarrow> keeps I (sqlP checks act)"
  unfolding keeps_def
proof (intro allI impI)
  fix s
  assume act: "\<And>d. I d \<Longrightarrow> \<forall>c \<in> set (checks d). \<not> fst c \<Longrightarrow> I (snd (act d))" and s: "I s"
  show "I (snd (sqlP checks act s))"
  proof (cases "find fst (checks s)")
    case None
    then have "\<forall>c \<in> set (checks s). \<not> fst c" by (auto simp: find_None_iff)
    with act [OF s] None show ?thesis by (cases "act s") (simp add: sqlP_def)
  next
    case (Some c)
    with s show ?thesis by (simp add: sqlP_def split: prod.split)
  qed
qed

section \<open>The schema\<close>

definition user_role_enum :: "string list" where
  "user_role_enum = [''user'', ''admin'']"

definition word_class_enum :: "string list" where
  "word_class_enum = [''n'', ''v'', ''a'', ''adv'', ''p'', ''pb'', ''ki'', ''num'', ''pron'']"

definition dialect_enum :: "string list" where
  "dialect_enum = [''hulu'']"

definition word_source_enum :: "string list" where
  "word_source_enum = [''seeded'', ''contributed'', ''ai_generated'']"

definition word_status_enum :: "string list" where
  "word_status_enum = [''active'', ''deprecated'']"

definition contribution_type_enum :: "string list" where
  "contribution_type_enum = [''new_word'', ''new_definition'', ''new_example'', ''edit_word'']"

definition contribution_status_enum :: "string list" where
  "contribution_status_enum = [''pending'', ''approved'', ''rejected'', ''withdrawn'']"

definition vote_target_enum :: "string list" where
  "vote_target_enum = [''word'', ''definition'']"

definition vote_value_enum :: "string list" where
  "vote_value_enum = [''up'', ''down'']"

definition comment_target_enum :: "string list" where
  "comment_target_enum = [''word'', ''contribution'']"

text \<open>A nullable foreign key\<close>

definition opt_in :: "'k option \<Rightarrow> 'k set \<Rightarrow> bool" where
  "opt_in k K \<longleftrightarrow> (case k of None \<Rightarrow> True | Some x \<Rightarrow> x \<in> K)"

definition user_ids :: "'z db_scheme \<Rightarrow> uuid set" where
  "user_ids d = ur_id ` set (db_users d)"

definition word_ids :: "'z db_scheme \<Rightarrow> uuid set" where
  "word_ids d = wr_id ` set (db_words d)"

definition contribution_ids :: "'z db_scheme \<Rightarrow> uuid set" where
  "contribution_ids d = cr_id ` set (db_contributions d)"

text \<open>The constraint \<open>words_unique\<close>; \<open>NULLS NOT DISTINCT\<close> makes it equality of options.\<close>

definition word_key :: "word_row \<Rightarrow> string \<times> string \<times> int \<times> bool \<times> uuid option" where
  "word_key w = (wr_banjar w, wr_dialect w, wr_homonym w, wr_is_root w, wr_root w)"

definition vote_key :: "vote_row \<Rightarrow> uuid \<times> string \<times> uuid" where
  "vote_key v = (vr_user v, vr_type v, vr_target v)"

definition bookmark_key :: "bookmark_row \<Rightarrow> uuid \<times> uuid" where
  "bookmark_key b = (br_user b, br_word b)"

text \<open>One table each: keys are distinct, enum columns hold values of their type, foreign keys
  point to rows.\<close>

definition users_ok :: "user_row list \<Rightarrow> bool" where
  "users_ok us \<longleftrightarrow>
     distinct (map ur_id us) \<and> distinct (map ur_email us) \<and>
     (\<forall>u \<in> set us. ur_role u \<in> set user_role_enum)"

definition word_row_ok :: "uuid set \<Rightarrow> uuid set \<Rightarrow> word_row \<Rightarrow> bool" where
  "word_row_ok U W w \<longleftrightarrow>
     wr_dialect w \<in> set dialect_enum \<and> wr_word_class w \<in> set word_class_enum \<and>
     wr_status w \<in> set word_status_enum \<and> wr_source w \<in> set word_source_enum \<and>
     opt_in (wr_root w) W \<and> opt_in (wr_created_by w) U"

definition words_ok :: "uuid set \<Rightarrow> word_row list \<Rightarrow> bool" where
  "words_ok U ws \<longleftrightarrow>
     distinct (map wr_id ws) \<and> distinct (map word_key ws) \<and>
     (\<forall>w \<in> set ws. word_row_ok U (wr_id ` set ws) w)"

definition definitions_ok :: "uuid set \<Rightarrow> definition_row list \<Rightarrow> bool" where
  "definitions_ok W ds \<longleftrightarrow>
     distinct (map dr_id ds) \<and>
     (\<forall>x \<in> set ds. dr_word x \<in> W \<and> dr_source x \<in> set word_source_enum)"

definition examples_ok :: "uuid set \<Rightarrow> example_row list \<Rightarrow> bool" where
  "examples_ok W xs \<longleftrightarrow>
     distinct (map xr_id xs) \<and>
     (\<forall>x \<in> set xs. xr_word x \<in> W \<and> xr_source x \<in> set word_source_enum)"

definition contribution_row_ok :: "uuid set \<Rightarrow> uuid set \<Rightarrow> contribution_row \<Rightarrow> bool" where
  "contribution_row_ok U W c \<longleftrightarrow>
     cr_type c \<in> set contribution_type_enum \<and> cr_status c \<in> set contribution_status_enum \<and>
     cr_contributor c \<in> U \<and> opt_in (cr_target c) W \<and> opt_in (cr_reviewer c) U"

definition contributions_ok :: "uuid set \<Rightarrow> uuid set \<Rightarrow> contribution_row list \<Rightarrow> bool" where
  "contributions_ok U W cs \<longleftrightarrow>
     distinct (map cr_id cs) \<and> (\<forall>c \<in> set cs. contribution_row_ok U W c)"

definition votes_ok :: "uuid set \<Rightarrow> vote_row list \<Rightarrow> bool" where
  "votes_ok U vs \<longleftrightarrow>
     distinct (map vr_id vs) \<and> distinct (map vote_key vs) \<and>
     (\<forall>v \<in> set vs. vr_user v \<in> U \<and> vr_type v \<in> set vote_target_enum \<and>
        vr_value v \<in> set vote_value_enum)"

definition bookmarks_ok :: "uuid set \<Rightarrow> uuid set \<Rightarrow> bookmark_row list \<Rightarrow> bool" where
  "bookmarks_ok U W bs \<longleftrightarrow>
     distinct (map br_id bs) \<and> distinct (map bookmark_key bs) \<and>
     (\<forall>b \<in> set bs. br_user b \<in> U \<and> br_word b \<in> W)"

definition comments_ok :: "uuid set \<Rightarrow> comment_row list \<Rightarrow> bool" where
  "comments_ok U cs \<longleftrightarrow>
     distinct (map mr_id cs) \<and>
     (\<forall>c \<in> set cs. mr_user c \<in> U \<and> mr_type c \<in> set comment_target_enum)"

definition audit_ok :: "uuid set \<Rightarrow> audit_row list \<Rightarrow> bool" where
  "audit_ok U as \<longleftrightarrow> distinct (map ar_id as) \<and> (\<forall>a \<in> set as. ar_actor a \<in> U)"

definition ai_ok :: "uuid set \<Rightarrow> uuid set \<Rightarrow> uuid set \<Rightarrow> ai_row list \<Rightarrow> bool" where
  "ai_ok U W C qs \<longleftrightarrow>
     distinct (map qr_id qs) \<and>
     (\<forall>q \<in> set qs. qr_requested_by q \<in> U \<and> opt_in (qr_word q) W \<and>
        opt_in (qr_contribution q) C \<and> opt_in (qr_reviewed_by q) U)"

definition db_ok :: "'z db_scheme \<Rightarrow> bool" where
  "db_ok d \<longleftrightarrow>
     users_ok (db_users d) \<and>
     words_ok (user_ids d) (db_words d) \<and>
     definitions_ok (word_ids d) (db_definitions d) \<and>
     examples_ok (word_ids d) (db_examples d) \<and>
     contributions_ok (user_ids d) (word_ids d) (db_contributions d) \<and>
     votes_ok (user_ids d) (db_votes d) \<and>
     bookmarks_ok (user_ids d) (word_ids d) (db_bookmarks d) \<and>
     comments_ok (user_ids d) (db_comments d) \<and>
     audit_ok (user_ids d) (db_audit_logs d) \<and>
     ai_ok (user_ids d) (word_ids d) (contribution_ids d) (db_ai_requests d)"

section \<open>Lemmas\<close>

lemma opt_in_simps [simp]: "opt_in None K" "opt_in (Some k) K \<longleftrightarrow> k \<in> K"
  by (simp_all add: opt_in_def)

lemma opt_in_mono: "opt_in k K \<Longrightarrow> K \<subseteq> K' \<Longrightarrow> opt_in k K'"
  by (cases k) auto

lemma words_ok_mono: "words_ok U ws \<Longrightarrow> U \<subseteq> U' \<Longrightarrow> words_ok U' ws"
  by (auto simp: words_ok_def word_row_ok_def intro: opt_in_mono)

lemma definitions_ok_mono: "definitions_ok W ds \<Longrightarrow> W \<subseteq> W' \<Longrightarrow> definitions_ok W' ds"
  by (auto simp: definitions_ok_def)

lemma examples_ok_mono: "examples_ok W xs \<Longrightarrow> W \<subseteq> W' \<Longrightarrow> examples_ok W' xs"
  by (auto simp: examples_ok_def)

lemma contributions_ok_mono:
  "contributions_ok U W cs \<Longrightarrow> U \<subseteq> U' \<Longrightarrow> W \<subseteq> W' \<Longrightarrow> contributions_ok U' W' cs"
  by (auto simp: contributions_ok_def contribution_row_ok_def intro: opt_in_mono)

lemma votes_ok_mono: "votes_ok U vs \<Longrightarrow> U \<subseteq> U' \<Longrightarrow> votes_ok U' vs"
  by (auto simp: votes_ok_def)

lemma bookmarks_ok_mono: "bookmarks_ok U W bs \<Longrightarrow> U \<subseteq> U' \<Longrightarrow> W \<subseteq> W' \<Longrightarrow> bookmarks_ok U' W' bs"
  by (auto simp: bookmarks_ok_def)

lemma comments_ok_mono: "comments_ok U cs \<Longrightarrow> U \<subseteq> U' \<Longrightarrow> comments_ok U' cs"
  by (auto simp: comments_ok_def)

lemma audit_ok_mono: "audit_ok U as \<Longrightarrow> U \<subseteq> U' \<Longrightarrow> audit_ok U' as"
  by (auto simp: audit_ok_def)

lemma ai_ok_mono: "ai_ok U W C qs \<Longrightarrow> U \<subseteq> U' \<Longrightarrow> W \<subseteq> W' \<Longrightarrow> C \<subseteq> C' \<Longrightarrow> ai_ok U' W' C' qs"
  by (auto simp: ai_ok_def intro: opt_in_mono)

lemma ids_simps [simp]:
  "user_ids (d\<lparr>db_users := us\<rparr>) = ur_id ` set us"
  "word_ids (d\<lparr>db_words := ws\<rparr>) = wr_id ` set ws"
  "contribution_ids (d\<lparr>db_contributions := cs\<rparr>) = cr_id ` set cs"
  by (simp_all add: user_ids_def word_ids_def contribution_ids_def)

text \<open>A statement writes one table: what remains to be shown is about that table.\<close>

lemma db_ok_users:
  "db_ok d \<Longrightarrow> users_ok us \<Longrightarrow> user_ids d \<subseteq> ur_id ` set us \<Longrightarrow> db_ok (d\<lparr>db_users := us\<rparr>)"
  by (auto simp: db_ok_def word_ids_def contribution_ids_def intro: words_ok_mono votes_ok_mono comments_ok_mono audit_ok_mono
      elim!: contributions_ok_mono bookmarks_ok_mono ai_ok_mono)

lemma db_ok_words:
  "db_ok d \<Longrightarrow> words_ok (user_ids d) ws \<Longrightarrow> word_ids d \<subseteq> wr_id ` set ws \<Longrightarrow>
     db_ok (d\<lparr>db_words := ws\<rparr>)"
  by (auto simp: db_ok_def user_ids_def contribution_ids_def intro: definitions_ok_mono examples_ok_mono
      elim!: contributions_ok_mono bookmarks_ok_mono ai_ok_mono)

lemma db_ok_definitions:
  "db_ok d \<Longrightarrow> definitions_ok (word_ids d) ds \<Longrightarrow> db_ok (d\<lparr>db_definitions := ds\<rparr>)"
  by (simp add: db_ok_def user_ids_def word_ids_def contribution_ids_def)

lemma db_ok_examples:
  "db_ok d \<Longrightarrow> examples_ok (word_ids d) xs \<Longrightarrow> db_ok (d\<lparr>db_examples := xs\<rparr>)"
  by (simp add: db_ok_def user_ids_def word_ids_def contribution_ids_def)

lemma db_ok_contributions:
  "db_ok d \<Longrightarrow> contributions_ok (user_ids d) (word_ids d) cs \<Longrightarrow>
     contribution_ids d \<subseteq> cr_id ` set cs \<Longrightarrow> db_ok (d\<lparr>db_contributions := cs\<rparr>)"
  by (auto simp: db_ok_def user_ids_def word_ids_def elim!: ai_ok_mono)

lemma db_ok_votes: "db_ok d \<Longrightarrow> votes_ok (user_ids d) vs \<Longrightarrow> db_ok (d\<lparr>db_votes := vs\<rparr>)"
  by (simp add: db_ok_def user_ids_def word_ids_def contribution_ids_def)

lemma db_ok_bookmarks:
  "db_ok d \<Longrightarrow> bookmarks_ok (user_ids d) (word_ids d) bs \<Longrightarrow> db_ok (d\<lparr>db_bookmarks := bs\<rparr>)"
  by (simp add: db_ok_def user_ids_def word_ids_def contribution_ids_def)

lemma db_ok_comments: "db_ok d \<Longrightarrow> comments_ok (user_ids d) cs \<Longrightarrow> db_ok (d\<lparr>db_comments := cs\<rparr>)"
  by (simp add: db_ok_def user_ids_def word_ids_def contribution_ids_def)

lemma db_ok_audit: "db_ok d \<Longrightarrow> audit_ok (user_ids d) as \<Longrightarrow> db_ok (d\<lparr>db_audit_logs := as\<rparr>)"
  by (simp add: db_ok_def user_ids_def word_ids_def contribution_ids_def)

lemma db_ok_ai:
  "db_ok d \<Longrightarrow> ai_ok (user_ids d) (word_ids d) (contribution_ids d) qs \<Longrightarrow>
     db_ok (d\<lparr>db_ai_requests := qs\<rparr>)"
  by (simp add: db_ok_def user_ids_def word_ids_def contribution_ids_def)

lemma db_ok_now_draws [simp]:
  "db_ok (d\<lparr>db_now := t\<rparr>) \<longleftrightarrow> db_ok d" "db_ok (d\<lparr>db_draws := n\<rparr>) \<longleftrightarrow> db_ok d"
  by (simp_all add: db_ok_def user_ids_def word_ids_def contribution_ids_def)

lemma db_empty_ok: "db_ok (db_empty t)"
  by (simp add: db_ok_def db_empty_def users_ok_def words_ok_def definitions_ok_def examples_ok_def
      contributions_ok_def votes_ok_def bookmarks_ok_def comments_ok_def audit_ok_def ai_ok_def)

lemma keeps_db_uuid [triple_intros]: "keeps db_ok (uuidP (db_runtime E))"
  by (simp add: keeps_def uuidP_def db_runtime_def)

lemma keeps_db_now [triple_intros]: "keeps I (nowP R)"
  by (simp add: keeps_def nowP_def getP_def)

lemma keeps_db_salt [triple_intros]: "keeps db_ok (saltP (db_runtime E))"
  by (simp add: keeps_def saltP_def db_runtime_def)

lemma keeps_db_rand [triple_intros]: "keeps db_ok (rt_rand (db_runtime E) n)"
  by (simp add: keeps_def db_runtime_def)

lemma limit_offset_Inr:
  "limit_offset l off rows = Inr xs \<Longrightarrow> set xs \<subseteq> set rows \<and> length xs \<le> nat l"
  by (auto simp: limit_offset_def split: if_splits dest!: in_set_takeD in_set_dropD)

end
