(* ===== verification/Community_Store.thy ===== *)
theory Community_Store
  imports Community_Domain Database Pagination
begin

text \<open>
  The storage of the community context: the SQL statements on contributions, votes, bookmarks
  and comments (\<open>infrastructure/postgres/sqlc\<close>), the four repositories and the checkers
  (\<open>infrastructure/postgres\<close>).
\<close>

section \<open>Contributions (\<open>contributions.sql.go\<close>)\<close>

definition CreateContribution ::
  "uuid \<Rightarrow> string \<Rightarrow> uuid \<Rightarrow> uuid option \<Rightarrow> json \<Rightarrow> ('z db_scheme, err, contribution_row) prog" where
  "CreateContribution i ctype contributor target payload = sqlP
     (\<lambda>d. [(ctype \<notin> set contribution_type_enum, InvalidEnum ctype),
           (i \<in> contribution_ids d, UniqueViolation ''contributions_pkey''),
           (contributor \<notin> user_ids d, ForeignKeyViolation ''contributions_contributor_id_fkey''),
           (\<not> opt_in target (word_ids d), ForeignKeyViolation ''contributions_target_word_id_fkey'')])
     (\<lambda>d. let r = \<lparr>cr_id = i, cr_type = ctype, cr_contributor = contributor, cr_target = target,
                   cr_payload = payload, cr_status = ''pending'', cr_reviewer = None, cr_note = None,
                   cr_submitted_at = db_now d, cr_reviewed_at = None\<rparr>
          in (r, d\<lparr>db_contributions := db_contributions d @ [r]\<rparr>))"

definition GetContributionByID :: "uuid \<Rightarrow> ('z db_scheme, err, contribution_row) prog" where
  "GetContributionByID i = readP (\<lambda>d. one_row (lookup_by cr_id i (db_contributions d)))"

definition contribution_filter :: "string \<Rightarrow> string \<Rightarrow> contribution_row \<Rightarrow> bool" where
  "contribution_filter status ctype r \<longleftrightarrow>
     text_filter status (cr_status r) \<and> text_filter ctype (cr_type r)"

definition newest_contribution :: "contribution_row \<Rightarrow> contribution_row \<Rightarrow> bool" where
  "newest_contribution a b \<longleftrightarrow> cr_submitted_at b \<le> cr_submitted_at a"

definition CountAllContributions :: "string \<Rightarrow> string \<Rightarrow> ('z db_scheme, err, int) prog" where
  "CountAllContributions status ctype =
     readP (\<lambda>d. count_int (filter (contribution_filter status ctype) (db_contributions d)))"

definition ListAllContributions ::
  "string \<Rightarrow> string \<Rightarrow> int \<Rightarrow> int \<Rightarrow> ('z db_scheme, err, contribution_row list) prog" where
  "ListAllContributions status ctype l off =
     readP (\<lambda>d. limit_offset l off
       (sort_by newest_contribution (filter (contribution_filter status ctype) (db_contributions d))))"

definition CountContributionsByContributor ::
  "uuid \<Rightarrow> string \<Rightarrow> string \<Rightarrow> ('z db_scheme, err, int) prog" where
  "CountContributionsByContributor u status ctype =
     readP (\<lambda>d. count_int
       (filter (\<lambda>r. cr_contributor r = u \<and> contribution_filter status ctype r) (db_contributions d)))"

definition ListContributionsByContributor ::
  "uuid \<Rightarrow> string \<Rightarrow> string \<Rightarrow> int \<Rightarrow> int \<Rightarrow> ('z db_scheme, err, contribution_row list) prog" where
  "ListContributionsByContributor u status ctype l off =
     readP (\<lambda>d. limit_offset l off (sort_by newest_contribution
       (filter (\<lambda>r. cr_contributor r = u \<and> contribution_filter status ctype r) (db_contributions d))))"

definition UpdateContribution ::
  "uuid \<Rightarrow> string \<Rightarrow> uuid option \<Rightarrow> string option \<Rightarrow> time option \<Rightarrow>
     ('z db_scheme, err, contribution_row) prog" where
  "UpdateContribution i status reviewer note reviewed =
     bindP (sqlP
       (\<lambda>d. [(status \<notin> set contribution_status_enum, InvalidEnum status),
             (i \<in> contribution_ids d \<and> \<not> opt_in reviewer (user_ids d),
              ForeignKeyViolation ''contributions_reviewer_id_fkey'')])
       (\<lambda>d. ((), d\<lparr>db_contributions := update_where (\<lambda>r. cr_id r = i)
          (\<lambda>r. r\<lparr>cr_status := status, cr_reviewer := reviewer, cr_note := note,
                 cr_reviewed_at := reviewed\<rparr>) (db_contributions d)\<rparr>)))
     (\<lambda>_. GetContributionByID i)"

section \<open>Votes (\<open>votes.sql.go\<close>)\<close>

definition UpsertVote :: "vote_row \<Rightarrow> ('z db_scheme, err, vote_row) prog" where
  "UpsertVote r =
     bindP (sqlP
       (\<lambda>d. let old = vote_key r \<in> vote_key ` set (db_votes d) in
            [(vr_type r \<notin> set vote_target_enum, InvalidEnum (vr_type r)),
             (vr_value r \<notin> set vote_value_enum, InvalidEnum (vr_value r)),
             (\<not> old \<and> vr_id r \<in> vr_id ` set (db_votes d), UniqueViolation ''votes_pkey''),
             (\<not> old \<and> vr_user r \<notin> user_ids d, ForeignKeyViolation ''votes_user_id_fkey'')])
       (\<lambda>d. ((), d\<lparr>db_votes :=
          (if vote_key r \<in> vote_key ` set (db_votes d) then
             update_where (\<lambda>v. vote_key v = vote_key r) (\<lambda>v. v\<lparr>vr_value := vr_value r\<rparr>) (db_votes d)
           else db_votes d @ [r\<lparr>vr_created_at := db_now d\<rparr>])\<rparr>)))
     (\<lambda>_. readP (\<lambda>d. one_row (lookup_by vote_key (vote_key r) (db_votes d))))"

definition GetVoteByUserAndTarget ::
  "uuid \<Rightarrow> string \<Rightarrow> uuid \<Rightarrow> ('z db_scheme, err, vote_row) prog" where
  "GetVoteByUserAndTarget u ty t =
     readP (\<lambda>d. if ty \<notin> set vote_target_enum then Inl (Sql (InvalidEnum ty))
                else one_row (lookup_by vote_key (u, ty, t) (db_votes d)))"

definition DeleteVote :: "uuid \<Rightarrow> string \<Rightarrow> uuid \<Rightarrow> ('z db_scheme, err, unit) prog" where
  "DeleteVote u ty t =
     sqlP (\<lambda>d. [(ty \<notin> set vote_target_enum, InvalidEnum ty)])
       (\<lambda>d. ((), d\<lparr>db_votes := delete_where (\<lambda>v. vote_key v = (u, ty, t)) (db_votes d)\<rparr>))"

section \<open>Bookmarks (\<open>bookmarks.sql.go\<close>)\<close>

definition CreateBookmark :: "uuid \<Rightarrow> uuid \<Rightarrow> uuid \<Rightarrow> ('z db_scheme, err, bookmark_row) prog" where
  "CreateBookmark i u w = sqlP
     (\<lambda>d. [(i \<in> br_id ` set (db_bookmarks d), UniqueViolation ''bookmarks_pkey''),
           ((u, w) \<in> bookmark_key ` set (db_bookmarks d), UniqueViolation ''bookmarks_unique''),
           (u \<notin> user_ids d, ForeignKeyViolation ''bookmarks_user_id_fkey''),
           (w \<notin> word_ids d, ForeignKeyViolation ''bookmarks_word_id_fkey'')])
     (\<lambda>d. let r = \<lparr>br_id = i, br_user = u, br_word = w, br_created_at = db_now d\<rparr>
          in (r, d\<lparr>db_bookmarks := db_bookmarks d @ [r]\<rparr>))"

definition DeleteBookmark :: "uuid \<Rightarrow> uuid \<Rightarrow> ('z db_scheme, err, unit) prog" where
  "DeleteBookmark u w =
     (\<lambda>d. (Inr (), d\<lparr>db_bookmarks := delete_where (\<lambda>b. bookmark_key b = (u, w)) (db_bookmarks d)\<rparr>))"

definition GetBookmarkByUserAndWord :: "uuid \<Rightarrow> uuid \<Rightarrow> ('z db_scheme, err, bookmark_row) prog" where
  "GetBookmarkByUserAndWord u w =
     readP (\<lambda>d. one_row (lookup_by bookmark_key (u, w) (db_bookmarks d)))"

definition CountBookmarksByUser :: "uuid \<Rightarrow> ('z db_scheme, err, int) prog" where
  "CountBookmarksByUser u = readP (\<lambda>d. count_int (filter (\<lambda>b. br_user b = u) (db_bookmarks d)))"

definition ListBookmarksByUser :: "uuid \<Rightarrow> int \<Rightarrow> int \<Rightarrow> ('z db_scheme, err, bookmark_row list) prog" where
  "ListBookmarksByUser u l off =
     readP (\<lambda>d. limit_offset l off
       (sort_by (\<lambda>a b. br_created_at b \<le> br_created_at a) (filter (\<lambda>b. br_user b = u) (db_bookmarks d))))"

section \<open>Comments (\<open>comments.sql.go\<close>)\<close>

definition CreateComment ::
  "uuid \<Rightarrow> uuid \<Rightarrow> string \<Rightarrow> uuid \<Rightarrow> string \<Rightarrow> ('z db_scheme, err, comment_row) prog" where
  "CreateComment i u ty t body = sqlP
     (\<lambda>d. [(ty \<notin> set comment_target_enum, InvalidEnum ty),
           (i \<in> mr_id ` set (db_comments d), UniqueViolation ''comments_pkey''),
           (u \<notin> user_ids d, ForeignKeyViolation ''comments_user_id_fkey'')])
     (\<lambda>d. let r = \<lparr>mr_id = i, mr_user = u, mr_type = ty, mr_target = t, mr_body = body,
                   mr_flagged = False, mr_created_at = db_now d, mr_updated_at = db_now d\<rparr>
          in (r, d\<lparr>db_comments := db_comments d @ [r]\<rparr>))"

definition GetCommentByID :: "uuid \<Rightarrow> ('z db_scheme, err, comment_row) prog" where
  "GetCommentByID i = readP (\<lambda>d. one_row (lookup_by mr_id i (db_comments d)))"

definition comment_on :: "string \<Rightarrow> uuid \<Rightarrow> comment_row \<Rightarrow> bool" where
  "comment_on ty t r \<longleftrightarrow> mr_type r = ty \<and> mr_target r = t"

definition CountCommentsByTarget :: "string \<Rightarrow> uuid \<Rightarrow> ('z db_scheme, err, int) prog" where
  "CountCommentsByTarget ty t =
     readP (\<lambda>d. if ty \<notin> set comment_target_enum then Inl (Sql (InvalidEnum ty))
                else count_int (filter (comment_on ty t) (db_comments d)))"

definition oldest_comment :: "comment_row \<Rightarrow> comment_row \<Rightarrow> bool" where
  "oldest_comment a b \<longleftrightarrow> mr_created_at a \<le> mr_created_at b"

definition ListCommentsByTarget ::
  "string \<Rightarrow> uuid \<Rightarrow> int \<Rightarrow> int \<Rightarrow> ('z db_scheme, err, comment_row list) prog" where
  "ListCommentsByTarget ty t l off =
     readP (\<lambda>d. if ty \<notin> set comment_target_enum then Inl (Sql (InvalidEnum ty))
                else limit_offset l off (sort_by oldest_comment (filter (comment_on ty t) (db_comments d))))"

definition CountFlaggedComments :: "('z db_scheme, err, int) prog" where
  "CountFlaggedComments = readP (\<lambda>d. count_int (filter mr_flagged (db_comments d)))"

definition ListFlaggedComments :: "int \<Rightarrow> int \<Rightarrow> ('z db_scheme, err, comment_row list) prog" where
  "ListFlaggedComments l off =
     readP (\<lambda>d. limit_offset l off (sort_by oldest_comment (filter mr_flagged (db_comments d))))"

definition UpdateComment :: "uuid \<Rightarrow> string \<Rightarrow> ('z db_scheme, err, comment_row) prog" where
  "UpdateComment i body =
     bindP (\<lambda>d. (Inr (), d\<lparr>db_comments := update_where (\<lambda>r. mr_id r = i)
        (\<lambda>r. r\<lparr>mr_body := body, mr_updated_at := db_now d\<rparr>) (db_comments d)\<rparr>))
     (\<lambda>_. GetCommentByID i)"

text \<open>A statement of the generated package that no repository uses\<close>

definition FlagComment_stmt :: "uuid \<Rightarrow> ('z db_scheme, err, comment_row) prog" where
  "FlagComment_stmt i =
     bindP (\<lambda>d. (Inr (), d\<lparr>db_comments := update_where (\<lambda>r. mr_id r = i)
        (\<lambda>r. r\<lparr>mr_flagged := True, mr_updated_at := db_now d\<rparr>) (db_comments d)\<rparr>))
     (\<lambda>_. GetCommentByID i)"

definition DeleteComment_stmt :: "uuid \<Rightarrow> ('z db_scheme, err, unit) prog" where
  "DeleteComment_stmt i =
     (\<lambda>d. (Inr (), d\<lparr>db_comments := delete_where (\<lambda>r. mr_id r = i) (db_comments d)\<rparr>))"

section \<open>The contribution repository (\<open>contribution_repo.go\<close>)\<close>

record contribution_filters =
  cf_status :: "string option"
  cf_type :: "string option"

record 's contribution_repository =
  crp_Create :: "contribution \<Rightarrow> ('s, err, contribution) prog"
  crp_FindByID :: "uuid \<Rightarrow> ('s, err, contribution) prog"
  crp_FindByContributor ::
    "uuid \<Rightarrow> contribution_filters \<Rightarrow> int \<Rightarrow> int \<Rightarrow> ('s, err, contribution list \<times> int) prog"
  crp_FindAll :: "contribution_filters \<Rightarrow> int \<Rightarrow> int \<Rightarrow> ('s, err, contribution list \<times> int) prog"
  crp_Update :: "contribution \<Rightarrow> ('s, err, unit) prog"

definition rowToContribution :: "contribution_row \<Rightarrow> contribution" where
  "rowToContribution r =
     \<lparr>cb_id = cr_id r, cb_type = cr_type r, cb_contributor = cr_contributor r,
      cb_target = cr_target r,
      cb_payload = (case unmarshal_map (cr_payload r) of Some m \<Rightarrow> m | None \<Rightarrow> Some []),
      cb_status = cr_status r, cb_reviewer = cr_reviewer r, cb_note = cr_note r,
      cb_submitted_at = cr_submitted_at r, cb_reviewed_at = cr_reviewed_at r\<rparr>"

text \<open>\<open>Create\<close> sets the submission time of its argument: the model returns the changed value.\<close>

definition ContribRepo_Create :: "contribution \<Rightarrow> ('z db_scheme, err, contribution) prog" where
  "ContribRepo_Create c =
     bindP (CreateContribution (cb_id c) (cb_type c) (cb_contributor c) (cb_target c)
              (json_of_map (cb_payload c))) (\<lambda>row.
     retP (c\<lparr>cb_submitted_at := cr_submitted_at row\<rparr>))"

definition contribution_not_found :: "err \<Rightarrow> err" where
  "contribution_not_found e =
     (if errors_is e NoRows then Community ErrContributionNotFound else e)"

definition ContribRepo_FindByID :: "uuid \<Rightarrow> ('z db_scheme, err, contribution) prog" where
  "ContribRepo_FindByID i =
     bindP (errP (GetContributionByID i) contribution_not_found) (\<lambda>row. retP (rowToContribution row))"

definition contribution_filterStrings :: "contribution_filters \<Rightarrow> string \<times> string" where
  "contribution_filterStrings f =
     ((case cf_status f of Some s \<Rightarrow> s | None \<Rightarrow> []), (case cf_type f of Some t \<Rightarrow> t | None \<Rightarrow> []))"

definition ContribRepo_FindByContributor ::
  "uuid \<Rightarrow> contribution_filters \<Rightarrow> int \<Rightarrow> int \<Rightarrow> ('z db_scheme, err, contribution list \<times> int) prog" where
  "ContribRepo_FindByContributor u f page perPage =
     (case contribution_filterStrings f of (status, ctype) \<Rightarrow>
      bindP (CountContributionsByContributor u status ctype) (\<lambda>tot.
      bindP (ListContributionsByContributor u status ctype (sql_limit perPage) (sql_offset page perPage))
        (\<lambda>rows. retP (map rowToContribution rows, tot))))"

definition ContribRepo_FindAll ::
  "contribution_filters \<Rightarrow> int \<Rightarrow> int \<Rightarrow> ('z db_scheme, err, contribution list \<times> int) prog" where
  "ContribRepo_FindAll f page perPage =
     (case contribution_filterStrings f of (status, ctype) \<Rightarrow>
      bindP (CountAllContributions status ctype) (\<lambda>tot.
      bindP (ListAllContributions status ctype (sql_limit perPage) (sql_offset page perPage))
        (\<lambda>rows. retP (map rowToContribution rows, tot))))"

definition ContribRepo_Update :: "contribution \<Rightarrow> ('z db_scheme, err, unit) prog" where
  "ContribRepo_Update c =
     bindP (UpdateContribution (cb_id c) (cb_status c) (cb_reviewer c) (cb_note c) (cb_reviewed_at c))
       (\<lambda>_. retP ())"

definition PostgresContributionRepository :: "('z db_scheme) contribution_repository" where
  "PostgresContributionRepository =
     \<lparr>crp_Create = ContribRepo_Create, crp_FindByID = ContribRepo_FindByID,
      crp_FindByContributor = ContribRepo_FindByContributor, crp_FindAll = ContribRepo_FindAll,
      crp_Update = ContribRepo_Update\<rparr>"

section \<open>The other repositories\<close>

record 's vote_repository =
  vrp_Upsert :: "vote \<Rightarrow> ('s, err, vote) prog"
  vrp_Delete :: "uuid \<Rightarrow> string \<Rightarrow> uuid \<Rightarrow> ('s, err, unit) prog"
  vrp_Find :: "uuid \<Rightarrow> string \<Rightarrow> uuid \<Rightarrow> ('s, err, vote) prog"

definition vote_toDomain :: "vote_row \<Rightarrow> vote" where
  "vote_toDomain r =
     \<lparr>vt_id = vr_id r, vt_user = vr_user r, vt_type = vr_type r, vt_target = vr_target r,
      vt_value = vr_value r, vt_created_at = vr_created_at r\<rparr>"

definition VoteRepo_Upsert :: "vote \<Rightarrow> ('z db_scheme, err, vote) prog" where
  "VoteRepo_Upsert v =
     bindP (UpsertVote \<lparr>vr_id = vt_id v, vr_user = vt_user v, vr_type = vt_type v,
              vr_target = vt_target v, vr_value = vt_value v, vr_created_at = vt_created_at v\<rparr>)
       (\<lambda>row. retP (vote_toDomain row))"

definition VoteRepo_Delete :: "uuid \<Rightarrow> string \<Rightarrow> uuid \<Rightarrow> ('z db_scheme, err, unit) prog" where
  "VoteRepo_Delete u ty t = DeleteVote u ty t"

definition VoteRepo_Find :: "uuid \<Rightarrow> string \<Rightarrow> uuid \<Rightarrow> ('z db_scheme, err, vote) prog" where
  "VoteRepo_Find u ty t =
     bindP (errP (GetVoteByUserAndTarget u ty t)
              (\<lambda>e. if errors_is e NoRows then Community ErrVoteNotFound else e))
       (\<lambda>row. retP (vote_toDomain row))"

definition PostgresVoteRepository :: "('z db_scheme) vote_repository" where
  "PostgresVoteRepository =
     \<lparr>vrp_Upsert = VoteRepo_Upsert, vrp_Delete = VoteRepo_Delete, vrp_Find = VoteRepo_Find\<rparr>"

record 's bookmark_repository =
  brp_Create :: "bookmark \<Rightarrow> ('s, err, bookmark) prog"
  brp_Delete :: "uuid \<Rightarrow> uuid \<Rightarrow> ('s, err, unit) prog"
  brp_FindByUser :: "uuid \<Rightarrow> int \<Rightarrow> int \<Rightarrow> ('s, err, bookmark list \<times> int) prog"
  brp_Exists :: "uuid \<Rightarrow> uuid \<Rightarrow> ('s, err, bool) prog"

definition bookmark_toDomain :: "bookmark_row \<Rightarrow> bookmark" where
  "bookmark_toDomain r =
     \<lparr>bm_id = br_id r, bm_user = br_user r, bm_word = br_word r, bm_created_at = br_created_at r\<rparr>"

text \<open>\<open>isUniqueViolation\<close> of \<open>contribution_repo.go\<close>, which searches with \<open>strings.Contains\<close>\<close>

definition community_isUniqueViolation :: "ext \<Rightarrow> err \<Rightarrow> bool" where
  "community_isUniqueViolation E e \<longleftrightarrow> strings_contains (err_text (x_sql_text E) e) ''23505''"

definition BookmarkRepo_Create :: "ext \<Rightarrow> bookmark \<Rightarrow> ('z db_scheme, err, bookmark) prog" where
  "BookmarkRepo_Create E b =
     bindP (errP (CreateBookmark (bm_id b) (bm_user b) (bm_word b))
              (\<lambda>e. if community_isUniqueViolation E e then Community ErrBookmarkConflict else e))
       (\<lambda>row. retP (bookmark_toDomain row))"

definition BookmarkRepo_Delete :: "uuid \<Rightarrow> uuid \<Rightarrow> ('z db_scheme, err, unit) prog" where
  "BookmarkRepo_Delete u w = DeleteBookmark u w"

definition BookmarkRepo_FindByUser ::
  "uuid \<Rightarrow> int \<Rightarrow> int \<Rightarrow> ('z db_scheme, err, bookmark list \<times> int) prog" where
  "BookmarkRepo_FindByUser u page perPage =
     bindP (CountBookmarksByUser u) (\<lambda>tot.
     bindP (ListBookmarksByUser u (sql_limit perPage) (sql_offset page perPage)) (\<lambda>rows.
     retP (map bookmark_toDomain rows, tot)))"

definition BookmarkRepo_Exists :: "uuid \<Rightarrow> uuid \<Rightarrow> ('z db_scheme, err, bool) prog" where
  "BookmarkRepo_Exists u w =
     bindP (tryP (GetBookmarkByUserAndWord u w)) (\<lambda>r.
     case r of
       Inl e \<Rightarrow> if errors_is e NoRows then retP False else failP e
     | Inr _ \<Rightarrow> retP True)"

definition PostgresBookmarkRepository :: "ext \<Rightarrow> ('z db_scheme) bookmark_repository" where
  "PostgresBookmarkRepository E =
     \<lparr>brp_Create = BookmarkRepo_Create E, brp_Delete = BookmarkRepo_Delete,
      brp_FindByUser = BookmarkRepo_FindByUser, brp_Exists = BookmarkRepo_Exists\<rparr>"

record 's comment_repository =
  mrp_Create :: "comment \<Rightarrow> ('s, err, comment) prog"
  mrp_FindByID :: "uuid \<Rightarrow> ('s, err, comment) prog"
  mrp_FindByTarget :: "string \<Rightarrow> uuid \<Rightarrow> int \<Rightarrow> int \<Rightarrow> ('s, err, comment list \<times> int) prog"
  mrp_Update :: "comment \<Rightarrow> ('s, err, comment) prog"
  mrp_Delete :: "uuid \<Rightarrow> ('s, err, unit) prog"

definition rowToComment :: "comment_row \<Rightarrow> comment" where
  "rowToComment r =
     \<lparr>cm_id = mr_id r, cm_user = mr_user r, cm_type = mr_type r, cm_target = mr_target r,
      cm_body = mr_body r, cm_flagged = mr_flagged r, cm_created_at = mr_created_at r,
      cm_updated_at = mr_updated_at r\<rparr>"

definition comment_not_found :: "err \<Rightarrow> err" where
  "comment_not_found e = (if errors_is e NoRows then Community ErrCommentNotFound else e)"

definition CommentRepo_Create :: "comment \<Rightarrow> ('z db_scheme, err, comment) prog" where
  "CommentRepo_Create c =
     bindP (CreateComment (cm_id c) (cm_user c) (cm_type c) (cm_target c) (cm_body c))
       (\<lambda>row. retP (rowToComment row))"

definition CommentRepo_FindByID :: "uuid \<Rightarrow> ('z db_scheme, err, comment) prog" where
  "CommentRepo_FindByID i =
     bindP (errP (GetCommentByID i) comment_not_found) (\<lambda>row. retP (rowToComment row))"

definition CommentRepo_FindByTarget ::
  "string \<Rightarrow> uuid \<Rightarrow> int \<Rightarrow> int \<Rightarrow> ('z db_scheme, err, comment list \<times> int) prog" where
  "CommentRepo_FindByTarget ty t page perPage =
     bindP (CountCommentsByTarget ty t) (\<lambda>tot.
     bindP (ListCommentsByTarget ty t (sql_limit perPage) (sql_offset page perPage)) (\<lambda>rows.
     retP (map rowToComment rows, tot)))"

definition CommentRepo_Update :: "comment \<Rightarrow> ('z db_scheme, err, comment) prog" where
  "CommentRepo_Update c =
     bindP (errP (UpdateComment (cm_id c) (cm_body c)) comment_not_found) (\<lambda>row. retP (rowToComment row))"

definition CommentRepo_Delete :: "uuid \<Rightarrow> ('z db_scheme, err, unit) prog" where
  "CommentRepo_Delete i = DeleteComment_stmt i"

definition PostgresCommentRepository :: "('z db_scheme) comment_repository" where
  "PostgresCommentRepository =
     \<lparr>mrp_Create = CommentRepo_Create, mrp_FindByID = CommentRepo_FindByID,
      mrp_FindByTarget = CommentRepo_FindByTarget, mrp_Update = CommentRepo_Update,
      mrp_Delete = CommentRepo_Delete\<rparr>"

section \<open>Checkers (\<open>checkers.go\<close>)\<close>

definition word_Exists :: "uuid \<Rightarrow> ('z db_scheme, err, bool) prog" where
  "word_Exists i = getP (\<lambda>d. list_ex (\<lambda>r. wr_id r = i \<and> wr_deleted_at r = None) (db_words d))"

definition definition_Exists :: "uuid \<Rightarrow> ('z db_scheme, err, bool) prog" where
  "definition_Exists i = getP (\<lambda>d. list_ex (\<lambda>r. dr_id r = i) (db_definitions d))"

definition IsEmailVerified_check :: "uuid \<Rightarrow> ('z db_scheme, err, bool) prog" where
  "IsEmailVerified_check i =
     readP (\<lambda>d. case lookup_by ur_id i (db_users d) of
        None \<Rightarrow> Inl NoRows
      | Some r \<Rightarrow> Inr (ur_email_verified_at r \<noteq> None))"

end
