(* ===== verification/Community_Service.thy ===== *)
theory Community_Service
  imports Community_Store
begin

text \<open>
  \<open>internal/community/application/commands\<close>: contributions, votes, bookmarks and comments over
  the interfaces of the repositories and of the checkers.
\<close>

type_synonym 's exist_checker = "uuid \<Rightarrow> ('s, err, bool) prog"

section \<open>Contributions (\<open>contribution_commands.go\<close>)\<close>

record contribution_input =
  ci_type :: string
  ci_target :: "uuid option"
  ci_payload :: json_map

record 's contribution_svc =
  cs_repo :: "'s contribution_repository"
  cs_words :: "'s exist_checker"
  cs_verifier :: "'s exist_checker"

definition SubmitContribution ::
  "'s runtime \<Rightarrow> 's contribution_svc \<Rightarrow> uuid \<Rightarrow> contribution_input \<Rightarrow> ('s, err, contribution) prog" where
  "SubmitContribution R v userID input =
     bindP (cs_verifier v userID) (\<lambda>verified.
     rejectP (\<not> verified) (CommunityCmd ErrEmailNotVerified) (
     bindP (case ci_target input of
              Some t \<Rightarrow>
                if ci_type input \<noteq> ContributionTypeNewWord then
                  bindP (cs_words v t) (\<lambda>exists.
                  rejectP (\<not> exists) (CommunityCmd ErrTargetWordNotFound) (retP ()))
                else retP ()
            | None \<Rightarrow> retP ()) (\<lambda>_.
     bindP (NewContribution R userID (ci_type input) (ci_target input) (ci_payload input)) (\<lambda>c.
     crp_Create (cs_repo v) c))))"

definition WithdrawContribution ::
  "'s contribution_svc \<Rightarrow> uuid \<Rightarrow> uuid \<Rightarrow> ('s, err, contribution) prog" where
  "WithdrawContribution v callerID contributionID =
     bindP (crp_FindByID (cs_repo v) contributionID) (\<lambda>c.
     bindP (sumP (Withdraw callerID c)) (\<lambda>c'.
     bindP (crp_Update (cs_repo v) c') (\<lambda>_.
     retP c')))"

definition GetContribution ::
  "'s contribution_svc \<Rightarrow> uuid \<Rightarrow> string \<Rightarrow> uuid \<Rightarrow> ('s, err, contribution) prog" where
  "GetContribution v callerID callerRole contributionID =
     bindP (crp_FindByID (cs_repo v) contributionID) (\<lambda>c.
     rejectP (callerRole \<noteq> ''admin'' \<and> cb_contributor c \<noteq> callerID)
       (CommunityCmd ErrContributionForbidden) (
     retP c))"

definition ListContributions ::
  "'s contribution_svc \<Rightarrow> uuid \<Rightarrow> string \<Rightarrow> contribution_filters \<Rightarrow> int \<Rightarrow> int \<Rightarrow>
     ('s, err, contribution list \<times> int) prog" where
  "ListContributions v callerID callerRole f page perPage =
     (if callerRole = ''admin'' then crp_FindAll (cs_repo v) f page perPage
      else crp_FindByContributor (cs_repo v) callerID f page perPage)"

definition Update_contribution :: "'s contribution_svc \<Rightarrow> contribution \<Rightarrow> ('s, err, unit) prog" where
  "Update_contribution v c = crp_Update (cs_repo v) c"

section \<open>Votes (\<open>vote_commands.go\<close>)\<close>

record 's vote_svc =
  vs_repo :: "'s vote_repository"
  vs_words :: "'s exist_checker"
  vs_defs :: "'s exist_checker"

definition CastVote ::
  "'s runtime \<Rightarrow> 's vote_svc \<Rightarrow> uuid \<Rightarrow> string \<Rightarrow> uuid \<Rightarrow> string \<Rightarrow> ('s, err, vote) prog" where
  "CastVote R v userID targetType targetID value =
     bindP (if targetType = VoteTargetWord then retP (vs_words v)
            else if targetType = VoteTargetDefinition then retP (vs_defs v)
            else failP (Community ErrInvalidVoteTarget)) (\<lambda>checker.
     bindP (checker targetID) (\<lambda>exists.
     rejectP (\<not> exists) (CommunityCmd ErrVoteTargetNotFound) (
     bindP (CastVote_domain R userID targetType targetID value) (\<lambda>vote.
     vrp_Upsert (vs_repo v) vote))))"

definition RemoveVote :: "'s vote_svc \<Rightarrow> uuid \<Rightarrow> string \<Rightarrow> uuid \<Rightarrow> ('s, err, unit) prog" where
  "RemoveVote v userID targetType targetID =
     bindP (errP (vrp_Find (vs_repo v) userID targetType targetID)
       (\<lambda>e. if errors_is e (Community ErrVoteNotFound) then CommunityCmd ErrVoteTargetNotFound else e))
       (\<lambda>_. vrp_Delete (vs_repo v) userID targetType targetID)"

section \<open>Bookmarks (\<open>bookmark_commands.go\<close>)\<close>

record 's bookmark_svc =
  bs_repo :: "'s bookmark_repository"
  bs_words :: "'s exist_checker"

definition AddBookmark :: "'s runtime \<Rightarrow> 's bookmark_svc \<Rightarrow> uuid \<Rightarrow> uuid \<Rightarrow> ('s, err, bookmark) prog" where
  "AddBookmark R v userID wordID =
     bindP (bs_words v wordID) (\<lambda>exists.
     rejectP (\<not> exists) (CommunityCmd ErrBookmarkWordNotFound) (
     bindP (NewBookmark R userID wordID) (\<lambda>b.
     errP (brp_Create (bs_repo v) b)
       (\<lambda>e. if errors_is e (Community ErrBookmarkConflict) then Community ErrBookmarkConflict else e))))"

definition RemoveBookmark :: "'s bookmark_svc \<Rightarrow> uuid \<Rightarrow> uuid \<Rightarrow> ('s, err, unit) prog" where
  "RemoveBookmark v userID wordID =
     bindP (brp_Exists (bs_repo v) userID wordID) (\<lambda>exists.
     rejectP (\<not> exists) (Community ErrBookmarkNotFound) (
     brp_Delete (bs_repo v) userID wordID))"

definition ListBookmarks ::
  "'s bookmark_svc \<Rightarrow> uuid \<Rightarrow> int \<Rightarrow> int \<Rightarrow> ('s, err, bookmark list \<times> int) prog" where
  "ListBookmarks v userID page perPage = brp_FindByUser (bs_repo v) userID page perPage"

section \<open>Comments (\<open>comment_commands.go\<close>)\<close>

record 's comment_svc =
  ms_repo :: "'s comment_repository"
  ms_words :: "'s exist_checker"

definition PostComment ::
  "'s runtime \<Rightarrow> 's comment_svc \<Rightarrow> uuid \<Rightarrow> uuid \<Rightarrow> string \<Rightarrow> ('s, err, comment) prog" where
  "PostComment R v userID wordID body =
     bindP (ms_words v wordID) (\<lambda>exists.
     rejectP (\<not> exists) (CommunityCmd ErrCommentWordNotFound) (
     bindP (NewComment R userID CommentTargetWord wordID body) (\<lambda>c.
     mrp_Create (ms_repo v) c)))"

definition EditComment ::
  "'s runtime \<Rightarrow> 's comment_svc \<Rightarrow> uuid \<Rightarrow> uuid \<Rightarrow> string \<Rightarrow> ('s, err, comment) prog" where
  "EditComment R v callerID commentID body =
     bindP (mrp_FindByID (ms_repo v) commentID) (\<lambda>c.
     bindP (nowP R) (\<lambda>now.
     bindP (sumP (Edit now callerID body c)) (\<lambda>c'.
     mrp_Update (ms_repo v) c')))"

definition DeleteComment ::
  "'s comment_svc \<Rightarrow> uuid \<Rightarrow> string \<Rightarrow> uuid \<Rightarrow> ('s, err, unit) prog" where
  "DeleteComment v callerID callerRole commentID =
     bindP (mrp_FindByID (ms_repo v) commentID) (\<lambda>c.
     rejectP (callerRole \<noteq> ''admin'' \<and> cm_user c \<noteq> callerID) (Community ErrForbidden) (
     mrp_Delete (ms_repo v) commentID))"

definition FlagComment :: "'s runtime \<Rightarrow> 's comment_svc \<Rightarrow> uuid \<Rightarrow> ('s, err, comment) prog" where
  "FlagComment R v commentID =
     bindP (mrp_FindByID (ms_repo v) commentID) (\<lambda>c.
     bindP (nowP R) (\<lambda>now.
     mrp_Update (ms_repo v) (Flag now c)))"

definition ListComments ::
  "'s comment_svc \<Rightarrow> uuid \<Rightarrow> int \<Rightarrow> int \<Rightarrow> ('s, err, comment list \<times> int) prog" where
  "ListComments v wordID page perPage =
     bindP (ms_words v wordID) (\<lambda>exists.
     rejectP (\<not> exists) (CommunityCmd ErrCommentWordNotFound) (
     mrp_FindByTarget (ms_repo v) CommentTargetWord wordID page perPage))"

section \<open>The services over the database\<close>

definition db_contribution_svc :: "('z db_scheme) contribution_svc" where
  "db_contribution_svc =
     \<lparr>cs_repo = PostgresContributionRepository, cs_words = word_Exists,
      cs_verifier = IsEmailVerified_check\<rparr>"

definition db_vote_svc :: "('z db_scheme) vote_svc" where
  "db_vote_svc =
     \<lparr>vs_repo = PostgresVoteRepository, vs_words = word_Exists, vs_defs = definition_Exists\<rparr>"

definition db_bookmark_svc :: "ext \<Rightarrow> ('z db_scheme) bookmark_svc" where
  "db_bookmark_svc E = \<lparr>bs_repo = PostgresBookmarkRepository E, bs_words = word_Exists\<rparr>"

definition db_comment_svc :: "('z db_scheme) comment_svc" where
  "db_comment_svc = \<lparr>ms_repo = PostgresCommentRepository, ms_words = word_Exists\<rparr>"

end
