(* ===== verification/Dictionary_Domain.thy ===== *)
theory Dictionary_Domain
  imports External
begin

text \<open>
  \<open>internal/dictionary/domain\<close>: the value objects, which are strings with a validation, the
  word aggregate with its definitions and examples, and the operations on it.
\<close>

section \<open>Value objects (\<open>value_objects.go\<close>)\<close>

definition validWordClasses :: "string list" where
  "validWordClasses = [''n'', ''v'', ''a'', ''adv'', ''p'', ''pb'', ''ki'', ''num'', ''pron'']"

definition WordClass_Validate :: "string \<Rightarrow> err option" where
  "WordClass_Validate wc =
     (if wc \<notin> set validWordClasses then Some (Dictionary ErrInvalidWordClass) else None)"

definition DialectHulu :: string where "DialectHulu = ''hulu''"

definition Dialect_Validate :: "string \<Rightarrow> err option" where
  "Dialect_Validate d = (if d \<noteq> DialectHulu then Some (Dictionary ErrInvalidDialect) else None)"

definition SourceSeeded :: string where "SourceSeeded = ''seeded''"
definition SourceContributed :: string where "SourceContributed = ''contributed''"
definition SourceAIGenerated :: string where "SourceAIGenerated = ''ai_generated''"

definition Source_Validate :: "string \<Rightarrow> err option" where
  "Source_Validate s =
     (if s \<in> {SourceSeeded, SourceContributed, SourceAIGenerated} then None
      else Some (Dictionary ErrInvalidSource))"

definition WordStatusActive :: string where "WordStatusActive = ''active''"
definition WordStatusDeprecated :: string where "WordStatusDeprecated = ''deprecated''"

definition WordStatus_Validate :: "string \<Rightarrow> err option" where
  "WordStatus_Validate ws =
     (if ws \<in> {WordStatusActive, WordStatusDeprecated} then None
      else Some (Dictionary ErrInvalidStatus))"

section \<open>The aggregate (\<open>definition.go\<close>, \<open>example.go\<close>, \<open>word.go\<close>)\<close>

record definition_entity =
  df_id :: uuid
  df_meaning :: string
  df_sort_order :: int
  df_source :: string
  df_upvotes :: int
  df_downvotes :: int

record example_entity =
  ex_id :: uuid
  ex_banjar :: string
  ex_indonesian :: string
  ex_source :: string

record word =
  wd_id :: uuid
  wd_banjar :: string
  wd_syllabified :: string
  wd_dialect :: string
  wd_class :: string
  wd_homonym :: int
  wd_is_root :: bool
  wd_root :: "uuid option"
  wd_definitions :: "definition_entity list"
  wd_examples :: "example_entity list"
  wd_related :: "uuid list"
  wd_status :: string
  wd_source :: string
  wd_reference :: string
  wd_created_by :: "uuid option"
  wd_created_at :: time
  wd_updated_at :: time
  wd_deleted_at :: "time option"

definition MaxMeaningLength :: nat where "MaxMeaningLength = 2000"

definition NewDefinition ::
  "'s runtime \<Rightarrow> string \<Rightarrow> int \<Rightarrow> string \<Rightarrow> ('s, err, definition_entity) prog" where
  "NewDefinition R meaning sortOrder source =
     rejectP (MaxMeaningLength < length meaning) (Dictionary ErrMeaningTooLong) (
     bindP (uuidP R) (\<lambda>i.
     retP \<lparr>df_id = i, df_meaning = meaning, df_sort_order = sortOrder, df_source = source,
           df_upvotes = 0, df_downvotes = 0\<rparr>))"

definition NetScore :: "definition_entity \<Rightarrow> int" where
  "NetScore d = int64 (df_upvotes d - df_downvotes d)"

definition NewExample :: "'s runtime \<Rightarrow> string \<Rightarrow> string \<Rightarrow> string \<Rightarrow> ('s, err, example_entity) prog" where
  "NewExample R banjar indonesian source =
     bindP (uuidP R) (\<lambda>i.
     retP \<lparr>ex_id = i, ex_banjar = banjar, ex_indonesian = indonesian, ex_source = source\<rparr>)"

definition NewWord :: "'s runtime \<Rightarrow> string \<Rightarrow> string \<Rightarrow> string \<Rightarrow> ('s, err, word) prog" where
  "NewWord R banjar wordClass dialect =
     rejectP (banjar = []) (Dictionary ErrEmptyBanjar) (
     case WordClass_Validate wordClass of Some e \<Rightarrow> failP e | None \<Rightarrow>
     (case Dialect_Validate dialect of Some e \<Rightarrow> failP e | None \<Rightarrow>
     bindP (nowP R) (\<lambda>now.
     bindP (uuidP R) (\<lambda>i.
     retP \<lparr>wd_id = i, wd_banjar = banjar, wd_syllabified = [], wd_dialect = dialect,
           wd_class = wordClass, wd_homonym = 1, wd_is_root = True, wd_root = None,
           wd_definitions = [], wd_examples = [], wd_related = [],
           wd_status = WordStatusActive, wd_source = SourceSeeded, wd_reference = [],
           wd_created_by = None, wd_created_at = now, wd_updated_at = now,
           wd_deleted_at = None\<rparr>))))"

definition AddDefinition :: "'s runtime \<Rightarrow> string \<Rightarrow> int \<Rightarrow> word \<Rightarrow> ('s, err, word) prog" where
  "AddDefinition R meaning sortOrder w =
     bindP (NewDefinition R meaning sortOrder (wd_source w)) (\<lambda>def.
     bindP (nowP R) (\<lambda>now.
     retP (w\<lparr>wd_definitions := wd_definitions w @ [def], wd_updated_at := now\<rparr>)))"

definition AddExample :: "'s runtime \<Rightarrow> string \<Rightarrow> string \<Rightarrow> word \<Rightarrow> ('s, err, word) prog" where
  "AddExample R banjar indonesian w =
     bindP (NewExample R banjar indonesian (wd_source w)) (\<lambda>ex.
     bindP (nowP R) (\<lambda>now.
     retP (w\<lparr>wd_examples := wd_examples w @ [ex], wd_updated_at := now\<rparr>)))"

definition Deprecate :: "time \<Rightarrow> word \<Rightarrow> word" where
  "Deprecate now w = w\<lparr>wd_status := WordStatusDeprecated, wd_updated_at := now\<rparr>"

definition Restore :: "time \<Rightarrow> word \<Rightarrow> word" where
  "Restore now w = w\<lparr>wd_status := WordStatusActive, wd_updated_at := now\<rparr>"

definition SoftDelete :: "time \<Rightarrow> word \<Rightarrow> word" where
  "SoftDelete now w = w\<lparr>wd_deleted_at := Some now, wd_updated_at := now\<rparr>"

definition IsDeleted :: "word \<Rightarrow> bool" where
  "IsDeleted w \<longleftrightarrow> wd_deleted_at w \<noteq> None"

definition AddRelatedWord :: "time \<Rightarrow> uuid \<Rightarrow> word \<Rightarrow> word" where
  "AddRelatedWord now i w =
     (if i \<in> set (wd_related w) then w
      else w\<lparr>wd_related := wd_related w @ [i], wd_updated_at := now\<rparr>)"

section \<open>Lemmas\<close>

lemma NewWord_Inr:
  "NewWord R banjar wc dialect s = (Inr w, s') \<Longrightarrow>
     banjar \<noteq> [] \<and> wc \<in> set validWordClasses \<and> dialect = DialectHulu \<and>
     wd_banjar w = banjar \<and> wd_class w = wc \<and> wd_dialect w = dialect \<and> wd_homonym w = 1 \<and>
     wd_is_root w \<and> wd_root w = None \<and> wd_definitions w = [] \<and> wd_examples w = [] \<and>
     wd_related w = [] \<and> wd_status w = WordStatusActive \<and> wd_source w = SourceSeeded \<and>
     wd_created_by w = None \<and> wd_syllabified w = [] \<and> wd_reference w = [] \<and>
     wd_deleted_at w = None \<and> wd_created_at w = rt_now R s \<and> (\<exists>s0. rt_uuid R s0 = (wd_id w, s'))"
  by (auto simp: NewWord_def prog_Inr nowP_def uuidP_def WordClass_Validate_def Dialect_Validate_def
      split: option.splits if_splits prod.splits)

lemma AddDefinition_Inr:
  "AddDefinition R m so w s = (Inr w', s') \<Longrightarrow>
     length m \<le> MaxMeaningLength \<and>
     (\<exists>i t. w' = w\<lparr>wd_definitions := wd_definitions w @
         [\<lparr>df_id = i, df_meaning = m, df_sort_order = so, df_source = wd_source w,
           df_upvotes = 0, df_downvotes = 0\<rparr>], wd_updated_at := t\<rparr>)"
  by (auto simp: AddDefinition_def NewDefinition_def prog_Inr not_less)

lemma AddExample_Inr:
  "AddExample R b i w s = (Inr w', s') \<Longrightarrow>
     \<exists>e t. w' = w\<lparr>wd_examples := wd_examples w @
         [\<lparr>ex_id = e, ex_banjar = b, ex_indonesian = i, ex_source = wd_source w\<rparr>], wd_updated_at := t\<rparr>"
  by (auto simp: AddExample_def NewExample_def prog_Inr)

lemma AddRelatedWord_distinct:
  "distinct (wd_related w) \<Longrightarrow>
     distinct (wd_related (AddRelatedWord now i w)) \<and>
     set (wd_related (AddRelatedWord now i w)) = insert i (set (wd_related w))"
  by (auto simp: AddRelatedWord_def)

end
