(* ===== verification/Dictionary_Store.thy ===== *)
theory Dictionary_Store
  imports Dictionary_Domain Database Pagination
begin

text \<open>
  The storage of the dictionary: the SQL statements on words, definitions and examples
  (\<open>infrastructure/postgres/sqlc\<close>) and the word repository
  (\<open>infrastructure/postgres/word_repository.go\<close>). The full-text and pattern matching of
  PostgreSQL and its collation are parameters.
\<close>

section \<open>Statements on words (\<open>words.sql.go\<close>)\<close>

definition CreateWord_stmt :: "word_row \<Rightarrow> ('z db_scheme, err, word_row) prog" where
  "CreateWord_stmt r = sqlP
     (\<lambda>d. [(wr_dialect r \<notin> set dialect_enum, InvalidEnum (wr_dialect r)),
           (wr_word_class r \<notin> set word_class_enum, InvalidEnum (wr_word_class r)),
           (wr_status r \<notin> set word_status_enum, InvalidEnum (wr_status r)),
           (wr_source r \<notin> set word_source_enum, InvalidEnum (wr_source r)),
           (wr_id r \<in> word_ids d, UniqueViolation ''words_pkey''),
           (word_key r \<in> word_key ` set (db_words d), UniqueViolation ''words_unique''),
           (\<not> opt_in (wr_root r) (insert (wr_id r) (word_ids d)), ForeignKeyViolation ''words_root_word_id_fkey''),
           (\<not> opt_in (wr_created_by r) (user_ids d), ForeignKeyViolation ''words_created_by_fkey'')])
     (\<lambda>d. (r, d\<lparr>db_words := db_words d @ [r]\<rparr>))"

definition live_word :: "uuid \<Rightarrow> word_row list \<Rightarrow> word_row option" where
  "live_word i ws =
     (case lookup_by wr_id i ws of
        Some r \<Rightarrow> if wr_deleted_at r = None then Some r else None
      | None \<Rightarrow> None)"

definition GetWordByID :: "uuid \<Rightarrow> ('z db_scheme, err, word_row) prog" where
  "GetWordByID i = readP (\<lambda>d. one_row (live_word i (db_words d)))"

definition GetWordByIDIncludeDeleted :: "uuid \<Rightarrow> ('z db_scheme, err, word_row) prog" where
  "GetWordByIDIncludeDeleted i = readP (\<lambda>d. one_row (lookup_by wr_id i (db_words d)))"

text \<open>\<open>LIMIT 1\<close> without an order: the model takes the first row.\<close>

definition GetWordByBanjar :: "string \<Rightarrow> ('z db_scheme, err, word_row) prog" where
  "GetWordByBanjar banjar =
     readP (\<lambda>d. one_row (find (\<lambda>r. wr_banjar r = banjar \<and> wr_deleted_at r = None) (db_words d)))"

record word_params =
  wp_class :: string
  wp_is_root :: string
  wp_source :: string
  wp_status :: string

text \<open>The conditions that the listing and the search have in common\<close>

definition word_filter :: "word_params \<Rightarrow> word_row \<Rightarrow> bool" where
  "word_filter p r \<longleftrightarrow>
     wr_deleted_at r = None \<and> text_filter (wp_class p) (wr_word_class r) \<and>
     (wp_is_root p = [] \<or> wr_is_root r = (wp_is_root p = ''true'')) \<and>
     text_filter (wp_source p) (wr_source r) \<and> text_filter (wp_status p) (wr_status r)"

text \<open>\<open>ORDER BY CASE WHEN sort = 'recently_added' THEN created_at END DESC NULLS LAST, banjar\<close>\<close>

definition word_order :: "ext \<Rightarrow> string \<Rightarrow> word_row \<Rightarrow> word_row \<Rightarrow> bool" where
  "word_order E srt a b \<longleftrightarrow>
     (if srt = ''recently_added'' \<and> wr_created_at a \<noteq> wr_created_at b
      then wr_created_at b < wr_created_at a
      else x_text_le E (wr_banjar a) (wr_banjar b))"

text \<open>Rows with the same place in the order come as the query comes across them.\<close>

definition scan_order :: "ext \<Rightarrow> int \<Rightarrow> int \<Rightarrow> word_row \<Rightarrow> word_row \<Rightarrow> bool" where
  "scan_order E l off a b \<longleftrightarrow> x_scan E l off (wr_id a) \<le> x_scan E l off (wr_id b)"

definition ListWords_stmt ::
  "ext \<Rightarrow> word_params \<Rightarrow> string \<Rightarrow> int \<Rightarrow> int \<Rightarrow> ('z db_scheme, err, word_row list) prog" where
  "ListWords_stmt E p srt l off =
     readP (\<lambda>d. limit_offset l off
       (sort_by (word_order E srt) (sort_by (scan_order E l off) (filter (word_filter p) (db_words d)))))"

definition CountWords :: "word_params \<Rightarrow> ('z db_scheme, err, int) prog" where
  "CountWords p = readP (\<lambda>d. count_int (filter (word_filter p) (db_words d)))"

definition word_matches :: "ext \<Rightarrow> string \<Rightarrow> definition_row list \<Rightarrow> word_row \<Rightarrow> bool" where
  "word_matches E q defs r \<longleftrightarrow>
     x_text_match E (wr_banjar r) q \<or>
     list_ex (\<lambda>x. dr_word x = wr_id r \<and> x_text_match E (dr_meaning x) q) defs \<or>
     x_ilike E (wr_banjar r) q"

definition SearchWords_stmt ::
  "ext \<Rightarrow> string \<Rightarrow> word_params \<Rightarrow> int \<Rightarrow> int \<Rightarrow> ('z db_scheme, err, word_row list) prog" where
  "SearchWords_stmt E q p l off =
     readP (\<lambda>d. limit_offset l off
       (sort_by (\<lambda>a b. x_text_le E (wr_banjar a) (wr_banjar b)) (sort_by (scan_order E l off)
          (filter (\<lambda>r. word_filter p r \<and> word_matches E q (db_definitions d) r) (db_words d)))))"

definition CountSearchWords :: "ext \<Rightarrow> string \<Rightarrow> word_params \<Rightarrow> ('z db_scheme, err, int) prog" where
  "CountSearchWords E q p =
     readP (\<lambda>d. count_int
       (filter (\<lambda>r. word_filter p r \<and> word_matches E q (db_definitions d) r) (db_words d)))"

definition SoftDeleteWord_stmt :: "uuid \<Rightarrow> ('z db_scheme, err, unit) prog" where
  "SoftDeleteWord_stmt i =
     (\<lambda>d. (Inr (), d\<lparr>db_words := update_where (\<lambda>r. wr_id r = i \<and> wr_deleted_at r = None)
        (\<lambda>r. r\<lparr>wr_deleted_at := Some (db_now d), wr_updated_at := db_now d\<rparr>) (db_words d)\<rparr>))"

definition set_word_columns :: "word_row \<Rightarrow> word_row \<Rightarrow> word_row" where
  "set_word_columns p r =
     r\<lparr>wr_banjar := wr_banjar p, wr_syllabified := wr_syllabified p, wr_word_class := wr_word_class p,
       wr_homonym := wr_homonym p, wr_is_root := wr_is_root p, wr_root := wr_root p,
       wr_status := wr_status p, wr_source := wr_source p, wr_reference := wr_reference p,
       wr_updated_at := wr_updated_at p\<rparr>"

definition UpdateWord_stmt :: "word_row \<Rightarrow> ('z db_scheme, err, word_row) prog" where
  "UpdateWord_stmt p =
     bindP (sqlP
       (\<lambda>d. [(wr_word_class p \<notin> set word_class_enum, InvalidEnum (wr_word_class p)),
             (wr_status p \<notin> set word_status_enum, InvalidEnum (wr_status p)),
             (wr_source p \<notin> set word_source_enum, InvalidEnum (wr_source p)),
             (case live_word (wr_id p) (db_words d) of
                None \<Rightarrow> False
              | Some r \<Rightarrow> list_ex (\<lambda>q. wr_id q \<noteq> wr_id p \<and> word_key q = word_key (set_word_columns p r))
                  (db_words d), UniqueViolation ''words_unique''),
             (live_word (wr_id p) (db_words d) \<noteq> None \<and> \<not> opt_in (wr_root p) (word_ids d),
              ForeignKeyViolation ''words_root_word_id_fkey'')])
       (\<lambda>d. ((), d\<lparr>db_words := update_where (\<lambda>r. wr_id r = wr_id p \<and> wr_deleted_at r = None)
          (set_word_columns p) (db_words d)\<rparr>)))
     (\<lambda>_. GetWordByID (wr_id p))"

section \<open>Statements on definitions and examples\<close>

definition definition_order :: "definition_row \<Rightarrow> definition_row \<Rightarrow> bool" where
  "definition_order a b \<longleftrightarrow>
     dr_sort_order a < dr_sort_order b \<or>
     (dr_sort_order a = dr_sort_order b \<and>
      dr_upvotes b - dr_downvotes b \<le> dr_upvotes a - dr_downvotes a)"

definition GetDefinitionsByWordID :: "uuid \<Rightarrow> ('z db_scheme, err, definition_row list) prog" where
  "GetDefinitionsByWordID i =
     getP (\<lambda>d. sort_by definition_order (filter (\<lambda>x. dr_word x = i) (db_definitions d)))"

definition GetDefinitionByID :: "uuid \<Rightarrow> ('z db_scheme, err, definition_row) prog" where
  "GetDefinitionByID i = readP (\<lambda>d. one_row (lookup_by dr_id i (db_definitions d)))"

definition DeleteDefinitionsByWordID :: "uuid \<Rightarrow> ('z db_scheme, err, unit) prog" where
  "DeleteDefinitionsByWordID i =
     (\<lambda>d. (Inr (), d\<lparr>db_definitions := delete_where (\<lambda>x. dr_word x = i) (db_definitions d)\<rparr>))"

text \<open>\<open>ON CONFLICT (id) DO UPDATE\<close>: an existing row gets the new meaning, order and time.\<close>

definition UpsertDefinition :: "definition_row \<Rightarrow> ('z db_scheme, err, definition_row) prog" where
  "UpsertDefinition r =
     bindP (sqlP
       (\<lambda>d. [(dr_source r \<notin> set word_source_enum, InvalidEnum (dr_source r)),
             (dr_id r \<notin> dr_id ` set (db_definitions d) \<and> dr_word r \<notin> word_ids d,
              ForeignKeyViolation ''definitions_word_id_fkey'')])
       (\<lambda>d. ((), d\<lparr>db_definitions :=
          (if dr_id r \<in> dr_id ` set (db_definitions d) then
             update_where (\<lambda>x. dr_id x = dr_id r)
               (\<lambda>x. x\<lparr>dr_meaning := dr_meaning r, dr_sort_order := dr_sort_order r,
                      dr_updated_at := dr_updated_at r\<rparr>) (db_definitions d)
           else db_definitions d @ [r])\<rparr>)))
     (\<lambda>_. GetDefinitionByID (dr_id r))"

definition GetExamplesByWordID :: "uuid \<Rightarrow> ('z db_scheme, err, example_row list) prog" where
  "GetExamplesByWordID i =
     getP (\<lambda>d. sort_by (\<lambda>a b. xr_created_at a \<le> xr_created_at b)
       (filter (\<lambda>x. xr_word x = i) (db_examples d)))"

definition DeleteExamplesByWordID :: "uuid \<Rightarrow> ('z db_scheme, err, unit) prog" where
  "DeleteExamplesByWordID i =
     (\<lambda>d. (Inr (), d\<lparr>db_examples := delete_where (\<lambda>x. xr_word x = i) (db_examples d)\<rparr>))"

definition UpsertExample :: "example_row \<Rightarrow> ('z db_scheme, err, unit) prog" where
  "UpsertExample r =
     sqlP
       (\<lambda>d. [(xr_source r \<notin> set word_source_enum, InvalidEnum (xr_source r)),
             (xr_id r \<notin> xr_id ` set (db_examples d) \<and> xr_word r \<notin> word_ids d,
              ForeignKeyViolation ''examples_word_id_fkey'')])
       (\<lambda>d. ((), d\<lparr>db_examples :=
          (if xr_id r \<in> xr_id ` set (db_examples d) then
             update_where (\<lambda>x. xr_id x = xr_id r)
               (\<lambda>x. x\<lparr>xr_banjar := xr_banjar r, xr_indonesian := xr_indonesian r,
                      xr_updated_at := xr_updated_at r\<rparr>) (db_examples d)
           else db_examples d @ [r])\<rparr>))"

text \<open>The plain inserts, which the repositories replace by the upserts: for an identifier that is new they do
  the same, otherwise they fail.\<close>

definition CreateDefinition :: "definition_row \<Rightarrow> ('z db_scheme, err, definition_row) prog" where
  "CreateDefinition r =
     sqlP
       (\<lambda>d. [(dr_source r \<notin> set word_source_enum, InvalidEnum (dr_source r)),
             (dr_id r \<in> dr_id ` set (db_definitions d), UniqueViolation ''definitions_pkey''),
             (dr_word r \<notin> word_ids d, ForeignKeyViolation ''definitions_word_id_fkey'')])
       (\<lambda>d. (r, d\<lparr>db_definitions := db_definitions d @ [r]\<rparr>))"

definition CreateExample :: "example_row \<Rightarrow> ('z db_scheme, err, example_row) prog" where
  "CreateExample r =
     sqlP
       (\<lambda>d. [(xr_source r \<notin> set word_source_enum, InvalidEnum (xr_source r)),
             (xr_id r \<in> xr_id ` set (db_examples d), UniqueViolation ''examples_pkey''),
             (xr_word r \<notin> word_ids d, ForeignKeyViolation ''examples_word_id_fkey'')])
       (\<lambda>d. (r, d\<lparr>db_examples := db_examples d @ [r]\<rparr>))"

lemma create_definition_upsert:
  "CreateDefinition r d =
     (if dr_id r \<in> dr_id ` set (db_definitions d) then
        (Inl (Sql (if dr_source r \<notin> set word_source_enum then InvalidEnum (dr_source r)
                  else UniqueViolation ''definitions_pkey'')), d)
      else UpsertDefinition r d)"
proof (cases "dr_id r \<in> dr_id ` set (db_definitions d)")
  case True
  then show ?thesis by (simp add: CreateDefinition_def sqlP_def)
next
  case False
  then have "lookup_by dr_id (dr_id r) (db_definitions d @ [r]) = Some r"
    by (simp add: table_simps lookup_by_None [THEN iffD2])
  with False show ?thesis
    by (simp add: CreateDefinition_def UpsertDefinition_def GetDefinitionByID_def sqlP_def bindP_def readP_def one_row_def
        split: option.split)
qed

lemma create_example_upsert:
  "xr_id r \<notin> xr_id ` set (db_examples d) \<Longrightarrow>
     CreateExample r d = (case UpsertExample r d of (x, d') \<Rightarrow> (map_sum (\<lambda>e. e) (\<lambda>_. r) x, d'))"
  by (simp add: CreateExample_def UpsertExample_def sqlP_def split: option.split)

section \<open>The repository\<close>

record word_filters =
  wf_class :: "string option"
  wf_is_root :: "bool option"
  wf_source :: "string option"
  wf_status :: "string option"
  wf_sort :: string

record 's word_repository =
  wrp_Create :: "word \<Rightarrow> ('s, err, unit) prog"
  wrp_FindByID :: "uuid \<Rightarrow> ('s, err, word) prog"
  wrp_FindByBanjar :: "string \<Rightarrow> ('s, err, word) prog"
  wrp_FindAll :: "word_filters \<Rightarrow> int \<Rightarrow> int \<Rightarrow> ('s, err, word list \<times> int) prog"
  wrp_Search :: "string \<Rightarrow> word_filters \<Rightarrow> int \<Rightarrow> int \<Rightarrow> ('s, err, word list \<times> int) prog"
  wrp_Update :: "word \<Rightarrow> ('s, err, unit) prog"
  wrp_SoftDelete :: "uuid \<Rightarrow> ('s, err, unit) prog"

definition null_string :: "string \<Rightarrow> string option" where
  "null_string s = (if s \<noteq> [] then Some s else None)"

definition toCreateParams :: "word \<Rightarrow> word_row" where
  "toCreateParams w =
     \<lparr>wr_id = wd_id w, wr_banjar = wd_banjar w, wr_syllabified = null_string (wd_syllabified w),
      wr_dialect = wd_dialect w, wr_word_class = wd_class w, wr_homonym = int16 (wd_homonym w),
      wr_is_root = wd_is_root w, wr_root = wd_root w, wr_status = wd_status w,
      wr_source = wd_source w, wr_reference = null_string (wd_reference w),
      wr_created_by = wd_created_by w, wr_created_at = wd_created_at w,
      wr_updated_at = wd_updated_at w, wr_deleted_at = None\<rparr>"

definition option_string :: "string option \<Rightarrow> string" where
  "option_string s = (case s of Some t \<Rightarrow> t | None \<Rightarrow> [])"

definition definition_toDomain :: "definition_row \<Rightarrow> definition_entity" where
  "definition_toDomain x =
     \<lparr>df_id = dr_id x, df_meaning = dr_meaning x, df_sort_order = dr_sort_order x,
      df_source = dr_source x, df_upvotes = dr_upvotes x, df_downvotes = dr_downvotes x\<rparr>"

definition example_toDomain :: "example_row \<Rightarrow> example_entity" where
  "example_toDomain x =
     \<lparr>ex_id = xr_id x, ex_banjar = xr_banjar x, ex_indonesian = xr_indonesian x,
      ex_source = xr_source x\<rparr>"

definition word_toDomain :: "word_row \<Rightarrow> definition_row list \<Rightarrow> example_row list \<Rightarrow> word" where
  "word_toDomain r defs exs =
     \<lparr>wd_id = wr_id r, wd_banjar = wr_banjar r, wd_syllabified = option_string (wr_syllabified r),
      wd_dialect = wr_dialect r, wd_class = wr_word_class r, wd_homonym = wr_homonym r,
      wd_is_root = wr_is_root r, wd_root = wr_root r,
      wd_definitions = map definition_toDomain defs, wd_examples = map example_toDomain exs,
      wd_related = [], wd_status = wr_status r, wd_source = wr_source r,
      wd_reference = option_string (wr_reference r), wd_created_by = wr_created_by r,
      wd_created_at = wr_created_at r, wd_updated_at = wr_updated_at r,
      wd_deleted_at = wr_deleted_at r\<rparr>"

definition definition_params :: "time \<Rightarrow> uuid \<Rightarrow> definition_entity \<Rightarrow> definition_row" where
  "definition_params now wid x =
     \<lparr>dr_id = df_id x, dr_word = wid, dr_meaning = df_meaning x, dr_sort_order = int16 (df_sort_order x),
      dr_source = df_source x, dr_upvotes = int32 (df_upvotes x), dr_downvotes = int32 (df_downvotes x),
      dr_created_at = now, dr_updated_at = now\<rparr>"

definition example_params :: "time \<Rightarrow> uuid \<Rightarrow> example_entity \<Rightarrow> example_row" where
  "example_params now wid x =
     \<lparr>xr_id = ex_id x, xr_word = wid, xr_banjar = ex_banjar x, xr_indonesian = ex_indonesian x,
      xr_source = ex_source x, xr_created_at = now, xr_updated_at = now\<rparr>"

definition upsertChildren :: "word \<Rightarrow> ('z db_scheme, err, unit) prog" where
  "upsertChildren w =
     bindP (getP db_now) (\<lambda>now.
     bindP (eachP (\<lambda>x. bindP (UpsertDefinition (definition_params now (wd_id w) x)) (\<lambda>_. retP ()))
              (wd_definitions w)) (\<lambda>_.
     eachP (\<lambda>x. UpsertExample (example_params now (wd_id w) x)) (wd_examples w)))"

definition hydrate :: "word_row \<Rightarrow> ('z db_scheme, err, word) prog" where
  "hydrate r =
     bindP (GetDefinitionsByWordID (wr_id r)) (\<lambda>defs.
     bindP (GetExamplesByWordID (wr_id r)) (\<lambda>exs.
     retP (word_toDomain r defs exs)))"

definition hydrateMany :: "word_row list \<Rightarrow> ('z db_scheme, err, word list) prog" where
  "hydrateMany rows = mapP hydrate rows"

text \<open>\<open>containsStr\<close> of \<open>word_repository.go\<close>\<close>

definition word_containsStr :: "string \<Rightarrow> string \<Rightarrow> bool" where
  "word_containsStr s sub \<longleftrightarrow>
     (if length s < length sub then False
      else list_ex (\<lambda>i. take (length sub) (drop i s) = sub) [0..<Suc (length s - length sub)])"

definition word_isUniqueViolation :: "ext \<Rightarrow> err \<Rightarrow> bool" where
  "word_isUniqueViolation E e \<longleftrightarrow>
     (let t = err_text (x_sql_text E) e in
      word_containsStr t ''23505'' \<or> word_containsStr t ''unique'' \<or> word_containsStr t ''words_unique'')"

definition word_not_found :: "err \<Rightarrow> err" where
  "word_not_found e = (if errors_is e NoRows then Dictionary ErrWordNotFound else e)"

definition WordRepo_Create :: "ext \<Rightarrow> word \<Rightarrow> ('z db_scheme, err, unit) prog" where
  "WordRepo_Create E w =
     bindP (errP (CreateWord_stmt (toCreateParams w))
              (\<lambda>e. if word_isUniqueViolation E e then Dictionary ErrWordConflict else e)) (\<lambda>row.
     upsertChildren (w\<lparr>wd_id := wr_id row\<rparr>))"

definition WordRepo_FindByID :: "uuid \<Rightarrow> ('z db_scheme, err, word) prog" where
  "WordRepo_FindByID i = bindP (errP (GetWordByID i) word_not_found) hydrate"

definition WordRepo_FindByBanjar :: "string \<Rightarrow> ('z db_scheme, err, word) prog" where
  "WordRepo_FindByBanjar b = bindP (errP (GetWordByBanjar b) word_not_found) hydrate"

text \<open>\<open>filterStrings\<close>\<close>

definition filterStrings :: "word_filters \<Rightarrow> word_params" where
  "filterStrings f =
     \<lparr>wp_class = option_string (wf_class f),
      wp_is_root = (case wf_is_root f of None \<Rightarrow> [] | Some b \<Rightarrow> if b then ''true'' else ''false''),
      wp_source = option_string (wf_source f), wp_status = option_string (wf_status f)\<rparr>"

definition WordRepo_FindAll ::
  "ext \<Rightarrow> word_filters \<Rightarrow> int \<Rightarrow> int \<Rightarrow> ('z db_scheme, err, word list \<times> int) prog" where
  "WordRepo_FindAll E f page perPage =
     (let params = filterStrings f; srt = (if wf_sort f = [] then ''alphabetical'' else wf_sort f) in
      bindP (ListWords_stmt E params srt (sql_limit perPage) (sql_offset page perPage)) (\<lambda>rows.
      bindP (CountWords params) (\<lambda>tot.
      bindP (hydrateMany rows) (\<lambda>words.
      retP (words, tot)))))"

definition WordRepo_Search ::
  "ext \<Rightarrow> string \<Rightarrow> word_filters \<Rightarrow> int \<Rightarrow> int \<Rightarrow> ('z db_scheme, err, word list \<times> int) prog" where
  "WordRepo_Search E q f page perPage =
     (let params = filterStrings f in
      bindP (SearchWords_stmt E q params (sql_limit perPage) (sql_offset page perPage)) (\<lambda>rows.
      bindP (CountSearchWords E q params) (\<lambda>tot.
      bindP (hydrateMany rows) (\<lambda>words.
      retP (words, tot)))))"

definition WordRepo_Update :: "word \<Rightarrow> ('z db_scheme, err, unit) prog" where
  "WordRepo_Update w =
     bindP (getP db_now) (\<lambda>now.
     bindP (errP (UpdateWord_stmt ((toCreateParams w)\<lparr>wr_updated_at := now\<rparr>)) word_not_found) (\<lambda>_.
     bindP (DeleteDefinitionsByWordID (wd_id w)) (\<lambda>_.
     bindP (DeleteExamplesByWordID (wd_id w)) (\<lambda>_.
     upsertChildren w))))"

definition WordRepo_SoftDelete :: "uuid \<Rightarrow> ('z db_scheme, err, unit) prog" where
  "WordRepo_SoftDelete i = SoftDeleteWord_stmt i"

definition PostgresWordRepository :: "ext \<Rightarrow> ('z db_scheme) word_repository" where
  "PostgresWordRepository E =
     \<lparr>wrp_Create = WordRepo_Create E, wrp_FindByID = WordRepo_FindByID,
      wrp_FindByBanjar = WordRepo_FindByBanjar, wrp_FindAll = WordRepo_FindAll E,
      wrp_Search = WordRepo_Search E, wrp_Update = WordRepo_Update,
      wrp_SoftDelete = WordRepo_SoftDelete\<rparr>"

end
