(* ===== verification/Dictionary_Invariant.thy ===== *)
theory Dictionary_Invariant
  imports Dictionary_Store
begin

text \<open>
  Every statement on words, definitions and examples, and every operation of the word
  repository, keeps the invariant of the database.
\<close>

lemma db_okD:
  assumes "db_ok d"
  shows "users_ok (db_users d)" "words_ok (user_ids d) (db_words d)"
    "definitions_ok (word_ids d) (db_definitions d)" "examples_ok (word_ids d) (db_examples d)"
    "contributions_ok (user_ids d) (word_ids d) (db_contributions d)"
    "votes_ok (user_ids d) (db_votes d)" "bookmarks_ok (user_ids d) (word_ids d) (db_bookmarks d)"
    "comments_ok (user_ids d) (db_comments d)" "audit_ok (user_ids d) (db_audit_logs d)"
    "ai_ok (user_ids d) (word_ids d) (contribution_ids d) (db_ai_requests d)"
  using assms by (simp_all add: db_ok_def)

section \<open>Words\<close>

lemma word_row_ok_mono: "word_row_ok U W r \<Longrightarrow> W \<subseteq> W' \<Longrightarrow> word_row_ok U W' r"
  by (auto simp: word_row_ok_def intro: opt_in_mono)

lemma words_ok_append:
  "words_ok U ws \<Longrightarrow> wr_id r \<notin> wr_id ` set ws \<Longrightarrow> word_key r \<notin> word_key ` set ws \<Longrightarrow>
     word_row_ok U (insert (wr_id r) (wr_id ` set ws)) r \<Longrightarrow> words_ok U (ws @ [r])"
  by (auto simp: words_ok_def intro: word_row_ok_mono)

text \<open>Updating one row keeps a second key distinct, when its new value is nobody else's.\<close>

lemma distinct_key_update:
  assumes "distinct (map i rows)" and "distinct (map key rows)"
    and "\<And>r q. r \<in> set rows \<Longrightarrow> i r = k \<Longrightarrow> P r \<Longrightarrow> q \<in> set rows \<Longrightarrow> i q \<noteq> k \<Longrightarrow> key (f r) \<noteq> key q"
  shows "distinct (map key (update_where (\<lambda>r. i r = k \<and> P r) f rows))"
  using assms
proof (induction rows)
  case Nil
  then show ?case by (simp add: update_where_def)
next
  case (Cons r rows)
  have IH: "distinct (map key (update_where (\<lambda>r. i r = k \<and> P r) f rows))"
    using Cons.prems by (intro Cons.IH) auto
  have step: "update_where Q f (r # rows) = (if Q r then f r else r) # update_where Q f rows" for Q
    by (simp add: update_where_def)
  show ?case
  proof (cases "i r = k \<and> P r")
    case True
    then have "update_where (\<lambda>r. i r = k \<and> P r) f rows = rows"
      using Cons.prems(1) by (intro update_where_id) (metis distinct.simps(2) imageI list.simps(9) set_map)
    moreover have "key (f r) \<notin> key ` set rows"
    proof
      assume "key (f r) \<in> key ` set rows"
      then obtain q where q: "q \<in> set rows" "key (f r) = key q" by auto
      moreover have "i q \<noteq> k"
        using q(1) True Cons.prems(1) by (metis distinct.simps(2) imageI list.simps(9) set_map)
      ultimately show False using Cons.prems(3) [of r q] True by simp
    qed
    ultimately show ?thesis using True IH Cons.prems(2) by (simp add: step)
  next
    case False
    have "key r \<notin> key ` set (update_where (\<lambda>r. i r = k \<and> P r) f rows)"
    proof
      assume "key r \<in> key ` set (update_where (\<lambda>r. i r = k \<and> P r) f rows)"
      then obtain q where q: "q \<in> set (update_where (\<lambda>r. i r = k \<and> P r) f rows)" "key r = key q"
        by auto
      from set_update_where [OF q(1)] show False
      proof
        assume "q \<in> set rows"
        with q(2) Cons.prems(2) show False by auto
      next
        assume "\<exists>r0 \<in> set rows. (i r0 = k \<and> P r0) \<and> q = f r0"
        then obtain r0 where r0: "r0 \<in> set rows" "i r0 = k" "P r0" "q = f r0" by blast
        have "i r \<noteq> k" using r0 Cons.prems(1) by (metis distinct.simps(2) imageI list.simps(9) set_map)
        with Cons.prems(3) [of r0 r] r0 q(2) show False by simp
      qed
    qed
    with IH have "distinct (map key (r # update_where (\<lambda>r. i r = k \<and> P r) f rows))" by simp
    with False show ?thesis by (simp only: step if_False)
  qed
qed

lemma words_ok_update:
  assumes ok: "words_ok U ws" and id: "\<And>r. wr_id (f r) = wr_id r"
    and row: "\<And>r. r \<in> set ws \<Longrightarrow> wr_id r = k \<Longrightarrow> P r \<Longrightarrow> word_row_ok U (wr_id ` set ws) (f r)"
    and key: "\<And>r q. r \<in> set ws \<Longrightarrow> wr_id r = k \<Longrightarrow> P r \<Longrightarrow> q \<in> set ws \<Longrightarrow> wr_id q \<noteq> k \<Longrightarrow>
      word_key (f r) \<noteq> word_key q"
  shows "words_ok U (update_where (\<lambda>r. wr_id r = k \<and> P r) f ws)"
  unfolding words_ok_def
proof (intro conjI ballI)
  show "distinct (map wr_id (update_where (\<lambda>r. wr_id r = k \<and> P r) f ws))"
    using ok id by (simp add: map_update_where words_ok_def)
  show "distinct (map word_key (update_where (\<lambda>r. wr_id r = k \<and> P r) f ws))"
    using ok key by (intro distinct_key_update) (auto simp: words_ok_def)
  fix w
  assume "w \<in> set (update_where (\<lambda>r. wr_id r = k \<and> P r) f ws)"
  from set_update_where [OF this] have "word_row_ok U (wr_id ` set ws) w"
    using ok row by (auto simp: words_ok_def)
  then show "word_row_ok U (wr_id ` set (update_where (\<lambda>r. wr_id r = k \<and> P r) f ws)) w"
    using id by (simp add: image_update_where)
qed

lemma keeps_CreateWord_stmt [triple_intros]: "keeps db_ok (CreateWord_stmt r)"
  unfolding CreateWord_stmt_def
  by (rule keeps_sqlP)
    (auto intro!: db_ok_words words_ok_append intro: db_okD simp: word_row_ok_def word_ids_def)

lemma live_word_Some:
  "live_word i ws = Some r \<Longrightarrow> r \<in> set ws \<and> wr_id r = i \<and> wr_deleted_at r = None"
  by (auto simp: live_word_def dest: lookup_by_Some split: option.splits if_splits)

lemma live_word_distinct:
  "distinct (map wr_id ws) \<Longrightarrow> r \<in> set ws \<Longrightarrow> wr_deleted_at r = None \<Longrightarrow> live_word (wr_id r) ws = Some r"
  by (simp add: live_word_def lookup_by_distinct)

lemma word_key_inj:
  "words_ok U ws \<Longrightarrow> r \<in> set ws \<Longrightarrow> q \<in> set ws \<Longrightarrow> word_key r = word_key q \<Longrightarrow> r = q"
  by (auto simp: words_ok_def distinct_map dest: inj_onD)

lemma word_key_times [simp]:
  "word_key (r\<lparr>wr_deleted_at := t, wr_updated_at := u\<rparr>) = word_key r"
  by (simp add: word_key_def)

lemma keeps_SoftDeleteWord_stmt [triple_intros]: "keeps db_ok (SoftDeleteWord_stmt i)"
proof (rule keepsI)
  fix d :: "'a db_scheme"
  assume d: "db_ok d"
  have "words_ok (user_ids d) (update_where (\<lambda>r. wr_id r = i \<and> wr_deleted_at r = None)
      (\<lambda>r. r\<lparr>wr_deleted_at := Some (db_now d), wr_updated_at := db_now d\<rparr>) (db_words d))"
    using db_okD(2) [OF d]
    by (intro words_ok_update) (auto simp: words_ok_def word_row_ok_def dest: word_key_inj [OF db_okD(2) [OF d]])
  with d show "db_ok (snd (SoftDeleteWord_stmt i d))"
    by (auto simp: SoftDeleteWord_stmt_def word_ids_def image_update_where intro!: db_ok_words)
qed

lemma keeps_GetWordByID [triple_intros]: "keeps I (GetWordByID i)"
  unfolding GetWordByID_def by (rule keeps_read)

lemma set_word_columns_simps [simp]:
  "wr_id (set_word_columns p r) = wr_id r" "wr_dialect (set_word_columns p r) = wr_dialect r"
  "wr_created_by (set_word_columns p r) = wr_created_by r"
  "wr_deleted_at (set_word_columns p r) = wr_deleted_at r"
  "wr_created_at (set_word_columns p r) = wr_created_at r"
  by (simp_all add: set_word_columns_def)

lemma keeps_UpdateWord_stmt [triple_intros]: "keeps db_ok (UpdateWord_stmt p)"
  unfolding UpdateWord_stmt_def
proof (intro triple_intros keeps_sqlP)
  fix d :: "'a db_scheme"
  assume d: "db_ok d" and checks: "\<forall>c \<in> set
      [(wr_word_class p \<notin> set word_class_enum, InvalidEnum (wr_word_class p)),
       (wr_status p \<notin> set word_status_enum, InvalidEnum (wr_status p)),
       (wr_source p \<notin> set word_source_enum, InvalidEnum (wr_source p)),
       (case live_word (wr_id p) (db_words d) of
          None \<Rightarrow> False
        | Some r \<Rightarrow> list_ex (\<lambda>q. wr_id q \<noteq> wr_id p \<and> word_key q = word_key (set_word_columns p r))
            (db_words d), UniqueViolation ''words_unique''),
       (live_word (wr_id p) (db_words d) \<noteq> None \<and> \<not> opt_in (wr_root p) (word_ids d),
        ForeignKeyViolation ''words_root_word_id_fkey'')]. \<not> fst c"
  note ok = db_okD(2) [OF d]
  have live: "live_word (wr_id p) (db_words d) = Some r"
    if "r \<in> set (db_words d)" "wr_id r = wr_id p" "wr_deleted_at r = None" for r
    using live_word_distinct [of "db_words d" r] that ok by (simp add: words_ok_def)
  have "words_ok (user_ids d) (update_where (\<lambda>r. wr_id r = wr_id p \<and> wr_deleted_at r = None)
      (set_word_columns p) (db_words d))"
  proof (rule words_ok_update [OF ok])
    fix r
    assume r: "r \<in> set (db_words d)" "wr_id r = wr_id p" "wr_deleted_at r = None"
    then show "word_row_ok (user_ids d) (wr_id ` set (db_words d)) (set_word_columns p r)"
      using checks live [OF r] ok
      by (simp add: word_row_ok_def words_ok_def set_word_columns_def word_ids_def)
    fix q
    assume "q \<in> set (db_words d)" "wr_id q \<noteq> wr_id p"
    then show "word_key (set_word_columns p r) \<noteq> word_key q"
      using checks live [OF r] by (auto simp: list_ex_iff)
  qed simp
  with d show "db_ok (snd ((), d\<lparr>db_words := update_where
      (\<lambda>r. wr_id r = wr_id p \<and> wr_deleted_at r = None) (set_word_columns p) (db_words d)\<rparr>))"
    by (auto simp: word_ids_def image_update_where intro!: db_ok_words)
qed

section \<open>Definitions and examples\<close>

lemma keeps_GetDefinitionsByWordID [triple_intros]: "keeps I (GetDefinitionsByWordID i)"
  unfolding GetDefinitionsByWordID_def by (rule keeps_get)

lemma keeps_GetExamplesByWordID [triple_intros]: "keeps I (GetExamplesByWordID i)"
  unfolding GetExamplesByWordID_def by (rule keeps_get)

lemma keeps_GetDefinitionByID [triple_intros]: "keeps I (GetDefinitionByID i)"
  unfolding GetDefinitionByID_def by (rule keeps_read)

lemma keeps_DeleteDefinitions [triple_intros]: "keeps db_ok (DeleteDefinitionsByWordID i)"
  by (auto simp: keeps_def DeleteDefinitionsByWordID_def definitions_ok_def distinct_delete_where
      dest: db_okD(3) intro!: db_ok_definitions)

lemma keeps_DeleteExamples [triple_intros]: "keeps db_ok (DeleteExamplesByWordID i)"
  by (auto simp: keeps_def DeleteExamplesByWordID_def examples_ok_def distinct_delete_where
      dest: db_okD(4) intro!: db_ok_examples)

lemma definitions_ok_append:
  "definitions_ok W ds \<Longrightarrow> dr_id r \<notin> dr_id ` set ds \<Longrightarrow> dr_word r \<in> W \<Longrightarrow>
     dr_source r \<in> set word_source_enum \<Longrightarrow> definitions_ok W (ds @ [r])"
  by (auto simp: definitions_ok_def)

lemma examples_ok_append:
  "examples_ok W xs \<Longrightarrow> xr_id r \<notin> xr_id ` set xs \<Longrightarrow> xr_word r \<in> W \<Longrightarrow>
     xr_source r \<in> set word_source_enum \<Longrightarrow> examples_ok W (xs @ [r])"
  by (auto simp: examples_ok_def)

lemma definitions_ok_update:
  "definitions_ok W ds \<Longrightarrow> (\<And>x. dr_id (f x) = dr_id x \<and> dr_word (f x) = dr_word x \<and> dr_source (f x) = dr_source x) \<Longrightarrow>
     definitions_ok W (update_where P f ds)"
  by (auto simp: definitions_ok_def map_update_where dest!: set_update_where)

lemma examples_ok_update:
  "examples_ok W xs \<Longrightarrow> (\<And>x. xr_id (f x) = xr_id x \<and> xr_word (f x) = xr_word x \<and> xr_source (f x) = xr_source x) \<Longrightarrow>
     examples_ok W (update_where P f xs)"
  by (auto simp: examples_ok_def map_update_where dest!: set_update_where)

lemma keeps_UpsertDefinition [triple_intros]: "keeps db_ok (UpsertDefinition r)"
  unfolding UpsertDefinition_def
  by (intro triple_intros keeps_sqlP)
    (auto intro!: db_ok_definitions definitions_ok_append definitions_ok_update intro: db_okD)

lemma keeps_UpsertExample [triple_intros]: "keeps db_ok (UpsertExample r)"
  unfolding UpsertExample_def
  by (rule keeps_sqlP)
    (auto intro!: db_ok_examples examples_ok_append examples_ok_update intro: db_okD)

section \<open>The repository\<close>

lemma keeps_upsertChildren [triple_intros]: "keeps db_ok (upsertChildren w)"
  unfolding upsertChildren_def by (intro triple_intros)

lemma keeps_hydrate [triple_intros]: "keeps I (hydrate r)"
  unfolding hydrate_def by (intro triple_intros)

lemma keeps_hydrateMany [triple_intros]: "keeps I (hydrateMany rs)"
  unfolding hydrateMany_def by (intro triple_intros)

lemma keeps_WordRepo [triple_intros]:
  "keeps db_ok (WordRepo_Create E w)" "keeps db_ok (WordRepo_Update w)"
  "keeps db_ok (WordRepo_SoftDelete i)"
  unfolding WordRepo_Create_def WordRepo_Update_def WordRepo_SoftDelete_def
  by (intro triple_intros)+

lemma keeps_WordRepo_queries [triple_intros]:
  "keeps I (WordRepo_FindByID i)" "keeps I (WordRepo_FindByBanjar b)"
  "keeps I (WordRepo_FindAll E f p n)" "keeps I (WordRepo_Search E q f p n)"
  unfolding WordRepo_FindByID_def WordRepo_FindByBanjar_def WordRepo_FindAll_def WordRepo_Search_def
    GetWordByID_def GetWordByBanjar_def ListWords_stmt_def CountWords_def SearchWords_stmt_def
    CountSearchWords_def Let_def
  by (intro triple_intros)+

end
