(* ===== verification/Community_Invariant.thy ===== *)
theory Community_Invariant
  imports Community_Service Dictionary_Invariant
begin

text \<open>
  Every statement and every repository operation of the community context keeps the invariant
  of the database.
\<close>

section \<open>Contributions\<close>

lemma contributions_ok_append:
  "contributions_ok U W cs \<Longrightarrow> cr_id r \<notin> cr_id ` set cs \<Longrightarrow> contribution_row_ok U W r \<Longrightarrow>
     contributions_ok U W (cs @ [r])"
  by (auto simp: contributions_ok_def)

lemma keeps_CreateContribution [triple_intros]: "keeps db_ok (CreateContribution i ty u t p)"
  unfolding CreateContribution_def
  by (rule keeps_sqlP)
    (auto simp: Let_def contribution_row_ok_def contribution_ids_def contribution_status_enum_def
      intro!: db_ok_contributions contributions_ok_append intro: db_okD)

lemma keeps_GetContributionByID [triple_intros]: "keeps I (GetContributionByID i)"
  unfolding GetContributionByID_def by (rule keeps_read)

lemma contributions_ok_update:
  "contributions_ok U W cs \<Longrightarrow> status \<in> set contribution_status_enum \<Longrightarrow>
     (i \<in> cr_id ` set cs \<longrightarrow> opt_in reviewer U) \<Longrightarrow>
     contributions_ok U W (update_where (\<lambda>r. cr_id r = i)
       (\<lambda>r. r\<lparr>cr_status := status, cr_reviewer := reviewer, cr_note := note, cr_reviewed_at := t\<rparr>) cs)"
  by (auto simp: contributions_ok_def contribution_row_ok_def map_update_where dest!: set_update_where)

lemma keeps_UpdateContribution [triple_intros]: "keeps db_ok (UpdateContribution i status reviewer note t)"
  unfolding UpdateContribution_def
  by (intro triple_intros keeps_sqlP)
    (auto simp: contribution_ids_def image_update_where intro!: db_ok_contributions contributions_ok_update
      intro: db_okD)

section \<open>Votes\<close>

lemma votes_ok_append:
  "votes_ok U vs \<Longrightarrow> vr_id v \<notin> vr_id ` set vs \<Longrightarrow> vote_key v \<notin> vote_key ` set vs \<Longrightarrow> vr_user v \<in> U \<Longrightarrow>
     vr_type v \<in> set vote_target_enum \<Longrightarrow> vr_value v \<in> set vote_value_enum \<Longrightarrow> votes_ok U (vs @ [v])"
  by (auto simp: votes_ok_def)

lemma vote_key_updates [simp]:
  "vote_key (v\<lparr>vr_value := x\<rparr>) = vote_key v" "vote_key (v\<lparr>vr_created_at := t\<rparr>) = vote_key v"
  by (simp_all add: vote_key_def)

lemma votes_ok_update:
  "votes_ok U vs \<Longrightarrow> x \<in> set vote_value_enum \<Longrightarrow> votes_ok U (update_where P (\<lambda>v. v\<lparr>vr_value := x\<rparr>) vs)"
  by (auto simp: votes_ok_def map_update_where dest!: set_update_where)

lemma keeps_UpsertVote [triple_intros]: "keeps db_ok (UpsertVote r)"
  unfolding UpsertVote_def
  by (intro triple_intros keeps_sqlP)
    (auto simp: Let_def intro!: db_ok_votes votes_ok_append votes_ok_update intro: db_okD)

lemma keeps_GetVote [triple_intros]: "keeps I (GetVoteByUserAndTarget u ty t)"
  unfolding GetVoteByUserAndTarget_def by (rule keeps_read)

lemma keeps_DeleteVote [triple_intros]: "keeps db_ok (DeleteVote u ty t)"
  unfolding DeleteVote_def
  by (rule keeps_sqlP) (auto simp: votes_ok_def distinct_delete_where dest: db_okD(6) intro!: db_ok_votes)

section \<open>Bookmarks\<close>

lemma bookmarks_ok_append:
  "bookmarks_ok U W bs \<Longrightarrow> br_id b \<notin> br_id ` set bs \<Longrightarrow> bookmark_key b \<notin> bookmark_key ` set bs \<Longrightarrow>
     br_user b \<in> U \<Longrightarrow> br_word b \<in> W \<Longrightarrow> bookmarks_ok U W (bs @ [b])"
  by (auto simp: bookmarks_ok_def)

lemma keeps_CreateBookmark [triple_intros]: "keeps db_ok (CreateBookmark i u w)"
  unfolding CreateBookmark_def
  by (rule keeps_sqlP)
    (auto simp: Let_def bookmark_key_def intro!: db_ok_bookmarks bookmarks_ok_append intro: db_okD)

lemma keeps_DeleteBookmark [triple_intros]: "keeps db_ok (DeleteBookmark u w)"
  by (auto simp: keeps_def DeleteBookmark_def bookmarks_ok_def distinct_delete_where
      dest: db_okD(7) intro!: db_ok_bookmarks)

section \<open>Comments\<close>

lemma comments_ok_append:
  "comments_ok U cs \<Longrightarrow> mr_id c \<notin> mr_id ` set cs \<Longrightarrow> mr_user c \<in> U \<Longrightarrow>
     mr_type c \<in> set comment_target_enum \<Longrightarrow> comments_ok U (cs @ [c])"
  by (auto simp: comments_ok_def)

lemma comments_ok_update:
  "comments_ok U cs \<Longrightarrow> (\<And>c. mr_id (f c) = mr_id c \<and> mr_user (f c) = mr_user c \<and> mr_type (f c) = mr_type c) \<Longrightarrow>
     comments_ok U (update_where P f cs)"
  by (auto simp: comments_ok_def map_update_where dest!: set_update_where)

lemma keeps_CreateComment [triple_intros]: "keeps db_ok (CreateComment i u ty t body)"
  unfolding CreateComment_def
  by (rule keeps_sqlP) (auto simp: Let_def intro!: db_ok_comments comments_ok_append intro: db_okD)

lemma keeps_GetCommentByID [triple_intros]: "keeps I (GetCommentByID i)"
  unfolding GetCommentByID_def by (rule keeps_read)

lemma keeps_comment_update:
  "(\<And>d c. mr_id (f d c) = mr_id c \<and> mr_user (f d c) = mr_user c \<and> mr_type (f d c) = mr_type c) \<Longrightarrow>
     keeps db_ok (\<lambda>d. (Inr (), d\<lparr>db_comments := update_where P (f d) (db_comments d)\<rparr>))"
  by (auto simp: keeps_def intro!: db_ok_comments comments_ok_update intro: db_okD)

lemma keeps_UpdateComment [triple_intros]: "keeps db_ok (UpdateComment i body)"
  unfolding UpdateComment_def by (intro triple_intros keeps_comment_update) simp

lemma keeps_FlagComment_stmt [triple_intros]: "keeps db_ok (FlagComment_stmt i)"
  unfolding FlagComment_stmt_def by (intro triple_intros keeps_comment_update) simp

lemma keeps_DeleteComment_stmt [triple_intros]: "keeps db_ok (DeleteComment_stmt i)"
  by (auto simp: keeps_def DeleteComment_stmt_def comments_ok_def distinct_delete_where
      dest: db_okD(8) intro!: db_ok_comments)

section \<open>Repositories and checkers\<close>

lemma keeps_ContribRepo [triple_intros]:
  "keeps db_ok (ContribRepo_Create c)" "keeps db_ok (ContribRepo_Update c)"
  unfolding ContribRepo_Create_def ContribRepo_Update_def by (intro triple_intros)+

lemma keeps_ContribRepo_queries [triple_intros]:
  "keeps I (ContribRepo_FindByID i)" "keeps I (ContribRepo_FindByContributor u f p n)"
  "keeps I (ContribRepo_FindAll f p n)"
  unfolding ContribRepo_FindByID_def ContribRepo_FindByContributor_def ContribRepo_FindAll_def
    contribution_filterStrings_def CountContributionsByContributor_def ListContributionsByContributor_def
    CountAllContributions_def ListAllContributions_def prod.case
  by (intro triple_intros)+

lemma keeps_VoteRepo [triple_intros]:
  "keeps db_ok (VoteRepo_Upsert v)" "keeps db_ok (VoteRepo_Delete u ty t)" "keeps I (VoteRepo_Find u ty t)"
  unfolding VoteRepo_Upsert_def VoteRepo_Delete_def VoteRepo_Find_def by (intro triple_intros)+

lemma keeps_BookmarkRepo [triple_intros]:
  "keeps db_ok (BookmarkRepo_Create E b)" "keeps db_ok (BookmarkRepo_Delete u w)"
  "keeps I (BookmarkRepo_FindByUser u p n)" "keeps I (BookmarkRepo_Exists u w)"
  unfolding BookmarkRepo_Create_def BookmarkRepo_Delete_def BookmarkRepo_FindByUser_def
    BookmarkRepo_Exists_def CountBookmarksByUser_def ListBookmarksByUser_def GetBookmarkByUserAndWord_def
  by (intro triple_intros)+

lemma keeps_CommentRepo [triple_intros]:
  "keeps db_ok (CommentRepo_Create c)" "keeps I (CommentRepo_FindByID i)"
  "keeps I (CommentRepo_FindByTarget ty t p n)" "keeps db_ok (CommentRepo_Update c)"
  "keeps db_ok (CommentRepo_Delete i)"
  unfolding CommentRepo_Create_def CommentRepo_FindByID_def CommentRepo_FindByTarget_def
    CommentRepo_Update_def CommentRepo_Delete_def CountCommentsByTarget_def ListCommentsByTarget_def
  by (intro triple_intros)+

lemma keeps_checkers [triple_intros]:
  "keeps I (word_Exists i)" "keeps I (definition_Exists i)" "keeps I (IsEmailVerified_check i)"
  unfolding word_Exists_def definition_Exists_def IsEmailVerified_check_def by (intro triple_intros)+

lemmas community_repositories =
  PostgresContributionRepository_def PostgresVoteRepository_def PostgresBookmarkRepository_def
  PostgresCommentRepository_def db_contribution_svc_def db_vote_svc_def db_bookmark_svc_def
  db_comment_svc_def

section \<open>Commands\<close>

lemma keeps_contribution_commands [triple_intros]:
  "keeps db_ok (SubmitContribution (db_runtime E) db_contribution_svc u i)"
  "keeps db_ok (WithdrawContribution db_contribution_svc u i')"
  "keeps db_ok (GetContribution db_contribution_svc u role i')"
  "keeps db_ok (Update_contribution db_contribution_svc c)"
  unfolding SubmitContribution_def WithdrawContribution_def GetContribution_def Update_contribution_def
    NewContribution_def community_repositories contribution_svc.simps contribution_repository.simps
  by (intro triple_intros)+

lemma keeps_CastVote [triple_intros]: "keeps db_ok (CastVote (db_runtime E) db_vote_svc u ty t x)"
  unfolding CastVote_def CastVote_domain_def community_repositories vote_svc.simps vote_repository.simps
  by (cases "ty = VoteTargetWord"; cases "ty = VoteTargetDefinition"; simp; intro triple_intros)

lemma keeps_RemoveVote [triple_intros]: "keeps db_ok (RemoveVote db_vote_svc u ty t)"
  unfolding RemoveVote_def community_repositories vote_svc.simps vote_repository.simps
  by (intro triple_intros)

lemma keeps_bookmark_commands [triple_intros]:
  "keeps db_ok (AddBookmark (db_runtime E) (db_bookmark_svc E) u w)"
  "keeps db_ok (RemoveBookmark (db_bookmark_svc E) u w)"
  unfolding AddBookmark_def RemoveBookmark_def NewBookmark_def community_repositories bookmark_svc.simps
    bookmark_repository.simps
  by (intro triple_intros)+

lemma keeps_comment_commands [triple_intros]:
  "keeps db_ok (PostComment (db_runtime E) db_comment_svc u w body)"
  "keeps db_ok (EditComment (db_runtime E) db_comment_svc u i body)"
  "keeps db_ok (DeleteComment db_comment_svc u role i)"
  "keeps db_ok (FlagComment (db_runtime E) db_comment_svc i)"
  unfolding PostComment_def EditComment_def DeleteComment_def FlagComment_def NewComment_def
    community_repositories comment_svc.simps comment_repository.simps
  by (intro triple_intros)+

end
