(* ===== verification/Dictionary_Contract.thy ===== *)
theory Dictionary_Contract
  imports Dictionary_Invariant
begin

text \<open>
  What the word repository promises, as a locale over a finite map of the words that are not
  deleted, and the proof that the PostgreSQL repository keeps the promise. A word comes back as
  \<open>stored_word\<close>: its numbers at the width of their columns, its definitions in the order of the
  query, without the related words, for which there is no table.
\<close>

section \<open>The abstraction\<close>

definition entity_order :: "definition_entity \<Rightarrow> definition_entity \<Rightarrow> bool" where
  "entity_order a b \<longleftrightarrow>
     df_sort_order a < df_sort_order b \<or>
     (df_sort_order a = df_sort_order b \<and>
      df_upvotes b - df_downvotes b \<le> df_upvotes a - df_downvotes a)"

definition stored_definition :: "definition_entity \<Rightarrow> definition_entity" where
  "stored_definition x =
     x\<lparr>df_sort_order := int16 (df_sort_order x), df_upvotes := int32 (df_upvotes x),
       df_downvotes := int32 (df_downvotes x)\<rparr>"

definition stored_word :: "word \<Rightarrow> word" where
  "stored_word w =
     w\<lparr>wd_homonym := int16 (wd_homonym w),
       wd_definitions := sort_by entity_order (map stored_definition (wd_definitions w)),
       wd_related := [], wd_deleted_at := None\<rparr>"

text \<open>The identifiers of the children are new: no other word's child has them.\<close>

definition fresh_children :: "uuid set \<Rightarrow> uuid set \<Rightarrow> word \<Rightarrow> bool" where
  "fresh_children D X w \<longleftrightarrow>
     distinct (map df_id (wd_definitions w)) \<and> distinct (map ex_id (wd_examples w)) \<and>
     df_id ` set (wd_definitions w) \<inter> D = {} \<and> ex_id ` set (wd_examples w) \<inter> X = {}"

lemma total_preorder_entity_order: "total_preorder entity_order"
  unfolding total_preorder_def entity_order_def by auto

lemma stored_word_mset:
  "mset (wd_definitions (stored_word w)) = mset (map stored_definition (wd_definitions w))"
  by (simp add: stored_word_def)

lemma stored_word_sorted: "sorted_wrt entity_order (wd_definitions (stored_word w))"
  by (simp add: stored_word_def sorted_sort_by total_preorder_entity_order)

lemma stored_word_fields [simp]:
  "wd_id (stored_word w) = wd_id w" "wd_banjar (stored_word w) = wd_banjar w"
  "wd_class (stored_word w) = wd_class w" "wd_status (stored_word w) = wd_status w"
  "wd_source (stored_word w) = wd_source w" "wd_examples (stored_word w) = wd_examples w"
  "wd_related (stored_word w) = []" "wd_deleted_at (stored_word w) = None"
  "wd_dialect (stored_word w) = wd_dialect w" "wd_created_by (stored_word w) = wd_created_by w"
  by (simp_all add: stored_word_def)

section \<open>The contract\<close>

locale word_repository_contract =
  fixes repo :: "'s word_repository" and words :: "'s \<Rightarrow> uuid \<Rightarrow> word option"
    and defs :: "'s \<Rightarrow> uuid \<Rightarrow> uuid set" and exs :: "'s \<Rightarrow> uuid \<Rightarrow> uuid set"
    and inv :: "'s \<Rightarrow> bool" and now :: "'s \<Rightarrow> time"
  assumes words_id: "words s i = Some w \<Longrightarrow> wd_id w = i"
    and words_live: "words s i = Some w \<Longrightarrow> wd_deleted_at w = None"
    and find_word: "wrp_FindByID repo i s =
      (case words s i of None \<Rightarrow> Inl (Dictionary ErrWordNotFound) | Some w \<Rightarrow> Inr w, s)"
    and create_word: "inv s \<Longrightarrow> wrp_Create repo w s = (Inr (), s') \<Longrightarrow>
      fresh_children (defs s (wd_id w)) (exs s (wd_id w)) w \<Longrightarrow>
      inv s' \<and> words s (wd_id w) = None \<and> words s' = (words s)(wd_id w \<mapsto> stored_word w)"
    and update_word: "inv s \<Longrightarrow> wrp_Update repo w s = (Inr (), s') \<Longrightarrow>
      fresh_children (defs s (wd_id w)) (exs s (wd_id w)) w \<Longrightarrow>
      inv s' \<and> (\<exists>v. words s (wd_id w) = Some v \<and>
        words s' = (words s)(wd_id w \<mapsto> (stored_word w)
          \<lparr>wd_dialect := wd_dialect v, wd_created_by := wd_created_by v,
           wd_created_at := wd_created_at v, wd_updated_at := now s\<rparr>))"
    and delete_word: "inv s \<Longrightarrow> \<exists>s'. wrp_SoftDelete repo i s = (Inr (), s') \<and> inv s' \<and>
        words s' = (words s)(i := None)"
begin

lemma find_word_Inr: "wrp_FindByID repo i s = (Inr w, s') \<longleftrightarrow> words s i = Some w \<and> s' = s"
  by (auto simp: find_word split: option.splits)

text \<open>A word that is created is read back as it is stored; nothing else changes.\<close>

lemma create_find:
  assumes "inv s" "wrp_Create repo w s = (Inr (), s')" "fresh_children (defs s (wd_id w)) (exs s (wd_id w)) w"
  shows "wrp_FindByID repo (wd_id w) s' = (Inr (stored_word w), s')"
    and "i \<noteq> wd_id w \<Longrightarrow> words s' i = words s i"
  using create_word [OF assms] by (simp_all add: find_word)

text \<open>A word that is deleted is not found; deleting again changes nothing.\<close>

lemma delete_find:
  assumes "inv s" "wrp_SoftDelete repo i s = (r, s')"
  shows "r = Inr ()" "wrp_FindByID repo i s' = (Inl (Dictionary ErrWordNotFound), s')"
    "j \<noteq> i \<Longrightarrow> words s' j = words s j"
  using delete_word [OF assms(1), of i] assms(2) by (auto simp: find_word)

end

section \<open>The repository over the database\<close>

definition db_definitions_of :: "'z db_scheme \<Rightarrow> uuid \<Rightarrow> definition_row list" where
  "db_definitions_of d i = sort_by definition_order (filter (\<lambda>x. dr_word x = i) (db_definitions d))"

definition db_examples_of :: "'z db_scheme \<Rightarrow> uuid \<Rightarrow> example_row list" where
  "db_examples_of d i =
     sort_by (\<lambda>a b. xr_created_at a \<le> xr_created_at b) (filter (\<lambda>x. xr_word x = i) (db_examples d))"

definition db_word :: "'z db_scheme \<Rightarrow> uuid \<Rightarrow> word option" where
  "db_word d i =
     map_option (\<lambda>r. word_toDomain r (db_definitions_of d i) (db_examples_of d i))
       (live_word i (db_words d))"

definition other_definitions :: "'z db_scheme \<Rightarrow> uuid \<Rightarrow> uuid set" where
  "other_definitions d i = dr_id ` {x \<in> set (db_definitions d). dr_word x \<noteq> i}"

definition other_examples :: "'z db_scheme \<Rightarrow> uuid \<Rightarrow> uuid set" where
  "other_examples d i = xr_id ` {x \<in> set (db_examples d). xr_word x \<noteq> i}"

lemma hydrate_run:
  "hydrate r d = (Inr (word_toDomain r (db_definitions_of d (wr_id r)) (db_examples_of d (wr_id r))), d)"
  by (simp add: hydrate_def GetDefinitionsByWordID_def GetExamplesByWordID_def prog_defs
      db_definitions_of_def db_examples_of_def)

lemma WordRepo_FindByID_run:
  "WordRepo_FindByID i d =
     (case db_word d i of None \<Rightarrow> Inl (Dictionary ErrWordNotFound) | Some w \<Rightarrow> Inr w, d)"
  by (auto simp: WordRepo_FindByID_def GetWordByID_def db_word_def prog_defs one_row_def hydrate_run
      word_not_found_def split: option.splits dest: live_word_Some)

text \<open>The loops of \<open>upsertChildren\<close>, when the identifiers are new\<close>

lemma UpsertDefinition_fresh:
  "UpsertDefinition r d = (Inr x, d') \<Longrightarrow> dr_id r \<notin> dr_id ` set (db_definitions d) \<Longrightarrow>
     d' = d\<lparr>db_definitions := db_definitions d @ [r]\<rparr>"
  by (auto simp: UpsertDefinition_def GetDefinitionByID_def prog_Inr sqlP_Inr)

lemma each_definition:
  "eachP (\<lambda>x. bindP (UpsertDefinition (definition_params t i x)) (\<lambda>_. retP ())) xs d = (Inr (), d') \<Longrightarrow>
     distinct (map df_id xs) \<Longrightarrow> df_id ` set xs \<inter> dr_id ` set (db_definitions d) = {} \<Longrightarrow>
     d' = d\<lparr>db_definitions := db_definitions d @ map (definition_params t i) xs\<rparr>"
proof (induction xs arbitrary: d)
  case Nil
  then show ?case by (simp add: retP_Inr)
next
  case (Cons x xs)
  have id: "dr_id (definition_params t i y) = df_id y" for y by (simp add: definition_params_def)
  from Cons.prems(1) obtain d1 y where u: "UpsertDefinition (definition_params t i x) d = (Inr y, d1)"
    and rest: "eachP (\<lambda>x. bindP (UpsertDefinition (definition_params t i x)) (\<lambda>_. retP ())) xs d1 = (Inr (), d')"
    by (auto simp: prog_Inr)
  have d1: "d1 = d\<lparr>db_definitions := db_definitions d @ [definition_params t i x]\<rparr>"
    using UpsertDefinition_fresh [OF u] Cons.prems(3) by (simp add: id)
  have "d' = d1\<lparr>db_definitions := db_definitions d1 @ map (definition_params t i) xs\<rparr>"
    using Cons.prems(2,3) by (intro Cons.IH [OF rest]) (auto simp: d1 id)
  with d1 show ?case by simp
qed

lemma UpsertExample_fresh:
  "UpsertExample r d = (Inr (), d') \<Longrightarrow> xr_id r \<notin> xr_id ` set (db_examples d) \<Longrightarrow>
     d' = d\<lparr>db_examples := db_examples d @ [r]\<rparr>"
  by (auto simp: UpsertExample_def sqlP_Inr)

lemma each_example:
  "eachP (\<lambda>x. UpsertExample (example_params t i x)) xs d = (Inr (), d') \<Longrightarrow>
     distinct (map ex_id xs) \<Longrightarrow> ex_id ` set xs \<inter> xr_id ` set (db_examples d) = {} \<Longrightarrow>
     d' = d\<lparr>db_examples := db_examples d @ map (example_params t i) xs\<rparr>"
proof (induction xs arbitrary: d)
  case Nil
  then show ?case by (simp add: retP_Inr)
next
  case (Cons x xs)
  have id: "xr_id (example_params t i y) = ex_id y" for y by (simp add: example_params_def)
  from Cons.prems(1) obtain d1 where u: "UpsertExample (example_params t i x) d = (Inr (), d1)"
    and rest: "eachP (\<lambda>x. UpsertExample (example_params t i x)) xs d1 = (Inr (), d')"
    by (auto simp: prog_Inr)
  have d1: "d1 = d\<lparr>db_examples := db_examples d @ [example_params t i x]\<rparr>"
    using UpsertExample_fresh [OF u] Cons.prems(3) by (simp add: id)
  have "d' = d1\<lparr>db_examples := db_examples d1 @ map (example_params t i) xs\<rparr>"
    using Cons.prems(2,3) by (intro Cons.IH [OF rest]) (auto simp: d1 id)
  with d1 show ?case by simp
qed

lemma upsertChildren_fresh:
  assumes "upsertChildren w d = (Inr (), d')"
    and "fresh_children (dr_id ` set (db_definitions d)) (xr_id ` set (db_examples d)) w"
  shows "d' = d\<lparr>db_definitions := db_definitions d @ map (definition_params (db_now d) (wd_id w)) (wd_definitions w),
                db_examples := db_examples d @ map (example_params (db_now d) (wd_id w)) (wd_examples w)\<rparr>"
proof -
  from assms(1) obtain d1 where
    1: "eachP (\<lambda>x. bindP (UpsertDefinition (definition_params (db_now d) (wd_id w) x)) (\<lambda>_. retP ()))
          (wd_definitions w) d = (Inr (), d1)" and
    2: "eachP (\<lambda>x. UpsertExample (example_params (db_now d) (wd_id w) x)) (wd_examples w) d1 = (Inr (), d')"
    by (auto simp: upsertChildren_def prog_Inr)
  note d1 = each_definition [OF 1]
  have "d1 = d\<lparr>db_definitions := db_definitions d @ map (definition_params (db_now d) (wd_id w)) (wd_definitions w)\<rparr>"
    using assms(2) by (intro d1) (auto simp: fresh_children_def)
  with each_example [OF 2] assms(2) show ?thesis by (auto simp: fresh_children_def)
qed

text \<open>Rows that were just written are read back as the entities they were made of.\<close>

lemma filter_children:
  "filter (\<lambda>x. dr_word x = i) (map (definition_params t i) xs) = map (definition_params t i) xs"
  "filter (\<lambda>x. xr_word x = i) (map (example_params t i) ys) = map (example_params t i) ys"
  "j \<noteq> i \<Longrightarrow> filter (\<lambda>x. dr_word x = j) (map (definition_params t i) xs) = []"
  "j \<noteq> i \<Longrightarrow> filter (\<lambda>x. xr_word x = j) (map (example_params t i) ys) = []"
  by (simp_all add: filter_map o_def definition_params_def example_params_def)

lemma definitions_roundtrip:
  "map definition_toDomain (sort_by definition_order (map (definition_params t i) xs)) =
     sort_by entity_order (map stored_definition xs)"
proof -
  have "map definition_toDomain (sort_by definition_order ys) =
      sort_by entity_order (map definition_toDomain ys)" for ys
    by (rule sort_by_map [symmetric]) (simp add: entity_order_def definition_order_def definition_toDomain_def)
  moreover have "definition_toDomain (definition_params t i x) = stored_definition x" for x
    by (simp add: definition_toDomain_def definition_params_def stored_definition_def)
  ultimately show ?thesis by (simp add: o_def)
qed

lemma examples_roundtrip:
  "map example_toDomain (sort_by (\<lambda>a b. xr_created_at a \<le> xr_created_at b) (map (example_params t i) xs)) = xs"
proof -
  have "sort_by (\<lambda>a b. xr_created_at a \<le> xr_created_at b) (map (example_params t i) xs) =
      map (example_params t i) xs"
    by (rule sort_by_sorted) (simp add: sorted_wrt_map example_params_def sorted_wrt_iff_nth_less)
  moreover have "example_toDomain (example_params t i x) = x" for x
    by (simp add: example_toDomain_def example_params_def)
  ultimately show ?thesis by (simp add: o_def)
qed

lemma null_string_roundtrip [simp]: "option_string (null_string s) = s"
  by (simp add: null_string_def option_string_def)

lemma word_roundtrip:
  "word_toDomain (toCreateParams w)
     (sort_by definition_order (map (definition_params t (wd_id w)) (wd_definitions w)))
     (sort_by (\<lambda>a b. xr_created_at a \<le> xr_created_at b) (map (example_params t (wd_id w)) (wd_examples w)))
   = stored_word w"
  by (simp add: word_toDomain_def toCreateParams_def stored_word_def definitions_roundtrip examples_roundtrip)

lemma live_word_append:
  "wr_id r \<notin> wr_id ` set ws \<Longrightarrow> wr_deleted_at r = None \<Longrightarrow>
     live_word i (ws @ [r]) = (if i = wr_id r then Some r else live_word i ws)"
  by (auto simp: live_word_def table_simps lookup_by_None [symmetric] split: option.splits)

lemma db_word_create:
  assumes ok: "db_ok d" and new: "wd_id w \<notin> word_ids d"
  shows "db_word (d\<lparr>db_words := db_words d @ [toCreateParams w],
      db_definitions := db_definitions d @ map (definition_params t (wd_id w)) (wd_definitions w),
      db_examples := db_examples d @ map (example_params t (wd_id w)) (wd_examples w)\<rparr>) =
    (db_word d)(wd_id w \<mapsto> stored_word w)"
proof (rule ext)
  fix i
  have id: "wr_id (toCreateParams w) = wd_id w" "wr_deleted_at (toCreateParams w) = None"
    by (simp_all add: toCreateParams_def)
  have none: "filter (\<lambda>x. dr_word x = wd_id w) (db_definitions d) = []"
    "filter (\<lambda>x. xr_word x = wd_id w) (db_examples d) = []"
    using db_okD(3,4) [OF ok] new by (auto simp: definitions_ok_def examples_ok_def filter_empty_conv)
  show "db_word (d\<lparr>db_words := db_words d @ [toCreateParams w],
      db_definitions := db_definitions d @ map (definition_params t (wd_id w)) (wd_definitions w),
      db_examples := db_examples d @ map (example_params t (wd_id w)) (wd_examples w)\<rparr>) i =
    ((db_word d)(wd_id w \<mapsto> stored_word w)) i"
    using new by (simp add: db_word_def db_definitions_of_def db_examples_of_def word_ids_def live_word_append
        id filter_children none word_roundtrip)
qed

lemma WordRepo_Create_ok:
  assumes ok: "db_ok d" and c: "WordRepo_Create E w d = (Inr (), d')"
    and fresh: "fresh_children (other_definitions d (wd_id w)) (other_examples d (wd_id w)) w"
  shows "db_ok d' \<and> db_word d (wd_id w) = None \<and> db_word d' = (db_word d)(wd_id w \<mapsto> stored_word w)"
proof -
  from c obtain d1 where st: "CreateWord_stmt (toCreateParams w) d = (Inr (toCreateParams w), d1)"
    and ch: "upsertChildren w d1 = (Inr (), d')"
    by (auto simp: WordRepo_Create_def prog_Inr CreateWord_stmt_def sqlP_Inr toCreateParams_def)
  from st have d1: "d1 = d\<lparr>db_words := db_words d @ [toCreateParams w]\<rparr>" and new: "wd_id w \<notin> word_ids d"
    by (auto simp: CreateWord_stmt_def sqlP_Inr toCreateParams_def)
  have "other_definitions d (wd_id w) = dr_id ` set (db_definitions d)"
    "other_examples d (wd_id w) = xr_id ` set (db_examples d)"
    using db_okD(3,4) [OF ok] new unfolding other_definitions_def other_examples_def
    by (auto simp: definitions_ok_def examples_ok_def intro!: arg_cong [where f = "image _"])
  with fresh have "fresh_children (dr_id ` set (db_definitions d1)) (xr_id ` set (db_examples d1)) w"
    by (simp add: d1)
  from upsertChildren_fresh [OF ch this] have "db_word d' = (db_word d)(wd_id w \<mapsto> stored_word w)"
    using db_word_create [OF ok new, of "db_now d"] by (simp add: d1)
  moreover have "db_word d (wd_id w) = None"
    using new by (auto simp: db_word_def word_ids_def live_word_def lookup_by_None [symmetric])
  moreover have "db_ok d'" using keepsD [OF keeps_WordRepo(1) ok c] .
  ultimately show ?thesis by simp
qed


text \<open>An update replaces the row's columns and all the children.\<close>

lemma live_word_update:
  "(\<And>r. wr_id (f r) = wr_id r \<and> wr_deleted_at (f r) = wr_deleted_at r) \<Longrightarrow>
     live_word i (update_where (\<lambda>r. wr_id r = k \<and> wr_deleted_at r = None) f ws) =
       (if i = k then map_option f (live_word i ws) else live_word i ws)"
  by (auto simp: live_word_def lookup_update_where split: option.split dest!: lookup_by_Some)

lemma live_word_delete:
  assumes "\<And>r. wr_id (f r) = wr_id r" and "\<And>r. wr_deleted_at (f r) \<noteq> None"
  shows "live_word i (update_where (\<lambda>r. wr_id r = k \<and> wr_deleted_at r = None) f ws) =
       (if i = k then None else live_word i ws)"
proof (cases "lookup_by wr_id i ws")
  case None
  then show ?thesis by (simp add: live_word_def lookup_update_where assms(1))
next
  case (Some r)
  with lookup_by_Some [OF Some] assms(2) [of r] show ?thesis
    by (auto simp: live_word_def lookup_update_where assms(1))
qed

lemma filter_delete_where:
  "filter (\<lambda>x. key x = j) (delete_where (\<lambda>x. key x = i) xs) = (if j = i then [] else filter (\<lambda>x. key x = j) xs)"
  by (induction xs) (auto simp: delete_where_def)

lemma word_toDomain_columns:
  "word_toDomain (set_word_columns ((toCreateParams w)\<lparr>wr_updated_at := t\<rparr>) r)
     (sort_by definition_order (map (definition_params t' (wd_id w)) (wd_definitions w)))
     (sort_by (\<lambda>a b. xr_created_at a \<le> xr_created_at b) (map (example_params t' (wd_id w)) (wd_examples w)))
   = (stored_word w)\<lparr>wd_id := wr_id r, wd_dialect := wr_dialect r, wd_created_by := wr_created_by r,
       wd_created_at := wr_created_at r, wd_updated_at := t, wd_deleted_at := wr_deleted_at r\<rparr>"
  by (simp add: word_toDomain_def toCreateParams_def stored_word_def definitions_roundtrip
      examples_roundtrip set_word_columns_def)

lemma WordRepo_Update_steps:
  assumes "WordRepo_Update w d = (Inr (), d')"
  obtains r d1 where "live_word (wd_id w) (db_words d) = Some r"
    "d1 = d\<lparr>db_words := update_where (\<lambda>r. wr_id r = wd_id w \<and> wr_deleted_at r = None)
        (set_word_columns ((toCreateParams w)\<lparr>wr_updated_at := db_now d\<rparr>)) (db_words d),
      db_definitions := delete_where (\<lambda>x. dr_word x = wd_id w) (db_definitions d),
      db_examples := delete_where (\<lambda>x. xr_word x = wd_id w) (db_examples d)\<rparr>"
    "upsertChildren w d1 = (Inr (), d')"
proof -
  have id: "wr_id (toCreateParams w) = wd_id w" by (simp add: toCreateParams_def)
  have live: "live_word (wd_id w) (update_where (\<lambda>r. wr_id r = wd_id w \<and> wr_deleted_at r = None)
      (set_word_columns p) ws) = map_option (set_word_columns p) (live_word (wd_id w) ws)" for p ws
    by (simp add: live_word_update)
  from assms show ?thesis
    by (auto simp: WordRepo_Update_def UpdateWord_stmt_def GetWordByID_def prog_Inr sqlP_Inr id one_row_def
        DeleteDefinitionsByWordID_def DeleteExamplesByWordID_def live
        split: option.splits elim!: that [rotated 2])
qed

lemma WordRepo_Update_ok:
  assumes ok: "db_ok d" and u: "WordRepo_Update w d = (Inr (), d')"
    and fresh: "fresh_children (other_definitions d (wd_id w)) (other_examples d (wd_id w)) w"
  shows "db_ok d' \<and> (\<exists>v. db_word d (wd_id w) = Some v \<and>
    db_word d' = (db_word d)(wd_id w \<mapsto> (stored_word w)
      \<lparr>wd_dialect := wd_dialect v, wd_created_by := wd_created_by v,
       wd_created_at := wd_created_at v, wd_updated_at := db_now d\<rparr>))"
proof -
  from u obtain r d1 where r: "live_word (wd_id w) (db_words d) = Some r"
    and d1: "d1 = d\<lparr>db_words := update_where (\<lambda>r. wr_id r = wd_id w \<and> wr_deleted_at r = None)
        (set_word_columns ((toCreateParams w)\<lparr>wr_updated_at := db_now d\<rparr>)) (db_words d),
      db_definitions := delete_where (\<lambda>x. dr_word x = wd_id w) (db_definitions d),
      db_examples := delete_where (\<lambda>x. xr_word x = wd_id w) (db_examples d)\<rparr>"
    and ch: "upsertChildren w d1 = (Inr (), d')"
    by (rule WordRepo_Update_steps)
  have "fresh_children (dr_id ` set (db_definitions d1)) (xr_id ` set (db_examples d1)) w"
    using fresh by (simp add: d1 other_definitions_def other_examples_def)
  note d' = upsertChildren_fresh [OF ch this]
  obtain v where v: "db_word d (wd_id w) = Some v" "v = word_toDomain r (db_definitions_of d (wd_id w)) (db_examples_of d (wd_id w))"
    using r by (simp add: db_word_def)
  have "db_word d' = (db_word d)(wd_id w \<mapsto> (stored_word w)
      \<lparr>wd_dialect := wd_dialect v, wd_created_by := wd_created_by v,
       wd_created_at := wd_created_at v, wd_updated_at := db_now d\<rparr>)"
  proof (rule ext)
    fix i
    show "db_word d' i = ((db_word d)(wd_id w \<mapsto> (stored_word w)
      \<lparr>wd_dialect := wd_dialect v, wd_created_by := wd_created_by v,
       wd_created_at := wd_created_at v, wd_updated_at := db_now d\<rparr>)) i"
      using r live_word_Some [OF r]
      by (simp add: d' d1 db_word_def db_definitions_of_def db_examples_of_def live_word_update
          filter_delete_where filter_children word_toDomain_columns v(2))
        (simp add: word_toDomain_def stored_word_def)
  qed
  with v(1) keepsD [OF keeps_WordRepo(2) ok u] show ?thesis by blast
qed

lemma WordRepo_SoftDelete_run:
  "WordRepo_SoftDelete i d = (Inr (), d\<lparr>db_words := update_where (\<lambda>r. wr_id r = i \<and> wr_deleted_at r = None)
        (\<lambda>r. r\<lparr>wr_deleted_at := Some (db_now d), wr_updated_at := db_now d\<rparr>) (db_words d)\<rparr>)"
  by (simp add: WordRepo_SoftDelete_def SoftDeleteWord_stmt_def)

lemma WordRepo_SoftDelete_ok:
  assumes "db_ok d"
  shows "\<exists>d'. WordRepo_SoftDelete i d = (Inr (), d') \<and> db_ok d' \<and> db_word d' = (db_word d)(i := None)"
proof -
  have "db_word (snd (WordRepo_SoftDelete i d)) = (db_word d)(i := None)"
    by (rule ext) (simp add: WordRepo_SoftDelete_run db_word_def db_definitions_of_def db_examples_of_def
        live_word_delete)
  with keepsD [OF keeps_WordRepo(3) assms WordRepo_SoftDelete_run [of i d]] show ?thesis
    by (simp add: WordRepo_SoftDelete_run)
qed

interpretation pg_words: word_repository_contract
  "PostgresWordRepository E" db_word other_definitions other_examples db_ok db_now for E
proof (unfold_locales, unfold PostgresWordRepository_def word_repository.simps)
  fix s :: "'z db_scheme" and i and w :: word
  assume "db_word s i = Some w"
  then show "wd_id w = i" "wd_deleted_at w = None"
    by (auto simp: db_word_def word_toDomain_def dest: live_word_Some)
qed (fact WordRepo_FindByID_run WordRepo_Create_ok WordRepo_Update_ok WordRepo_SoftDelete_ok)+

text \<open>A word whose key exists already, even on a word that was deleted, is refused.\<close>

lemma word_containsStr_iff: "word_containsStr s sub \<longleftrightarrow> sublist sub s"
proof
  assume "word_containsStr s sub"
  then obtain i where "take (length sub) (drop i s) = sub"
    by (auto simp del: upt_Suc simp: word_containsStr_def list_ex_iff split: if_splits)
  then show "sublist sub s" unfolding sublist_def by (metis append_take_drop_id)
next
  assume "sublist sub s"
  then obtain ps ss where s: "s = ps @ sub @ ss" by (auto simp: sublist_def)
  then have "take (length sub) (drop (length ps) s) = sub" by simp
  moreover have "\<not> length s < length sub" "length ps \<in> set [0..<Suc (length s - length sub)]"
    using s by auto
  ultimately show "word_containsStr s sub"
    unfolding word_containsStr_def list_ex_iff by (auto simp del: upt_Suc)
qed

lemma word_isUniqueViolation_Sql:
  "sql_text_ok E \<Longrightarrow> word_isUniqueViolation E (Sql (UniqueViolation c))"
  by (auto simp: word_isUniqueViolation_def word_containsStr_iff sql_text_ok_def)

lemma WordRepo_Create_conflict:
  assumes "sql_text_ok E" and "word_key (toCreateParams w) \<in> word_key ` set (db_words d)"
    and "wd_dialect w \<in> set dialect_enum" "wd_class w \<in> set word_class_enum"
      "wd_status w \<in> set word_status_enum" "wd_source w \<in> set word_source_enum"
  shows "WordRepo_Create E w d = (Inl (Dictionary ErrWordConflict), d)"
  using assms word_isUniqueViolation_Sql [OF assms(1)]
  by (simp add: WordRepo_Create_def CreateWord_stmt_def sqlP_def prog_defs)
    (simp add: toCreateParams_def)

end
