(* ===== verification/Dictionary_Service.thy ===== *)
theory Dictionary_Service
  imports Dictionary_Store
begin

text \<open>
  \<open>internal/dictionary/application\<close>: the commands that create, update and delete words
  (\<open>commands/word_commands.go\<close>) and the queries that list, search and read them
  (\<open>queries/word_queries.go\<close>), over the interface \<open>WordRepository\<close>.
\<close>

section \<open>Commands\<close>

record definition_input =
  di_meaning :: string
  di_sort_order :: int

record example_input =
  ei_banjar :: string
  ei_indonesian :: string

record word_input =
  wi_banjar :: string
  wi_syllabified :: string
  wi_class :: string
  wi_dialect :: string
  wi_homonym :: int
  wi_is_root :: bool
  wi_root :: "uuid option"
  wi_definitions :: "definition_input list"
  wi_examples :: "example_input list"
  wi_reference :: string

text \<open>The loops over the definitions and examples of the input; \<open>i\<close> is the loop's index.\<close>

fun add_definitions ::
  "'s runtime \<Rightarrow> int \<Rightarrow> definition_input list \<Rightarrow> word \<Rightarrow> ('s, err, word) prog" where
  "add_definitions R i [] w = retP w"
| "add_definitions R i (x # xs) w =
     bindP (AddDefinition R (di_meaning x) (if di_sort_order x = 0 then i + 1 else di_sort_order x) w)
       (\<lambda>w'. add_definitions R (i + 1) xs w')"

fun add_examples :: "'s runtime \<Rightarrow> example_input list \<Rightarrow> word \<Rightarrow> ('s, err, word) prog" where
  "add_examples R [] w = retP w"
| "add_examples R (x # xs) w =
     bindP (AddExample R (ei_banjar x) (ei_indonesian x) w) (\<lambda>w'. add_examples R xs w')"

text \<open>The assignments of \<open>CreateWord\<close> between \<open>NewWord\<close> and the loops\<close>

definition set_created_by :: "ext \<Rightarrow> string \<Rightarrow> word \<Rightarrow> word" where
  "set_created_by E adminID w =
     (if adminID = [] then w
      else (case x_uuid_parse E adminID of (i, ok) \<Rightarrow>
        if ok then w\<lparr>wd_created_by := Some i, wd_source := SourceContributed\<rparr> else w))"

definition fill_word :: "ext \<Rightarrow> string \<Rightarrow> word_input \<Rightarrow> word \<Rightarrow> word" where
  "fill_word E adminID input w0 =
     (let w1 = w0\<lparr>wd_syllabified := wi_syllabified input, wd_reference := wi_reference input,
                   wd_source := SourceSeeded\<rparr>;
          w2 = set_created_by E adminID w1;
          w3 = (if 0 < wi_homonym input then w2\<lparr>wd_homonym := wi_homonym input\<rparr> else w2);
          w4 = w3\<lparr>wd_is_root := wi_is_root input\<rparr>
      in if \<not> wd_is_root w4 then w4\<lparr>wd_root := wi_root input\<rparr> else w4)"

definition CreateWord ::
  "ext \<Rightarrow> 's runtime \<Rightarrow> 's word_repository \<Rightarrow> string \<Rightarrow> word_input \<Rightarrow> ('s, err, word) prog" where
  "CreateWord E R words adminID input =
     (let dialect = (if wi_dialect input = [] then DialectHulu else wi_dialect input) in
      bindP (NewWord R (wi_banjar input) (wi_class input) dialect) (\<lambda>w0.
      bindP (add_definitions R 0 (wi_definitions input) (fill_word E adminID input w0)) (\<lambda>w1.
      bindP (add_examples R (wi_examples input) w1) (\<lambda>w2.
      bindP (wrp_Create words w2) (\<lambda>_.
      retP w2)))))"

text \<open>The assignments of \<open>UpdateWord\<close>; the only one that can fail is that of the word class.\<close>

definition edit_word :: "word_input \<Rightarrow> word \<Rightarrow> err + word" where
  "edit_word input w0 =
     (let w1 = (if wi_banjar input \<noteq> [] then w0\<lparr>wd_banjar := wi_banjar input\<rparr> else w0);
          w2 = (if wi_syllabified input \<noteq> [] then w1\<lparr>wd_syllabified := wi_syllabified input\<rparr> else w1)
      in case (if wi_class input \<noteq> [] then WordClass_Validate (wi_class input) else None) of
           Some e \<Rightarrow> Inl e
         | None \<Rightarrow>
             let w3 = (if wi_class input \<noteq> [] then w2\<lparr>wd_class := wi_class input\<rparr> else w2);
                 w4 = (if wi_reference input \<noteq> [] then w3\<lparr>wd_reference := wi_reference input\<rparr> else w3)
             in Inr w4)"

definition UpdateWord ::
  "ext \<Rightarrow> 's runtime \<Rightarrow> 's word_repository \<Rightarrow> string \<Rightarrow> string \<Rightarrow> word_input \<Rightarrow> ('s, err, word) prog" where
  "UpdateWord E R words adminID wordID input =
     (case x_uuid_parse E wordID of (i, ok) \<Rightarrow>
      rejectP (\<not> ok) (Dictionary ErrWordNotFound) (
      bindP (wrp_FindByID words i) (\<lambda>w0.
      rejectP (IsDeleted w0) (Dictionary ErrWordNotFound) (
      bindP (sumP (edit_word input w0)) (\<lambda>w1.
      bindP (add_definitions R 0 (wi_definitions input) (w1\<lparr>wd_definitions := []\<rparr>)) (\<lambda>w2.
      bindP (add_examples R (wi_examples input) (w2\<lparr>wd_examples := []\<rparr>)) (\<lambda>w3.
      bindP (nowP R) (\<lambda>now.
      bindP (wrp_Update words (w3\<lparr>wd_updated_at := now\<rparr>)) (\<lambda>_.
      retP (w3\<lparr>wd_updated_at := now\<rparr>)))))))))) "

definition SoftDeleteWord :: "ext \<Rightarrow> 's word_repository \<Rightarrow> string \<Rightarrow> ('s, err, unit) prog" where
  "SoftDeleteWord E words wordID =
     (case x_uuid_parse E wordID of (i, ok) \<Rightarrow>
      rejectP (\<not> ok) (Dictionary ErrWordNotFound) (
      bindP (tryP (wrp_FindByID words i)) (\<lambda>r.
      case r of
        Inl e \<Rightarrow> if errors_is e (Dictionary ErrWordNotFound) then retP () else failP e
      | Inr w \<Rightarrow> if IsDeleted w then retP () else wrp_SoftDelete words i)))"

section \<open>Queries\<close>

record list_result =
  lr_words :: "word list"
  lr_meta :: pagination_meta

definition GetWord :: "ext \<Rightarrow> 's word_repository \<Rightarrow> string \<Rightarrow> ('s, err, word) prog" where
  "GetWord E words idStr =
     (case x_uuid_parse E idStr of (i, ok) \<Rightarrow>
      rejectP (\<not> ok) (Dictionary ErrWordNotFound) (
      bindP (wrp_FindByID words i) (\<lambda>w.
      rejectP (IsDeleted w \<or> wd_status w = WordStatusDeprecated) (Dictionary ErrWordNotFound) (
      retP w))))"

definition norm_page :: "int \<Rightarrow> int" where
  "norm_page page = (if page < 1 then DefaultPage else page)"

definition norm_per_page :: "int \<Rightarrow> int" where
  "norm_per_page perPage = (if perPage < 1 \<or> MaxPerPage < perPage then DefaultPerPage else perPage)"

definition active_by_default :: "word_filters \<Rightarrow> word_filters" where
  "active_by_default f = (if wf_status f = None then f\<lparr>wf_status := Some WordStatusActive\<rparr> else f)"

definition list_result_of :: "int \<Rightarrow> int \<Rightarrow> word list \<times> int \<Rightarrow> list_result" where
  "list_result_of page perPage r =
     (case r of (words, tot) \<Rightarrow>
        \<lparr>lr_words = words,
         lr_meta = \<lparr>pm_page = page, pm_per_page = perPage, pm_total = tot,
                    pm_total_pages = TotalPages tot perPage\<rparr>\<rparr>)"

definition ListWords ::
  "'s word_repository \<Rightarrow> word_filters \<Rightarrow> int \<Rightarrow> int \<Rightarrow> ('s, err, list_result) prog" where
  "ListWords words f page perPage =
     bindP (wrp_FindAll words (active_by_default f) (norm_page page) (norm_per_page perPage)) (\<lambda>r.
     retP (list_result_of (norm_page page) (norm_per_page perPage) r))"

definition SearchWords ::
  "'s word_repository \<Rightarrow> string \<Rightarrow> word_filters \<Rightarrow> int \<Rightarrow> int \<Rightarrow> ('s, err, list_result) prog" where
  "SearchWords words q f page perPage =
     (if q = [] then ListWords words f page perPage
      else
        bindP (wrp_Search words q (active_by_default f) (norm_page page) (norm_per_page perPage)) (\<lambda>r.
        retP (list_result_of (norm_page page) (norm_per_page perPage) r)))"

end
