(* ===== verification/Dictionary_Http.thy ===== *)
theory Dictionary_Http
  imports Dictionary_Service Auth Ratelimit
begin

text \<open>
  \<open>internal/dictionary/http\<close>: responses, handlers and routes of the dictionary.
\<close>

section \<open>Responses (\<open>dto.go\<close>)\<close>

record definition_response =
  do_id :: uuid
  do_meaning :: string
  do_sort_order :: int
  do_source :: string
  do_upvotes :: int
  do_downvotes :: int
  do_net_score :: int

record example_response =
  xo_id :: uuid
  xo_banjar :: string
  xo_indonesian :: string
  xo_source :: string

record word_response =
  wo_id :: uuid
  wo_banjar :: string
  wo_syllabified :: string
  wo_dialect :: string
  wo_class :: string
  wo_homonym :: int
  wo_is_root :: bool
  wo_root :: "uuid option"
  wo_definitions :: "definition_response list"
  wo_examples :: "example_response list"
  wo_status :: string
  wo_source :: string
  wo_reference :: string
  wo_created_by :: "uuid option"
  wo_created_at :: time
  wo_updated_at :: time

record word_summary_response =
  ws_id :: uuid
  ws_banjar :: string
  ws_class :: string
  ws_dialect :: string
  ws_homonym :: int
  ws_is_root :: bool
  ws_status :: string
  ws_source :: string
  ws_first_meaning :: string

record word_input_request =
  wq_banjar :: string
  wq_syllabified :: string
  wq_class :: string
  wq_dialect :: string
  wq_homonym :: int
  wq_is_root :: bool
  wq_root :: "uuid option"
  wq_definitions :: "definition_input list"
  wq_examples :: "example_input list"
  wq_reference :: string

datatype dictionary_data =
    WordData word_response
  | SummaryData "word_summary_response list"
  | DefinitionsData "definition_response list"
  | ExamplesData "example_response list"

definition to_definition_response :: "definition_entity \<Rightarrow> definition_response" where
  "to_definition_response x =
     \<lparr>do_id = df_id x, do_meaning = df_meaning x, do_sort_order = df_sort_order x,
      do_source = df_source x, do_upvotes = df_upvotes x, do_downvotes = df_downvotes x,
      do_net_score = NetScore x\<rparr>"

definition to_example_response :: "example_entity \<Rightarrow> example_response" where
  "to_example_response x =
     \<lparr>xo_id = ex_id x, xo_banjar = ex_banjar x, xo_indonesian = ex_indonesian x,
      xo_source = ex_source x\<rparr>"

definition toWordResponse :: "word \<Rightarrow> word_response" where
  "toWordResponse w =
     \<lparr>wo_id = wd_id w, wo_banjar = wd_banjar w, wo_syllabified = wd_syllabified w,
      wo_dialect = wd_dialect w, wo_class = wd_class w, wo_homonym = wd_homonym w,
      wo_is_root = wd_is_root w, wo_root = wd_root w,
      wo_definitions = map to_definition_response (wd_definitions w),
      wo_examples = map to_example_response (wd_examples w),
      wo_status = wd_status w, wo_source = wd_source w, wo_reference = wd_reference w,
      wo_created_by = wd_created_by w, wo_created_at = wd_created_at w,
      wo_updated_at = wd_updated_at w\<rparr>"

definition toWordSummaryResponse :: "word \<Rightarrow> word_summary_response" where
  "toWordSummaryResponse w =
     \<lparr>ws_id = wd_id w, ws_banjar = wd_banjar w, ws_class = wd_class w, ws_dialect = wd_dialect w,
      ws_homonym = wd_homonym w, ws_is_root = wd_is_root w, ws_status = wd_status w,
      ws_source = wd_source w,
      ws_first_meaning = (case wd_definitions w of [] \<Rightarrow> [] | x # _ \<Rightarrow> df_meaning x)\<rparr>"

section \<open>Helpers (\<open>handler.go\<close>)\<close>

definition nonempty :: "string \<Rightarrow> string option" where
  "nonempty t = (if t \<noteq> [] then Some t else None)"

definition buildFilter :: "'b request \<Rightarrow> word_filters" where
  "buildFilter c =
     \<lparr>wf_class = nonempty (rq_query c ''word_class''),
      wf_is_root =
        (if rq_query c ''is_root'' = ''true'' then Some True
         else if rq_query c ''is_root'' = ''false'' then Some False else None),
      wf_source = nonempty (rq_query c ''source''), wf_status = None,
      wf_sort = query c ''sort'' ''alphabetical''\<rparr>"

definition toWordInput :: "word_input_request \<Rightarrow> word_input" where
  "toWordInput req =
     \<lparr>wi_banjar = wq_banjar req, wi_syllabified = wq_syllabified req, wi_class = wq_class req,
      wi_dialect = (if wq_dialect req = [] then DialectHulu else wq_dialect req),
      wi_homonym = wq_homonym req,
      wi_is_root = (wq_root req = None),
      wi_root = wq_root req, wi_definitions = wq_definitions req,
      wi_examples = wq_examples req, wi_reference = wq_reference req\<rparr>"

definition mapWordError :: "ext \<Rightarrow> err \<Rightarrow> 'd response" where
  "mapWordError E e =
     (let is = (\<lambda>t. errors_is e (Dictionary t)); text = err_text (x_sql_text E) e in
      if is ErrWordNotFound then Send 404 (NotFound text)
      else if is ErrWordConflict then Send 409 (Conflict text)
      else if is ErrEmptyBanjar \<or> is ErrInvalidWordClass \<or> is ErrInvalidDialect \<or> is ErrMeaningTooLong then
        Send 422 (Validation text [])
      else Send 500 (Internal ''internal server error''))"

section \<open>Public handlers\<close>

definition ListWords_handler :: "ext \<Rightarrow> 's word_repository \<Rightarrow> ('s, 'b, dictionary_data) handler" where
  "ListWords_handler E words c s =
     (case Parse c of
        Inl errResp \<Rightarrow> (Send 422 errResp, s)
      | Inr p \<Rightarrow>
          let f = buildFilter c; q = rq_query c ''q'' in
          respond (\<lambda>e. Send 500 (Internal (err_text (x_sql_text E) e)))
            (\<lambda>r. Paginated (SummaryData (map toWordSummaryResponse (lr_words r))) (lr_meta r))
            (if q \<noteq> [] then SearchWords words q f (pg_page p) (pg_per_page p)
             else ListWords words f (pg_page p) (pg_per_page p)) s)"

definition GetWord_handler :: "ext \<Rightarrow> 's word_repository \<Rightarrow> ('s, 'b, dictionary_data) handler" where
  "GetWord_handler E words c =
     respond (mapWordError E) (\<lambda>w. OK (WordData (toWordResponse w)))
       (GetWord E words (rq_param c ''id''))"

text \<open>\<open>sort.Slice\<close> by the net score, best first, then by the sort order\<close>

definition score_order :: "definition_response \<Rightarrow> definition_response \<Rightarrow> bool" where
  "score_order a b \<longleftrightarrow>
     (if do_net_score a \<noteq> do_net_score b then do_net_score b < do_net_score a
      else do_sort_order a \<le> do_sort_order b)"

definition GetDefinitions :: "ext \<Rightarrow> 's word_repository \<Rightarrow> ('s, 'b, dictionary_data) handler" where
  "GetDefinitions E words c =
     respond (mapWordError E)
       (\<lambda>w. OK (DefinitionsData (sort_by score_order (map to_definition_response (wd_definitions w)))))
       (GetWord E words (rq_param c ''id''))"

definition GetExamples :: "ext \<Rightarrow> 's word_repository \<Rightarrow> ('s, 'b, dictionary_data) handler" where
  "GetExamples E words c =
     respond (mapWordError E) (\<lambda>w. OK (ExamplesData (map to_example_response (wd_examples w))))
       (GetWord E words (rq_param c ''id''))"

text \<open>The loop of \<open>GetRelatedWords\<close>: a related word that cannot be read is skipped.\<close>

fun related_summaries ::
  "ext \<Rightarrow> 's word_repository \<Rightarrow> uuid list \<Rightarrow> ('s, err, word_summary_response list) prog" where
  "related_summaries E words [] = retP []"
| "related_summaries E words (i # is) =
     bindP (tryP (GetWord E words (x_uuid_string E i) :: ('s, err, word) prog)) (\<lambda>r.
     bindP (related_summaries E words is) (\<lambda>rest.
     retP (case r of Inl _ \<Rightarrow> rest | Inr w \<Rightarrow> toWordSummaryResponse w # rest)))"

definition GetRelatedWords :: "ext \<Rightarrow> 's word_repository \<Rightarrow> ('s, 'b, dictionary_data) handler" where
  "GetRelatedWords E words c =
     respond (mapWordError E) (\<lambda>related. OK (SummaryData related))
       (bindP (GetWord E words (rq_param c ''id'')) (\<lambda>w. related_summaries E words (wd_related w)))"

section \<open>Admin handlers\<close>

definition AdminCreateWord ::
  "ext \<Rightarrow> 's runtime \<Rightarrow> 's word_repository \<Rightarrow> ('s, word_input_request, dictionary_data) handler" where
  "AdminCreateWord E R words c s =
     (case rq_body c of (req, ok) \<Rightarrow>
        if \<not> ok then (Send 422 (Validation ''invalid request body'' []), s)
        else if wq_banjar req = [] \<or> wq_class req = [] then
          (Send 422 (Validation ''banjar and word_class are required''
             [detail ''banjar'' ''required'', detail ''word_class'' ''required'']), s)
        else with_claims (\<lambda>claims c s.
          respond (mapWordError E) (\<lambda>w. Created (WordData (toWordResponse w)))
            (CreateWord E R words (cl_user_id claims) (toWordInput req)) s) c s)"

definition AdminUpdateWord ::
  "ext \<Rightarrow> 's runtime \<Rightarrow> 's word_repository \<Rightarrow> ('s, word_input_request, dictionary_data) handler" where
  "AdminUpdateWord E R words c s =
     (case rq_body c of (req, ok) \<Rightarrow>
        if \<not> ok then (Send 422 (Validation ''invalid request body'' []), s)
        else with_claims (\<lambda>claims c s.
          respond (mapWordError E) (\<lambda>w. OK (WordData (toWordResponse w)))
            (UpdateWord E R words (cl_user_id claims) (rq_param c ''id'') (toWordInput req)) s) c s)"

definition AdminDeleteWord :: "ext \<Rightarrow> 's word_repository \<Rightarrow> ('s, 'b, dictionary_data) handler" where
  "AdminDeleteWord E words c =
     respond (mapWordError E) (\<lambda>_. NoContent) (SoftDeleteWord E words (rq_param c ''id''))"

section \<open>Routes (\<open>routes.go\<close>)\<close>

definition words_key_limit :: "'b request \<Rightarrow> string \<times> int" where
  "words_key_limit c =
     (case GetClaims c of
        None \<Rightarrow> (''ratelimit:words:ip:'' @ rq_ip c, 60)
      | Some claims \<Rightarrow> (''ratelimit:words:user:'' @ cl_user_id claims, 120))"

definition words_group ::
  "ext \<Rightarrow> 's runtime \<Rightarrow> string \<Rightarrow> 's counter \<Rightarrow> ('s, 'b, 'd) middleware" where
  "words_group E R secret ct next =
     TryAuth E secret (rt_now R) (AdaptiveLimiter ct words_key_limit minute next)"

definition admin_words_group :: "ext \<Rightarrow> 's runtime \<Rightarrow> string \<Rightarrow> ('s, 'b, 'd) middleware" where
  "admin_words_group E R secret next =
     RequireAuth E secret (rt_now R) (RequireRole [''admin''] next)"

end
