(* ===== verification/Dictionary_Proofs.thy ===== *)
theory Dictionary_Proofs
  imports Dictionary_Contract Dictionary_Http
begin

text \<open>
  What the commands and queries of the dictionary do, proved over the contract of the word
  repository and then for the PostgreSQL repository, whose contract is interpreted.
\<close>

section \<open>The loops of the commands\<close>

fun given_orders :: "int \<Rightarrow> definition_input list \<Rightarrow> int list" where
  "given_orders i [] = []"
| "given_orders i (x # xs) =
     (if di_sort_order x = 0 then i + 1 else di_sort_order x) # given_orders (i + 1) xs"

lemma add_definitions_Inr:
  "add_definitions R i xs w s = (Inr w', s') \<Longrightarrow>
     \<exists>ds t. w' = w\<lparr>wd_definitions := wd_definitions w @ ds, wd_updated_at := t\<rparr> \<and>
       map df_meaning ds = map di_meaning xs \<and> map df_sort_order ds = given_orders i xs \<and>
       (\<forall>x \<in> set ds. df_source x = wd_source w \<and> df_upvotes x = 0 \<and> df_downvotes x = 0) \<and>
       (\<forall>x \<in> set xs. length (di_meaning x) \<le> MaxMeaningLength)"
proof (induction xs arbitrary: i w s)
  case Nil
  then show ?case by (intro exI [of _ "[]"] exI [of _ "wd_updated_at w"]) (simp add: prog_Inr)
next
  case (Cons x xs)
  let ?so = "if di_sort_order x = 0 then i + 1 else di_sort_order x"
  from Cons.prems obtain w1 s1 where 1: "AddDefinition R (di_meaning x) ?so w s = (Inr w1, s1)"
    and 2: "add_definitions R (i + 1) xs w1 s1 = (Inr w', s')"
    by (auto simp: prog_Inr)
  from AddDefinition_Inr [OF 1] obtain j t where len: "length (di_meaning x) \<le> MaxMeaningLength"
    and w1: "w1 = w\<lparr>wd_definitions := wd_definitions w @
         [\<lparr>df_id = j, df_meaning = di_meaning x, df_sort_order = ?so, df_source = wd_source w,
           df_upvotes = 0, df_downvotes = 0\<rparr>], wd_updated_at := t\<rparr>"
    by blast
  from Cons.IH [OF 2] obtain ds t' where w': "w' = w1\<lparr>wd_definitions := wd_definitions w1 @ ds, wd_updated_at := t'\<rparr>"
    and ds: "map df_meaning ds = map di_meaning xs" "map df_sort_order ds = given_orders (i + 1) xs"
      "\<forall>x \<in> set ds. df_source x = wd_source w1 \<and> df_upvotes x = 0 \<and> df_downvotes x = 0"
      "\<forall>x \<in> set xs. length (di_meaning x) \<le> MaxMeaningLength"
    by blast
  show ?case
    using len w' w1 ds
    by (intro exI [of _ "\<lparr>df_id = j, df_meaning = di_meaning x, df_sort_order = ?so, df_source = wd_source w,
           df_upvotes = 0, df_downvotes = 0\<rparr> # ds"] exI [of _ t']) simp
qed

lemma add_examples_Inr:
  "add_examples R xs w s = (Inr w', s') \<Longrightarrow>
     \<exists>es t. w' = w\<lparr>wd_examples := wd_examples w @ es, wd_updated_at := t\<rparr> \<and>
       map ex_banjar es = map ei_banjar xs \<and> map ex_indonesian es = map ei_indonesian xs \<and>
       (\<forall>x \<in> set es. ex_source x = wd_source w)"
proof (induction xs arbitrary: w s)
  case Nil
  then show ?case by (intro exI [of _ "[]"] exI [of _ "wd_updated_at w"]) (simp add: prog_Inr)
next
  case (Cons x xs)
  from Cons.prems obtain w1 s1 where 1: "AddExample R (ei_banjar x) (ei_indonesian x) w s = (Inr w1, s1)"
    and 2: "add_examples R xs w1 s1 = (Inr w', s')"
    by (auto simp: prog_Inr)
  from AddExample_Inr [OF 1] obtain j t where
    w1: "w1 = w\<lparr>wd_examples := wd_examples w @
         [\<lparr>ex_id = j, ex_banjar = ei_banjar x, ex_indonesian = ei_indonesian x, ex_source = wd_source w\<rparr>],
         wd_updated_at := t\<rparr>"
    by blast
  from Cons.IH [OF 2] obtain es t' where w': "w' = w1\<lparr>wd_examples := wd_examples w1 @ es, wd_updated_at := t'\<rparr>"
    and es: "map ex_banjar es = map ei_banjar xs" "map ex_indonesian es = map ei_indonesian xs"
      "\<forall>x \<in> set es. ex_source x = wd_source w1"
    by blast
  show ?case
    using w' w1 es
    by (intro exI [of _ "\<lparr>ex_id = j, ex_banjar = ei_banjar x, ex_indonesian = ei_indonesian x,
          ex_source = wd_source w\<rparr> # es"] exI [of _ t']) simp
qed

text \<open>What a word made of an input looks like\<close>

definition word_of_input :: "ext \<Rightarrow> string \<Rightarrow> word_input \<Rightarrow> word \<Rightarrow> bool" where
  "word_of_input E adminID input w \<longleftrightarrow>
     wi_banjar input \<noteq> [] \<and> wd_banjar w = wi_banjar input \<and>
     wi_class input \<in> set validWordClasses \<and> wd_class w = wi_class input \<and>
     wd_dialect w = DialectHulu \<and> wd_status w = WordStatusActive \<and> wd_deleted_at w = None \<and>
     wd_homonym w = max 1 (wi_homonym input) \<and>
     wd_is_root w = wi_is_root input \<and> wd_root w = (if wi_is_root input then None else wi_root input) \<and>
     map df_meaning (wd_definitions w) = map di_meaning (wi_definitions input) \<and>
     map df_sort_order (wd_definitions w) = given_orders 0 (wi_definitions input) \<and>
     (\<forall>x \<in> set (wd_definitions w). df_source x = wd_source w \<and> df_upvotes x = 0 \<and> df_downvotes x = 0) \<and>
     map ex_banjar (wd_examples w) = map ei_banjar (wi_examples input) \<and>
     map ex_indonesian (wd_examples w) = map ei_indonesian (wi_examples input) \<and>
     wd_created_by w = (if adminID \<noteq> [] \<and> snd (x_uuid_parse E adminID) then Some (fst (x_uuid_parse E adminID)) else None) \<and>
     wd_source w = (if wd_created_by w = None then SourceSeeded else SourceContributed)"

lemma fill_word_fields [simp]:
  "wd_definitions (fill_word E a input w) = wd_definitions w" "wd_examples (fill_word E a input w) = wd_examples w"
  "wd_banjar (fill_word E a input w) = wd_banjar w" "wd_class (fill_word E a input w) = wd_class w"
  "wd_dialect (fill_word E a input w) = wd_dialect w" "wd_status (fill_word E a input w) = wd_status w"
  "wd_deleted_at (fill_word E a input w) = wd_deleted_at w" "wd_id (fill_word E a input w) = wd_id w"
  "wd_is_root (fill_word E a input w) = wi_is_root input"
  by (simp_all add: fill_word_def set_created_by_def Let_def split: prod.split)

lemma fill_word_values:
  "wd_homonym w = 1 \<Longrightarrow> wd_homonym (fill_word E a input w) = max 1 (wi_homonym input)"
  "wd_root w = None \<Longrightarrow> wd_root (fill_word E a input w) = (if wi_is_root input then None else wi_root input)"
  "wd_created_by w = None \<Longrightarrow> wd_created_by (fill_word E a input w) =
     (if a \<noteq> [] \<and> snd (x_uuid_parse E a) then Some (fst (x_uuid_parse E a)) else None)"
  "wd_source (fill_word E a input w) =
     (if a \<noteq> [] \<and> snd (x_uuid_parse E a) then SourceContributed else SourceSeeded)"
  by (auto simp: fill_word_def set_created_by_def Let_def split: prod.split)

text \<open>The three steps of \<open>CreateWord\<close> together\<close>

lemma word_of_input_steps:
  assumes n: "NewWord R (wi_banjar input) (wi_class input) dialect s = (Inr w0, s1)"
    and d: "add_definitions R 0 (wi_definitions input) (fill_word E a input w0) s1 = (Inr w1, s2)"
    and x: "add_examples R (wi_examples input) w1 s2 = (Inr w, s3)"
  shows "word_of_input E a input w"
proof -
  from add_definitions_Inr [OF d] obtain ds t where
    w1: "w1 = (fill_word E a input w0)\<lparr>wd_definitions := wd_definitions (fill_word E a input w0) @ ds,
         wd_updated_at := t\<rparr>"
    and ds: "map df_meaning ds = map di_meaning (wi_definitions input)"
      "map df_sort_order ds = given_orders 0 (wi_definitions input)"
      "\<forall>x \<in> set ds. df_source x = wd_source (fill_word E a input w0) \<and> df_upvotes x = 0 \<and> df_downvotes x = 0"
    by blast
  from add_examples_Inr [OF x] obtain es u where
    w: "w = w1\<lparr>wd_examples := wd_examples w1 @ es, wd_updated_at := u\<rparr>"
    and es: "map ex_banjar es = map ei_banjar (wi_examples input)"
      "map ex_indonesian es = map ei_indonesian (wi_examples input)"
    by blast
  note w0 = NewWord_Inr [OF n]
  have src: "wd_source (fill_word E a input w0) =
      (if wd_created_by (fill_word E a input w0) = None then SourceSeeded else SourceContributed)"
    using w0 by (simp add: fill_word_values)
  show ?thesis
    unfolding word_of_input_def w w1
    using w0 ds es src by (simp add: fill_word_values)
qed

section \<open>The commands over the contract\<close>

locale dictionary_service = word_repository_contract repo words defs exs inv now
  for repo :: "'s word_repository" and words defs exs inv now +
  fixes E :: ext and R :: "'s runtime"
  assumes clock: "rt_now R = now"
    and fr_uuid: "frames (\<lambda>s. (words s, defs s, exs s, inv s, now s)) (uuidP R :: ('s, err, uuid) prog)"
begin

abbreviation view :: "'s \<Rightarrow> (uuid \<Rightarrow> word option) \<times> (uuid \<Rightarrow> uuid set) \<times> (uuid \<Rightarrow> uuid set) \<times> bool \<times> time" where
  "view s \<equiv> (words s, defs s, exs s, inv s, now s)"

lemma frames_now: "frames view (nowP R :: ('s, err, time) prog)"
  by (simp add: frames_def nowP_def getP_def)

lemma frames_NewWord: "frames view (NewWord R b c dl)"
  unfolding NewWord_def by (intro frame_intros frames_now fr_uuid)

lemma frames_AddDefinition: "frames view (AddDefinition R m i w)"
  unfolding AddDefinition_def NewDefinition_def by (intro frame_intros frames_now fr_uuid)

lemma frames_AddExample: "frames view (AddExample R b i w)"
  unfolding AddExample_def NewExample_def by (intro frame_intros frames_now fr_uuid)

lemma frames_add_definitions: "frames view (add_definitions R i xs w)"
  by (induction xs arbitrary: i w) (auto intro: frame_intros frames_AddDefinition)

lemma frames_add_examples: "frames view (add_examples R xs w)"
  by (induction xs arbitrary: w) (auto intro: frame_intros frames_AddExample)

text \<open>\<open>CreateWord\<close> returns a word made of the input; it is stored, and nothing else changes.\<close>

lemma create_sound:
  assumes "inv s" and "CreateWord E R repo adminID input s = (Inr w, s')"
    and "fresh_children (defs s (wd_id w)) (exs s (wd_id w)) w"
  shows "word_of_input E adminID input w \<and> inv s' \<and> words s (wd_id w) = None \<and>
    words s' = (words s)(wd_id w \<mapsto> stored_word w)"
proof -
  let ?dl = "if wi_dialect input = [] then DialectHulu else wi_dialect input"
  from assms(2) obtain w0 s1 w1 s2 s3 where
    n: "NewWord R (wi_banjar input) (wi_class input) ?dl s = (Inr w0, s1)" and
    d: "add_definitions R 0 (wi_definitions input) (fill_word E adminID input w0) s1 = (Inr w1, s2)" and
    x: "add_examples R (wi_examples input) w1 s2 = (Inr w, s3)" and
    c: "wrp_Create repo w s3 = (Inr (), s')"
    by (auto simp: CreateWord_def Let_def prog_Inr)
  have "view s3 = view s"
    using framesD [OF frames_NewWord n] framesD [OF frames_add_definitions d]
      framesD [OF frames_add_examples x] by simp
  then have "inv s' \<and> words s (wd_id w) = None \<and> words s' = (words s)(wd_id w \<mapsto> stored_word w)"
    using create_word [OF _ c] assms(1,3) by simp
  moreover have "word_of_input E adminID input w"
    by (rule word_of_input_steps [OF n d x])
  ultimately show ?thesis by blast
qed

text \<open>\<open>GetWord\<close> shows a word exactly when it is there and not deprecated.\<close>

lemma GetWord_run:
  "GetWord E repo t s =
     (case x_uuid_parse E t of (i, ok) \<Rightarrow>
        (case words s i of
           Some w \<Rightarrow> if ok \<and> wd_status w \<noteq> WordStatusDeprecated then Inr w else Inl (Dictionary ErrWordNotFound)
         | None \<Rightarrow> Inl (Dictionary ErrWordNotFound)), s)"
  by (auto simp: GetWord_def find_word prog_defs IsDeleted_def dest: words_live
      split: prod.split option.split)

lemma create_get:
  assumes "inv s" and "CreateWord E R repo adminID input s = (Inr w, s')"
    and "fresh_children (defs s (wd_id w)) (exs s (wd_id w)) w" and "uuid_text_ok E"
  shows "GetWord E repo (x_uuid_string E (wd_id w)) s' = (Inr (stored_word w), s')"
  using create_sound [OF assms(1-3)] assms(4)
  by (simp add: GetWord_run uuid_text_ok_def word_of_input_def WordStatusActive_def WordStatusDeprecated_def)

text \<open>\<open>UpdateWord\<close> replaces the definitions and examples of a word by those of the input; the
  votes of the old definitions are gone with them.\<close>

lemma update_sound:
  assumes "inv s" and "UpdateWord E R repo adminID t input s = (Inr w, s')"
    and "fresh_children (defs s (wd_id w)) (exs s (wd_id w)) w"
  shows "x_uuid_parse E t = (wd_id w, True) \<and> inv s' \<and>
    map df_meaning (wd_definitions w) = map di_meaning (wi_definitions input) \<and>
    (\<forall>x \<in> set (wd_definitions w). df_upvotes x = 0 \<and> df_downvotes x = 0) \<and>
    map ex_banjar (wd_examples w) = map ei_banjar (wi_examples input) \<and>
    (\<exists>v. words s (wd_id w) = Some v \<and> wd_status w = wd_status v \<and> wd_source w = wd_source v \<and>
      (wi_class input \<noteq> [] \<longrightarrow> wi_class input \<in> set validWordClasses) \<and>
      words s' = (words s)(wd_id w \<mapsto> (stored_word w)
        \<lparr>wd_dialect := wd_dialect v, wd_created_by := wd_created_by v,
         wd_created_at := wd_created_at v, wd_updated_at := now s\<rparr>))"
proof -
  obtain i ok where i: "x_uuid_parse E t = (i, ok)" by fastforce
  with assms(2) obtain v v1 w1 s1 w2 s2 where ok: ok and
    v: "words s i = Some v" and e: "edit_word input v = Inr v1" and
    d: "add_definitions R 0 (wi_definitions input) (v1\<lparr>wd_definitions := []\<rparr>) s = (Inr w1, s1)" and
    x: "add_examples R (wi_examples input) (w1\<lparr>wd_examples := []\<rparr>) s1 = (Inr w2, s2)" and
    w: "w = w2\<lparr>wd_updated_at := now s2\<rparr>" and
    u: "wrp_Update repo w s2 = (Inr (), s')"
    by (auto simp: UpdateWord_def prog_Inr find_word_Inr nowP_def clock)
  have same: "view s2 = view s"
    using framesD [OF frames_add_definitions d] framesD [OF frames_add_examples x] by simp
  have v1: "wd_id v1 = i" "wd_status v1 = wd_status v" "wd_source v1 = wd_source v"
      "wi_class input \<noteq> [] \<longrightarrow> wi_class input \<in> set validWordClasses"
    using e words_id [OF v] by (auto simp: edit_word_def Let_def WordClass_Validate_def split: if_splits)
  have w': "wd_id w = i" "wd_status w = wd_status v" "wd_source w = wd_source v"
      "map df_meaning (wd_definitions w) = map di_meaning (wi_definitions input)"
      "\<forall>x \<in> set (wd_definitions w). df_upvotes x = 0 \<and> df_downvotes x = 0"
      "map ex_banjar (wd_examples w) = map ei_banjar (wi_examples input)"
    using add_definitions_Inr [OF d] add_examples_Inr [OF x] v1 by (auto simp: w)
  from update_word [OF _ u] assms(1,3) same v w' ok i v1(4) show ?thesis by auto
qed

text \<open>\<open>SoftDeleteWord\<close> cannot fail on an identifier that parses, and doing it twice is doing it
  once.\<close>

lemma delete_sound:
  assumes "inv s" and "x_uuid_parse E t = (i, True)" and "SoftDeleteWord E repo t s = (r, s')"
  shows "r = Inr () \<and> inv s' \<and> words s' = (words s)(i := None) \<and>
    GetWord E repo t s' = (Inl (Dictionary ErrWordNotFound), s') \<and>
    SoftDeleteWord E repo t s' = (Inr (), s')"
proof -
  have "r = Inr () \<and> inv s' \<and> words s' = (words s)(i := None)"
  proof (cases "words s i")
    case None
    moreover from None have "words s = (words s)(i := None)" by auto
    ultimately show ?thesis using assms by (auto simp: SoftDeleteWord_def find_word prog_defs)
  next
    case (Some w)
    with assms words_live [OF Some] delete_word [OF assms(1), of i] show ?thesis
      by (auto simp: SoftDeleteWord_def find_word prog_defs IsDeleted_def)
  qed
  with assms(2) show ?thesis
    by (simp add: GetWord_run SoftDeleteWord_def find_word prog_defs)
qed

end

section \<open>The PostgreSQL repository\<close>

lemma frames_db_uuid:
  "frames (\<lambda>d. (db_word d, other_definitions d, other_examples d, db_ok d, db_now d))
     (uuidP (db_runtime E) :: ('z db_scheme, err, uuid) prog)"
  by (simp add: frames_def uuidP_def db_runtime_def db_word_def db_definitions_of_def db_examples_of_def
      other_definitions_def other_examples_def fun_eq_iff)

interpretation pg_dictionary: dictionary_service
  "PostgresWordRepository E" db_word other_definitions other_examples db_ok db_now E "db_runtime E" for E
  by (intro dictionary_service.intro dictionary_service_axioms.intro pg_words.word_repository_contract_axioms
      frames_db_uuid) (simp add: db_runtime_def)

section \<open>Listing\<close>

lemma concat_pages:
  "concat (map (\<lambda>p. take k (drop (p * k) xs)) [0..<n]) = take (n * k) xs"
proof (induction n)
  case 0
  then show ?case by simp
next
  case (Suc n)
  have "Suc n * k = n * k + k" by simp
  with Suc show ?case by (simp only: upt_Suc_append le0 map_append concat_append take_add) simp
qed

lemma hydrateMany_run:
  "hydrateMany rs d =
     (Inr (map (\<lambda>r. word_toDomain r (db_definitions_of d (wr_id r)) (db_examples_of d (wr_id r))) rs), d)"
  unfolding hydrateMany_def by (induction rs) (simp_all add: prog_defs hydrate_run)

text \<open>All the words that a listing goes through, in its order\<close>

definition db_listing :: "ext \<Rightarrow> word_filters \<Rightarrow> 'z db_scheme \<Rightarrow> word list" where
  "db_listing E f d =
     map (\<lambda>r. word_toDomain r (db_definitions_of d (wr_id r)) (db_examples_of d (wr_id r)))
       (sort_by (word_order E (if wf_sort f = [] then ''alphabetical'' else wf_sort f))
          (filter (word_filter (filterStrings (active_by_default f))) (db_words d)))"

text \<open>Without homonyms among the words of the listing it does not matter how a query comes across the rows.\<close>

definition no_homonyms :: "word_filters \<Rightarrow> 'z db_scheme \<Rightarrow> bool" where
  "no_homonyms f d = distinct (map wr_banjar (filter (word_filter (filterStrings (active_by_default f))) (db_words d)))"

lemma word_order_preorder: "collation_ok E \<Longrightarrow> total_preorder (word_order E srt)"
  unfolding collation_ok_def total_preorder_def word_order_def by (smt (verit) less_le_not_le linorder_cases order_less_trans)

lemma listing_unique:
  assumes "collation_ok E" and "no_homonyms f d"
  shows "sort_by (word_order E srt) (sort_by (scan_order E l off)
      (filter (word_filter (filterStrings (active_by_default f))) (db_words d))) =
    sort_by (word_order E srt) (filter (word_filter (filterStrings (active_by_default f))) (db_words d))"
proof (rule sort_by_unique [OF word_order_preorder [OF assms(1)]])
  let ?ws = "filter (word_filter (filterStrings (active_by_default f))) (db_words d)"
  have "wr_banjar x = wr_banjar y" if "word_order E srt x y" "word_order E srt y x" for x y
    using that assms(1) by (auto simp: word_order_def collation_ok_def split: if_splits)
  moreover have "inj_on wr_banjar (set ?ws)" using assms(2) by (simp only: no_homonyms_def distinct_map)
  ultimately show "\<forall>x\<in>set ?ws. \<forall>y\<in>set ?ws. word_order E srt x y \<longrightarrow> word_order E srt y x \<longrightarrow> x = y"
    by (meson inj_onD)
qed simp

lemma norm_page_id: "1 \<le> p \<Longrightarrow> norm_page p = p"
  by (simp add: norm_page_def)

lemma norm_per_page_id: "1 \<le> k \<Longrightarrow> k \<le> 100 \<Longrightarrow> norm_per_page k = k"
  by (simp add: norm_per_page_def MaxPerPage_def)

lemma ListWords_run:
  fixes p k :: nat and d :: "'z db_scheme"
  assumes "1 \<le> k" "k \<le> 100" and "int p * int k < 2 ^ 31" and "length (db_listing E f d) < 2 ^ 31"
    and one: "collation_ok E" "no_homonyms f d"
  shows "ListWords (PostgresWordRepository E) f (int p + 1) (int k) d =
    (Inr \<lparr>lr_words = take k (drop (p * k) (db_listing E f d)),
          lr_meta = \<lparr>pm_page = int p + 1, pm_per_page = int k, pm_total = int (length (db_listing E f d)),
                     pm_total_pages = TotalPages (int (length (db_listing E f d))) (int k)\<rparr>\<rparr>, d)"
proof -
  have off: "sql_offset (int p + 1) (int k) = int (p * k)" and l: "sql_limit (int k) = int k"
    using assms by (simp_all add: sql_offset_exact sql_limit_def int32_id)
  have np: "norm_page (int p + 1) = int p + 1" "norm_per_page (int k) = int k"
    using assms(1,2) by (simp_all add: norm_page_id norm_per_page_id)
  have nat_off: "nat (int p * int k) = p * k" "\<not> int p * int k < 0"
    by (simp_all flip: of_nat_mult)
  have sortf: "wf_sort (active_by_default f) = wf_sort f" by (simp add: active_by_default_def)
  show ?thesis
    using assms(4)
    by (simp add: ListWords_def PostgresWordRepository_def WordRepo_FindAll_def prog_defs np Let_def off l ListWords_stmt_def CountWords_def count_int_def limit_offset_def
        hydrateMany_run list_result_of_def db_listing_def sortf take_map drop_map nat_off listing_unique [OF one])
qed


text \<open>The pages of a listing, put one after the other, are the listing: every word that passes the
  filter is on exactly one page.\<close>

lemma list_pages:
  fixes k :: nat and d :: "'z db_scheme"
  assumes "1 \<le> k" "k \<le> 100" and "length (db_listing E f d) < 2 ^ 31 - 100"
    and one: "collation_ok E" "no_homonyms f d"
  defines "n \<equiv> nat (TotalPages (int (length (db_listing E f d))) (int k))"
  shows "\<exists>pages. (\<forall>p < n. \<exists>m. ListWords (PostgresWordRepository E) f (int p + 1) (int k) d =
            (Inr \<lparr>lr_words = pages p, lr_meta = m\<rparr>, d)) \<and>
          concat (map pages [0..<n]) = db_listing E f d"
proof -
  let ?t = "length (db_listing E f d)"
  have n: "n = (?t + k - 1) div k"
    using assms(1) by (simp add: n_def TotalPages_nonneg nat_div_distrib nat_diff_distrib
        flip: of_nat_add of_nat_diff)
  have cover: "?t \<le> n * k"
  proof -
    have "?t + k - 1 < k * Suc n"
      using assms(1) by (simp add: n dividend_less_times_div)
    then show ?thesis using assms(1) by (simp add: mult.commute)
  qed
  have "n * k \<le> ?t + k - 1" unfolding n by (rule div_times_less_eq_dividend)
  then have bound: "p * k < 2 ^ 31" if "p < n" for p
    using that assms(2,3) mult_le_mono1 [of p n k] by linarith
  have small: "?t < 2 ^ 31" using assms(3) by simp
  have "int p * int k < 2 ^ 31" if "p < n" for p
    using bound [OF that] by (metis of_nat_less_iff of_nat_mult of_nat_numeral of_nat_power)
  with ListWords_run [OF assms(1,2) _ small one] have
    "\<forall>p < n. \<exists>m. ListWords (PostgresWordRepository E) f (int p + 1) (int k) d =
            (Inr \<lparr>lr_words = take k (drop (p * k) (db_listing E f d)), lr_meta = m\<rparr>, d)"
    by blast
  moreover have "concat (map (\<lambda>p. take k (drop (p * k) (db_listing E f d))) [0..<n]) = db_listing E f d"
    using cover by (simp add: concat_pages)
  ultimately show ?thesis
    by (intro exI [of _ "\<lambda>p. take k (drop (p * k) (db_listing E f d))"]) blast
qed

lemma db_listing_order:
  assumes "collation_ok E" and "wf_sort f \<noteq> ''recently_added''"
  shows "sorted_wrt (x_text_le E) (map wd_banjar (db_listing E f d))"
proof -
  have "word_order E (if wf_sort f = [] then ''alphabetical'' else wf_sort f) =
      (\<lambda>a b. x_text_le E (wr_banjar a) (wr_banjar b))"
    using assms(2) by (simp add: word_order_def fun_eq_iff)
  moreover have "total_preorder (\<lambda>a b. x_text_le E (wr_banjar a) (wr_banjar b))"
    using assms(1) unfolding collation_ok_def total_preorder_def by blast
  ultimately show ?thesis
    using sorted_sort_by [of "\<lambda>a b. x_text_le E (wr_banjar a) (wr_banjar b)"]
    by (simp add: db_listing_def sorted_wrt_map word_toDomain_def o_def)
qed

lemma db_listing_mset:
  "mset (db_listing E f d) =
     mset (map (\<lambda>r. word_toDomain r (db_definitions_of d (wr_id r)) (db_examples_of d (wr_id r)))
       (filter (word_filter (filterStrings (active_by_default f))) (db_words d)))"
  by (simp add: db_listing_def)

end
