(* ===== verification/Identity_Domain.thy ===== *)
theory Identity_Domain
  imports External
begin

text \<open>
  \<open>internal/identity/domain/user.go\<close>: the user aggregate, the check of an email address and
  the operations on a user. A role is a string, as in the code.
\<close>

definition RoleUser :: string where "RoleUser = ''user''"
definition RoleAdmin :: string where "RoleAdmin = ''admin''"

record user =
  us_id :: uuid
  us_name :: string
  us_email :: string
  us_password_hash :: string
  us_role :: string
  us_is_active :: bool
  us_email_verified_at :: "time option"
  us_created_at :: time
  us_updated_at :: time

section \<open>The email pattern\<close>

definition is_letter :: "char \<Rightarrow> bool" where
  "is_letter c \<longleftrightarrow> (65 \<le> byte c \<and> byte c \<le> 90) \<or> (97 \<le> byte c \<and> byte c \<le> 122)"

definition local_char :: "char \<Rightarrow> bool" where
  "local_char c \<longleftrightarrow> is_letter c \<or> is_digit c \<or> c \<in> set ''._%+-''"

definition domain_char :: "char \<Rightarrow> bool" where
  "domain_char c \<longleftrightarrow> is_letter c \<or> is_digit c \<or> c \<in> set ''.-''"

text \<open>\<open>emailRe.MatchString\<close>: the pattern is anchored, so a match is a way to cut the string into
  the parts \<open>[a-zA-Z0-9._%+-]+\<close>, \<open>@\<close>, \<open>[a-zA-Z0-9.-]+\<close>, \<open>.\<close> and \<open>[a-zA-Z]{2,}\<close>: \<open>i\<close> is the place of
  the \<open>@\<close> and \<open>j\<close> that of the dot.\<close>

definition email_at :: "string \<Rightarrow> nat \<Rightarrow> nat \<Rightarrow> bool" where
  "email_at s i j \<longleftrightarrow>
     i < j \<and> j < length s \<and>
     take i s \<noteq> [] \<and> list_all local_char (take i s) \<and> s ! i = CHR ''@'' \<and>
     drop (Suc i) (take j s) \<noteq> [] \<and> list_all domain_char (drop (Suc i) (take j s)) \<and>
     s ! j = CHR ''.'' \<and>
     2 \<le> length (drop (Suc j) s) \<and> list_all is_letter (drop (Suc j) s)"

definition emailRe :: "string \<Rightarrow> bool" where
  "emailRe s \<longleftrightarrow> list_ex (\<lambda>i. list_ex (email_at s i) [0..<length s]) [0..<length s]"

lemma emailRe_iff:
  "emailRe s \<longleftrightarrow>
     (\<exists>loc dom tld. s = loc @ ''@'' @ dom @ ''.'' @ tld \<and>
        loc \<noteq> [] \<and> list_all local_char loc \<and> dom \<noteq> [] \<and> list_all domain_char dom \<and>
        2 \<le> length tld \<and> list_all is_letter tld)"
proof
  assume "emailRe s"
  then obtain i j where e: "email_at s i j" by (auto simp: emailRe_def list_ex_iff)
  then have j: "i < j" "j < length s" and at: "s ! i = CHR ''@''" and dot: "s ! j = CHR ''.''"
    by (simp_all add: email_at_def)
  have "s = take j s @ s ! j # drop (Suc j) s" using j(2) by (rule id_take_nth_drop)
  moreover have "take j s = take i s @ s ! i # drop (Suc i) (take j s)"
    using j id_take_nth_drop [of i "take j s"] by (simp add: min_def)
  ultimately have "s = take i s @ ''@'' @ drop (Suc i) (take j s) @ ''.'' @ drop (Suc j) s"
    using at dot by (metis append.assoc append_Cons append_Nil)
  with e show "\<exists>loc dom tld. s = loc @ ''@'' @ dom @ ''.'' @ tld \<and>
      loc \<noteq> [] \<and> list_all local_char loc \<and> dom \<noteq> [] \<and> list_all domain_char dom \<and>
      2 \<le> length tld \<and> list_all is_letter tld"
    unfolding email_at_def by metis
next
  assume "\<exists>loc dom tld. s = loc @ ''@'' @ dom @ ''.'' @ tld \<and>
      loc \<noteq> [] \<and> list_all local_char loc \<and> dom \<noteq> [] \<and> list_all domain_char dom \<and>
      2 \<le> length tld \<and> list_all is_letter tld"
  then obtain loc dom tld where s: "s = loc @ ''@'' @ dom @ ''.'' @ tld" and
      p: "loc \<noteq> []" "list_all local_char loc" "dom \<noteq> []" "list_all domain_char dom"
      "2 \<le> length tld" "list_all is_letter tld"
    by blast
  have "email_at s (length loc) (Suc (length loc + length dom))"
    using p by (simp add: email_at_def s nth_append)
  moreover have "length loc < length s" "Suc (length loc + length dom) < length s" by (simp_all add: s)
  ultimately show "emailRe s"
    unfolding emailRe_def list_ex_iff by (metis atLeastLessThan_iff bot_nat_0.extremum set_upt)
qed

section \<open>Operations\<close>

definition NewUser :: "ext \<Rightarrow> 's runtime \<Rightarrow> string \<Rightarrow> string \<Rightarrow> string \<Rightarrow> ('s, err, user) prog" where
  "NewUser E R name email password =
     rejectP (name = []) (Identity ErrEmptyName) (
     rejectP (\<not> emailRe email) (Identity ErrInvalidEmail) (
     rejectP (length password < 8) (Identity ErrPasswordTooShort) (
     bindP (saltP R) (\<lambda>salt.
     bindP (sumP (x_bcrypt_hash E salt password)) (\<lambda>hash.
     bindP (nowP R) (\<lambda>now.
     bindP (uuidP R) (\<lambda>id.
     retP \<lparr>us_id = id, us_name = name, us_email = email, us_password_hash = hash,
           us_role = RoleUser, us_is_active = True, us_email_verified_at = None,
           us_created_at = now, us_updated_at = now\<rparr>)))))))"

definition VerifyPassword :: "ext \<Rightarrow> user \<Rightarrow> string \<Rightarrow> bool" where
  "VerifyPassword E u plain = x_bcrypt_compare E (us_password_hash u) plain"

definition Promote :: "time \<Rightarrow> string \<Rightarrow> user \<Rightarrow> err + user" where
  "Promote now role u =
     (if role \<noteq> RoleAdmin \<and> role \<noteq> RoleUser then Inl (Identity ErrInvalidRole)
      else Inr (u\<lparr>us_role := role, us_updated_at := now\<rparr>))"

definition Ban :: "time \<Rightarrow> user \<Rightarrow> user" where
  "Ban now u = u\<lparr>us_is_active := False, us_updated_at := now\<rparr>"

definition Unban :: "time \<Rightarrow> user \<Rightarrow> user" where
  "Unban now u = u\<lparr>us_is_active := True, us_updated_at := now\<rparr>"

definition SetPasswordHash :: "time \<Rightarrow> string \<Rightarrow> user \<Rightarrow> user" where
  "SetPasswordHash now hash u = u\<lparr>us_password_hash := hash, us_updated_at := now\<rparr>"

definition MarkEmailVerified :: "time \<Rightarrow> user \<Rightarrow> user" where
  "MarkEmailVerified now u = u\<lparr>us_email_verified_at := Some now, us_updated_at := now\<rparr>"

definition IsEmailVerified :: "user \<Rightarrow> bool" where
  "IsEmailVerified u \<longleftrightarrow> us_email_verified_at u \<noteq> None"

lemma NewUser_Inr:
  assumes "NewUser E R name email password s = (Inr u, s')"
  shows "name \<noteq> [] \<and> emailRe email \<and> 8 \<le> length password \<and>
    us_name u = name \<and> us_email u = email \<and> us_role u = RoleUser \<and> us_is_active u \<and>
    us_email_verified_at u = None \<and>
    (\<exists>salt. x_bcrypt_hash E salt password = Inr (us_password_hash u))"
  using assms by (auto simp: NewUser_def prog_Inr not_less)

lemma NewUser_verifies:
  "bcrypt_ok E \<Longrightarrow> NewUser E R name email password s = (Inr u, s') \<Longrightarrow> VerifyPassword E u password"
  using NewUser_Inr [of E R name email password s u s']
  by (auto simp: bcrypt_ok_def VerifyPassword_def)

end
