(* ===== verification/Identity_Store.thy ===== *)
theory Identity_Store
  imports Identity_Domain Database
begin

text \<open>
  The storage of the identity context: the SQL statements on \<open>users\<close>
  (\<open>infrastructure/postgres/sqlc/users.sql.go\<close>) and the user repository
  (\<open>infrastructure/postgres/user_repository.go\<close>). The locale \<open>user_repository\<close> is the contract
  of the Go interface \<open>UserRepository\<close>; PostgreSQL's implementation meets it.
\<close>

section \<open>Statements on users\<close>

definition CreateUser :: "user_row \<Rightarrow> ('z db_scheme, err, user_row) prog" where
  "CreateUser r = sqlP
     (\<lambda>d. [(ur_role r \<notin> set user_role_enum, InvalidEnum (ur_role r)),
           (ur_id r \<in> ur_id ` set (db_users d), UniqueViolation ''users_pkey''),
           (ur_email r \<in> ur_email ` set (db_users d), UniqueViolation ''users_email_unique'')])
     (\<lambda>d. (r, d\<lparr>db_users := db_users d @ [r]\<rparr>))"

definition GetUserByEmail :: "string \<Rightarrow> ('z db_scheme, err, user_row) prog" where
  "GetUserByEmail email = readP (\<lambda>d. one_row (lookup_by ur_email email (db_users d)))"

definition GetUserByID :: "uuid \<Rightarrow> ('z db_scheme, err, user_row) prog" where
  "GetUserByID i = readP (\<lambda>d. one_row (lookup_by ur_id i (db_users d)))"

text \<open>\<open>UpdateUser\<close> sets the columns of its parameters, the others stay.\<close>

definition set_user_columns :: "user_row \<Rightarrow> user_row \<Rightarrow> user_row" where
  "set_user_columns p r =
     r\<lparr>ur_name := ur_name p, ur_password_hash := ur_password_hash p, ur_role := ur_role p,
       ur_is_active := ur_is_active p, ur_email_verified_at := ur_email_verified_at p,
       ur_updated_at := ur_updated_at p\<rparr>"

definition UpdateUser :: "user_row \<Rightarrow> ('z db_scheme, err, user_row) prog" where
  "UpdateUser p =
     bindP (sqlP (\<lambda>d. [(ur_role p \<notin> set user_role_enum, InvalidEnum (ur_role p))])
              (\<lambda>d. ((), d\<lparr>db_users :=
                 update_where (\<lambda>r. ur_id r = ur_id p) (set_user_columns p) (db_users d)\<rparr>)))
       (\<lambda>_. GetUserByID (ur_id p))"

section \<open>The repository\<close>

record 's user_repository =
  usr_Create :: "user \<Rightarrow> ('s, err, unit) prog"
  usr_FindByID :: "uuid \<Rightarrow> ('s, err, user) prog"
  usr_FindByEmail :: "string \<Rightarrow> ('s, err, user) prog"
  usr_Update :: "user \<Rightarrow> ('s, err, unit) prog"

definition findSubstr :: "string \<Rightarrow> string \<Rightarrow> bool" where
  "findSubstr s sub =
     list_ex (\<lambda>i. take (length sub) (drop i s) = sub)
       (if length sub \<le> length s then [0..<Suc (length s - length sub)] else [])"

definition containsStr :: "string \<Rightarrow> string \<Rightarrow> bool" where
  "containsStr s sub \<longleftrightarrow>
     length sub \<le> length s \<and> (s = sub \<or> (0 < length s \<and> findSubstr s sub))"

definition isUniqueViolation :: "ext \<Rightarrow> err \<Rightarrow> bool" where
  "isUniqueViolation E e \<longleftrightarrow>
     containsStr (err_text (x_sql_text E) e) ''23505'' \<or> containsStr (err_text (x_sql_text E) e) ''unique''"

definition user_toDomain :: "user_row \<Rightarrow> user" where
  "user_toDomain u =
     \<lparr>us_id = ur_id u, us_name = ur_name u, us_email = ur_email u,
      us_password_hash = ur_password_hash u, us_role = ur_role u, us_is_active = ur_is_active u,
      us_email_verified_at = ur_email_verified_at u, us_created_at = ur_created_at u,
      us_updated_at = ur_updated_at u\<rparr>"

definition user_params :: "user \<Rightarrow> user_row" where
  "user_params u =
     \<lparr>ur_id = us_id u, ur_name = us_name u, ur_email = us_email u,
      ur_password_hash = us_password_hash u, ur_role = us_role u, ur_is_active = us_is_active u,
      ur_email_verified_at = us_email_verified_at u, ur_created_at = us_created_at u,
      ur_updated_at = us_updated_at u\<rparr>"

definition user_not_found :: "err \<Rightarrow> err" where
  "user_not_found e = (if errors_is e NoRows then Identity ErrUserNotFound else e)"

definition UserRepo_Create :: "ext \<Rightarrow> user \<Rightarrow> ('z db_scheme, err, unit) prog" where
  "UserRepo_Create E u =
     bindP (errP (CreateUser (user_params u))
              (\<lambda>e. if isUniqueViolation E e then Identity ErrEmailConflict else e))
       (\<lambda>_. retP ())"

definition UserRepo_FindByID :: "uuid \<Rightarrow> ('z db_scheme, err, user) prog" where
  "UserRepo_FindByID i =
     bindP (errP (GetUserByID i) user_not_found) (\<lambda>row. retP (user_toDomain row))"

definition UserRepo_FindByEmail :: "string \<Rightarrow> ('z db_scheme, err, user) prog" where
  "UserRepo_FindByEmail email =
     bindP (errP (GetUserByEmail email) user_not_found) (\<lambda>row. retP (user_toDomain row))"

definition UserRepo_Update :: "user \<Rightarrow> ('z db_scheme, err, unit) prog" where
  "UserRepo_Update u =
     bindP (getP db_now) (\<lambda>now.
     bindP (UpdateUser (user_params (u\<lparr>us_updated_at := now\<rparr>))) (\<lambda>_. retP ()))"

definition PostgresUserRepository :: "ext \<Rightarrow> ('z db_scheme) user_repository" where
  "PostgresUserRepository E =
     \<lparr>usr_Create = UserRepo_Create E, usr_FindByID = UserRepo_FindByID,
      usr_FindByEmail = UserRepo_FindByEmail, usr_Update = UserRepo_Update\<rparr>"

section \<open>Searching a substring\<close>

lemma findSubstr_iff: "findSubstr s sub \<longleftrightarrow> sublist sub s"
proof
  assume "findSubstr s sub"
  then obtain i where "take (length sub) (drop i s) = sub"
    by (auto simp: findSubstr_def list_ex_iff split: if_splits)
  then have "drop i s = sub @ drop (length sub) (drop i s)" by (metis append_take_drop_id)
  then show "sublist sub s" unfolding sublist_def by (metis append_take_drop_id)
next
  assume "sublist sub s"
  then obtain ps ss where s: "s = ps @ sub @ ss" by (auto simp: sublist_def)
  then have "take (length sub) (drop (length ps) s) = sub" by simp
  moreover have "length sub \<le> length s" "length ps < Suc (length s - length sub)" using s by simp_all
  ultimately show "findSubstr s sub"
    unfolding findSubstr_def list_ex_iff by (metis atLeast0LessThan atLeast_upt lessThan_iff)
qed

lemma containsStr_iff: "containsStr s sub \<longleftrightarrow> sublist sub s"
proof -
  have "sublist sub s \<Longrightarrow> length sub \<le> length s" by (auto simp: sublist_def)
  moreover have "s = [] \<Longrightarrow> sublist sub s \<Longrightarrow> sub = []" by (auto simp: sublist_def)
  ultimately show ?thesis by (auto simp: containsStr_def findSubstr_iff)
qed

lemma isUniqueViolation_Sql:
  "sql_text_ok E \<Longrightarrow> isUniqueViolation E (Sql (UniqueViolation c))"
  by (auto simp: isUniqueViolation_def containsStr_iff sql_text_ok_def)

section \<open>The contract of the repository\<close>

text \<open>\<open>users s\<close> is the finite map of the users of a state, \<open>inv\<close> the invariant of the store.\<close>

locale user_repository =
  fixes repo :: "'s user_repository" and users :: "'s \<Rightarrow> uuid \<Rightarrow> user option"
    and inv :: "'s \<Rightarrow> bool" and now :: "'s \<Rightarrow> time"
  assumes users_id: "users s i = Some u \<Longrightarrow> us_id u = i"
    and emails: "inv s \<Longrightarrow> users s i = Some u \<Longrightarrow> users s j = Some v \<Longrightarrow> us_email u = us_email v \<Longrightarrow> i = j"
    and find_id: "usr_FindByID repo i s =
      (case users s i of None \<Rightarrow> Inl (Identity ErrUserNotFound) | Some u \<Rightarrow> Inr u, s)"
    and find_email: "inv s \<Longrightarrow> users s i = Some u \<Longrightarrow> usr_FindByEmail repo (us_email u) s = (Inr u, s)"
    and find_email_none: "inv s \<Longrightarrow> (\<And>i u. users s i = Some u \<Longrightarrow> us_email u \<noteq> e) \<Longrightarrow>
      usr_FindByEmail repo e s = (Inl (Identity ErrUserNotFound), s)"
    and create_ok: "inv s \<Longrightarrow> usr_Create repo u s = (Inr (), s') \<Longrightarrow>
      inv s' \<and> users s (us_id u) = None \<and> users s' = (users s)(us_id u \<mapsto> u)"
    and create_err: "usr_Create repo u s = (Inl er, s') \<Longrightarrow> s' = s"
    and create_conflict: "users s i = Some v \<Longrightarrow> us_email v = us_email u \<Longrightarrow>
      us_role u \<in> {RoleUser, RoleAdmin} \<Longrightarrow> usr_Create repo u s = (Inl (Identity ErrEmailConflict), s)"
    and update_ok: "inv s \<Longrightarrow> usr_Update repo u s = (Inr (), s') \<Longrightarrow>
      inv s' \<and> (\<exists>v. users s (us_id u) = Some v \<and>
        users s' = (users s)(us_id u \<mapsto>
          u\<lparr>us_updated_at := now s, us_email := us_email v, us_created_at := us_created_at v\<rparr>))"
    and update_total: "users s (us_id u) = Some v \<Longrightarrow> us_role u \<in> {RoleUser, RoleAdmin} \<Longrightarrow>
      \<exists>s'. usr_Update repo u s = (Inr (), s')"
    and update_err: "usr_Update repo u s = (Inl er, s') \<Longrightarrow> s' = s"
begin

lemma find_email_cases:
  assumes "inv s"
  obtains (found) i u where "users s i = Some u" "us_email u = e" "usr_FindByEmail repo e s = (Inr u, s)"
  | (none) "\<And>i u. users s i = Some u \<Longrightarrow> us_email u \<noteq> e"
      "usr_FindByEmail repo e s = (Inl (Identity ErrUserNotFound), s)"
  using find_email [OF assms] find_email_none [OF assms] by metis

lemma keeps_find_id [triple_intros]: "keeps inv (usr_FindByID repo i)"
  by (auto simp: keeps_def find_id)

lemma keeps_find_email [triple_intros]: "keeps inv (usr_FindByEmail repo e)"
proof (rule keepsI)
  fix s
  assume s: "inv s"
  then show "inv (snd (usr_FindByEmail repo e s))"
    by (rule find_email_cases [of s e]) (simp_all add: s)
qed

lemma keeps_create [triple_intros]: "keeps inv (usr_Create repo u)"
proof (rule keepsI)
  fix s
  assume s: "inv s"
  obtain r s' where m: "usr_Create repo u s = (r, s')" by fastforce
  then show "inv (snd (usr_Create repo u s))"
    using s create_ok [of s u s'] create_err [of u s _ s'] by (cases r) auto
qed

lemma keeps_update [triple_intros]: "keeps inv (usr_Update repo u)"
proof (rule keepsI)
  fix s
  assume s: "inv s"
  obtain r s' where m: "usr_Update repo u s = (r, s')" by fastforce
  then show "inv (snd (usr_Update repo u s))"
    using s update_ok [of s u s'] update_err [of u s _ s'] by (cases r) auto
qed

end

section \<open>PostgreSQL provides it\<close>

lemma keeps_CreateUser [triple_intros]: "keeps db_ok (CreateUser r)"
  unfolding CreateUser_def
proof (rule keeps_sqlP)
  fix d :: "'a db_scheme"
  assume "db_ok d"
    and "\<forall>c \<in> set [(ur_role r \<notin> set user_role_enum, InvalidEnum (ur_role r)),
           (ur_id r \<in> ur_id ` set (db_users d), UniqueViolation ''users_pkey''),
           (ur_email r \<in> ur_email ` set (db_users d), UniqueViolation ''users_email_unique'')]. \<not> fst c"
  then have "users_ok (db_users d @ [r])"
    by (auto simp: users_ok_def db_ok_def)
  with \<open>db_ok d\<close> show "db_ok (snd (r, d\<lparr>db_users := db_users d @ [r]\<rparr>))"
    by (auto intro!: db_ok_users simp: user_ids_def)
qed

lemma set_user_columns_keys [simp]:
  "ur_id (set_user_columns p r) = ur_id r" "ur_email (set_user_columns p r) = ur_email r"
  "ur_role (set_user_columns p r) = ur_role p"
  by (simp_all add: set_user_columns_def)

lemma user_ids_update [simp]:
  "ur_id ` set (update_where P (set_user_columns p) us) = ur_id ` set us"
  by (rule image_update_where) simp

lemma keeps_GetUserByID [triple_intros]: "keeps I (GetUserByID i)"
  unfolding GetUserByID_def by (rule keeps_read)

lemma keeps_GetUserByEmail [triple_intros]: "keeps I (GetUserByEmail e)"
  unfolding GetUserByEmail_def by (rule keeps_read)

lemma users_ok_update:
  "users_ok us \<Longrightarrow> ur_role p \<in> set user_role_enum \<Longrightarrow>
     users_ok (update_where (\<lambda>r. ur_id r = ur_id p) (set_user_columns p) us)"
  by (auto simp: users_ok_def table_simps dest!: set_update_where)

lemma keeps_UpdateUser [triple_intros]: "keeps db_ok (UpdateUser p)"
  unfolding UpdateUser_def
proof (intro triple_intros keeps_sqlP)
  fix d :: "'a db_scheme"
  assume "db_ok d" and "\<forall>c \<in> set [(ur_role p \<notin> set user_role_enum, InvalidEnum (ur_role p))]. \<not> fst c"
  then have "users_ok (update_where (\<lambda>r. ur_id r = ur_id p) (set_user_columns p) (db_users d))"
    by (intro users_ok_update) (simp_all add: db_ok_def)
  with \<open>db_ok d\<close> show "db_ok (snd ((), d\<lparr>db_users :=
      update_where (\<lambda>r. ur_id r = ur_id p) (set_user_columns p) (db_users d)\<rparr>))"
    by (auto intro!: db_ok_users simp: user_ids_def)
qed

lemma keeps_UserRepo [triple_intros]:
  "keeps db_ok (UserRepo_Create E u)" "keeps db_ok (UserRepo_FindByID i)"
  "keeps db_ok (UserRepo_FindByEmail e)" "keeps db_ok (UserRepo_Update u)"
  unfolding UserRepo_Create_def UserRepo_FindByID_def UserRepo_FindByEmail_def UserRepo_Update_def
  by (intro triple_intros)+

definition db_user_map :: "'z db_scheme \<Rightarrow> uuid \<Rightarrow> user option" where
  "db_user_map d i = map_option user_toDomain (lookup_by ur_id i (db_users d))"

lemma user_toDomain_params [simp]: "user_toDomain (user_params u) = u"
  by (simp add: user_toDomain_def user_params_def)

lemma user_toDomain_fields [simp]:
  "us_id (user_toDomain r) = ur_id r" "us_email (user_toDomain r) = ur_email r"
  "us_role (user_toDomain r) = ur_role r" "us_created_at (user_toDomain r) = ur_created_at r"
  by (simp_all add: user_toDomain_def)

lemma user_params_fields [simp]:
  "ur_id (user_params u) = us_id u" "ur_email (user_params u) = us_email u"
  "ur_role (user_params u) = us_role u"
  by (simp_all add: user_params_def)

lemma roles [simp]: "set user_role_enum = {RoleUser, RoleAdmin}"
  by (simp add: user_role_enum_def RoleUser_def RoleAdmin_def)

lemma db_user_map_Some:
  "db_user_map d i = Some u \<Longrightarrow> \<exists>r \<in> set (db_users d). lookup_by ur_id i (db_users d) = Some r \<and>
     ur_id r = i \<and> u = user_toDomain r"
  by (auto simp: db_user_map_def dest: lookup_by_Some)

lemma db_user_map_row: "db_ok d \<Longrightarrow> r \<in> set (db_users d) \<Longrightarrow> db_user_map d (ur_id r) = Some (user_toDomain r)"
  by (simp add: db_user_map_def db_ok_def users_ok_def lookup_by_distinct)

lemma GetUserByID_run: "GetUserByID i d = (one_row (lookup_by ur_id i (db_users d)), d)"
  by (simp add: GetUserByID_def prog_defs)

lemma UserRepo_FindByID_run:
  "UserRepo_FindByID i d =
     (case db_user_map d i of None \<Rightarrow> Inl (Identity ErrUserNotFound) | Some u \<Rightarrow> Inr u, d)"
  by (simp add: UserRepo_FindByID_def GetUserByID_def db_user_map_def prog_defs one_row_def
      user_not_found_def split: option.split)

lemma UserRepo_FindByEmail_run:
  "UserRepo_FindByEmail e d =
     (case lookup_by ur_email e (db_users d) of
        None \<Rightarrow> Inl (Identity ErrUserNotFound) | Some r \<Rightarrow> Inr (user_toDomain r), d)"
  by (simp add: UserRepo_FindByEmail_def GetUserByEmail_def prog_defs one_row_def
      user_not_found_def split: option.split)

lemma UserRepo_Create_Inr:
  "UserRepo_Create E u d = (Inr x, d') \<longleftrightarrow>
     us_role u \<in> {RoleUser, RoleAdmin} \<and> us_id u \<notin> ur_id ` set (db_users d) \<and>
     us_email u \<notin> ur_email ` set (db_users d) \<and>
     d' = d\<lparr>db_users := db_users d @ [user_params u]\<rparr>"
  by (auto simp: UserRepo_Create_def CreateUser_def prog_Inr sqlP_Inr)

lemma UserRepo_Create_Inl: "UserRepo_Create E u d = (Inl e, d') \<Longrightarrow> d' = d"
  by (auto simp: UserRepo_Create_def CreateUser_def bindP_Inl errP_Inl prog_Inr retP_def dest: sqlP_Inl)

lemma UserRepo_Update_run:
  "UserRepo_Update u d =
     (if us_role u \<notin> {RoleUser, RoleAdmin} then (Inl (Sql (InvalidEnum (us_role u))), d)
      else
        (case lookup_by ur_id (us_id u) (db_users d) of None \<Rightarrow> Inl NoRows | Some r \<Rightarrow> Inr (),
         d\<lparr>db_users := update_where (\<lambda>r. ur_id r = us_id u)
             (set_user_columns (user_params (u\<lparr>us_updated_at := db_now d\<rparr>))) (db_users d)\<rparr>))"
  by (simp add: UserRepo_Update_def UpdateUser_def sqlP_def prog_defs GetUserByID_def one_row_def
      lookup_update_where split: option.split)

lemma db_user_map_update:
  "db_user_map (d\<lparr>db_users := update_where (\<lambda>r. ur_id r = us_id u) (set_user_columns (user_params u)) (db_users d)\<rparr>) =
     (case db_user_map d (us_id u) of
        None \<Rightarrow> db_user_map d
      | Some v \<Rightarrow> (db_user_map d)(us_id u \<mapsto> u\<lparr>us_email := us_email v, us_created_at := us_created_at v\<rparr>))"
proof (rule ext)
  fix i
  show "db_user_map (d\<lparr>db_users := update_where (\<lambda>r. ur_id r = us_id u) (set_user_columns (user_params u)) (db_users d)\<rparr>) i =
     (case db_user_map d (us_id u) of
        None \<Rightarrow> db_user_map d
      | Some v \<Rightarrow> (db_user_map d)(us_id u \<mapsto> u\<lparr>us_email := us_email v, us_created_at := us_created_at v\<rparr>)) i"
    by (cases "lookup_by ur_id i (db_users d)"; cases "i = us_id u")
      (auto simp: db_user_map_def lookup_update_where user_toDomain_def user_params_def
        set_user_columns_def dest: lookup_by_Some split: option.split)
qed

locale postgres =
  fixes E :: ext
  assumes sql_text: "sql_text_ok E"

sublocale postgres \<subseteq> user_repository
  "PostgresUserRepository E" "db_user_map :: 'z db_scheme \<Rightarrow> uuid \<Rightarrow> user option" db_ok db_now
proof (unfold_locales, unfold PostgresUserRepository_def user_repository.simps)
  fix s :: "'z db_scheme" and i and u :: user
  show "db_user_map s i = Some u \<Longrightarrow> us_id u = i"
    by (auto dest: db_user_map_Some)
next
  fix s :: "'z db_scheme" and i j and u v :: user
  assume "db_ok s" "db_user_map s i = Some u" "db_user_map s j = Some v" "us_email u = us_email v"
  moreover from this obtain r q where "r \<in> set (db_users s)" "ur_id r = i" "q \<in> set (db_users s)" "ur_id q = j"
      "ur_email r = ur_email q"
    by (auto dest!: db_user_map_Some)
  moreover have "distinct (map ur_email (db_users s))"
    using \<open>db_ok s\<close> by (simp add: db_ok_def users_ok_def)
  ultimately show "i = j" by (metis distinct_map inj_onD)
next
  fix s :: "'z db_scheme" and i
  show "UserRepo_FindByID i s =
      (case db_user_map s i of None \<Rightarrow> Inl (Identity ErrUserNotFound) | Some u \<Rightarrow> Inr u, s)"
    by (rule UserRepo_FindByID_run)
next
  fix s :: "'z db_scheme" and i and u :: user
  assume "db_ok s" and "db_user_map s i = Some u"
  then obtain r where "r \<in> set (db_users s)" "u = user_toDomain r" by (auto dest: db_user_map_Some)
  with \<open>db_ok s\<close> show "UserRepo_FindByEmail (us_email u) s = (Inr u, s)"
    by (simp add: UserRepo_FindByEmail_run db_ok_def users_ok_def lookup_by_distinct)
next
  fix s :: "'z db_scheme" and e
  assume s: "db_ok s" and none: "\<And>i u. db_user_map s i = Some u \<Longrightarrow> us_email u \<noteq> e"
  have "lookup_by ur_email e (db_users s) = None"
    using none [OF db_user_map_row [OF s]] by (auto simp: lookup_by_None)
  then show "UserRepo_FindByEmail e s = (Inl (Identity ErrUserNotFound), s)"
    by (simp add: UserRepo_FindByEmail_run)
next
  fix s s' :: "'z db_scheme" and u :: user
  assume s: "db_ok s" and c: "UserRepo_Create E u s = (Inr (), s')"
  from c have new: "us_id u \<notin> ur_id ` set (db_users s)"
    and s': "s' = s\<lparr>db_users := db_users s @ [user_params u]\<rparr>"
    by (auto simp: UserRepo_Create_Inr)
  have none: "lookup_by ur_id (us_id u) (db_users s) = None" using new by (simp add: lookup_by_None)
  have "db_user_map s' = (db_user_map s)(us_id u \<mapsto> u)"
    by (auto simp: s' db_user_map_def fun_eq_iff table_simps none split: option.split)
  moreover have "db_user_map s (us_id u) = None" using new by (simp add: db_user_map_def lookup_by_None)
  moreover have "db_ok s'" using keepsD [OF keeps_UserRepo(1) s c] .
  ultimately show "db_ok s' \<and> db_user_map s (us_id u) = None \<and> db_user_map s' = (db_user_map s)(us_id u \<mapsto> u)"
    by simp
next
  fix s s' :: "'z db_scheme" and u :: user and er
  show "UserRepo_Create E u s = (Inl er, s') \<Longrightarrow> s' = s" by (rule UserRepo_Create_Inl)
next
  fix s :: "'z db_scheme" and i and u v :: user
  assume "db_user_map s i = Some v" "us_email v = us_email u" "us_role u \<in> {RoleUser, RoleAdmin}"
  then obtain r where "r \<in> set (db_users s)" "ur_email r = us_email u" by (auto dest!: db_user_map_Some)
  then have "us_email u \<in> ur_email ` set (db_users s)" by (metis imageI)
  with \<open>us_role u \<in> _\<close> show "UserRepo_Create E u s = (Inl (Identity ErrEmailConflict), s)"
    using isUniqueViolation_Sql [OF sql_text]
    by (simp add: UserRepo_Create_def CreateUser_def sqlP_def prog_defs)
next
  fix s s' :: "'z db_scheme" and u :: user
  assume s: "db_ok s" and upd: "UserRepo_Update u s = (Inr (), s')"
  then obtain r where "lookup_by ur_id (us_id u) (db_users s) = Some r"
    by (auto simp: UserRepo_Update_run split: if_splits option.splits)
  then have "db_user_map s (us_id u) = Some (user_toDomain r)" by (simp add: db_user_map_def)
  moreover have "s' = s\<lparr>db_users := update_where (\<lambda>r. ur_id r = us_id u)
             (set_user_columns (user_params (u\<lparr>us_updated_at := db_now s\<rparr>))) (db_users s)\<rparr>"
    using upd by (auto simp: UserRepo_Update_run split: if_splits option.splits)
  ultimately have "db_user_map s' = (db_user_map s)(us_id u \<mapsto>
      u\<lparr>us_updated_at := db_now s, us_email := ur_email r, us_created_at := ur_created_at r\<rparr>)"
    using db_user_map_update [of "u\<lparr>us_updated_at := db_now s\<rparr>" s] by simp
  with \<open>db_user_map s (us_id u) = _\<close> keepsD [OF keeps_UserRepo(4) s upd]
  show "db_ok s' \<and> (\<exists>v. db_user_map s (us_id u) = Some v \<and> db_user_map s' = (db_user_map s)(us_id u \<mapsto>
      u\<lparr>us_updated_at := db_now s, us_email := us_email v, us_created_at := us_created_at v\<rparr>))"
    by simp
next
  fix s :: "'z db_scheme" and u v :: user
  assume "db_user_map s (us_id u) = Some v" "us_role u \<in> {RoleUser, RoleAdmin}"
  then show "\<exists>s'. UserRepo_Update u s = (Inr (), s')"
    by (auto simp: UserRepo_Update_run db_user_map_def)
next
  fix s s' :: "'z db_scheme" and u :: user and er
  assume "UserRepo_Update u s = (Inl er, s')"
  then show "s' = s"
    by (auto simp: UserRepo_Update_run lookup_by_None update_where_none split: if_splits option.splits)
qed

interpretation demo_pg: postgres demo_ext
  by unfold_locales (rule demo_sql_text_ok)

end
