(* ===== verification/Moderation.thy ===== *)
theory Moderation
  imports Dictionary_Store Community_Store Identity_Store
begin

text \<open>
  \<open>internal/moderation\<close> without its HTTP layer: audit logs, the moderation repository with its SQL
  statements, and the service that decides contributions, merges them into the dictionary, and
  bans, unbans and promotes users.
\<close>

section \<open>Audit logs (\<open>domain/audit_log.go\<close>)\<close>

definition ActionApproveContribution :: string where "ActionApproveContribution = ''approve_contribution''"
definition ActionRejectContribution :: string where "ActionRejectContribution = ''reject_contribution''"
definition ActionBanUser :: string where "ActionBanUser = ''ban_user''"
definition ActionUnbanUser :: string where "ActionUnbanUser = ''unban_user''"
definition ActionChangeRole :: string where "ActionChangeRole = ''change_role''"
definition ActionDeleteWord :: string where "ActionDeleteWord = ''delete_word''"
definition ActionApproveAI :: string where "ActionApproveAI = ''approve_ai''"
definition ActionRejectAI :: string where "ActionRejectAI = ''reject_ai''"

definition validActions :: "string list" where
  "validActions =
     [ActionApproveContribution, ActionRejectContribution, ActionBanUser, ActionUnbanUser,
      ActionChangeRole, ActionDeleteWord, ActionApproveAI, ActionRejectAI]"

record audit_log =
  al_id :: uuid
  al_actor :: uuid
  al_action :: string
  al_type :: string
  al_target :: uuid
  al_metadata :: json_map
  al_created_at :: time

text \<open>The callers drop the error of \<open>NewAuditLog\<close>; for the actions they pass there is none.\<close>

definition NewAuditLog ::
  "'s runtime \<Rightarrow> uuid \<Rightarrow> string \<Rightarrow> string \<Rightarrow> uuid \<Rightarrow> json_map \<Rightarrow> ('s, err, audit_log) prog" where
  "NewAuditLog R actorID action targetType targetID metadata =
     rejectP (action \<notin> set validActions) (Moderation ErrInvalidAuditAction) (
     bindP (uuidP R) (\<lambda>i.
     bindP (nowP R) (\<lambda>now.
     retP \<lparr>al_id = i, al_actor = actorID, al_action = action, al_type = targetType,
           al_target = targetID, al_metadata = metadata, al_created_at = now\<rparr>)))"

record moderation_stats =
  st_pending :: int
  st_flagged :: int
  st_approved :: int
  st_rejected :: int

section \<open>Statements\<close>

definition CreateAuditLog_stmt :: "audit_row \<Rightarrow> ('z db_scheme, err, unit) prog" where
  "CreateAuditLog_stmt r = sqlP
     (\<lambda>d. [(ar_id r \<in> ar_id ` set (db_audit_logs d), UniqueViolation ''audit_logs_pkey''),
           (ar_actor r \<notin> user_ids d, ForeignKeyViolation ''audit_logs_actor_id_fkey'')])
     (\<lambda>d. ((), d\<lparr>db_audit_logs := db_audit_logs d @ [r]\<rparr>))"

text \<open>\<open>reviewed_at >= NOW() - INTERVAL '7 days'\<close>, on a server whose days have 24 hours\<close>

definition reviewed_this_week :: "time \<Rightarrow> string \<Rightarrow> contribution_row \<Rightarrow> bool" where
  "reviewed_this_week now status r \<longleftrightarrow>
     cr_status r = status \<and>
     (case cr_reviewed_at r of None \<Rightarrow> False | Some t \<Rightarrow> now - 7 * 24 * hour \<le> t)"

definition GetModerationStats :: "('z db_scheme, err, moderation_stats) prog" where
  "GetModerationStats =
     bindP (readP (\<lambda>d. count_int (filter (\<lambda>r. cr_status r = ''pending'') (db_contributions d)))) (\<lambda>pen.
     bindP (readP (\<lambda>d. count_int (filter mr_flagged (db_comments d)))) (\<lambda>fla.
     bindP (readP (\<lambda>d. count_int
       (filter (reviewed_this_week (db_now d) ''approved'') (db_contributions d)))) (\<lambda>app.
     bindP (readP (\<lambda>d. count_int
       (filter (reviewed_this_week (db_now d) ''rejected'') (db_contributions d)))) (\<lambda>rej.
     retP \<lparr>st_pending = pen, st_flagged = fla, st_approved = app, st_rejected = rej\<rparr>))))"

text \<open>
  Both statements on users compare the column \<open>role\<close>, of the enum type \<open>user_role\<close>, with
  \<open>$1::text\<close>. PostgreSQL has no such operator and refuses the statement when it is parsed.
\<close>

definition CountUsersAdmin :: "string \<Rightarrow> string \<Rightarrow> string \<Rightarrow> ('z db_scheme, err, int) prog" where
  "CountUsersAdmin role active q = failP (Sql (UndefinedOperator ''user_role = text''))"

definition ListUsersAdmin ::
  "string \<Rightarrow> string \<Rightarrow> string \<Rightarrow> int \<Rightarrow> int \<Rightarrow> ('z db_scheme, err, user_row list) prog" where
  "ListUsersAdmin role active q l off = failP (Sql (UndefinedOperator ''user_role = text''))"

section \<open>The repository (\<open>infrastructure/postgres/moderation_repo.go\<close>)\<close>

record 's moderation_repository =
  mod_Pending :: "string option \<Rightarrow> int \<Rightarrow> int \<Rightarrow> ('s, err, contribution list \<times> int) prog"
  mod_Flagged :: "int \<Rightarrow> int \<Rightarrow> ('s, err, comment list \<times> int) prog"
  mod_Stats :: "('s, err, moderation_stats) prog"
  mod_CreateAuditLog :: "audit_log \<Rightarrow> ('s, err, unit) prog"
  mod_ListUsers ::
    "string \<Rightarrow> string \<Rightarrow> bool option \<Rightarrow> int \<Rightarrow> int \<Rightarrow> ('s, err, user list \<times> int) prog"

text \<open>The conversions of rows, which the package has again\<close>

definition mod_rowToContribution :: "contribution_row \<Rightarrow> contribution" where
  "mod_rowToContribution row =
     (let payload = (case unmarshal_map (cr_payload row) of Some m \<Rightarrow> m | None \<Rightarrow> Some []) in
      \<lparr>cb_id = cr_id row, cb_type = cr_type row, cb_contributor = cr_contributor row, cb_target = cr_target row,
       cb_payload = payload, cb_status = cr_status row, cb_reviewer = cr_reviewer row, cb_note = cr_note row,
       cb_submitted_at = cr_submitted_at row, cb_reviewed_at = cr_reviewed_at row\<rparr>)"

definition mod_rowToComment :: "comment_row \<Rightarrow> comment" where
  "mod_rowToComment row =
     \<lparr>cm_id = mr_id row, cm_user = mr_user row, cm_type = mr_type row, cm_target = mr_target row,
      cm_body = mr_body row, cm_flagged = mr_flagged row, cm_created_at = mr_created_at row,
      cm_updated_at = mr_updated_at row\<rparr>"

definition rowToUser :: "user_row \<Rightarrow> user" where
  "rowToUser row =
     \<lparr>us_id = ur_id row, us_name = ur_name row, us_email = ur_email row, us_password_hash = ur_password_hash row,
      us_role = ur_role row, us_is_active = ur_is_active row, us_email_verified_at = ur_email_verified_at row,
      us_created_at = ur_created_at row, us_updated_at = ur_updated_at row\<rparr>"

lemma moderation_rows [simp]:
  "mod_rowToContribution = rowToContribution" "mod_rowToComment = rowToComment" "rowToUser = user_toDomain"
  by (simp_all add: fun_eq_iff mod_rowToContribution_def rowToContribution_def mod_rowToComment_def rowToComment_def
      rowToUser_def user_toDomain_def)

definition GetPendingContributions ::
  "string option \<Rightarrow> int \<Rightarrow> int \<Rightarrow> ('z db_scheme, err, contribution list \<times> int) prog" where
  "GetPendingContributions ctype page perPage =
     (let typeFilter = (case ctype of Some t \<Rightarrow> t | None \<Rightarrow> []) in
      bindP (CountAllContributions StatusPending typeFilter) (\<lambda>tot.
      bindP (ListAllContributions StatusPending typeFilter (sql_limit perPage) (sql_offset page perPage))
        (\<lambda>rows. retP (map mod_rowToContribution rows, tot))))"

definition GetFlaggedComments ::
  "int \<Rightarrow> int \<Rightarrow> ('z db_scheme, err, comment list \<times> int) prog" where
  "GetFlaggedComments page perPage =
     bindP CountFlaggedComments (\<lambda>tot.
     bindP (ListFlaggedComments (sql_limit perPage) (sql_offset page perPage)) (\<lambda>rows.
     retP (map mod_rowToComment rows, tot)))"

definition GetStats :: "('z db_scheme, err, moderation_stats) prog" where
  "GetStats = GetModerationStats"

definition CreateAuditLog :: "audit_log \<Rightarrow> ('z db_scheme, err, unit) prog" where
  "CreateAuditLog l =
     CreateAuditLog_stmt
       \<lparr>ar_id = al_id l, ar_actor = al_actor l, ar_action = al_action l, ar_type = al_type l,
        ar_target = al_target l, ar_metadata = map_option JObj (al_metadata l),
        ar_created_at = al_created_at l\<rparr>"

definition ModRepo_ListUsers ::
  "string \<Rightarrow> string \<Rightarrow> bool option \<Rightarrow> int \<Rightarrow> int \<Rightarrow> ('z db_scheme, err, user list \<times> int) prog" where
  "ModRepo_ListUsers role q isActive page perPage =
     (let activeFilter = (case isActive of None \<Rightarrow> [] | Some b \<Rightarrow> if b then ''true'' else ''false'') in
      bindP (CountUsersAdmin role activeFilter q) (\<lambda>tot.
      bindP (ListUsersAdmin role activeFilter q (sql_limit perPage) (sql_offset page perPage)) (\<lambda>rows.
      retP (map rowToUser rows, tot))))"

definition PostgresModerationRepository :: "('z db_scheme) moderation_repository" where
  "PostgresModerationRepository =
     \<lparr>mod_Pending = GetPendingContributions, mod_Flagged = GetFlaggedComments, mod_Stats = GetStats,
      mod_CreateAuditLog = CreateAuditLog, mod_ListUsers = ModRepo_ListUsers\<rparr>"

section \<open>The service (\<open>application/commands/moderation_service.go\<close>)\<close>

record 's moderation_svc =
  mv_repo :: "'s moderation_repository"
  mv_contribs :: "'s contribution_repository"
  mv_words :: "'s word_repository"
  mv_users :: "'s user_repository"

definition GetModerationQueue ::
  "'s moderation_svc \<Rightarrow> string option \<Rightarrow> int \<Rightarrow> int \<Rightarrow> ('s, err, contribution list \<times> int) prog" where
  "GetModerationQueue v ctype page perPage = mod_Pending (mv_repo v) ctype page perPage"

definition GetUser :: "'s moderation_svc \<Rightarrow> uuid \<Rightarrow> ('s, err, user) prog" where
  "GetUser v userID = elseP (usr_FindByID (mv_users v) userID) (ModerationCmd ModUserNotFound)"

subsection \<open>Merging a contribution\<close>

text \<open>The loop over the definitions of a payload: what is no object with a text counts as an empty
  meaning, which is skipped, and so is a meaning that is too long.\<close>

fun merge_definitions :: "'s runtime \<Rightarrow> int \<Rightarrow> json list \<Rightarrow> word \<Rightarrow> ('s, err, word) prog" where
  "merge_definitions R i [] w = retP w"
| "merge_definitions R i (x # xs) w =
     (let meaning = map_string_or_empty (as_map x) ''meaning'' in
      if meaning = [] then merge_definitions R (i + 1) xs w
      else bindP (tryP (AddDefinition R meaning (i + 1) w :: ('s, err, word) prog)) (\<lambda>r.
           merge_definitions R (i + 1) xs (case r of Inl _ \<Rightarrow> w | Inr w' \<Rightarrow> w')))"

fun merge_examples :: "'s runtime \<Rightarrow> json list \<Rightarrow> word \<Rightarrow> ('s, err, word) prog" where
  "merge_examples R [] w = retP w"
| "merge_examples R (x # xs) w =
     (let b = map_string_or_empty (as_map x) ''banjar_sentence'';
          i = map_string_or_empty (as_map x) ''indonesian_translation'' in
      if b = [] then merge_examples R xs w
      else bindP (AddExample R b i w) (\<lambda>w'. merge_examples R xs w'))"

definition mergeNewWord :: "'s runtime \<Rightarrow> 's moderation_svc \<Rightarrow> contribution \<Rightarrow> ('s, err, unit) prog" where
  "mergeNewWord R v c =
     (let p = cb_payload c; banjar = map_string_or_empty p ''banjar'';
          wordClass = map_string_or_empty p ''word_class'' in
      rejectP (banjar = [] \<or> wordClass = []) (ModerationCmd ModInvalidPayload) (
      bindP (errP (NewWord R banjar wordClass DialectHulu) (Wrapped ''new word: '')) (\<lambda>w0.
      let w1 = w0\<lparr>wd_source := SourceContributed, wd_created_by := Some (cb_contributor c)\<rparr>;
          w2 = (case map_string p ''banjar_syllabified'' of
                  Some syl \<Rightarrow> w1\<lparr>wd_syllabified := syl\<rparr> | None \<Rightarrow> w1) in
      bindP (merge_definitions R 0
               (case map_array p ''definitions'' of Some xs \<Rightarrow> xs | None \<Rightarrow> []) w2) (\<lambda>w3.
      bindP (merge_examples R
               (case map_array p ''examples'' of Some xs \<Rightarrow> xs | None \<Rightarrow> []) w3) (\<lambda>w4.
      wrp_Create (mv_words v) w4)))))"

definition mergeNewDefinition ::
  "'s runtime \<Rightarrow> 's moderation_svc \<Rightarrow> contribution \<Rightarrow> ('s, err, unit) prog" where
  "mergeNewDefinition R v c =
     (case cb_target c of
        None \<Rightarrow> failP (ModerationCmd ModInvalidPayload)
      | Some t \<Rightarrow>
          let meaning = map_string_or_empty (cb_payload c) ''meaning'' in
          rejectP (meaning = []) (ModerationCmd ModInvalidPayload) (
          bindP (elseP (wrp_FindByID (mv_words v) t) (ModerationCmd ModWordNotFound)) (\<lambda>w.
          bindP (AddDefinition R meaning (int (length (wd_definitions w)) + 1) w) (\<lambda>w'.
          wrp_Update (mv_words v) w'))))"

definition mergeNewExample ::
  "'s runtime \<Rightarrow> 's moderation_svc \<Rightarrow> contribution \<Rightarrow> ('s, err, unit) prog" where
  "mergeNewExample R v c =
     (case cb_target c of
        None \<Rightarrow> failP (ModerationCmd ModInvalidPayload)
      | Some t \<Rightarrow>
          let b = map_string_or_empty (cb_payload c) ''banjar_sentence'';
              i = map_string_or_empty (cb_payload c) ''indonesian_translation'' in
          rejectP (b = []) (ModerationCmd ModInvalidPayload) (
          bindP (elseP (wrp_FindByID (mv_words v) t) (ModerationCmd ModWordNotFound)) (\<lambda>w.
          bindP (AddExample R b i w) (\<lambda>w'.
          wrp_Update (mv_words v) w'))))"

text \<open>The edits of \<open>mergeEditWord\<close>; an invalid word class is an error.\<close>

definition edit_merged :: "json_map \<Rightarrow> word \<Rightarrow> err + word" where
  "edit_merged p w0 =
     (let w1 = (case map_string p ''banjar'' of
                  Some b \<Rightarrow> if b \<noteq> [] then w0\<lparr>wd_banjar := b\<rparr> else w0 | None \<Rightarrow> w0);
          w2 = (case map_string p ''banjar_syllabified'' of
                  Some syl \<Rightarrow> w1\<lparr>wd_syllabified := syl\<rparr> | None \<Rightarrow> w1) in
      case map_string p ''word_class'' of
        None \<Rightarrow> Inr w2
      | Some wc \<Rightarrow>
          if wc = [] then Inr w2
          else (case WordClass_Validate wc of Some e \<Rightarrow> Inl e | None \<Rightarrow> Inr (w2\<lparr>wd_class := wc\<rparr>)))"

definition mergeEditWord :: "'s moderation_svc \<Rightarrow> contribution \<Rightarrow> ('s, err, unit) prog" where
  "mergeEditWord v c =
     (case cb_target c of
        None \<Rightarrow> failP (ModerationCmd ModInvalidPayload)
      | Some t \<Rightarrow>
          bindP (elseP (wrp_FindByID (mv_words v) t) (ModerationCmd ModWordNotFound)) (\<lambda>w.
          bindP (sumP (edit_merged (cb_payload c) w)) (\<lambda>w'.
          wrp_Update (mv_words v) w')))"

definition mergeContribution ::
  "'s runtime \<Rightarrow> 's moderation_svc \<Rightarrow> contribution \<Rightarrow> ('s, err, unit) prog" where
  "mergeContribution R v c =
     (if cb_type c = ContributionTypeNewWord then mergeNewWord R v c
      else if cb_type c = ContributionTypeNewDefinition then mergeNewDefinition R v c
      else if cb_type c = ContributionTypeNewExample then mergeNewExample R v c
      else if cb_type c = ContributionTypeEditWord then mergeEditWord v c
      else retP ())"

subsection \<open>Deciding a contribution\<close>

definition log_action ::
  "'s runtime \<Rightarrow> 's moderation_svc \<Rightarrow> uuid \<Rightarrow> string \<Rightarrow> string \<Rightarrow> uuid \<Rightarrow> json_map \<Rightarrow> ('s, err, unit) prog" where
  "log_action R v actor action ty target meta =
     bindP (NewAuditLog R actor action ty target meta) (\<lambda>l. mod_CreateAuditLog (mv_repo v) l)"

definition ApproveContribution ::
  "'s runtime \<Rightarrow> 's moderation_svc \<Rightarrow> uuid \<Rightarrow> uuid \<Rightarrow> string \<Rightarrow> ('s, err, unit) prog" where
  "ApproveContribution R v adminID contributionID note =
     bindP (elseP (crp_FindByID (mv_contribs v) contributionID) (ModerationCmd ModContributionNotFound)) (\<lambda>c.
     bindP (nowP R) (\<lambda>now.
     bindP (elseP (sumP (Approve now adminID note c)) (ModerationCmd ModContributionConflict)) (\<lambda>c'.
     bindP (mergeContribution R v c') (\<lambda>_.
     bindP (crp_Update (mv_contribs v) c') (\<lambda>_.
     log_action R v adminID ActionApproveContribution ''contribution'' contributionID None)))))"

definition RejectContribution ::
  "'s runtime \<Rightarrow> 's moderation_svc \<Rightarrow> uuid \<Rightarrow> uuid \<Rightarrow> string \<Rightarrow> ('s, err, unit) prog" where
  "RejectContribution R v adminID contributionID note =
     rejectP (note = []) (ModerationCmd ModNoteRequired) (
     bindP (elseP (crp_FindByID (mv_contribs v) contributionID) (ModerationCmd ModContributionNotFound)) (\<lambda>c.
     bindP (nowP R) (\<lambda>now.
     bindP (elseP (sumP (Reject now adminID note c)) (ModerationCmd ModContributionConflict)) (\<lambda>c'.
     bindP (crp_Update (mv_contribs v) c') (\<lambda>_.
     log_action R v adminID ActionRejectContribution ''contribution'' contributionID
       (Some [(''note'', JStr note)]))))))"

subsection \<open>Users\<close>

definition BanUser ::
  "'s runtime \<Rightarrow> 's moderation_svc \<Rightarrow> uuid \<Rightarrow> uuid \<Rightarrow> string \<Rightarrow> ('s, err, user) prog" where
  "BanUser R v adminID targetUserID reason =
     bindP (elseP (usr_FindByID (mv_users v) targetUserID) (ModerationCmd ModUserNotFound)) (\<lambda>u.
     rejectP (us_role u = RoleAdmin) (Moderation ErrCannotBanAdmin) (
     bindP (nowP R) (\<lambda>now.
     bindP (usr_Update (mv_users v) (Ban now u)) (\<lambda>_.
     bindP (log_action R v adminID ActionBanUser ''user'' targetUserID (Some [(''reason'', JStr reason)])) (\<lambda>_.
     retP (Ban now u))))))"

definition UnbanUser :: "'s runtime \<Rightarrow> 's moderation_svc \<Rightarrow> uuid \<Rightarrow> uuid \<Rightarrow> ('s, err, user) prog" where
  "UnbanUser R v adminID targetUserID =
     bindP (elseP (usr_FindByID (mv_users v) targetUserID) (ModerationCmd ModUserNotFound)) (\<lambda>u.
     bindP (nowP R) (\<lambda>now.
     bindP (usr_Update (mv_users v) (Unban now u)) (\<lambda>_.
     bindP (log_action R v adminID ActionUnbanUser ''user'' targetUserID None) (\<lambda>_.
     retP (Unban now u)))))"

definition ChangeUserRole ::
  "'s runtime \<Rightarrow> 's moderation_svc \<Rightarrow> uuid \<Rightarrow> uuid \<Rightarrow> string \<Rightarrow> ('s, err, user) prog" where
  "ChangeUserRole R v adminID targetUserID role =
     rejectP (role \<noteq> RoleUser \<and> role \<noteq> RoleAdmin) (ModerationCmd ModInvalidRole) (
     rejectP (adminID = targetUserID) (Moderation ErrCannotSelfDemote) (
     bindP (elseP (usr_FindByID (mv_users v) targetUserID) (ModerationCmd ModUserNotFound)) (\<lambda>u.
     bindP (nowP R) (\<lambda>now.
     bindP (sumP (Promote now role u)) (\<lambda>u'.
     bindP (usr_Update (mv_users v) u') (\<lambda>_.
     bindP (log_action R v adminID ActionChangeRole ''user'' targetUserID (Some [(''new_role'', JStr role)])) (\<lambda>_.
     retP u')))))))"

definition db_moderation_svc :: "ext \<Rightarrow> ('z db_scheme) moderation_svc" where
  "db_moderation_svc E =
     \<lparr>mv_repo = PostgresModerationRepository, mv_contribs = PostgresContributionRepository,
      mv_words = PostgresWordRepository E, mv_users = PostgresUserRepository E\<rparr>"

end
