(* ===== verification/Ai_Requests.thy ===== *)
theory Ai_Requests
  imports Database Pagination
begin

text \<open>
  \<open>internal/ai/domain\<close> and \<open>internal/ai/infrastructure/postgres\<close>: the requests to the language
  model with their two status fields, the operations that change them, the SQL statements and
  the repository.
\<close>

section \<open>The aggregate (\<open>domain/ai_request.go\<close>)\<close>

definition AIRequestTypeEnrichDefinition :: string where
  "AIRequestTypeEnrichDefinition = ''enrich_definition''"
definition AIRequestTypeSuggestExample :: string where "AIRequestTypeSuggestExample = ''suggest_example''"
definition AIRequestTypeSuggestRelated :: string where "AIRequestTypeSuggestRelated = ''suggest_related''"
definition AIRequestTypeQualityCheck :: string where "AIRequestTypeQualityCheck = ''quality_check''"

definition AIRequestStatusPending :: string where "AIRequestStatusPending = ''pending''"
definition AIRequestStatusCompleted :: string where "AIRequestStatusCompleted = ''completed''"
definition AIRequestStatusFailed :: string where "AIRequestStatusFailed = ''failed''"

definition AIReviewStatusUnreviewed :: string where "AIReviewStatusUnreviewed = ''unreviewed''"
definition AIReviewStatusApproved :: string where "AIReviewStatusApproved = ''approved''"
definition AIReviewStatusRejected :: string where "AIReviewStatusRejected = ''rejected''"

lemmas ai_status_defs =
  AIRequestStatusPending_def AIRequestStatusCompleted_def AIRequestStatusFailed_def
  AIReviewStatusUnreviewed_def AIReviewStatusApproved_def AIReviewStatusRejected_def

lemmas ai_type_defs =
  AIRequestTypeEnrichDefinition_def AIRequestTypeSuggestExample_def
  AIRequestTypeSuggestRelated_def AIRequestTypeQualityCheck_def

record ai_request =
  aq_id :: uuid
  aq_type :: string
  aq_word :: "uuid option"
  aq_contribution :: "uuid option"
  aq_requested_by :: uuid
  aq_model :: string
  aq_prompt :: string
  aq_response :: json_map
  aq_parsed :: json_map
  aq_status :: string
  aq_review :: string
  aq_reviewed_by :: "uuid option"
  aq_reviewed_at :: "time option"
  aq_created_at :: time

definition NewAIRequest ::
  "'s runtime \<Rightarrow> string \<Rightarrow> uuid option \<Rightarrow> uuid option \<Rightarrow> uuid \<Rightarrow> string \<Rightarrow> string \<Rightarrow>
     ('s, err, ai_request) prog" where
  "NewAIRequest R ctype targetWordID targetContributionID requestedBy model prompt =
     bindP (uuidP R) (\<lambda>i.
     bindP (nowP R) (\<lambda>now.
     retP \<lparr>aq_id = i, aq_type = ctype, aq_word = targetWordID, aq_contribution = targetContributionID,
           aq_requested_by = requestedBy, aq_model = model, aq_prompt = prompt, aq_response = None,
           aq_parsed = None, aq_status = AIRequestStatusPending, aq_review = AIReviewStatusUnreviewed,
           aq_reviewed_by = None, aq_reviewed_at = None, aq_created_at = now\<rparr>))"

definition MarkCompleted :: "json_map \<Rightarrow> json_map \<Rightarrow> ai_request \<Rightarrow> err + ai_request" where
  "MarkCompleted response parsedOutput r =
     (if aq_status r \<noteq> AIRequestStatusPending then Inl (Ai ErrAIInvalidTransition)
      else Inr (r\<lparr>aq_status := AIRequestStatusCompleted, aq_response := response,
                  aq_parsed := parsedOutput\<rparr>))"

text \<open>\<open>MarkFailed\<close> always returns nil.\<close>

definition MarkFailed :: "json_map \<Rightarrow> ai_request \<Rightarrow> ai_request" where
  "MarkFailed rawError r = r\<lparr>aq_status := AIRequestStatusFailed, aq_response := rawError\<rparr>"

definition Ai_Approve :: "time \<Rightarrow> uuid \<Rightarrow> ai_request \<Rightarrow> err + ai_request" where
  "Ai_Approve now reviewerID r =
     (if aq_type r = AIRequestTypeQualityCheck then Inl (Ai ErrCannotApproveQualityCheck)
      else if aq_review r = AIReviewStatusApproved then Inl (Ai ErrAIInvalidTransition)
      else Inr (r\<lparr>aq_review := AIReviewStatusApproved, aq_reviewed_by := Some reviewerID,
                  aq_reviewed_at := Some now\<rparr>))"

definition Ai_Reject :: "time \<Rightarrow> uuid \<Rightarrow> ai_request \<Rightarrow> err + ai_request" where
  "Ai_Reject now reviewerID r =
     (if aq_review r = AIReviewStatusRejected then Inl (Ai ErrAIInvalidTransition)
      else Inr (r\<lparr>aq_review := AIReviewStatusRejected, aq_reviewed_by := Some reviewerID,
                  aq_reviewed_at := Some now\<rparr>))"

section \<open>Statements (\<open>sqlc/ai_requests.sql.go\<close>)\<close>

definition ai_on_word :: "uuid \<Rightarrow> ai_row \<Rightarrow> bool" where
  "ai_on_word i r \<longleftrightarrow> qr_word r = Some i"

definition ai_pending_review :: "ai_row \<Rightarrow> bool" where
  "ai_pending_review r \<longleftrightarrow> qr_status r = ''completed'' \<and> qr_review r = ''unreviewed''"

definition CountAIRequestsByWord :: "uuid \<Rightarrow> ('z db_scheme, err, int) prog" where
  "CountAIRequestsByWord i = readP (\<lambda>d. count_int (filter (ai_on_word i) (db_ai_requests d)))"

definition CountAIRequestsPendingReview :: "('z db_scheme, err, int) prog" where
  "CountAIRequestsPendingReview = readP (\<lambda>d. count_int (filter ai_pending_review (db_ai_requests d)))"

definition CreateAIRequest :: "ai_row \<Rightarrow> ('z db_scheme, err, unit) prog" where
  "CreateAIRequest r = sqlP
     (\<lambda>d. [(qr_id r \<in> qr_id ` set (db_ai_requests d), UniqueViolation ''ai_requests_pkey''),
           (\<not> opt_in (qr_word r) (word_ids d), ForeignKeyViolation ''ai_requests_target_word_id_fkey''),
           (\<not> opt_in (qr_contribution r) (contribution_ids d),
            ForeignKeyViolation ''ai_requests_target_contribution_id_fkey''),
           (\<not> jsonb_column_ok (qr_response r) \<or> \<not> jsonb_column_ok (qr_parsed r), UntranslatableCharacter),
           (qr_requested_by r \<notin> user_ids d, ForeignKeyViolation ''ai_requests_requested_by_fkey''),
           (\<not> opt_in (qr_reviewed_by r) (user_ids d), ForeignKeyViolation ''ai_requests_reviewed_by_fkey'')])
     (\<lambda>d. ((), d\<lparr>db_ai_requests := db_ai_requests d @ [r]\<rparr>))"

definition GetAIRequestByID :: "uuid \<Rightarrow> ('z db_scheme, err, ai_row) prog" where
  "GetAIRequestByID i = readP (\<lambda>d. one_row (lookup_by qr_id i (db_ai_requests d)))"

definition ListAIRequestsByWord :: "uuid \<Rightarrow> int \<Rightarrow> int \<Rightarrow> ('z db_scheme, err, ai_row list) prog" where
  "ListAIRequestsByWord i l off =
     readP (\<lambda>d. limit_offset l off (sort_by (\<lambda>a b. qr_created_at b \<le> qr_created_at a)
       (filter (ai_on_word i) (db_ai_requests d))))"

definition ListAIRequestsPendingReview :: "int \<Rightarrow> int \<Rightarrow> ('z db_scheme, err, ai_row list) prog" where
  "ListAIRequestsPendingReview l off =
     readP (\<lambda>d. limit_offset l off (sort_by (\<lambda>a b. qr_created_at a \<le> qr_created_at b)
       (filter ai_pending_review (db_ai_requests d))))"

text \<open>The columns that \<open>UPDATE\<close> writes: not the type, the targets, the prompt.\<close>

definition set_ai_columns :: "ai_row \<Rightarrow> ai_row \<Rightarrow> ai_row" where
  "set_ai_columns p r =
     r\<lparr>qr_response := qr_response p, qr_parsed := qr_parsed p, qr_status := qr_status p,
       qr_review := qr_review p, qr_reviewed_by := qr_reviewed_by p, qr_reviewed_at := qr_reviewed_at p\<rparr>"

definition UpdateAIRequest :: "ai_row \<Rightarrow> ('z db_scheme, err, unit) prog" where
  "UpdateAIRequest p = sqlP
     (\<lambda>d. [(\<not> jsonb_column_ok (qr_response p) \<or> \<not> jsonb_column_ok (qr_parsed p), UntranslatableCharacter),
           (qr_id p \<in> qr_id ` set (db_ai_requests d) \<and> \<not> opt_in (qr_reviewed_by p) (user_ids d),
            ForeignKeyViolation ''ai_requests_reviewed_by_fkey'')])
     (\<lambda>d. ((), d\<lparr>db_ai_requests :=
        update_where (\<lambda>r. qr_id r = qr_id p) (set_ai_columns p) (db_ai_requests d)\<rparr>))"

section \<open>The repository (\<open>ai_request_repo.go\<close>)\<close>

record 's ai_repository =
  arp_Create :: "ai_request \<Rightarrow> ('s, err, unit) prog"
  arp_FindByID :: "uuid \<Rightarrow> ('s, err, ai_request) prog"
  arp_Update :: "ai_request \<Rightarrow> ('s, err, unit) prog"
  arp_ListByWord :: "uuid \<Rightarrow> int \<Rightarrow> int \<Rightarrow> ('s, err, ai_request list \<times> int) prog"
  arp_ListPendingReview :: "int \<Rightarrow> int \<Rightarrow> ('s, err, ai_request list \<times> int) prog"

text \<open>\<open>toNullRaw\<close>, and \<open>json.Unmarshal\<close> of a column into a map, whose error is dropped\<close>

definition toNullRaw :: "json_map \<Rightarrow> json option" where
  "toNullRaw m = map_option JObj m"

definition column_map :: "json option \<Rightarrow> json_map" where
  "column_map c =
     (case c of
        None \<Rightarrow> None
      | Some j \<Rightarrow> (case unmarshal_map j of Some m \<Rightarrow> m | None \<Rightarrow> None))"

text \<open>A request whose two documents the columns take\<close>

definition ai_storable :: "ai_request \<Rightarrow> bool" where
  "ai_storable r = (jsonb_column_ok (toNullRaw (aq_response r)) \<and> jsonb_column_ok (toNullRaw (aq_parsed r)))"

definition ai_toDomain :: "ai_row \<Rightarrow> ai_request" where
  "ai_toDomain r =
     \<lparr>aq_id = qr_id r, aq_type = qr_type r, aq_word = qr_word r, aq_contribution = qr_contribution r,
      aq_requested_by = qr_requested_by r, aq_model = qr_model r, aq_prompt = qr_prompt r,
      aq_response = column_map (qr_response r), aq_parsed = column_map (qr_parsed r),
      aq_status = qr_status r, aq_review = qr_review r, aq_reviewed_by = qr_reviewed_by r,
      aq_reviewed_at = qr_reviewed_at r, aq_created_at = qr_created_at r\<rparr>"

definition ai_params :: "ai_request \<Rightarrow> ai_row" where
  "ai_params r =
     \<lparr>qr_id = aq_id r, qr_type = aq_type r, qr_word = aq_word r, qr_contribution = aq_contribution r,
      qr_requested_by = aq_requested_by r, qr_model = aq_model r, qr_prompt = aq_prompt r,
      qr_response = toNullRaw (aq_response r), qr_parsed = toNullRaw (aq_parsed r),
      qr_status = aq_status r, qr_review = aq_review r, qr_reviewed_by = aq_reviewed_by r,
      qr_reviewed_at = aq_reviewed_at r, qr_created_at = aq_created_at r\<rparr>"

definition AiRepo_Create :: "ai_request \<Rightarrow> ('z db_scheme, err, unit) prog" where
  "AiRepo_Create r = CreateAIRequest (ai_params r)"

definition AiRepo_FindByID :: "uuid \<Rightarrow> ('z db_scheme, err, ai_request) prog" where
  "AiRepo_FindByID i = bindP (GetAIRequestByID i) (\<lambda>row. retP (ai_toDomain row))"

definition AiRepo_Update :: "ai_request \<Rightarrow> ('z db_scheme, err, unit) prog" where
  "AiRepo_Update r = UpdateAIRequest (ai_params r)"

definition AiRepo_ListByWord ::
  "uuid \<Rightarrow> int \<Rightarrow> int \<Rightarrow> ('z db_scheme, err, ai_request list \<times> int) prog" where
  "AiRepo_ListByWord i page perPage =
     bindP (CountAIRequestsByWord i) (\<lambda>tot.
     bindP (ListAIRequestsByWord i (sql_limit perPage) (sql_offset page perPage)) (\<lambda>rows.
     retP (map ai_toDomain rows, tot)))"

definition AiRepo_ListPendingReview ::
  "int \<Rightarrow> int \<Rightarrow> ('z db_scheme, err, ai_request list \<times> int) prog" where
  "AiRepo_ListPendingReview page perPage =
     bindP CountAIRequestsPendingReview (\<lambda>tot.
     bindP (ListAIRequestsPendingReview (sql_limit perPage) (sql_offset page perPage)) (\<lambda>rows.
     retP (map ai_toDomain rows, tot)))"

definition PostgresAIRequestRepository :: "('z db_scheme) ai_repository" where
  "PostgresAIRequestRepository =
     \<lparr>arp_Create = AiRepo_Create, arp_FindByID = AiRepo_FindByID, arp_Update = AiRepo_Update,
      arp_ListByWord = AiRepo_ListByWord, arp_ListPendingReview = AiRepo_ListPendingReview\<rparr>"

section \<open>Lemmas\<close>

lemma ai_roundtrip: "ai_toDomain (ai_params r) = r"
  by (cases "aq_response r"; cases "aq_parsed r")
    (simp_all add: ai_toDomain_def ai_params_def column_map_def toNullRaw_def unmarshal_map_def)

lemma ai_toDomain_set_columns:
  "ai_toDomain (set_ai_columns (ai_params q) r) =
     (ai_toDomain r)\<lparr>aq_response := aq_response q, aq_parsed := aq_parsed q, aq_status := aq_status q,
       aq_review := aq_review q, aq_reviewed_by := aq_reviewed_by q, aq_reviewed_at := aq_reviewed_at q\<rparr>"
  by (cases "aq_response q"; cases "aq_parsed q")
    (simp_all add: ai_toDomain_def set_ai_columns_def ai_params_def column_map_def toNullRaw_def
       unmarshal_map_def)

lemma set_ai_columns_id [simp]: "qr_id (set_ai_columns p r) = qr_id r"
  by (simp add: set_ai_columns_def)

lemma AiRepo_FindByID_Inr:
  "AiRepo_FindByID i d = (Inr r, d') \<longleftrightarrow>
     d' = d \<and> (\<exists>row. lookup_by qr_id i (db_ai_requests d) = Some row \<and> r = ai_toDomain row)"
  by (auto simp: AiRepo_FindByID_def GetAIRequestByID_def prog_Inr one_row_def split: option.splits)

lemma AiRepo_Update_Inr:
  "AiRepo_Update q d = (Inr x, d') \<Longrightarrow>
     d' = d\<lparr>db_ai_requests :=
        update_where (\<lambda>r. qr_id r = aq_id q) (set_ai_columns (ai_params q)) (db_ai_requests d)\<rparr>"
  by (auto simp: AiRepo_Update_def UpdateAIRequest_def sqlP_Inr ai_params_def)

end
