(* ===== verification/Json_Text.thy ===== *)
theory Json_Text
  imports Json Go_Strings "HOL-Library.List_Lexorder" "HOL-Library.Char_ord"
begin

text \<open>
  \<open>json.Marshal\<close> and \<open>json.Unmarshal\<close> as the program uses them: texts of maps and structs are
  written to the language model, and what it answers is read back. A number is kept as its
  text, so the conversion to \<open>float64\<close> and its overflow are not modelled; of a key that occurs
  twice in an object the last value counts, as in Go, so a parsed object lists its fields from
  the last to the first.
\<close>

section \<open>Characters\<close>

definition dquote :: char where "dquote = CHR 0x22"
definition backslash :: char where "backslash = CHR 0x5C"

definition is_json_space :: "char \<Rightarrow> bool" where
  "is_json_space c \<longleftrightarrow> byte c \<in> {32, 9, 13, 10}"

definition hex_val :: "char \<Rightarrow> nat option" where
  "hex_val c =
     (let b = byte c in
      if 48 \<le> b \<and> b \<le> 57 then Some (b - 48)
      else if 97 \<le> b \<and> b \<le> 102 then Some (b - 87)
      else if 65 \<le> b \<and> b \<le> 70 then Some (b - 55) else None)"

text \<open>\<open>getu4\<close>: the value of four hexadecimal digits\<close>

fun hex4 :: "string \<Rightarrow> nat option" where
  "hex4 (a # b # c # d # _) =
     (case (hex_val a, hex_val b, hex_val c, hex_val d) of
        (Some x, Some y, Some z, Some w) \<Rightarrow> Some (x * 4096 + y * 256 + z * 16 + w)
      | _ \<Rightarrow> None)"
| "hex4 _ = None"

text \<open>\<open>utf8.AppendRune\<close> of a code point below U+110000 that is no surrogate\<close>

definition utf8_encode :: "nat \<Rightarrow> string" where
  "utf8_encode r =
     (if r < 128 then [char_of r]
      else if r < 2048 then [char_of (192 + r div 64), char_of (128 + r mod 64)]
      else if r < 65536 then
        [char_of (224 + r div 4096), char_of (128 + r div 64 mod 64), char_of (128 + r mod 64)]
      else [char_of (240 + r div 262144), char_of (128 + r div 4096 mod 64),
            char_of (128 + r div 64 mod 64), char_of (128 + r mod 64)])"

abbreviation replacement_char :: nat where "replacement_char \<equiv> 65533"

section \<open>Strings\<close>

text \<open>The part of a string literal up to its closing quote, as it is written, and the rest.\<close>

definition simple_escape :: "char \<Rightarrow> char option" where
  "simple_escape e =
     (if e = dquote then Some dquote
      else if e = backslash then Some backslash
      else if e = CHR ''/'' then Some (CHR ''/'')
      else if e = CHR ''b'' then Some (CHR 0x08)
      else if e = CHR ''f'' then Some (CHR 0x0C)
      else if e = CHR ''n'' then Some (CHR 0x0A)
      else if e = CHR ''r'' then Some (CHR 0x0D)
      else if e = CHR ''t'' then Some (CHR 0x09) else None)"

definition cons_raw :: "string \<Rightarrow> (string \<times> string) option \<Rightarrow> (string \<times> string) option" where
  "cons_raw p r = map_option (\<lambda>(s, rest). (p @ s, rest)) r"

function raw_string :: "string \<Rightarrow> (string \<times> string) option" where
  "raw_string [] = None"
| "raw_string (c # cs) =
     (if c = dquote then Some ([], cs)
      else if byte c < 32 then None
      else if c \<noteq> backslash then cons_raw [c] (raw_string cs)
      else (case cs of
              [] \<Rightarrow> None
            | e # r \<Rightarrow>
                if e = CHR ''u'' then
                  (case hex4 r of None \<Rightarrow> None | Some _ \<Rightarrow> cons_raw (c # e # take 4 r) (raw_string (drop 4 r)))
                else if simple_escape e = None then None
                else cons_raw [c, e] (raw_string r)))"
  by pat_completeness auto
termination
  by (relation "measure length") auto

text \<open>\<open>unquote\<close>: escapes become the characters they stand for, a lone surrogate and a byte that
  is no UTF-8 become U+FFFD.\<close>

definition surrogate_pair :: "nat \<Rightarrow> string \<Rightarrow> nat option" where
  "surrogate_pair hi r =
     (case r of
        b # u # r' \<Rightarrow>
          if b = backslash \<and> u = CHR ''u'' \<and> 55296 \<le> hi \<and> hi < 56320 then
            (case hex4 r' of
               Some lo \<Rightarrow>
                 if 56320 \<le> lo \<and> lo < 57344
                 then Some ((hi - 55296) * 1024 + (lo - 56320) + 65536) else None
             | None \<Rightarrow> None)
          else None
      | _ \<Rightarrow> None)"

function unquote :: "string \<Rightarrow> string" where
  "unquote [] = []"
| "unquote (c # cs) =
     (if c = backslash then
        (case cs of
           [] \<Rightarrow> []
         | e # r \<Rightarrow>
             (case simple_escape e of
                Some x \<Rightarrow> x # unquote r
              | None \<Rightarrow>
                  (case hex4 r of
                     None \<Rightarrow> []
                   | Some rr \<Rightarrow>
                       if 55296 \<le> rr \<and> rr < 57344 then
                         (case surrogate_pair rr (drop 4 r) of
                            Some x \<Rightarrow> utf8_encode x @ unquote (drop 10 r)
                          | None \<Rightarrow> utf8_encode replacement_char @ unquote (drop 4 r))
                       else utf8_encode rr @ unquote (drop 4 r))))
      else if byte c < 128 then c # unquote cs
      else if rune_width (c # cs) = 1 then utf8_encode replacement_char @ unquote cs
      else take (rune_width (c # cs)) (c # cs) @ unquote (drop (rune_width (c # cs) - 1) cs))"
  by pat_completeness auto
termination
  by (relation "measure length") auto

section \<open>Tokens\<close>

datatype token = TLBrace | TRBrace | TLBrack | TRBrack | TComma | TColon | TLit json

text \<open>A number: an optional sign, an integer part without leading zeros, and optionally a fraction
  and an exponent, each with at least one digit.\<close>

definition span_digits :: "string \<Rightarrow> string \<times> string" where
  "span_digits s = (takeWhile is_digit s, dropWhile is_digit s)"

definition scan_int :: "string \<Rightarrow> (string \<times> string) option" where
  "scan_int s =
     (case span_digits s of
        ([], _) \<Rightarrow> None
      | (d # ds, rest) \<Rightarrow> if d = CHR ''0'' then Some ([d], ds @ rest) else Some (d # ds, rest))"

definition scan_fraction :: "string \<Rightarrow> (string \<times> string) option" where
  "scan_fraction s =
     (case s of
        [] \<Rightarrow> Some ([], [])
      | c # cs \<Rightarrow>
          if c = CHR ''.'' then
            (case span_digits cs of ([], _) \<Rightarrow> None | (ds, rest) \<Rightarrow> Some (c # ds, rest))
          else Some ([], s))"

definition scan_exponent :: "string \<Rightarrow> (string \<times> string) option" where
  "scan_exponent s =
     (case s of
        [] \<Rightarrow> Some ([], [])
      | c # cs \<Rightarrow>
          if c = CHR ''e'' \<or> c = CHR ''E'' then
            (let (sg, r) = (if cs \<noteq> [] \<and> (hd cs = CHR ''+'' \<or> hd cs = CHR ''-'')
                            then ([hd cs], tl cs) else ([], cs)) in
             case span_digits r of ([], _) \<Rightarrow> None | (ds, rest) \<Rightarrow> Some (c # sg @ ds, rest))
          else Some ([], s))"

definition scan_number :: "string \<Rightarrow> (string \<times> string) option" where
  "scan_number s =
     (let (sg, r) = (if s \<noteq> [] \<and> hd s = CHR ''-'' then ([hd s], tl s) else ([], s)) in
      case scan_int r of
        None \<Rightarrow> None
      | Some (i, r1) \<Rightarrow>
          (case scan_fraction r1 of
             None \<Rightarrow> None
           | Some (f, r2) \<Rightarrow>
               (case scan_exponent r2 of
                  None \<Rightarrow> None
                | Some (x, r3) \<Rightarrow> Some (sg @ i @ f @ x, r3))))"

definition keyword :: "string \<Rightarrow> json \<Rightarrow> string \<Rightarrow> (token \<times> string) option" where
  "keyword w v s = (if has_prefix s w then Some (TLit v, drop (length w) s) else None)"

definition next_token :: "string \<Rightarrow> (token \<times> string) option" where
  "next_token s =
     (case s of
        [] \<Rightarrow> None
      | c # cs \<Rightarrow>
          if c = CHR 0x7B then Some (TLBrace, cs)
          else if c = CHR 0x7D then Some (TRBrace, cs)
          else if c = CHR ''['' then Some (TLBrack, cs)
          else if c = CHR '']'' then Some (TRBrack, cs)
          else if c = CHR '','' then Some (TComma, cs)
          else if c = CHR '':'' then Some (TColon, cs)
          else if c = dquote then
            map_option (\<lambda>(raw, rest). (TLit (JStr (unquote raw)), rest)) (raw_string cs)
          else if c = CHR ''t'' then keyword ''true'' (JBool True) s
          else if c = CHR ''f'' then keyword ''false'' (JBool False) s
          else if c = CHR ''n'' then keyword ''null'' JNull s
          else map_option (\<lambda>(n, rest). (TLit (JNum n), rest)) (scan_number s))"

lemma raw_string_shorter: "raw_string s = Some (r, rest) \<Longrightarrow> length rest < length s"
  by (induction s arbitrary: r rule: raw_string.induct)
    (force simp: cons_raw_def split: if_splits list.splits option.splits)+

lemma span_digits_shorter: "span_digits s = (d # ds, rest) \<Longrightarrow> length rest < length s"
proof -
  assume "span_digits s = (d # ds, rest)"
  then have "s = (d # ds) @ rest"
    unfolding span_digits_def by (metis Pair_inject takeWhile_dropWhile_id)
  then show ?thesis by simp
qed

lemma span_digits_le: "span_digits s = (ds, rest) \<Longrightarrow> length rest \<le> length s"
  unfolding span_digits_def using length_dropWhile_le [of is_digit s] by auto

lemma scan_int_shorter: "scan_int s = Some (i, rest) \<Longrightarrow> length rest < length s"
proof -
  assume i: "scan_int s = Some (i, rest)"
  obtain d ds r where sp: "span_digits s = (d # ds, r)"
    using i by (auto simp: scan_int_def split: prod.splits list.splits)
  then have "s = (d # ds) @ r"
    unfolding span_digits_def by (metis Pair_inject takeWhile_dropWhile_id)
  with i sp show ?thesis by (auto simp: scan_int_def split: if_splits)
qed

lemma scan_fraction_le: "scan_fraction s = Some (f, rest) \<Longrightarrow> length rest \<le> length s"
  by (auto simp: scan_fraction_def dest!: span_digits_shorter split: list.splits if_splits prod.splits)

lemma scan_exponent_le: "scan_exponent s = Some (x, rest) \<Longrightarrow> length rest \<le> length s"
  by (auto simp: scan_exponent_def Let_def neq_Nil_conv dest!: span_digits_shorter
      split: list.splits if_splits prod.splits)

lemma scan_number_shorter: "scan_number s = Some (n, rest) \<Longrightarrow> length rest < length s"
  by (cases s) (fastforce simp: scan_number_def Let_def
      dest!: scan_int_shorter scan_fraction_le scan_exponent_le
      split: option.splits if_splits prod.splits)+

lemma keyword_shorter: "keyword w v s = Some (t, rest) \<Longrightarrow> w \<noteq> [] \<Longrightarrow> s \<noteq> [] \<Longrightarrow> length rest < length s"
  by (auto simp: keyword_def split: if_splits)

lemma next_token_shorter: "next_token s = Some (t, rest) \<Longrightarrow> length rest < length s"
  by (cases s) (auto simp: next_token_def less_Suc_eq dest!: raw_string_shorter scan_number_shorter keyword_shorter
      split: if_splits)

function lex :: "string \<Rightarrow> token list option" where
  "lex [] = Some []"
| "lex (c # cs) =
     (if is_json_space c then lex cs
      else (case next_token (c # cs) of
              None \<Rightarrow> None
            | Some (t, rest) \<Rightarrow> map_option ((#) t) (lex rest)))"
  by pat_completeness auto
termination
  by (relation "measure length") (auto dest: next_token_shorter)

section \<open>Values\<close>

text \<open>
  The parser walks over the tokens once, with the arrays and objects it is inside of on a
  stack, as Go's scanner does; Go refuses a nesting deeper than 10000.
\<close>

datatype frame = ArrF "json list" | ObjF "(string \<times> json) list" string

datatype expect =
    Value
  | ElementOrEnd
  | KeyOrEnd
  | Key "(string \<times> json) list"
  | After json

definition max_depth :: nat where "max_depth = 10000"

text \<open>What a token that starts a value leads to\<close>

definition start :: "nat \<Rightarrow> token \<Rightarrow> expect option" where
  "start depth t =
     (case t of
        TLit v \<Rightarrow> Some (After v)
      | TLBrace \<Rightarrow> if depth < max_depth then Some KeyOrEnd else None
      | TLBrack \<Rightarrow> if depth < max_depth then Some ElementOrEnd else None
      | _ \<Rightarrow> None)"

fun parse_tokens :: "expect \<Rightarrow> frame list \<Rightarrow> token list \<Rightarrow> json option" where
  "parse_tokens (After v) st [] = (if st = [] then Some v else None)"
| "parse_tokens m st [] = None"
| "parse_tokens Value st (t # ts) =
     (case start (length st) t of None \<Rightarrow> None | Some m \<Rightarrow> parse_tokens m st ts)"
| "parse_tokens ElementOrEnd st (t # ts) =
     (if t = TRBrack then parse_tokens (After (JArr [])) st ts
      else (case start (Suc (length st)) t of
              None \<Rightarrow> None | Some m \<Rightarrow> parse_tokens m (ArrF [] # st) ts))"
| "parse_tokens KeyOrEnd st (t # ts) =
     (if t = TRBrace then parse_tokens (After (JObj [])) st ts
      else (case (t, ts) of
              (TLit (JStr k), TColon # ts') \<Rightarrow> parse_tokens Value (ObjF [] k # st) ts'
            | _ \<Rightarrow> None))"
| "parse_tokens (Key fs) st (t # ts) =
     (case (t, ts) of
        (TLit (JStr k), TColon # ts') \<Rightarrow> parse_tokens Value (ObjF fs k # st) ts'
      | _ \<Rightarrow> None)"
| "parse_tokens (After v) st (t # ts) =
     (case st of
        ArrF xs # st' \<Rightarrow>
          if t = TComma then parse_tokens Value (ArrF (v # xs) # st') ts
          else if t = TRBrack then parse_tokens (After (JArr (rev (v # xs)))) st' ts
          else None
      | ObjF fs k # st' \<Rightarrow>
          if t = TComma then parse_tokens (Key ((k, v) # fs)) st' ts
          else if t = TRBrace then parse_tokens (After (JObj ((k, v) # fs))) st' ts
          else None
      | [] \<Rightarrow> None)"

definition json_parse :: "string \<Rightarrow> json option" where
  "json_parse s = (case lex s of None \<Rightarrow> None | Some ts \<Rightarrow> parse_tokens Value [] ts)"

section \<open>Decoding into a struct\<close>

text \<open>
  A field of an object belongs to the struct field of its name, up to the case of letters
  (\<open>foldName\<close>: also the long s and the Kelvin sign). The values are read in the order of the
  text; \<open>null\<close> changes nothing, a value of another type is an error.
\<close>

fun fold_name :: "string \<Rightarrow> string" where
  "fold_name (a # b # c # s) =
     (if byte a = 226 \<and> byte b = 132 \<and> byte c = 170 then CHR ''K'' # fold_name s
      else if byte a = 197 \<and> byte b = 191 then CHR ''S'' # fold_name (c # s)
      else (if 97 \<le> byte a \<and> byte a \<le> 122 then char_of (byte a - 32) else a) # fold_name (b # c # s))"
| "fold_name [a, b] =
     (if byte a = 197 \<and> byte b = 191 then [CHR ''S'']
      else map (\<lambda>x. if 97 \<le> byte x \<and> byte x \<le> 122 then char_of (byte x - 32) else x) [a, b])"
| "fold_name [a] = [if 97 \<le> byte a \<and> byte a \<le> 122 then char_of (byte a - 32) else a]"
| "fold_name [] = []"

definition struct_values :: "string \<Rightarrow> (string \<times> json) list \<Rightarrow> json list" where
  "struct_values name fields =
     map snd (filter (\<lambda>(k, _). fold_name k = fold_name name) (rev fields))"

fun read_string :: "string \<Rightarrow> json list \<Rightarrow> string option" where
  "read_string cur [] = Some cur"
| "read_string cur (j # js) =
     (case j of JStr s \<Rightarrow> read_string s js | JNull \<Rightarrow> read_string cur js | _ \<Rightarrow> None)"

definition string_field :: "string \<Rightarrow> (string \<times> json) list \<Rightarrow> string option" where
  "string_field name fields = read_string [] (struct_values name fields)"

section \<open>Marshalling\<close>

definition hex_char :: "nat \<Rightarrow> char" where
  "hex_char n = (if n < 10 then char_of (48 + n) else char_of (87 + n))"

definition html_safe :: "char \<Rightarrow> bool" where
  "html_safe c \<longleftrightarrow> 32 \<le> byte c \<and> c \<notin> {dquote, backslash, CHR ''<'', CHR ''>'', CHR ''&''}"

definition escape_ascii :: "char \<Rightarrow> string" where
  "escape_ascii c =
     (if html_safe c then [c]
      else if c = dquote \<or> c = backslash then [backslash, c]
      else if c = CHR 0x08 then backslash # ''b''
      else if c = CHR 0x0C then backslash # ''f''
      else if c = CHR 0x0A then backslash # ''n''
      else if c = CHR 0x0D then backslash # ''r''
      else if c = CHR 0x09 then backslash # ''t''
      else backslash # ''u00'' @ [hex_char (byte c div 16), hex_char (byte c mod 16)])"

definition escape_rune :: "string \<Rightarrow> string" where
  "escape_rune r =
     (case r of
        [c] \<Rightarrow> if byte c < 128 then escape_ascii c else backslash # ''ufffd''
      | _ \<Rightarrow>
          if map byte r = [226, 128, 168] then backslash # ''u2028''
          else if map byte r = [226, 128, 169] then backslash # ''u2029'' else r)"

definition json_string :: "string \<Rightarrow> string" where
  "json_string s = [dquote] @ concat (map escape_rune (runes s)) @ [dquote]"

definition comma_join :: "string list \<Rightarrow> string" where
  "comma_join xs = (case xs of [] \<Rightarrow> [] | y # ys \<Rightarrow> y @ concat (map ((@) '','') ys))"

fun json_text :: "json \<Rightarrow> string" where
  "json_text JNull = ''null''"
| "json_text (JBool b) = (if b then ''true'' else ''false'')"
| "json_text (JNum n) = n"
| "json_text (JStr s) = json_string s"
| "json_text (JArr xs) = ''['' @ comma_join (map json_text xs) @ '']''"
| "json_text (JObj fs) =
     [CHR 0x7B] @ comma_join (map (\<lambda>f. json_string (fst f) @ '':'' @ json_text (snd f)) fs) @ [CHR 0x7D]"

text \<open>A map is written with its keys in order, each key once; a struct in the order of its
  fields.\<close>

fun dedup_fields :: "(string \<times> 'a) list \<Rightarrow> (string \<times> 'a) list" where
  "dedup_fields [] = []"
| "dedup_fields ((k, v) # fs) = (k, v) # filter (\<lambda>f. fst f \<noteq> k) (dedup_fields fs)"

fun canonical :: "json \<Rightarrow> json" where
  "canonical (JArr xs) = JArr (map canonical xs)"
| "canonical (JObj fs) =
     JObj (sort_by (\<lambda>f g. fst f \<le> fst g) (dedup_fields (map (\<lambda>f. (fst f, canonical (snd f))) fs)))"
| "canonical v = v"

definition json_marshal :: "json \<Rightarrow> string" where
  "json_marshal j = json_text (canonical j)"

end
