(* ===== verification/Ai_Service.thy ===== *)
theory Ai_Service
  imports Ai_Requests Moderation Json_Text Platform
begin

text \<open>
  \<open>internal/ai/application/commands\<close> and the client of the language model
  (\<open>infrastructure/openrouter\<close>). What the model answers is the result of a program that the
  services are given: nothing is assumed of it. A goroutine that a trigger starts is returned
  as the pair of its arguments; it runs in two steps on the database, the load and the store,
  between which other requests are served.
\<close>

abbreviation newline :: string where "newline \<equiv> [CHR 0x0A]"
abbreviation lbrace :: string where "lbrace \<equiv> [CHR 0x7B]"
abbreviation rbrace :: string where "rbrace \<equiv> [CHR 0x7D]"

text \<open>A text in double quotes\<close>

definition quoted :: "string \<Rightarrow> string" where
  "quoted s = dquote # s @ [dquote]"

section \<open>The interface of the model (\<open>domain/llm.go\<close>)\<close>

record message =
  msg_role :: string
  msg_content :: string

record completion_request =
  cq_model :: string
  cq_messages :: "message list"
  cq_temperature :: string

record completion_response =
  cp_model :: string
  cp_content :: string

type_synonym 's llm_client = "completion_request \<Rightarrow> ('s, err, completion_response) prog"

section \<open>The client (\<open>infrastructure/openrouter/client.go\<close>)\<close>

record open_router_client =
  oc_key :: string
  oc_url :: string
  oc_model :: string

definition openrouter_New :: "config \<Rightarrow> err + open_router_client" where
  "openrouter_New cfg =
     (if OpenRouterAPIKey cfg = [] then Inl (Other ''OPENROUTER_API_KEY is required'')
      else Inr \<lparr>oc_key = OpenRouterAPIKey cfg, oc_url = OpenRouterBaseURL cfg,
                oc_model = OpenRouterModel cfg\<rparr>)"

record http_call =
  hc_url :: string
  hc_headers :: "(string \<times> string) list"
  hc_body :: string

text \<open>What the HTTP library returns: an error, or a status and a body, which may break off.\<close>

type_synonym 's transport = "http_call \<Rightarrow> ('s, err, nat \<times> string option) prog"

definition request_json :: "completion_request \<Rightarrow> json" where
  "request_json r = JObj
     [(''model'', JStr (cq_model r)),
      (''messages'', JArr (map (\<lambda>m. JObj [(''role'', JStr (msg_role m)), (''content'', JStr (msg_content m))])
                             (cq_messages r))),
      (''temperature'', JNum (cq_temperature r))]"

text \<open>
  The answer is decoded into nested structs; a value of the wrong type is an error. An array is decoded into the
  elements that its slice already has, so of a key that occurs again what the later value leaves out stays: a slice
  is its length with the elements that its memory holds.
\<close>

definition decode_message :: "string \<Rightarrow> json \<Rightarrow> string option" where
  "decode_message cur j =
     (case j of
        JObj fs \<Rightarrow> read_string cur (struct_values ''content'' fs)
      | JNull \<Rightarrow> Some cur
      | _ \<Rightarrow> None)"

fun decode_messages :: "string \<Rightarrow> json list \<Rightarrow> string option" where
  "decode_messages cur [] = Some cur"
| "decode_messages cur (j # js) =
     (case decode_message cur j of None \<Rightarrow> None | Some c \<Rightarrow> decode_messages c js)"

definition decode_choice :: "string \<Rightarrow> json \<Rightarrow> string option" where
  "decode_choice cur j =
     (case j of
        JObj fs \<Rightarrow> decode_messages cur (struct_values ''message'' fs)
      | JNull \<Rightarrow> Some cur
      | _ \<Rightarrow> None)"

fun decode_elements :: "string list \<Rightarrow> json list \<Rightarrow> string list option" where
  "decode_elements cur [] = Some cur"
| "decode_elements cur (j # js) =
     (case decode_choice (case cur of [] \<Rightarrow> [] | c # _ \<Rightarrow> c) j of
        None \<Rightarrow> None
      | Some c \<Rightarrow> map_option ((#) c) (decode_elements (drop 1 cur) js))"

fun decode_choices :: "nat \<times> string list \<Rightarrow> json list \<Rightarrow> string list option" where
  "decode_choices (n, cur) [] = Some (take n cur)"
| "decode_choices (n, cur) (j # js) =
     (case j of
        JArr [] \<Rightarrow> decode_choices (0, []) js
      | JArr xs \<Rightarrow>
          (case decode_elements cur xs of
             None \<Rightarrow> None | Some cs \<Rightarrow> decode_choices (length xs, cs) js)
      | JNull \<Rightarrow> decode_choices (0, []) js
      | _ \<Rightarrow> None)"

definition decode_answer :: "string \<Rightarrow> (string \<times> string list) option" where
  "decode_answer raw =
     (case json_parse raw of
        None \<Rightarrow> None
      | Some JNull \<Rightarrow> Some ([], [])
      | Some (JObj fs) \<Rightarrow>
          (case (string_field ''model'' fs, decode_choices (0, []) (struct_values ''choices'' fs)) of
             (Some m, Some cs) \<Rightarrow> Some (m, cs)
           | _ \<Rightarrow> None)
      | Some _ \<Rightarrow> None)"

definition openrouter_Complete ::
  "open_router_client \<Rightarrow> 's transport \<Rightarrow> 's llm_client" where
  "openrouter_Complete c send req =
     bindP (elseP (send
       \<lparr>hc_url = oc_url c @ ''/chat/completions'',
        hc_headers =
          [(''Content-Type'', ''application/json''), (''Authorization'', ''Bearer '' @ oc_key c),
           (''HTTP-Referer'', ''https://github.com/iqbaleff214/kamus-banjar-api-2''),
           (''X-Title'', ''Kamus Banjar API'')],
        hc_body = json_text (request_json req)\<rparr>) (Ai ErrAIUnavailable)) (\<lambda>(status, body).
     if status < 200 \<or> 300 \<le> status then failP (Ai ErrAIUnavailable)
     else (case body of
             None \<Rightarrow> failP (Ai ErrAIUnavailable)
           | Some raw \<Rightarrow>
               (case decode_answer raw of
                  Some (m, c # cs) \<Rightarrow> retP \<lparr>cp_model = m, cp_content = c\<rparr>
                | _ \<Rightarrow> failP (Ai ErrAIUnavailable))))"

section \<open>Finding the JSON in an answer\<close>

text \<open>From the first opening brace on, and of that up to the last closing brace\<close>

definition cut_braces :: "string \<Rightarrow> string" where
  "cut_braces content =
     (let c1 = (case index_char (CHR 0x7B) content of Some i \<Rightarrow> drop i content | None \<Rightarrow> content) in
      case last_index_char (CHR 0x7D) c1 of Some i \<Rightarrow> take (Suc i) c1 | None \<Rightarrow> c1)"

definition extractJSON :: "string \<Rightarrow> json_map" where
  "extractJSON content =
     (case json_parse (cut_braces content) of Some (JObj fs) \<Rightarrow> Some fs | _ \<Rightarrow> None)"

section \<open>Translation (\<open>translate_text.go\<close>)\<close>

definition maxInputLength :: nat where "maxInputLength = 1000"

record translation_result =
  tr_original :: string
  tr_translation :: string
  tr_dialect :: string
  tr_model :: string
  tr_confidence :: string
  tr_notes :: string

definition parse_llmTranslation :: "string \<Rightarrow> (string \<times> string \<times> string) option" where
  "parse_llmTranslation content =
     (case json_parse content of
        None \<Rightarrow> None
      | Some JNull \<Rightarrow> Some ([], [], [])
      | Some (JObj fs) \<Rightarrow>
          (case (string_field ''translation'' fs, string_field ''confidence'' fs,
                 string_field ''notes'' fs) of
             (Some t, Some c, Some n) \<Rightarrow> Some (t, c, n)
           | _ \<Rightarrow> None)
      | Some _ \<Rightarrow> None)"

definition parseTranslationResponse :: "string \<Rightarrow> completion_response \<Rightarrow> translation_result" where
  "parseTranslationResponse original resp =
     (let result = \<lparr>tr_original = original, tr_translation = [], tr_dialect = ''hulu'',
                    tr_model = cp_model resp, tr_confidence = ''low'', tr_notes = []\<rparr> in
      case parse_llmTranslation (cut_braces (cp_content resp)) of
        Some (t, c, n) \<Rightarrow>
          result\<lparr>tr_translation := t, tr_notes := n,
                 tr_confidence := (if c \<in> {''high'', ''medium'', ''low''} then c else ''low'')\<rparr>
      | None \<Rightarrow> result\<lparr>tr_translation := trim_space (cp_content resp)\<rparr>)"

definition translate_system :: string where
  "translate_system =
     ''You are a Banjar Hulu language expert and translator.'' @ newline
     @ ''Translate the given Banjar Hulu (Dialek Hulu) text into Indonesian.'' @ newline
     @ ''Respond ONLY with a valid JSON object, no other text:'' @ newline
     @ lbrace @ quoted ''translation'' @ '':'' @ quoted ''<Indonesian>'' @ '',''
     @ quoted ''confidence'' @ '':'' @ quoted ''<high|medium|low>'' @ '',''
     @ quoted ''notes'' @ '':'' @ quoted ''<brief lexical notes or empty string>'' @ rbrace"

record 's translate_svc =
  tv_llm :: "'s llm_client"
  tv_model :: string

definition TranslateText ::
  "'s translate_svc \<Rightarrow> string \<Rightarrow> string \<Rightarrow> ('s, err, translation_result) prog" where
  "TranslateText v text0 contextHint =
     (let txt = trim_space text0 in
      rejectP (txt = []) (AiCmd AiEmptyText) (
      rejectP (maxInputLength < rune_count txt) (AiCmd AiTextTooLong) (
      let userMsg = ''Text: '' @ txt
            @ (if contextHint \<noteq> [] then newline @ ''Context: '' @ contextHint else []) in
      bindP (tv_llm v
        \<lparr>cq_model = tv_model v,
         cq_messages = [\<lparr>msg_role = ''system'', msg_content = translate_system\<rparr>,
                        \<lparr>msg_role = ''user'', msg_content = userMsg\<rparr>],
         cq_temperature = ''0.3''\<rparr>) (\<lambda>resp.
      retP (parseTranslationResponse txt resp)))))"

section \<open>Prompts (\<open>enrichment_service.go\<close>)\<close>

definition join_with :: "string \<Rightarrow> string list \<Rightarrow> string" where
  "join_with sep xs = (case xs of [] \<Rightarrow> [] | y # ys \<Rightarrow> y @ concat (map ((@) sep) ys))"

definition buildDefinitionPrompt :: "word \<Rightarrow> string" where
  "buildDefinitionPrompt w =
     (let defs = map (\<lambda>(i, d). itoa (int i + 1) @ ''. '' @ df_meaning d) (enumerate 0 (wd_definitions w));
          existing = (if defs \<noteq> [] then join_with ''; '' defs else ''none'') in
      ''Banjar Hulu word: '' @ quoted (wd_banjar w) @ '' (word class: '' @ wd_class w @ '').'' @ newline
      @ ''Existing definitions: '' @ existing @ ''.'' @ newline
      @ ''Suggest one additional Indonesian definition that is not already listed.'' @ newline
      @ ''Respond ONLY with JSON: '' @ lbrace @ quoted ''definition'' @ '':''
      @ quoted ''<Indonesian definition>'' @ rbrace)"

definition buildExamplePrompt :: "word \<Rightarrow> string" where
  "buildExamplePrompt w =
     (let meaning = (case wd_definitions w of [] \<Rightarrow> ''unknown'' | d # _ \<Rightarrow> df_meaning d) in
      ''Banjar Hulu word: '' @ quoted (wd_banjar w) @ '' meaning: '' @ quoted meaning @ ''.'' @ newline
      @ ''Write one natural example sentence using this word in Banjar Hulu dialect ''
      @ ''with its Indonesian translation.'' @ newline
      @ ''Respond ONLY with JSON: '' @ lbrace @ quoted ''banjar_sentence'' @ '':''
      @ quoted ''<Banjar sentence>'' @ '','' @ quoted ''indonesian_translation'' @ '':''
      @ quoted ''<Indonesian translation>'' @ rbrace)"

definition buildRelatedPrompt :: "word \<Rightarrow> string" where
  "buildRelatedPrompt w =
     ''Banjar Hulu word: '' @ quoted (wd_banjar w) @ '' (word class: '' @ wd_class w @ '').'' @ newline
     @ ''Suggest the single most related Banjar Hulu word ''
     @ ''(synonym, antonym, or closely related concept).'' @ newline
     @ ''Respond ONLY with JSON: '' @ lbrace @ quoted ''related_word'' @ '':'' @ quoted ''<Banjar word>''
     @ '','' @ quoted ''relationship'' @ '':'' @ quoted ''<synonym|antonym|related>'' @ rbrace"

definition buildQualityCheckPrompt :: "contribution \<Rightarrow> string" where
  "buildQualityCheckPrompt c =
     ''Evaluate this Banjar Hulu dictionary contribution for quality.'' @ newline
     @ ''Payload: '' @ json_marshal (json_of_map (cb_payload c)) @ newline
     @ ''Check: accuracy of Indonesian definitions, consistency with Banjar Hulu dialect, spelling.'' @ newline
     @ ''Respond ONLY with JSON: '' @ lbrace @ quoted ''score'' @ '':<0-100>,''
     @ quoted ''notes'' @ '':'' @ quoted ''<evaluation>'' @ '','' @ quoted ''issues'' @ '':[]'' @ rbrace"

section \<open>The enrichment service\<close>

text \<open>\<open>es_words\<close> stands for the \<open>WordAccessor\<close>, \<open>es_contrib\<close> for the \<open>ContributionReader\<close>,
  \<open>es_audit\<close> for the \<open>AuditLogWriter\<close>.\<close>

record 's enrichment_svc =
  es_repo :: "'s ai_repository"
  es_words :: "'s word_repository"
  es_contrib :: "uuid \<Rightarrow> ('s, err, contribution) prog"
  es_audit :: "audit_log \<Rightarrow> ('s, err, unit) prog"
  es_llm :: "'s llm_client"
  es_model :: string

type_synonym job = "uuid \<times> string"

definition trigger ::
  "'s runtime \<Rightarrow> 's enrichment_svc \<Rightarrow> string \<Rightarrow> uuid option \<Rightarrow> uuid option \<Rightarrow> uuid \<Rightarrow> string \<Rightarrow>
     ('s, err, ai_request \<times> job) prog" where
  "trigger R v ctype wordID contributionID adminID prompt =
     bindP (NewAIRequest R ctype wordID contributionID adminID (es_model v) prompt) (\<lambda>req.
     bindP (arp_Create (es_repo v) req) (\<lambda>_.
     retP (req, (aq_id req, prompt))))"

definition TriggerDefinitionEnrichment ::
  "'s runtime \<Rightarrow> 's enrichment_svc \<Rightarrow> uuid \<Rightarrow> uuid \<Rightarrow> ('s, err, ai_request \<times> job) prog" where
  "TriggerDefinitionEnrichment R v adminID wordID =
     bindP (elseP (wrp_FindByID (es_words v) wordID) (AiCmd AiWordNotFound)) (\<lambda>w.
     trigger R v AIRequestTypeEnrichDefinition (Some wordID) None adminID (buildDefinitionPrompt w))"

definition TriggerExampleSuggestion ::
  "'s runtime \<Rightarrow> 's enrichment_svc \<Rightarrow> uuid \<Rightarrow> uuid \<Rightarrow> ('s, err, ai_request \<times> job) prog" where
  "TriggerExampleSuggestion R v adminID wordID =
     bindP (elseP (wrp_FindByID (es_words v) wordID) (AiCmd AiWordNotFound)) (\<lambda>w.
     trigger R v AIRequestTypeSuggestExample (Some wordID) None adminID (buildExamplePrompt w))"

definition TriggerRelatedWordSuggestion ::
  "'s runtime \<Rightarrow> 's enrichment_svc \<Rightarrow> uuid \<Rightarrow> uuid \<Rightarrow> ('s, err, ai_request \<times> job) prog" where
  "TriggerRelatedWordSuggestion R v adminID wordID =
     bindP (elseP (wrp_FindByID (es_words v) wordID) (AiCmd AiWordNotFound)) (\<lambda>w.
     trigger R v AIRequestTypeSuggestRelated (Some wordID) None adminID (buildRelatedPrompt w))"

definition TriggerQualityCheck ::
  "'s runtime \<Rightarrow> 's enrichment_svc \<Rightarrow> uuid \<Rightarrow> uuid \<Rightarrow> ('s, err, ai_request \<times> job) prog" where
  "TriggerQualityCheck R v adminID contributionID =
     bindP (elseP (es_contrib v contributionID) (AiCmd AiContributionNotFound)) (\<lambda>c.
     trigger R v AIRequestTypeQualityCheck None (Some contributionID) adminID (buildQualityCheckPrompt c))"

subsection \<open>The goroutine\<close>

definition llm_request :: "'s enrichment_svc \<Rightarrow> string \<Rightarrow> completion_request" where
  "llm_request v prompt =
     \<lparr>cq_model = es_model v,
      cq_messages =
        [\<lparr>msg_role = ''system'', msg_content =
            ''You are a Banjar Hulu language expert. Respond ONLY with valid JSON, no markdown.''\<rparr>,
         \<lparr>msg_role = ''user'', msg_content = prompt\<rparr>],
      cq_temperature = ''0.3''\<rparr>"

text \<open>What the goroutine makes of the request it loaded, given the answer of the model; when
  \<open>MarkCompleted\<close> refuses, its error is dropped and the request stays as it was loaded.\<close>

definition llm_outcome ::
  "ext \<Rightarrow> string \<Rightarrow> err + completion_response \<Rightarrow> ai_request \<Rightarrow> ai_request" where
  "llm_outcome E model answer req =
     (case answer of
        Inl e \<Rightarrow> MarkFailed (Some [(''error'', JStr (err_text (x_sql_text E) e)), (''model'', JStr model)]) req
      | Inr resp \<Rightarrow>
          (case MarkCompleted
                  (Some [(''content'', JStr (cp_content resp)), (''model'', JStr (cp_model resp))])
                  (extractJSON (cp_content resp)) req of
             Inl _ \<Rightarrow> req
           | Inr req' \<Rightarrow> req'))"

definition runLLM_load :: "'s enrichment_svc \<Rightarrow> uuid \<Rightarrow> ('s, err, ai_request) prog" where
  "runLLM_load v reqID = arp_FindByID (es_repo v) reqID"

definition runLLM_store ::
  "ext \<Rightarrow> 's enrichment_svc \<Rightarrow> err + completion_response \<Rightarrow> ai_request \<Rightarrow> ('s, err, unit) prog" where
  "runLLM_store E v answer req =
     bindP (tryP (arp_Update (es_repo v) (llm_outcome E (es_model v) answer req)
                   :: ('s, err, unit) prog)) (\<lambda>_. retP ())"

definition runLLM :: "ext \<Rightarrow> 's enrichment_svc \<Rightarrow> job \<Rightarrow> ('s, err, unit) prog" where
  "runLLM E v = (\<lambda>(reqID, prompt).
     bindP (tryP (runLLM_load v reqID)) (\<lambda>r.
     case r of
       Inl e \<Rightarrow> retP ()
     | Inr req \<Rightarrow>
         bindP (tryP (es_llm v (llm_request v prompt))) (\<lambda>answer.
         runLLM_store E v answer req)))"

subsection \<open>Merging the output\<close>

definition merge_definition ::
  "'s runtime \<Rightarrow> json_map \<Rightarrow> word \<Rightarrow> ('s, err, word) prog" where
  "merge_definition R out w =
     (let def = map_string_or_empty out ''definition'' in
      if def \<noteq> [] then
        AddDefinition R def (int (length (wd_definitions w)) + 1) (w\<lparr>wd_source := SourceAIGenerated\<rparr>)
      else retP w)"

definition merge_example :: "'s runtime \<Rightarrow> json_map \<Rightarrow> word \<Rightarrow> ('s, err, word) prog" where
  "merge_example R out w =
     (let banjar = map_string_or_empty out ''banjar_sentence'';
          indonesian = map_string_or_empty out ''indonesian_translation'' in
      if banjar \<noteq> [] then AddExample R banjar indonesian (w\<lparr>wd_source := SourceAIGenerated\<rparr>)
      else retP w)"

definition merge_related ::
  "'s runtime \<Rightarrow> 's enrichment_svc \<Rightarrow> json_map \<Rightarrow> word \<Rightarrow> ('s, err, word) prog" where
  "merge_related R v out w =
     (let rel = map_string_or_empty out ''related_word'' in
      if rel \<noteq> [] then
        bindP (tryP (wrp_FindByBanjar (es_words v) rel)) (\<lambda>r.
        case r of
          Inl e \<Rightarrow> retP w
        | Inr related \<Rightarrow> bindP (nowP R) (\<lambda>now. retP (AddRelatedWord now (wd_id related) w)))
      else retP w)"

definition mergeAIOutput ::
  "'s runtime \<Rightarrow> 's enrichment_svc \<Rightarrow> uuid \<Rightarrow> ai_request \<Rightarrow> ('s, err, unit) prog" where
  "mergeAIOutput R v targetWordID req =
     (if aq_parsed req = None then retP ()
      else
        bindP (elseP (wrp_FindByID (es_words v) targetWordID) (AiCmd AiWordNotFound)) (\<lambda>w.
        bindP (if aq_type req = AIRequestTypeEnrichDefinition then merge_definition R (aq_parsed req) w
               else if aq_type req = AIRequestTypeSuggestExample then merge_example R (aq_parsed req) w
               else if aq_type req = AIRequestTypeSuggestRelated then merge_related R v (aq_parsed req) w
               else retP w) (\<lambda>w'.
        wrp_Update (es_words v) w')))"

subsection \<open>Reviewing\<close>

text \<open>The audit log is written, but its error is dropped.\<close>

definition ai_log ::
  "'s runtime \<Rightarrow> 's enrichment_svc \<Rightarrow> uuid \<Rightarrow> string \<Rightarrow> uuid \<Rightarrow> ('s, err, unit) prog" where
  "ai_log R v adminID action requestID =
     bindP (NewAuditLog R adminID action ''ai_request'' requestID None) (\<lambda>l.
     bindP (tryP (es_audit v l :: ('s, err, unit) prog)) (\<lambda>_. retP ()))"

definition ai_conflict :: "err \<Rightarrow> err" where
  "ai_conflict e =
     (if errors_is e (Ai ErrCannotApproveQualityCheck) \<or> errors_is e (Ai ErrAIInvalidTransition)
      then AiCmd AiRequestConflict else e)"

definition ApproveAIRequest ::
  "'s runtime \<Rightarrow> 's enrichment_svc \<Rightarrow> uuid \<Rightarrow> uuid \<Rightarrow> ('s, err, ai_request) prog" where
  "ApproveAIRequest R v adminID requestID =
     bindP (elseP (arp_FindByID (es_repo v) requestID) (AiCmd AiRequestNotFound)) (\<lambda>req0.
     bindP (nowP R) (\<lambda>now.
     bindP (errP (sumP (Ai_Approve now adminID req0)) ai_conflict) (\<lambda>req.
     bindP (case aq_word req of None \<Rightarrow> retP () | Some t \<Rightarrow> mergeAIOutput R v t req) (\<lambda>_.
     bindP (arp_Update (es_repo v) req) (\<lambda>_.
     bindP (ai_log R v adminID ActionApproveAI requestID) (\<lambda>_.
     retP req))))))"

definition RejectAIRequest ::
  "'s runtime \<Rightarrow> 's enrichment_svc \<Rightarrow> uuid \<Rightarrow> uuid \<Rightarrow> ('s, err, ai_request) prog" where
  "RejectAIRequest R v adminID requestID =
     bindP (elseP (arp_FindByID (es_repo v) requestID) (AiCmd AiRequestNotFound)) (\<lambda>req0.
     bindP (nowP R) (\<lambda>now.
     bindP (errP (sumP (Ai_Reject now adminID req0))
       (\<lambda>e. if errors_is e (Ai ErrAIInvalidTransition) then AiCmd AiRequestConflict else e)) (\<lambda>req.
     bindP (arp_Update (es_repo v) req) (\<lambda>_.
     bindP (ai_log R v adminID ActionRejectAI requestID) (\<lambda>_.
     retP req)))))"

definition GetAIRequest :: "'s enrichment_svc \<Rightarrow> uuid \<Rightarrow> ('s, err, ai_request) prog" where
  "GetAIRequest v requestID =
     elseP (arp_FindByID (es_repo v) requestID) (AiCmd AiRequestNotFound)"

definition db_enrichment_svc ::
  "ext \<Rightarrow> ('z db_scheme) llm_client \<Rightarrow> string \<Rightarrow> ('z db_scheme) enrichment_svc" where
  "db_enrichment_svc E llm model =
     \<lparr>es_repo = PostgresAIRequestRepository, es_words = PostgresWordRepository E,
      es_contrib = ContribRepo_FindByID, es_audit = CreateAuditLog, es_llm = llm, es_model = model\<rparr>"

end
