(* ===== verification/Seed.thy ===== *)
theory Seed
  imports Dictionary_Store Identity_Store
begin

text \<open>
  The seeder, \<open>scripts/seed/main.go\<close>: the normalisation of word classes, the insertion or update
  of one entry of the seed file, the loop over the entries and their derived forms, and the
  admin user. Reading the file and the environment is not modelled: the entries and the values
  of the environment are arguments. The log lines and their counters are left out.
\<close>

section \<open>Entries\<close>

datatype seed_entry = SeedEntry
  (se_banjar: string)
  (se_syllabified: string)
  (se_class: string)
  (se_definitions: "string list")
  (se_examples: "(string \<times> string) list")
  (se_derived: bool)
  (se_homonym: int)
  (se_reference: string)
  (se_forms: "seed_entry list")

section \<open>Word classes\<close>

text \<open>The cases of the \<open>switch\<close>; \<open>None\<close> is the default.\<close>

definition switch_word_class :: "string \<Rightarrow> string option" where
  "switch_word_class s =
     (if s = ''n'' then Some ''n''
      else if s = ''v'' then Some ''v''
      else if s = ''a'' then Some ''a''
      else if s = ''adv'' then Some ''adv''
      else if s = ''p'' then Some ''p''
      else if s = ''pb'' then Some ''pb''
      else if s = ''ki'' then Some ''ki''
      else if s = ''num'' then Some ''num''
      else if s = ''pron'' then Some ''pron''
      else None)"

definition ocr_marks :: string where
  "ocr_marks = [CHR 0x60, CHR 0x27, CHR 0x22]"

text \<open>\<open>None\<close> is the error \<open>unknown\<close>.\<close>

function normalizeWordClass :: "string \<Rightarrow> string option" where
  "normalizeWordClass s =
     (case switch_word_class s of
        Some c \<Rightarrow> Some c
      | None \<Rightarrow>
          (let cleaned = trim_right s ocr_marks in
           if cleaned \<noteq> s then normalizeWordClass cleaned else None))"
  by pat_completeness auto
termination
  by (relation "measure length") (auto dest: trim_right_shorter)

declare normalizeWordClass.simps [simp del]

section \<open>One entry\<close>

text \<open>
  \<open>UpsertWord\<close>: a row with the same key, deleted or not, gets the class, the reference and the
  time; otherwise the row is inserted.
\<close>

definition set_seed_columns :: "word_row \<Rightarrow> word_row \<Rightarrow> word_row" where
  "set_seed_columns p r =
     r\<lparr>wr_word_class := wr_word_class p, wr_reference := wr_reference p, wr_updated_at := wr_updated_at p\<rparr>"

definition UpsertWord :: "word_row \<Rightarrow> ('z db_scheme, err, word_row) prog" where
  "UpsertWord p =
     bindP (sqlP
       (\<lambda>d. let old = word_key p \<in> word_key ` set (db_words d) in
            [(wr_dialect p \<notin> set dialect_enum, InvalidEnum (wr_dialect p)),
             (wr_word_class p \<notin> set word_class_enum, InvalidEnum (wr_word_class p)),
             (wr_status p \<notin> set word_status_enum, InvalidEnum (wr_status p)),
             (wr_source p \<notin> set word_source_enum, InvalidEnum (wr_source p)),
             (\<not> old \<and> wr_id p \<in> word_ids d, UniqueViolation ''words_pkey''),
             (\<not> old \<and> \<not> opt_in (wr_root p) (insert (wr_id p) (word_ids d)),
              ForeignKeyViolation ''words_root_word_id_fkey''),
             (\<not> old \<and> \<not> opt_in (wr_created_by p) (user_ids d), ForeignKeyViolation ''words_created_by_fkey'')])
       (\<lambda>d. ((), d\<lparr>db_words :=
          (if word_key p \<in> word_key ` set (db_words d) then
             update_where (\<lambda>r. word_key r = word_key p) (set_seed_columns p) (db_words d)
           else db_words d @ [p])\<rparr>)))
     (\<lambda>_. readP (\<lambda>d. one_row (lookup_by word_key (word_key p) (db_words d))))"

text \<open>The parameters of the statement for an entry; \<open>int16\<close> may wrap before the test.\<close>

definition seed_homonym :: "int \<Rightarrow> int" where
  "seed_homonym n = (if int16 n < 1 then 1 else int16 n)"

definition seed_params ::
  "uuid \<Rightarrow> time \<Rightarrow> string \<Rightarrow> uuid option \<Rightarrow> seed_entry \<Rightarrow> word_row" where
  "seed_params i now wordClass rootID e =
     \<lparr>wr_id = i, wr_banjar = se_banjar e,
      wr_syllabified =
        (if se_syllabified e \<noteq> [] \<and> se_syllabified e \<noteq> se_banjar e then Some (se_syllabified e) else None),
      wr_dialect = ''hulu'', wr_word_class = wordClass, wr_homonym = seed_homonym (se_homonym e),
      wr_is_root = (rootID = None \<or> \<not> se_derived e), wr_root = rootID, wr_status = ''active'',
      wr_source = ''seeded'', wr_reference = null_string (se_reference e), wr_created_by = None,
      wr_created_at = now, wr_updated_at = now, wr_deleted_at = None\<rparr>"

text \<open>The loops over definitions and examples drop the error of every statement; an empty text is
  skipped, but counts for the order.\<close>

fun seed_definitions ::
  "ext \<Rightarrow> time \<Rightarrow> uuid \<Rightarrow> int \<Rightarrow> string list \<Rightarrow> ('z db_scheme, err, unit) prog" where
  "seed_definitions E now w i [] = retP ()"
| "seed_definitions E now w i (m # ms) =
     (if m = [] then seed_definitions E now w (i + 1) ms
      else
        bindP (uuidP (db_runtime E)) (\<lambda>u.
        bindP (tryP (UpsertDefinition
          \<lparr>dr_id = u, dr_word = w, dr_meaning = m, dr_sort_order = int16 (i + 1), dr_source = ''seeded'',
           dr_upvotes = 0, dr_downvotes = 0, dr_created_at = now, dr_updated_at = now\<rparr>
            :: ('z db_scheme, err, definition_row) prog)) (\<lambda>_.
        seed_definitions E now w (i + 1) ms)))"

fun seed_examples ::
  "ext \<Rightarrow> time \<Rightarrow> uuid \<Rightarrow> (string \<times> string) list \<Rightarrow> ('z db_scheme, err, unit) prog" where
  "seed_examples E now w [] = retP ()"
| "seed_examples E now w ((b, i) # xs) =
     (if b = [] then seed_examples E now w xs
      else
        bindP (uuidP (db_runtime E)) (\<lambda>u.
        bindP (tryP (UpsertExample
          \<lparr>xr_id = u, xr_word = w, xr_banjar = b, xr_indonesian = i, xr_source = ''seeded'',
           xr_created_at = now, xr_updated_at = now\<rparr> :: ('z db_scheme, err, unit) prog)) (\<lambda>_.
        seed_examples E now w xs)))"

text \<open>The flag \<open>wasNew\<close>, which only feeds a log line, is left out: it compares an instant in
  nanoseconds with the stored one in microseconds.\<close>

definition upsertEntry ::
  "ext \<Rightarrow> seed_entry \<Rightarrow> uuid option \<Rightarrow> ('z db_scheme, err, uuid) prog" where
  "upsertEntry E e rootID =
     (case normalizeWordClass (se_class e) of
        None \<Rightarrow> failP (Wrapped ''unknown word class: '' (Other ''unknown''))
      | Some wordClass \<Rightarrow>
          bindP (nowP (db_runtime E)) (\<lambda>now.
          bindP (uuidP (db_runtime E)) (\<lambda>u.
          bindP (UpsertWord (seed_params u now wordClass rootID e)) (\<lambda>row.
          bindP (DeleteDefinitionsByWordID (wr_id row)) (\<lambda>_.
          bindP (seed_definitions E now (wr_id row) 0 (se_definitions e)) (\<lambda>_.
          bindP (DeleteExamplesByWordID (wr_id row)) (\<lambda>_.
          bindP (seed_examples E now (wr_id row) (se_examples e)) (\<lambda>_.
          retP (wr_id row)))))))))"

section \<open>The run (\<open>main\<close>)\<close>

text \<open>An entry that fails is skipped with its derived forms; a derived form that fails is skipped.
  Derived forms of derived forms are not looked at.\<close>

definition seed_one :: "ext \<Rightarrow> seed_entry \<Rightarrow> ('z db_scheme, err, unit) prog" where
  "seed_one E e =
     bindP (tryP (upsertEntry E e None :: ('z db_scheme, err, uuid) prog)) (\<lambda>r.
     case r of
       Inl _ \<Rightarrow> retP ()
     | Inr rootID \<Rightarrow>
         eachP (\<lambda>f. bindP (tryP (upsertEntry E f (Some rootID) :: ('z db_scheme, err, uuid) prog))
                      (\<lambda>_. retP ())) (se_forms e))"

definition seed_all :: "ext \<Rightarrow> seed_entry list \<Rightarrow> ('z db_scheme, err, unit) prog" where
  "seed_all E entries = eachP (seed_one E) entries"

definition getEnvOrDefault :: "(string \<Rightarrow> string) \<Rightarrow> string \<Rightarrow> string \<Rightarrow> string" where
  "getEnvOrDefault env key dflt = (if env key \<noteq> [] then env key else dflt)"

definition seed_containsStr :: "string \<Rightarrow> string \<Rightarrow> bool" where
  "seed_containsStr s sub \<longleftrightarrow>
     list_ex (\<lambda>i. take (length sub) (drop i s) = sub) [0..<(if length sub \<le> length s then Suc (length s - length sub) else 0)]"

definition seed_contains :: "string \<Rightarrow> string \<Rightarrow> bool" where
  "seed_contains s sub \<longleftrightarrow> length sub \<le> length s \<and> (s = sub \<or> 0 < length s \<and> seed_containsStr s sub)"

definition seed_isUniqueViolation :: "ext \<Rightarrow> err \<Rightarrow> bool" where
  "seed_isUniqueViolation E e \<longleftrightarrow>
     seed_contains (err_text (x_sql_text E) e) ''23505'' \<or> seed_contains (err_text (x_sql_text E) e) ''unique''"

definition seedAdmin ::
  "ext \<Rightarrow> (string \<Rightarrow> string) \<Rightarrow> ('z db_scheme, err, unit) prog" where
  "seedAdmin E env =
     (let email = getEnvOrDefault env ''ADMIN_EMAIL'' ''iqbaleff214@gmail.com'';
          password = getEnvOrDefault env ''ADMIN_PASSWORD'' ''Admin1234!'';
          name = getEnvOrDefault env ''ADMIN_NAME'' ''Admin'' in
      bindP (saltP (db_runtime E)) (\<lambda>salt.
      bindP (errP (sumP (x_bcrypt_hash E salt password)) (Wrapped ''hash password: '')) (\<lambda>h.
      bindP (nowP (db_runtime E)) (\<lambda>now.
      bindP (uuidP (db_runtime E)) (\<lambda>u.
      bindP (tryP (CreateUser
        \<lparr>ur_id = u, ur_name = name, ur_email = email, ur_password_hash = h, ur_role = ''admin'',
         ur_is_active = True, ur_email_verified_at = Some now, ur_created_at = now, ur_updated_at = now\<rparr>
          :: ('z db_scheme, err, user_row) prog)) (\<lambda>r.
      case r of
        Inl e \<Rightarrow> if seed_isUniqueViolation E e then retP () else failP (Wrapped ''create admin: '' e)
      | Inr _ \<Rightarrow> retP ()))))))"

text \<open>A variable that is missing ends the program (\<open>log.Fatalf\<close>).\<close>

definition mustEnv :: "(string \<Rightarrow> string) \<Rightarrow> string \<Rightarrow> err + string" where
  "mustEnv env key = (if env key = [] then Inl (Other (''missing env var: '' @ key)) else Inr (env key))"

definition seed_dsn :: "(string \<Rightarrow> string) \<Rightarrow> ('z db_scheme, err, string) prog" where
  "seed_dsn env =
     bindP (sumP (mustEnv env ''DB_USER'')) (\<lambda>user.
     bindP (sumP (mustEnv env ''DB_PASS'')) (\<lambda>pass.
     bindP (sumP (mustEnv env ''DB_HOST'')) (\<lambda>host.
     bindP (sumP (mustEnv env ''DB_PORT'')) (\<lambda>port.
     bindP (sumP (mustEnv env ''DB_NAME'')) (\<lambda>name.
     retP (''postgres://'' @ user @ '':'' @ pass @ ''@'' @ host @ '':'' @ port @ ''/'' @ name @ ''?sslmode=disable''))))))"

text \<open>
  \<open>connect\<close> is the pool that the driver opens for the address, \<open>file\<close> what reading and decoding the
  seed file gives. A failure ends the program where it occurs: what has been stored stays.
\<close>

definition seed_main ::
  "ext \<Rightarrow> (string \<Rightarrow> string) \<Rightarrow> (string \<Rightarrow> err + unit) \<Rightarrow> err + seed_entry list \<Rightarrow> ('z db_scheme, err, unit) prog" where
  "seed_main E env connect file =
     bindP (seed_dsn env) (\<lambda>dsn.
     bindP (errP (sumP (connect dsn)) (Wrapped ''connect: '')) (\<lambda>_.
     bindP (errP (seedAdmin E env) (Wrapped ''seed admin: '')) (\<lambda>_.
     bindP (errP (sumP file) (Wrapped ''load seed: '')) (\<lambda>entries.
     seed_all E entries))))"

section \<open>Lemmas\<close>

lemma seed_contains_iff: "seed_contains s sub = word_containsStr s sub"
proof (cases "length sub \<le> length s")
  case True
  then have loop: "seed_containsStr s sub = word_containsStr s sub"
    by (simp add: seed_containsStr_def word_containsStr_def del: upt_Suc)
  have "word_containsStr s s" by (simp add: word_containsStr_def)
  with True loop show ?thesis by (auto simp: seed_contains_def)
qed (simp add: seed_contains_def word_containsStr_def)

lemma normalizeWordClass_simps:
  "normalizeWordClass s =
     (case switch_word_class s of Some c \<Rightarrow> Some c | None \<Rightarrow> switch_word_class (trim_right s ocr_marks))"
  by (simp add: normalizeWordClass.simps [of s] normalizeWordClass.simps [of "trim_right s ocr_marks"]
      trim_right_idem Let_def split: option.split)

end
