(* ===== verification/Identity_Tokens.thy ===== *)
theory Identity_Tokens
  imports Redis
begin

text \<open>
  \<open>internal/identity/infrastructure/redis/token_store.go\<close>: refresh, verification and reset
  tokens as keys with a time to live. The locale \<open>token_store\<close> is the contract of the Go
  interface \<open>TokenStore\<close>, in which the three kinds of token do not interfere.
\<close>

record 's token_store =
  ts_StoreRefresh :: "string \<Rightarrow> string \<Rightarrow> duration \<Rightarrow> ('s, err, unit) prog"
  ts_GetRefresh :: "string \<Rightarrow> ('s, err, string) prog"
  ts_RevokeRefresh :: "string \<Rightarrow> ('s, err, unit) prog"
  ts_StoreVerification :: "string \<Rightarrow> string \<Rightarrow> duration \<Rightarrow> ('s, err, unit) prog"
  ts_GetVerification :: "string \<Rightarrow> ('s, err, string) prog"
  ts_DeleteVerification :: "string \<Rightarrow> ('s, err, unit) prog"
  ts_StoreReset :: "string \<Rightarrow> string \<Rightarrow> duration \<Rightarrow> ('s, err, unit) prog"
  ts_GetReset :: "string \<Rightarrow> ('s, err, string) prog"
  ts_DeleteReset :: "string \<Rightarrow> ('s, err, unit) prog"

section \<open>The code\<close>

text \<open>\<open>%x\<close> of bytes, also \<open>hex.EncodeToString\<close>\<close>

definition hex_digit :: "nat \<Rightarrow> char" where
  "hex_digit n = (if n < 10 then char_of (48 + n) else char_of (87 + n))"

definition hex :: "string \<Rightarrow> string" where
  "hex s = concat (map (\<lambda>c. [hex_digit (byte c div 16), hex_digit (byte c mod 16)]) s)"

definition token_hash :: "ext \<Rightarrow> string \<Rightarrow> string" where
  "token_hash E s = hex (x_sha256 E s)"

definition refreshKey :: "ext \<Rightarrow> string \<Rightarrow> string" where
  "refreshKey E token = ''refresh:'' @ token_hash E token"

definition verifyKey :: "string \<Rightarrow> string" where
  "verifyKey token = ''verify:'' @ token"

definition resetKey :: "string \<Rightarrow> string" where
  "resetKey token = ''reset:'' @ token"

text \<open>The client's \<open>Set\<close>, \<open>Get\<close> and \<open>Del\<close>\<close>

definition redis_set :: "'s redis_exec \<Rightarrow> string \<Rightarrow> string \<Rightarrow> duration \<Rightarrow> ('s, err, unit) prog" where
  "redis_set exec key val ttl =
     bindP (exec [SetTTL key val ttl]) (\<lambda>rs.
       case first_err rs of Some err \<Rightarrow> failP err | None \<Rightarrow> retP ())"

fun str_val :: "reply list \<Rightarrow> string" where
  "str_val (StrReply v # rs) = v"
| "str_val rs = []"

definition redis_get_cmd :: "'s redis_exec \<Rightarrow> string \<Rightarrow> ('s, err, string) prog" where
  "redis_get_cmd exec key =
     bindP (exec [Get key]) (\<lambda>rs.
       case first_err rs of Some err \<Rightarrow> failP err | None \<Rightarrow> retP (str_val rs))"

definition redis_del :: "'s redis_exec \<Rightarrow> string \<Rightarrow> ('s, err, unit) prog" where
  "redis_del exec key =
     bindP (exec [Del key]) (\<lambda>rs.
       case first_err rs of Some err \<Rightarrow> failP err | None \<Rightarrow> retP ())"

definition token_missing :: "err \<Rightarrow> err" where
  "token_missing e = (if errors_is e redis_nil then TokenNotFound else e)"

definition StoreRefreshToken ::
  "ext \<Rightarrow> 's redis_exec \<Rightarrow> string \<Rightarrow> string \<Rightarrow> duration \<Rightarrow> ('s, err, unit) prog" where
  "StoreRefreshToken E exec token userID ttl = redis_set exec (refreshKey E token) userID ttl"

definition GetUserIDByRefreshToken :: "ext \<Rightarrow> 's redis_exec \<Rightarrow> string \<Rightarrow> ('s, err, string) prog" where
  "GetUserIDByRefreshToken E exec token = errP (redis_get_cmd exec (refreshKey E token)) token_missing"

definition RevokeRefreshToken :: "ext \<Rightarrow> 's redis_exec \<Rightarrow> string \<Rightarrow> ('s, err, unit) prog" where
  "RevokeRefreshToken E exec token = redis_del exec (refreshKey E token)"

definition StoreVerificationToken ::
  "'s redis_exec \<Rightarrow> string \<Rightarrow> string \<Rightarrow> duration \<Rightarrow> ('s, err, unit) prog" where
  "StoreVerificationToken exec token userID ttl = redis_set exec (verifyKey token) userID ttl"

definition GetUserIDByVerificationToken :: "'s redis_exec \<Rightarrow> string \<Rightarrow> ('s, err, string) prog" where
  "GetUserIDByVerificationToken exec token = errP (redis_get_cmd exec (verifyKey token)) token_missing"

definition DeleteVerificationToken :: "'s redis_exec \<Rightarrow> string \<Rightarrow> ('s, err, unit) prog" where
  "DeleteVerificationToken exec token = redis_del exec (verifyKey token)"

definition StoreResetToken ::
  "'s redis_exec \<Rightarrow> string \<Rightarrow> string \<Rightarrow> duration \<Rightarrow> ('s, err, unit) prog" where
  "StoreResetToken exec token userID ttl = redis_set exec (resetKey token) userID ttl"

definition GetUserIDByResetToken :: "'s redis_exec \<Rightarrow> string \<Rightarrow> ('s, err, string) prog" where
  "GetUserIDByResetToken exec token = errP (redis_get_cmd exec (resetKey token)) token_missing"

definition DeleteResetToken :: "'s redis_exec \<Rightarrow> string \<Rightarrow> ('s, err, unit) prog" where
  "DeleteResetToken exec token = redis_del exec (resetKey token)"

definition NewTokenStore :: "ext \<Rightarrow> 's redis_exec \<Rightarrow> 's token_store" where
  "NewTokenStore E exec =
     \<lparr>ts_StoreRefresh = StoreRefreshToken E exec, ts_GetRefresh = GetUserIDByRefreshToken E exec,
      ts_RevokeRefresh = RevokeRefreshToken E exec,
      ts_StoreVerification = StoreVerificationToken exec,
      ts_GetVerification = GetUserIDByVerificationToken exec,
      ts_DeleteVerification = DeleteVerificationToken exec,
      ts_StoreReset = StoreResetToken exec, ts_GetReset = GetUserIDByResetToken exec,
      ts_DeleteReset = DeleteResetToken exec\<rparr>"

section \<open>The contract\<close>

text \<open>
  \<open>ref\<close>, \<open>ver\<close> and \<open>rst\<close> are what the store holds in a state. Refresh tokens are kept under
  their hash, so that \<open>hash\<close> tells which of them are the same. A call may fail for reasons of
  its own; the laws are about calls that succeed.
\<close>

locale token_store =
  fixes ts :: "'s token_store" and hash :: "string \<Rightarrow> string"
    and ref ver rst :: "'s \<Rightarrow> string \<Rightarrow> string option"
  assumes store_refresh: "0 < w \<Longrightarrow> ts_StoreRefresh ts t v w s = (Inr (), s') \<Longrightarrow>
      ref s' = (ref s)(hash t \<mapsto> v) \<and> ver s' = ver s \<and> rst s' = rst s"
    and get_refresh: "ts_GetRefresh ts t s = (Inr v, s') \<Longrightarrow>
      ref s (hash t) = Some v \<and> ref s' = ref s \<and> ver s' = ver s \<and> rst s' = rst s"
    and revoke_refresh: "ts_RevokeRefresh ts t s = (Inr (), s') \<Longrightarrow>
      ref s' = (ref s)(hash t := None) \<and> ver s' = ver s \<and> rst s' = rst s"
    and store_verification: "0 < w \<Longrightarrow> ts_StoreVerification ts t v w s = (Inr (), s') \<Longrightarrow>
      ver s' = (ver s)(t \<mapsto> v) \<and> ref s' = ref s \<and> rst s' = rst s"
    and get_verification: "ts_GetVerification ts t s = (Inr v, s') \<Longrightarrow>
      ver s t = Some v \<and> ref s' = ref s \<and> ver s' = ver s \<and> rst s' = rst s"
    and delete_verification: "ts_DeleteVerification ts t s = (Inr (), s') \<Longrightarrow>
      ver s' = (ver s)(t := None) \<and> ref s' = ref s \<and> rst s' = rst s"
    and store_reset: "0 < w \<Longrightarrow> ts_StoreReset ts t v w s = (Inr (), s') \<Longrightarrow>
      rst s' = (rst s)(t \<mapsto> v) \<and> ref s' = ref s \<and> ver s' = ver s"
    and get_reset: "ts_GetReset ts t s = (Inr v, s') \<Longrightarrow>
      rst s t = Some v \<and> ref s' = ref s \<and> ver s' = ver s \<and> rst s' = rst s"
    and delete_reset: "ts_DeleteReset ts t s = (Inr (), s') \<Longrightarrow>
      rst s' = (rst s)(t := None) \<and> ref s' = ref s \<and> ver s' = ver s"
begin

text \<open>A revoked token is of no use, whatever was stored under it.\<close>

lemma revoked_not_found:
  "ts_RevokeRefresh ts t s = (Inr (), s') \<Longrightarrow> ts_GetRefresh ts t s' \<noteq> (Inr v, s'')"
  using revoke_refresh [of t s s'] get_refresh [of t s' v s''] by auto

lemma stored_refresh_found:
  "0 < w \<Longrightarrow> ts_StoreRefresh ts t v w s = (Inr (), s') \<Longrightarrow> ts_GetRefresh ts t s' = (Inr v', s'') \<Longrightarrow> v' = v"
  using store_refresh [of w t v s s'] get_refresh [of t s' v' s''] by auto

end

section \<open>Redis provides it\<close>

definition token_view :: "string \<Rightarrow> time \<Rightarrow> redis_data \<Rightarrow> string \<Rightarrow> string option" where
  "token_view pre now d = (\<lambda>t. redis_get now d (pre @ t))"

context redis_server
begin

lemma exec_data:
  "exec cs s = (Inr rs, s') \<Longrightarrow>
     rs = fst (redis_run (clock s) cs (data s)) \<and> data s' = snd (redis_run (clock s) cs (data s)) \<and>
     clock s' = clock s"
  using exec_ok [of cs s rs s'] by (metis fst_conv snd_conv)

lemma redis_set_ok:
  assumes "0 < w" and "redis_set exec key v w s = (Inr (), s')"
  shows "redis_get (clock s') (data s') = (redis_get (clock s) (data s))(key \<mapsto> v)"
proof -
  from assms(2) obtain rs where "exec [SetTTL key v w] s = (Inr rs, s')"
    by (auto simp: redis_set_def prog_Inr split: option.splits)
  from exec_data [OF this] assms(1) show ?thesis
    by (intro ext) (simp add: redis_get_def)
qed

lemma redis_get_ok:
  assumes "redis_get_cmd exec key s = (Inr v, s')"
  shows "redis_get (clock s) (data s) key = Some v \<and>
    redis_get (clock s') (data s') = redis_get (clock s) (data s)"
proof -
  from assms obtain rs where run: "exec [Get key] s = (Inr rs, s')"
    and rs: "first_err rs = None" "v = str_val rs"
    by (auto simp: redis_get_cmd_def prog_Inr split: option.splits)
  from exec_data [OF run] rs show ?thesis
    by (auto simp: redis_get_def split: option.splits prod.splits)
qed

lemma redis_del_ok:
  assumes "redis_del exec key s = (Inr (), s')"
  shows "redis_get (clock s') (data s') = (redis_get (clock s) (data s))(key := None)"
proof -
  from assms obtain rs where "exec [Del key] s = (Inr rs, s')"
    by (auto simp: redis_del_def prog_Inr split: option.splits)
  from exec_data [OF this] show ?thesis
    by (intro ext) (auto simp: redis_get_def split: option.splits)
qed

end

lemmas token_defs = NewTokenStore_def StoreRefreshToken_def GetUserIDByRefreshToken_def
  RevokeRefreshToken_def StoreVerificationToken_def GetUserIDByVerificationToken_def
  DeleteVerificationToken_def StoreResetToken_def GetUserIDByResetToken_def DeleteResetToken_def
  refreshKey_def verifyKey_def resetKey_def

locale redis_tokens = redis_server exec clock data
  for exec :: "'s redis_exec" and clock data +
  fixes E :: ext

sublocale redis_tokens \<subseteq> token_store "NewTokenStore E exec" "token_hash E"
  "\<lambda>s. token_view ''refresh:'' (clock s) (data s)"
  "\<lambda>s. token_view ''verify:'' (clock s) (data s)"
  "\<lambda>s. token_view ''reset:'' (clock s) (data s)"
  by unfold_locales
    (auto simp: token_defs prog_Inr token_view_def fun_eq_iff dest: redis_set_ok redis_get_ok redis_del_ok)

interpretation mem_tokens: redis_tokens redis_mem rd_clock rd_data demo_ext
  by unfold_locales

end
