(* ===== verification/Identity_Service.thy ===== *)
theory Identity_Service
  imports Identity_Store Identity_Tokens Auth Platform
begin

text \<open>
  \<open>internal/identity/application/commands/service.go\<close>: registration, login, token refresh and
  the password flows, over the interfaces of the user repository, the token store and the
  mailer, as in the code. The locale \<open>identity_service\<close> joins the contracts of its parts and
  proves what the commands do; it is interpreted on PostgreSQL's repository and Redis's token
  store in one state (\<open>world\<close>).
\<close>

section \<open>The code\<close>

definition verifyTokenTTL :: duration where "verifyTokenTTL = 24 * hour"
definition resetTokenTTL :: duration where "resetTokenTTL = 1 * hour"
definition refreshTTL :: duration where "refreshTTL = 7 * 24 * hour"

record 's identity_svc =
  is_users :: "'s user_repository"
  is_tokens :: "'s token_store"
  is_mail :: "'s mailer"

text \<open>\<open>uuid.Parse\<close> with the error a caller turns a failure into\<close>

definition parse_uuidP :: "ext \<Rightarrow> string \<Rightarrow> err \<Rightarrow> ('s, err, uuid) prog" where
  "parse_uuidP E t e = (case x_uuid_parse E t of (i, ok) \<Rightarrow> if ok then retP i else failP e)"

lemma parse_uuidP_Inr:
  "parse_uuidP E t e s = (Inr i, s') \<longleftrightarrow> x_uuid_parse E t = (i, True) \<and> s' = s"
  by (auto simp: parse_uuidP_def prog_defs split: prod.split)

lemma keeps_parse_uuid [triple_intros]: "keeps I (parse_uuidP E t e)"
  by (auto simp: parse_uuidP_def intro: triple_intros split: prod.split)

definition randomHex :: "'s runtime \<Rightarrow> nat \<Rightarrow> ('s, err, string) prog" where
  "randomHex R n = bindP (rt_rand R n) (\<lambda>b. retP (hex b))"

definition RegisterUser ::
  "ext \<Rightarrow> 's runtime \<Rightarrow> 's identity_svc \<Rightarrow> string \<Rightarrow> string \<Rightarrow> string \<Rightarrow> string \<Rightarrow> ('s, err, user) prog" where
  "RegisterUser E R v name email password passwordConfirmation =
     rejectP (password \<noteq> passwordConfirmation) (Identity ErrPasswordMismatch) (
     bindP (NewUser E R name email password) (\<lambda>user.
     bindP (usr_Create (is_users v) user) (\<lambda>_.
     bindP (randomHex R 32) (\<lambda>token.
     bindP (ts_StoreVerification (is_tokens v) token (x_uuid_string E (us_id user)) verifyTokenTTL) (\<lambda>_.
     bindP (tryP (ml_verification (is_mail v) (us_email user) token)) (\<lambda>_.
     retP user))))))"

definition VerifyEmail :: "ext \<Rightarrow> 's runtime \<Rightarrow> 's identity_svc \<Rightarrow> string \<Rightarrow> ('s, err, unit) prog" where
  "VerifyEmail E R v token =
     bindP (elseP (ts_GetVerification (is_tokens v) token) (Identity ErrUnverifiedEmail)) (\<lambda>userID.
     bindP (parse_uuidP E userID (Identity ErrUnverifiedEmail)) (\<lambda>i.
     bindP (usr_FindByID (is_users v) i) (\<lambda>user.
     if IsEmailVerified user then
       bindP (tryP (ts_DeleteVerification (is_tokens v) token)) (\<lambda>_. retP ())
     else
       bindP (nowP R) (\<lambda>now.
       bindP (usr_Update (is_users v) (MarkEmailVerified now user)) (\<lambda>_.
       ts_DeleteVerification (is_tokens v) token)))))"

definition LoginUser ::
  "ext \<Rightarrow> 's runtime \<Rightarrow> string \<Rightarrow> 's identity_svc \<Rightarrow> string \<Rightarrow> string \<Rightarrow> ('s, err, string \<times> string) prog" where
  "LoginUser E R secret v email password =
     bindP (elseP (usr_FindByEmail (is_users v) email) (Identity ErrWrongPassword)) (\<lambda>user.
     rejectP (\<not> us_is_active user) (Identity ErrUserBanned) (
     rejectP (\<not> VerifyPassword E user password) (Identity ErrWrongPassword) (
     bindP (nowP R) (\<lambda>now.
     bindP (sumP (GenerateAccessToken E secret now (x_uuid_string E (us_id user)) (us_role user))) (\<lambda>accessToken.
     bindP (randomHex R 32) (\<lambda>refreshToken.
     bindP (ts_StoreRefresh (is_tokens v) refreshToken (x_uuid_string E (us_id user)) refreshTTL) (\<lambda>_.
     retP (accessToken, refreshToken))))))))"

definition RefreshToken ::
  "ext \<Rightarrow> 's runtime \<Rightarrow> string \<Rightarrow> 's identity_svc \<Rightarrow> string \<Rightarrow> ('s, err, string \<times> string) prog" where
  "RefreshToken E R secret v oldRefreshToken =
     bindP (elseP (ts_GetRefresh (is_tokens v) oldRefreshToken) (Identity ErrWrongPassword)) (\<lambda>userID.
     bindP (parse_uuidP E userID (Identity ErrWrongPassword)) (\<lambda>i.
     bindP (usr_FindByID (is_users v) i) (\<lambda>user.
     bindP (nowP R) (\<lambda>now.
     bindP (sumP (GenerateAccessToken E secret now (x_uuid_string E (us_id user)) (us_role user))) (\<lambda>newAccessToken.
     bindP (randomHex R 32) (\<lambda>newRefreshToken.
     bindP (ts_StoreRefresh (is_tokens v) newRefreshToken (x_uuid_string E (us_id user)) refreshTTL) (\<lambda>_.
     bindP (tryP (ts_RevokeRefresh (is_tokens v) oldRefreshToken)) (\<lambda>_.
     retP (newAccessToken, newRefreshToken)))))))))"

definition LogoutUser :: "'s identity_svc \<Rightarrow> string \<Rightarrow> ('s, err, unit) prog" where
  "LogoutUser v refreshToken = ts_RevokeRefresh (is_tokens v) refreshToken"

definition ForgotPassword :: "ext \<Rightarrow> 's runtime \<Rightarrow> 's identity_svc \<Rightarrow> string \<Rightarrow> ('s, err, unit) prog" where
  "ForgotPassword E R v email =
     bindP (tryP (usr_FindByEmail (is_users v) email)) (\<lambda>r.
     case r of
       Inl _ \<Rightarrow> retP ()
     | Inr user \<Rightarrow>
         bindP (randomHex R 32) (\<lambda>token.
         bindP (ts_StoreReset (is_tokens v) token (x_uuid_string E (us_id user)) resetTokenTTL) (\<lambda>_.
         bindP (tryP (ml_reset (is_mail v) (us_email user) token)) (\<lambda>_.
         retP ()))))"

definition ResetPassword ::
  "ext \<Rightarrow> 's runtime \<Rightarrow> 's identity_svc \<Rightarrow> string \<Rightarrow> string \<Rightarrow> string \<Rightarrow> ('s, err, unit) prog" where
  "ResetPassword E R v token password passwordConfirmation =
     rejectP (password \<noteq> passwordConfirmation) (Identity ErrPasswordMismatch) (
     rejectP (length password < 8) (Identity ErrPasswordTooShort) (
     bindP (elseP (ts_GetReset (is_tokens v) token) (Identity ErrUnverifiedEmail)) (\<lambda>userID.
     bindP (parse_uuidP E userID (Identity ErrUnverifiedEmail)) (\<lambda>i.
     bindP (usr_FindByID (is_users v) i) (\<lambda>user.
     bindP (saltP R) (\<lambda>salt.
     bindP (sumP (x_bcrypt_hash E salt password)) (\<lambda>hash.
     bindP (nowP R) (\<lambda>now.
     bindP (usr_Update (is_users v) (SetPasswordHash now hash user)) (\<lambda>_.
     ts_DeleteReset (is_tokens v) token)))))))))"

definition UpdateProfile ::
  "ext \<Rightarrow> 's runtime \<Rightarrow> 's identity_svc \<Rightarrow> string \<Rightarrow> string \<Rightarrow> ('s, err, user) prog" where
  "UpdateProfile E R v userID name =
     rejectP (name = []) (Identity ErrEmptyName) (
     bindP (parse_uuidP E userID (Identity ErrUserNotFound)) (\<lambda>i.
     bindP (usr_FindByID (is_users v) i) (\<lambda>user.
     bindP (nowP R) (\<lambda>now.
     bindP (usr_Update (is_users v) (user\<lparr>us_name := name, us_updated_at := now\<rparr>)) (\<lambda>_.
     retP (user\<lparr>us_name := name, us_updated_at := now\<rparr>))))))"

definition ChangePassword ::
  "ext \<Rightarrow> 's runtime \<Rightarrow> 's identity_svc \<Rightarrow> string \<Rightarrow> string \<Rightarrow> string \<Rightarrow> ('s, err, unit) prog" where
  "ChangePassword E R v userID currentPassword newPassword =
     bindP (parse_uuidP E userID (Identity ErrUserNotFound)) (\<lambda>i.
     bindP (usr_FindByID (is_users v) i) (\<lambda>user.
     rejectP (\<not> VerifyPassword E user currentPassword) (Identity ErrWrongPassword) (
     rejectP (length newPassword < 8) (Identity ErrPasswordTooShort) (
     bindP (saltP R) (\<lambda>salt.
     bindP (sumP (x_bcrypt_hash E salt newPassword)) (\<lambda>hash.
     bindP (nowP R) (\<lambda>now.
     usr_Update (is_users v) (SetPasswordHash now hash user))))))))"

section \<open>The commands over the contracts of their parts\<close>

locale identity_service =
  user_repository repo users inv now + token_store ts hash ref ver rst
  for repo :: "'s user_repository" and users inv now ts hash ref ver rst +
  fixes mail :: "'s mailer" and R :: "'s runtime"
  assumes clock: "rt_now R = now"
    and fr_tokens:
      "frames (\<lambda>s. (users s, inv s, now s)) (ts_StoreRefresh ts t v w)"
      "frames (\<lambda>s. (users s, inv s, now s)) (ts_GetRefresh ts t)"
      "frames (\<lambda>s. (users s, inv s, now s)) (ts_RevokeRefresh ts t)"
      "frames (\<lambda>s. (users s, inv s, now s)) (ts_StoreVerification ts t v w)"
      "frames (\<lambda>s. (users s, inv s, now s)) (ts_GetVerification ts t)"
      "frames (\<lambda>s. (users s, inv s, now s)) (ts_DeleteVerification ts t)"
      "frames (\<lambda>s. (users s, inv s, now s)) (ts_StoreReset ts t v w)"
      "frames (\<lambda>s. (users s, inv s, now s)) (ts_GetReset ts t)"
      "frames (\<lambda>s. (users s, inv s, now s)) (ts_DeleteReset ts t)"
    and fr_repo:
      "frames (\<lambda>s. (ref s, ver s, rst s, now s)) (usr_Create repo u)"
      "frames (\<lambda>s. (ref s, ver s, rst s, now s)) (usr_FindByEmail repo e)"
      "frames (\<lambda>s. (ref s, ver s, rst s, now s)) (usr_Update repo u)"
    and fr_rand: "frames (\<lambda>s. (users s, inv s, ref s, ver s, rst s, now s)) (rt_rand R n)"
    and fr_uuid: "frames (\<lambda>s. (users s, inv s, ref s, ver s, rst s, now s)) (uuidP R :: ('s, err, uuid) prog)"
    and fr_salt: "frames (\<lambda>s. (users s, inv s, ref s, ver s, rst s, now s)) (saltP R :: ('s, err, nat) prog)"
    and fr_mail: "frames (\<lambda>s. (users s, inv s, ref s, ver s, rst s, now s)) (ml_verification mail a t)"
      "frames (\<lambda>s. (users s, inv s, ref s, ver s, rst s, now s)) (ml_reset mail a t)"
begin

abbreviation svc :: "'s identity_svc" where
  "svc \<equiv> \<lparr>is_users = repo, is_tokens = ts, is_mail = mail\<rparr>"

lemma randomHex_frame:
  "randomHex R n s = (Inr t, s') \<Longrightarrow>
     users s' = users s \<and> inv s' = inv s \<and> ref s' = ref s \<and> ver s' = ver s \<and> rst s' = rst s \<and> now s' = now s"
  by (auto simp: randomHex_def prog_Inr dest!: framesD [OF fr_rand])

lemma find_id_Inr:
  "usr_FindByID repo i s = (Inr u, s') \<longleftrightarrow> users s i = Some u \<and> s' = s"
  by (auto simp: find_id split: option.splits)

lemma find_email_Inr:
  assumes "inv s" and "usr_FindByEmail repo e s = (Inr u, s')"
  shows "users s (us_id u) = Some u \<and> us_email u = e \<and> s' = s"
  using assms by (rule_tac find_email_cases [OF assms(1), of e]) (auto dest: users_id)

text \<open>A login succeeds only with the password of an active user, and hands out an access token
  for this user and a refresh token stored for this user; nothing else changes.\<close>

lemma login_sound:
  assumes "inv s" and "LoginUser E R secret svc e p s = (Inr (acc, rfr), s')"
  shows "\<exists>u. users s (us_id u) = Some u \<and> us_email u = e \<and> us_is_active u \<and> VerifyPassword E u p \<and>
      GenerateAccessToken E secret (now s) (x_uuid_string E (us_id u)) (us_role u) = Inr acc \<and>
      ref s' = (ref s)(hash rfr \<mapsto> x_uuid_string E (us_id u)) \<and>
      users s' = users s \<and> ver s' = ver s \<and> rst s' = rst s \<and> inv s'"
proof -
  from assms(2) obtain u s1 s2 s3 where
    u: "usr_FindByEmail repo e s = (Inr u, s1)" and
    ok: "us_is_active u" "VerifyPassword E u p" and
    acc: "GenerateAccessToken E secret (now s1) (x_uuid_string E (us_id u)) (us_role u) = Inr acc" and
    rnd: "randomHex R 32 s1 = (Inr rfr, s2)" and
    st: "ts_StoreRefresh ts rfr (x_uuid_string E (us_id u)) refreshTTL s2 = (Inr (), s')"
    by (auto simp: LoginUser_def prog_Inr nowP_def clock)
  have u': "users s (us_id u) = Some u" "us_email u = e" "s1 = s"
    using find_email_Inr [OF assms(1) u] by auto
  note f1 = randomHex_frame [OF rnd] and f2 = framesD [OF fr_tokens(1) st]
    and st' = store_refresh [OF _ st]
  have "0 < refreshTTL" by (simp add: refreshTTL_def)
  with f1 f2 st' ok acc u' assms(1) show ?thesis by (intro exI [of _ u]) simp
qed

text \<open>An unknown address and a wrong password are answered alike.\<close>

lemma login_wrong:
  assumes "inv s" and "\<And>u. users s (us_id u) = Some u \<Longrightarrow> us_email u = e \<Longrightarrow>
    us_is_active u \<and> \<not> VerifyPassword E u p"
  shows "LoginUser E R secret svc e p s = (Inl (Identity ErrWrongPassword), s)"
  using find_email_cases [OF assms(1), of e] assms(2)
  by (smt (verit) LoginUser_def bindP_def elseP_def failP_def identity_svc.simps(1) old.prod.case
      rejectP_def old.sum.simps(5) old.sum.simps(6) users_id)

lemma register_sound:
  assumes "inv s" and "RegisterUser E R svc name e p pc s = (Inr u, s')"
  shows "p = pc \<and> users s (us_id u) = None \<and> users s' = (users s)(us_id u \<mapsto> u) \<and> inv s' \<and>
    us_email u = e \<and> us_name u = name \<and> us_role u = RoleUser \<and> us_is_active u \<and> \<not> IsEmailVerified u \<and>
    (\<exists>t. ver s' = (ver s)(t \<mapsto> x_uuid_string E (us_id u))) \<and> ref s' = ref s \<and> rst s' = rst s"
proof -
  from assms(2) obtain s1 s2 s3 s4 r t where
    p: "p = pc" and
    new: "NewUser E R name e p s = (Inr u, s1)" and
    cr: "usr_Create repo u s1 = (Inr (), s2)" and
    rnd: "randomHex R 32 s2 = (Inr t, s3)" and
    st: "ts_StoreVerification ts t (x_uuid_string E (us_id u)) verifyTokenTTL s3 = (Inr (), s4)" and
    ml: "ml_verification mail (us_email u) t s4 = (r, s')"
    by (auto simp: RegisterUser_def prog_Inr)
  have "\<exists>s0 salt i. (saltP R :: ('s, err, nat) prog) s = (Inr salt, s0) \<and>
      (uuidP R :: ('s, err, uuid) prog) s0 = (Inr i, s1)"
    using new by (auto simp: NewUser_def prog_Inr nowP_def)
  then have f0: "users s1 = users s \<and> inv s1 = inv s \<and> ref s1 = ref s \<and> ver s1 = ver s \<and> rst s1 = rst s"
    by (auto dest!: framesD [OF fr_salt] framesD [OF fr_uuid])
  note f1 = create_ok [OF _ cr] framesD [OF fr_repo(1) cr]
    and f2 = randomHex_frame [OF rnd] and f3 = framesD [OF fr_tokens(4) st] store_verification [OF _ st]
    and f4 = framesD [OF fr_mail(1) ml]
  have "0 < verifyTokenTTL" by (simp add: verifyTokenTTL_def)
  with f0 f1 f2 f3 f4 p assms(1) NewUser_Inr [OF new] show ?thesis
    by (auto simp: IsEmailVerified_def intro!: exI [of _ t])
qed

text \<open>A refresh is possible only with a stored token. The new token is stored for the same user;
  the old one is revoked, if the store carries that out.\<close>

lemma refresh_sound:
  assumes "inv s" and "RefreshToken E R secret svc old s = (Inr (acc, new), s')"
    and "\<And>t s s' e. ts_RevokeRefresh ts t s \<noteq> (Inl e, s')"
  shows "\<exists>i t u. ref s (hash old) = Some t \<and> x_uuid_parse E t = (i, True) \<and> users s i = Some u \<and>
      GenerateAccessToken E secret (now s) (x_uuid_string E i) (us_role u) = Inr acc \<and>
      ref s' = ((ref s)(hash new \<mapsto> x_uuid_string E i))(hash old := None) \<and>
      users s' = users s \<and> inv s'"
proof -
  from assms(2) obtain t s1 i u s2 s3 r where
    g: "ts_GetRefresh ts old s = (Inr t, s1)" and
    i: "x_uuid_parse E t = (i, True)" and
    u: "usr_FindByID repo i s1 = (Inr u, s1)" and
    acc: "GenerateAccessToken E secret (now s1) (x_uuid_string E (us_id u)) (us_role u) = Inr acc" and
    rnd: "randomHex R 32 s1 = (Inr new, s2)" and
    st: "ts_StoreRefresh ts new (x_uuid_string E (us_id u)) refreshTTL s2 = (Inr (), s3)" and
    rv: "ts_RevokeRefresh ts old s3 = (r, s')"
    by (auto simp: RefreshToken_def prog_Inr nowP_def clock parse_uuidP_Inr find_id_Inr)
  obtain x where r: "r = Inr ()" using rv assms(3) [of old s3] by (cases r) auto
  have u': "users s1 i = Some u" "us_id u = i" using u users_id by (auto simp: find_id_Inr)
  note f = get_refresh [OF g] framesD [OF fr_tokens(2) g] randomHex_frame [OF rnd]
    framesD [OF fr_tokens(1) st] store_refresh [OF _ st] framesD [OF fr_tokens(3) rv]
    revoke_refresh [OF rv [unfolded r]]
  have "0 < refreshTTL" by (simp add: refreshTTL_def)
  with f u' i acc assms(1) show ?thesis by (intro exI [of _ i] exI [of _ t] exI [of _ u]) simp
qed

text \<open>A reset token sets the password of the user it was stored for, once.\<close>

lemma reset_sound:
  assumes "inv s" and "ResetPassword E R svc t p pc s = (Inr (), s')" and "bcrypt_ok E"
  shows "8 \<le> length p \<and> (\<exists>i v u h. rst s t = Some v \<and> x_uuid_parse E v = (i, True) \<and>
      users s i = Some u \<and> VerifyPassword E (u\<lparr>us_password_hash := h\<rparr>) p \<and>
      users s' = (users s)(i \<mapsto> u\<lparr>us_password_hash := h, us_updated_at := now s\<rparr>) \<and>
      rst s' = (rst s)(t := None) \<and> ref s' = ref s \<and> inv s')"
proof -
  from assms(2) obtain v s1 i u salt s2 h s3 where
    len: "8 \<le> length p" and
    g: "ts_GetReset ts t s = (Inr v, s1)" and
    i: "x_uuid_parse E v = (i, True)" and
    u: "usr_FindByID repo i s1 = (Inr u, s1)" and
    salt: "(saltP R :: ('s, err, nat) prog) s1 = (Inr salt, s2)" and
    h: "x_bcrypt_hash E salt p = Inr h" and
    upd: "usr_Update repo (SetPasswordHash (now s2) h u) s2 = (Inr (), s3)" and
    del: "ts_DeleteReset ts t s3 = (Inr (), s')"
    by (auto simp: ResetPassword_def prog_Inr nowP_def clock parse_uuidP_Inr find_id_Inr not_less)
  have u': "users s1 i = Some u" "us_id u = i" using u users_id by (auto simp: find_id_Inr)
  note f = get_reset [OF g] framesD [OF fr_tokens(8) g] framesD [OF fr_salt salt]
    framesD [OF fr_repo(3) upd] framesD [OF fr_tokens(9) del] delete_reset [OF del]
  have "inv s2" using f(2,3) assms(1) by simp
  from update_ok [OF this upd] u' f(1-3)
  have "inv s3" "users s3 = (users s)(i \<mapsto> u\<lparr>us_password_hash := h, us_updated_at := now s\<rparr>)"
    by (auto simp: SetPasswordHash_def)
  moreover have "VerifyPassword E (u\<lparr>us_password_hash := h\<rparr>) p"
    using assms(3) h by (auto simp: VerifyPassword_def bcrypt_ok_def)
  ultimately show ?thesis using f len u' i
    by (intro conjI exI [of _ i] exI [of _ v] exI [of _ u] exI [of _ h]) simp_all
qed

end

end
