(* ===== verification/Logging.thy ===== *)
theory Logging
  imports Httperr
begin

text \<open>
  The log of requests (\<open>pkg/logging/logging.go\<close>). An entry is the call of \<open>slog\<close> with its level, its
  message and its attributes; writing it is a parameter, as is the clock.
\<close>

datatype log_level = LevelInfo | LevelError

datatype slog_handler = JSONHandler log_level | TextHandler log_level

datatype log_value = LogString string | LogInt int

record log_entry =
  le_level :: log_level
  le_message :: string
  le_attrs :: "(string \<times> log_value) list"

definition logging_Init :: "string \<Rightarrow> slog_handler" where
  "logging_Init appEnv = (if appEnv = ''production'' then JSONHandler LevelInfo else TextHandler LevelInfo)"

text \<open>
  \<open>c.Next()\<close> returns an error before the error handler renders it, so the status of the response is then the
  one sent before; a panic goes through the middleware without coming back to it. \<open>c.Get\<close> reads the header of
  the request.
\<close>

definition RequestLogger ::
  "('s \<Rightarrow> time) \<Rightarrow> (log_entry \<Rightarrow> 's \<Rightarrow> 's) \<Rightarrow> string \<Rightarrow> string \<Rightarrow> ('s, 'b, 'd) middleware"
where
  "RequestLogger now write method path next c s =
     (case next c s of (resp, s1) \<Rightarrow>
        let latency = (now s1 - now s) sdiv 1000;
            reqID = rq_header c ''X-Request-ID'';
            attrs = (\<lambda>status. [(''method'', LogString method), (''path'', LogString path),
              (''status'', LogInt (int status)), (''latency_ms'', LogInt latency)] @
              (if reqID = [] then [] else [(''request_id'', LogString reqID)])) in
        (resp,
         case rs_return resp of
           ReturnsNil \<Rightarrow> write \<lparr>le_level = LevelInfo, le_message = ''request'', le_attrs = attrs (rs_status resp)\<rparr> s1
         | ReturnsError sent text \<Rightarrow>
             write \<lparr>le_level = LevelError, le_message = ''request error'',
               le_attrs = attrs sent @ [(''error'', LogString text)]\<rparr> s1
         | Panics \<Rightarrow> s1))"

end
