(* ===== verification/World.thy ===== *)
theory World
  imports Identity_Service Logging
begin

text \<open>
  The state of the whole program in one piece: the database with its clock and entropy, Redis as
  its documentation describes it, the mail and the log. The mailer of the running process is part of
  the state: the \<open>SMTPMailer\<close>, or the \<open>MockMailer\<close> that \<open>cmd/api/main.go\<close> uses without an SMTP host.
  The identity commands are assembled over it as \<open>main\<close> assembles them, and the contracts of their
  parts hold for it.
\<close>

record mail_state =
  ms_smtp :: "smtp_mailer option"
  ms_mock :: mail_box
  ms_sent :: "mail_message list"

definition no_mail :: "smtp_mailer option \<Rightarrow> mail_state" where
  "no_mail m = \<lparr>ms_smtp = m, ms_mock = \<lparr>mb_verification = [], mb_reset = []\<rparr>, ms_sent = []\<rparr>"

record world = db +
  wd_redis :: redis_store
  wd_mail :: mail_state
  wd_log :: "log_entry list"

definition world_exec :: "world redis_exec" where
  "world_exec cs w =
     (case redis_mem cs (wd_redis w) of (r, s) \<Rightarrow> (r, w\<lparr>wd_redis := s\<rparr>))"

definition in_mail :: "(mail_box, err, unit) prog \<Rightarrow> (world, err, unit) prog" where
  "in_mail m w = (case m (ms_mock (wd_mail w)) of (r, b) \<Rightarrow> (r, w\<lparr>wd_mail := (wd_mail w)\<lparr>ms_mock := b\<rparr>\<rparr>))"

text \<open>The server that the dialer reaches either refuses the message or takes it.\<close>

definition world_dial :: "ext \<Rightarrow> world dialer" where
  "world_dial E host port user pass msg w =
     (case x_dial_and_send E (db_now w) (host, port, user, pass) [mm_from msg, mm_to msg, mm_subject msg, mm_body msg] of
        Some e \<Rightarrow> (Inl e, w)
      | None \<Rightarrow> (Inr (), w\<lparr>wd_mail := (wd_mail w)\<lparr>ms_sent := ms_sent (wd_mail w) @ [msg]\<rparr>\<rparr>))"

definition mock_mailer :: "world mailer" where
  "mock_mailer =
     \<lparr>ml_verification = (\<lambda>to token. in_mail (mock_verification to token)),
      ml_reset = (\<lambda>to token. in_mail (mock_reset to token))\<rparr>"

definition running_mailer :: "ext \<Rightarrow> world \<Rightarrow> world mailer" where
  "running_mailer E w =
     (case ms_smtp (wd_mail w) of
        None \<Rightarrow> mock_mailer
      | Some m \<Rightarrow> NewSMTPMailer (world_dial E) (sm_host m) (sm_port m) (sm_user m) (sm_pass m) (sm_from m))"

definition world_mailer :: "ext \<Rightarrow> world mailer" where
  "world_mailer E =
     \<lparr>ml_verification = (\<lambda>to token w. ml_verification (running_mailer E w) to token w),
      ml_reset = (\<lambda>to token w. ml_reset (running_mailer E w) to token w)\<rparr>"

definition world_identity :: "ext \<Rightarrow> world identity_svc" where
  "world_identity E =
     \<lparr>is_users = PostgresUserRepository E, is_tokens = NewTokenStore E world_exec,
      is_mail = world_mailer E\<rparr>"

definition world_empty :: "time \<Rightarrow> world" where
  "world_empty t = db.extend (db_empty t)
     \<lparr>wd_redis = \<lparr>rd_clock = t, rd_data = (\<lambda>_. None)\<rparr>,
      wd_mail = no_mail None, wd_log = []\<rparr>"

text \<open>A process that starts has an empty \<open>MockMailer\<close>, or sends what it has to send by SMTP.\<close>

definition restart :: "smtp_mailer option \<Rightarrow> world \<Rightarrow> world" where
  "restart m w = w\<lparr>wd_mail := (no_mail m)\<lparr>ms_sent := ms_sent (wd_mail w)\<rparr>\<rparr>"

text \<open>Sending mail changes the mail.\<close>

lemma frames_mailer:
  assumes "\<And>w x. f (w\<lparr>wd_mail := x\<rparr>) = f w"
  shows "frames f (ml_verification (world_mailer E) a t)" "frames f (ml_reset (world_mailer E) a t)"
  by (auto simp: frames_def world_mailer_def running_mailer_def mock_mailer_def NewSMTPMailer_def Let_def
      smtp_verification_def smtp_reset_def smtp_send_def world_dial_def in_mail_def mock_verification_def
      mock_reset_def assms split: option.splits)

abbreviation wd_clock :: "world \<Rightarrow> time" where "wd_clock w \<equiv> rd_clock (wd_redis w)"
abbreviation wd_data :: "world \<Rightarrow> redis_data" where "wd_data w \<equiv> rd_data (wd_redis w)"

definition refresh_tokens :: "world \<Rightarrow> string \<Rightarrow> string option" where
  "refresh_tokens w = token_view ''refresh:'' (wd_clock w) (wd_data w)"

definition verify_tokens :: "world \<Rightarrow> string \<Rightarrow> string option" where
  "verify_tokens w = token_view ''verify:'' (wd_clock w) (wd_data w)"

definition reset_tokens :: "world \<Rightarrow> string \<Rightarrow> string option" where
  "reset_tokens w = token_view ''reset:'' (wd_clock w) (wd_data w)"

interpretation world_redis: redis_server world_exec wd_clock wd_data
  by unfold_locales
    (auto simp: world_exec_def redis_mem_def split: prod.splits)

lemma frames_exec:
  "frames (\<lambda>w. (db_user_map w, db_ok w, db_now w)) (world_exec cs)"
  by (auto simp: frames_def world_exec_def redis_mem_def db_user_map_def db_ok_def user_ids_def
      word_ids_def contribution_ids_def split: prod.splits)

lemma frames_token_ops:
  "frames (\<lambda>w. (db_user_map w, db_ok w, db_now w)) (redis_set world_exec k v ttl)"
  "frames (\<lambda>w. (db_user_map w, db_ok w, db_now w)) (redis_get_cmd world_exec k)"
  "frames (\<lambda>w. (db_user_map w, db_ok w, db_now w)) (redis_del world_exec k)"
  unfolding redis_set_def redis_get_cmd_def redis_del_def
  by (intro frame_intros frames_exec)+

lemma frames_users:
  "frames (\<lambda>w. (refresh_tokens w, verify_tokens w, reset_tokens w, db_now w)) (UserRepo_Create E u)"
  "frames (\<lambda>w. (refresh_tokens w, verify_tokens w, reset_tokens w, db_now w)) (UserRepo_FindByEmail e)"
  "frames (\<lambda>w. (refresh_tokens w, verify_tokens w, reset_tokens w, db_now w)) (UserRepo_Update u)"
  by (auto simp: frames_def UserRepo_Create_def CreateUser_def sqlP_def UserRepo_FindByEmail_run
      UserRepo_Update_run refresh_tokens_def verify_tokens_def reset_tokens_def prog_defs
      split: option.splits)

lemma frames_runtime:
  "frames (\<lambda>w. (db_user_map w, db_ok w, refresh_tokens w, verify_tokens w, reset_tokens w, db_now w))
     (rt_rand (db_runtime E) n :: (world, err, string) prog)"
  "frames (\<lambda>w. (db_user_map w, db_ok w, refresh_tokens w, verify_tokens w, reset_tokens w, db_now w))
     (uuidP (db_runtime E) :: (world, err, uuid) prog)"
  "frames (\<lambda>w. (db_user_map w, db_ok w, refresh_tokens w, verify_tokens w, reset_tokens w, db_now w))
     (saltP (db_runtime E) :: (world, err, nat) prog)"
  by (auto simp: frames_def db_runtime_def uuidP_def saltP_def db_user_map_def db_ok_def user_ids_def word_ids_def
      contribution_ids_def refresh_tokens_def verify_tokens_def reset_tokens_def)

lemma frames_mail:
  "frames (\<lambda>w. (db_user_map w, db_ok w, refresh_tokens w, verify_tokens w, reset_tokens w, db_now w))
     (ml_verification (world_mailer E) a t)"
  "frames (\<lambda>w. (db_user_map w, db_ok w, refresh_tokens w, verify_tokens w, reset_tokens w, db_now w))
     (ml_reset (world_mailer E) a t)"
  by (rule frames_mailer; simp add: fun_eq_iff db_user_map_def db_ok_def user_ids_def word_ids_def
      contribution_ids_def refresh_tokens_def verify_tokens_def reset_tokens_def)+

sublocale postgres \<subseteq> tok: redis_tokens world_exec wd_clock wd_data E
  by unfold_locales

sublocale postgres \<subseteq> wd: identity_service
  "PostgresUserRepository E" db_user_map db_ok db_now
  "NewTokenStore E world_exec" "token_hash E" refresh_tokens verify_tokens reset_tokens
  "world_mailer E" "db_runtime E"
proof (intro identity_service.intro identity_service_axioms.intro)
  show "user_repository (PostgresUserRepository E) (db_user_map :: world \<Rightarrow> _) db_ok db_now"
    by (rule user_repository_axioms)
  have "refresh_tokens = (\<lambda>w. token_view ''refresh:'' (wd_clock w) (wd_data w))"
    "verify_tokens = (\<lambda>w. token_view ''verify:'' (wd_clock w) (wd_data w))"
    "reset_tokens = (\<lambda>w. token_view ''reset:'' (wd_clock w) (wd_data w))"
    by (simp_all add: fun_eq_iff refresh_tokens_def verify_tokens_def reset_tokens_def)
  then show "token_store (NewTokenStore E world_exec) (token_hash E) refresh_tokens verify_tokens reset_tokens"
    using tok.token_store_axioms by simp
  show "rt_now (db_runtime E) = db_now" by (simp add: db_runtime_def)
qed (simp_all add: token_defs PostgresUserRepository_def frames_token_ops frames_err
    frames_users frames_runtime frames_mail)

end
