(* ===== verification/System_Invariant.thy ===== *)
theory System_Invariant
  imports Community_Invariant Dictionary_Proofs Moderation Ai_Service Seed World
begin

text \<open>
  The invariant of the database, kept by everything that writes: the operations of moderation,
  of the enrichment service and of the seeder, and the identity commands in the state of the
  whole program. \<open>system_step\<close> collects the operations that the program can carry out, in any
  order; the invariant holds in every state that they reach.
\<close>

lemma keeps_prod [triple_intros]:
  "(\<And>a b. keeps I (f a b)) \<Longrightarrow> keeps I (case p of (a, b) \<Rightarrow> f a b)"
  by (cases p) simp

section \<open>Moderation\<close>

lemma keeps_CreateAuditLog_stmt [triple_intros]: "keeps db_ok (CreateAuditLog_stmt r)"
  unfolding CreateAuditLog_stmt_def
  by (rule keeps_sqlP) (auto simp: audit_ok_def dest: db_okD(9) intro!: db_ok_audit)

lemma keeps_CreateAuditLog [triple_intros]: "keeps db_ok (CreateAuditLog l)"
  unfolding CreateAuditLog_def by (rule keeps_CreateAuditLog_stmt)

lemmas moderation_repositories =
  db_moderation_svc_def moderation_svc.simps PostgresModerationRepository_def moderation_repository.simps
  PostgresContributionRepository_def contribution_repository.simps PostgresWordRepository_def
  word_repository.simps PostgresUserRepository_def user_repository.simps

lemma moderation_fields [simp]:
  "mod_CreateAuditLog (mv_repo (db_moderation_svc E)) = CreateAuditLog"
  "crp_FindByID (mv_contribs (db_moderation_svc E)) = ContribRepo_FindByID"
  "crp_Update (mv_contribs (db_moderation_svc E)) = ContribRepo_Update"
  "wrp_Create (mv_words (db_moderation_svc E)) = WordRepo_Create E"
  "wrp_FindByID (mv_words (db_moderation_svc E)) = WordRepo_FindByID"
  "wrp_Update (mv_words (db_moderation_svc E)) = WordRepo_Update"
  "usr_FindByID (mv_users (db_moderation_svc E)) = UserRepo_FindByID"
  "usr_Update (mv_users (db_moderation_svc E)) = UserRepo_Update"
  by (simp_all add: moderation_repositories)

lemma keeps_log_action [triple_intros]:
  "keeps db_ok (log_action (db_runtime E) (db_moderation_svc E) a act ty t m)"
  unfolding log_action_def NewAuditLog_def moderation_fields by (intro triple_intros)

lemma keeps_NewWord [triple_intros]: "keeps db_ok (NewWord (db_runtime E) b c dl)"
  unfolding NewWord_def by (intro triple_intros)

lemma keeps_AddDefinition [triple_intros]: "keeps db_ok (AddDefinition (db_runtime E) m i w)"
  unfolding AddDefinition_def NewDefinition_def by (intro triple_intros)

lemma keeps_AddExample [triple_intros]: "keeps db_ok (AddExample (db_runtime E) b i w)"
  unfolding AddExample_def NewExample_def by (intro triple_intros)

lemma keeps_merge_definitions [triple_intros]: "keeps db_ok (merge_definitions (db_runtime E) i xs w)"
  by (induction xs arbitrary: i w) (auto simp: Let_def intro!: triple_intros split: sum.split)

lemma keeps_merge_examples [triple_intros]: "keeps db_ok (merge_examples (db_runtime E) xs w)"
  by (induction xs arbitrary: w) (auto simp: Let_def intro!: triple_intros)

lemma keeps_mergeContribution [triple_intros]:
  "keeps db_ok (mergeContribution (db_runtime E) (db_moderation_svc E) c)"
  unfolding mergeContribution_def mergeNewWord_def mergeNewDefinition_def mergeNewExample_def
    mergeEditWord_def moderation_fields Let_def
  by (intro triple_intros)

lemma keeps_moderation_commands [triple_intros]:
  "keeps db_ok (ApproveContribution (db_runtime E) (db_moderation_svc E) a i note)"
  "keeps db_ok (RejectContribution (db_runtime E) (db_moderation_svc E) a i note)"
  "keeps db_ok (BanUser (db_runtime E) (db_moderation_svc E) a u reason)"
  "keeps db_ok (UnbanUser (db_runtime E) (db_moderation_svc E) a u)"
  "keeps db_ok (ChangeUserRole (db_runtime E) (db_moderation_svc E) a u role)"
  unfolding ApproveContribution_def RejectContribution_def BanUser_def UnbanUser_def ChangeUserRole_def
    moderation_fields
  by (intro triple_intros)+

section \<open>Enrichment\<close>

lemma keeps_CreateAIRequest [triple_intros]: "keeps db_ok (CreateAIRequest r)"
  unfolding CreateAIRequest_def
  by (rule keeps_sqlP) (auto simp: ai_ok_def dest: db_okD(10) intro!: db_ok_ai)

lemma keeps_UpdateAIRequest [triple_intros]: "keeps db_ok (UpdateAIRequest p)"
  unfolding UpdateAIRequest_def
proof (rule keeps_sqlP)
  fix d :: "'a db_scheme"
  assume ok: "db_ok d"
    and checks: "\<forall>c \<in> set [(\<not> jsonb_column_ok (qr_response p) \<or> \<not> jsonb_column_ok (qr_parsed p), UntranslatableCharacter),
      (qr_id p \<in> qr_id ` set (db_ai_requests d) \<and>
        \<not> opt_in (qr_reviewed_by p) (user_ids d), ForeignKeyViolation ''ai_requests_reviewed_by_fkey'')].
        \<not> fst c"
  have "ai_ok (user_ids d) (word_ids d) (contribution_ids d)
      (update_where (\<lambda>r. qr_id r = qr_id p) (set_ai_columns p) (db_ai_requests d))"
    using db_okD(10) [OF ok] checks
    by (auto simp: ai_ok_def map_update_where set_ai_columns_def image_iff dest!: set_update_where)
  with ok show "db_ok (snd ((), d\<lparr>db_ai_requests :=
      update_where (\<lambda>r. qr_id r = qr_id p) (set_ai_columns p) (db_ai_requests d)\<rparr>))"
    by (simp add: db_ok_ai)
qed

lemma keeps_AiRepo [triple_intros]:
  "keeps db_ok (AiRepo_Create r)" "keeps db_ok (AiRepo_Update r)" "keeps I (AiRepo_FindByID i)"
  unfolding AiRepo_Create_def AiRepo_Update_def AiRepo_FindByID_def GetAIRequestByID_def
  by (intro triple_intros)+

lemmas enrichment_repositories =
  db_enrichment_svc_def enrichment_svc.simps PostgresAIRequestRepository_def ai_repository.simps
  PostgresWordRepository_def word_repository.simps

lemma enrichment_fields [simp]:
  "arp_Create (es_repo (db_enrichment_svc E llm model)) = AiRepo_Create"
  "arp_FindByID (es_repo (db_enrichment_svc E llm model)) = AiRepo_FindByID"
  "arp_Update (es_repo (db_enrichment_svc E llm model)) = AiRepo_Update"
  "wrp_FindByID (es_words (db_enrichment_svc E llm model)) = WordRepo_FindByID"
  "wrp_FindByBanjar (es_words (db_enrichment_svc E llm model)) = WordRepo_FindByBanjar"
  "wrp_Update (es_words (db_enrichment_svc E llm model)) = WordRepo_Update"
  "es_contrib (db_enrichment_svc E llm model) = ContribRepo_FindByID"
  "es_audit (db_enrichment_svc E llm model) = CreateAuditLog"
  "es_model (db_enrichment_svc E llm model) = model"
  by (simp_all add: enrichment_repositories)

lemma keeps_triggers [triple_intros]:
  "keeps db_ok (TriggerDefinitionEnrichment (db_runtime E) (db_enrichment_svc E llm model) a i)"
  "keeps db_ok (TriggerExampleSuggestion (db_runtime E) (db_enrichment_svc E llm model) a i)"
  "keeps db_ok (TriggerRelatedWordSuggestion (db_runtime E) (db_enrichment_svc E llm model) a i)"
  "keeps db_ok (TriggerQualityCheck (db_runtime E) (db_enrichment_svc E llm model) a i)"
  unfolding TriggerDefinitionEnrichment_def TriggerExampleSuggestion_def TriggerRelatedWordSuggestion_def
    TriggerQualityCheck_def trigger_def NewAIRequest_def enrichment_fields
  by (intro triple_intros)+

lemma keeps_runLLM_store [triple_intros]:
  "keeps db_ok (runLLM_store E (db_enrichment_svc E llm model) answer req)"
  unfolding runLLM_store_def enrichment_fields by (intro triple_intros)

lemma keeps_mergeAIOutput [triple_intros]:
  "keeps db_ok (mergeAIOutput (db_runtime E) (db_enrichment_svc E llm model) i req)"
  unfolding mergeAIOutput_def merge_definition_def merge_example_def merge_related_def Let_def
    enrichment_fields
  by (intro triple_intros)

lemma keeps_ai_log [triple_intros]:
  "keeps db_ok (ai_log (db_runtime E) (db_enrichment_svc E llm model) a act i)"
  unfolding ai_log_def NewAuditLog_def enrichment_fields by (intro triple_intros)

lemma keeps_reviews [triple_intros]:
  "keeps db_ok (ApproveAIRequest (db_runtime E) (db_enrichment_svc E llm model) a i)"
  "keeps db_ok (RejectAIRequest (db_runtime E) (db_enrichment_svc E llm model) a i)"
  unfolding ApproveAIRequest_def RejectAIRequest_def enrichment_fields
  by (intro triple_intros)+

section \<open>The dictionary and the seeder\<close>

lemma keeps_add_definitions [triple_intros]: "keeps db_ok (add_definitions (db_runtime E) i xs w)"
  by (induction xs arbitrary: i w) (auto intro!: triple_intros)

lemma keeps_add_examples [triple_intros]: "keeps db_ok (add_examples (db_runtime E) xs w)"
  by (induction xs arbitrary: w) (auto intro!: triple_intros)

lemma keeps_word_commands [triple_intros]:
  "keeps db_ok (CreateWord E (db_runtime E) (PostgresWordRepository E) a i)"
  "keeps db_ok (UpdateWord E (db_runtime E) (PostgresWordRepository E) a t i)"
  "keeps db_ok (SoftDeleteWord E (PostgresWordRepository E) t)"
  unfolding CreateWord_def UpdateWord_def SoftDeleteWord_def Let_def PostgresWordRepository_def
    word_repository.simps
  by (intro triple_intros)+

lemma keeps_UpsertWord [triple_intros]: "keeps db_ok (UpsertWord p)"
  unfolding UpsertWord_def
proof (rule keeps_bind, rule keeps_sqlP)
  fix d :: "'a db_scheme"
  let ?old = "word_key p \<in> word_key ` set (db_words d)"
  assume ok: "db_ok d" and checks: "\<forall>c \<in> set (let old = ?old in
            [(wr_dialect p \<notin> set dialect_enum, InvalidEnum (wr_dialect p)),
             (wr_word_class p \<notin> set word_class_enum, InvalidEnum (wr_word_class p)),
             (wr_status p \<notin> set word_status_enum, InvalidEnum (wr_status p)),
             (wr_source p \<notin> set word_source_enum, InvalidEnum (wr_source p)),
             (\<not> old \<and> wr_id p \<in> word_ids d, UniqueViolation ''words_pkey''),
             (\<not> old \<and> \<not> opt_in (wr_root p) (insert (wr_id p) (word_ids d)),
              ForeignKeyViolation ''words_root_word_id_fkey''),
             (\<not> old \<and> \<not> opt_in (wr_created_by p) (user_ids d), ForeignKeyViolation ''words_created_by_fkey'')]).
        \<not> fst c"
  have new: "words_ok (user_ids d) (db_words d @ [p])" if "\<not> ?old"
    using that checks db_okD(2) [OF ok]
    by (intro words_ok_append) (auto simp: Let_def word_row_ok_def word_ids_def)
  have upd: "words_ok (user_ids d) (update_where (\<lambda>r. word_key r = word_key p) (set_seed_columns p) (db_words d))"
    using checks db_okD(2) [OF ok]
    by (auto simp: words_ok_def word_row_ok_def map_update_where image_update_where set_seed_columns_def
        word_key_def Let_def dest!: set_update_where)
  have "wr_id ` set (update_where (\<lambda>r. word_key r = word_key p) (set_seed_columns p) (db_words d)) =
      wr_id ` set (db_words d)"
    by (rule image_update_where) (simp add: set_seed_columns_def)
  with ok new upd show "db_ok (snd ((), d\<lparr>db_words :=
      (if ?old then update_where (\<lambda>r. word_key r = word_key p) (set_seed_columns p) (db_words d)
       else db_words d @ [p])\<rparr>))"
    by (auto simp: word_ids_def intro!: db_ok_words)
qed (rule keeps_read)

lemma keeps_seed_definitions [triple_intros]: "keeps db_ok (seed_definitions E t w i ms)"
  by (induction ms arbitrary: i) (auto intro!: triple_intros)

lemma keeps_seed_examples [triple_intros]: "keeps db_ok (seed_examples E t w xs)"
proof (induction xs)
  case Nil
  then show ?case by (simp add: triple_intros)
next
  case (Cons x xs)
  then show ?case by (cases x) (auto intro!: triple_intros)
qed

lemma keeps_upsertEntry [triple_intros]: "keeps db_ok (upsertEntry E e r)"
  unfolding upsertEntry_def by (intro triple_intros)

lemma keeps_seed_all [triple_intros]: "keeps db_ok (seed_all E es)"
  unfolding seed_all_def seed_one_def by (intro triple_intros)

lemma keeps_seedAdmin [triple_intros]: "keeps db_ok (seedAdmin E env)"
  unfolding seedAdmin_def Let_def by (intro triple_intros)

lemma keeps_seed_main [triple_intros]: "keeps db_ok (seed_main E env connect file)"
  unfolding seed_main_def seed_dsn_def by (intro triple_intros)

section \<open>Identity, in the state of the whole program\<close>

lemma frames_keeps: "frames f m \<Longrightarrow> (\<And>s s'. f s = f s' \<Longrightarrow> I s = I s') \<Longrightarrow> keeps I m"
  unfolding frames_def keeps_def by blast

lemma keeps_mailer:
  assumes "\<And>w x. I (w\<lparr>wd_mail := x\<rparr>) = I w"
  shows "keeps I (ml_verification (world_mailer E) a t)" "keeps I (ml_reset (world_mailer E) a t)"
  by (rule frames_keeps [OF frames_mailer(1) [of I]], simp_all add: assms)
    (rule frames_keeps [OF frames_mailer(2) [of I]], simp_all add: assms)

lemma keeps_world_tokens [triple_intros]:
  "keeps db_ok (redis_set world_exec k v ttl)" "keeps db_ok (redis_get_cmd world_exec k)"
  "keeps db_ok (redis_del world_exec k)" "keeps db_ok (ml_verification (world_mailer E) a t)"
  "keeps db_ok (ml_reset (world_mailer E) a t)"
  by (rule frames_keeps, rule frames_token_ops frames_mail, blast)+

lemmas identity_parts =
  world_identity_def identity_svc.simps PostgresUserRepository_def user_repository.simps token_defs

lemma keeps_randomHex [triple_intros]: "keeps db_ok (randomHex (db_runtime E) n)"
  unfolding randomHex_def by (intro triple_intros)

lemma keeps_NewUser [triple_intros]: "keeps db_ok (NewUser E (db_runtime E) n e p)"
  unfolding NewUser_def by (intro triple_intros)


lemma identity_fields [simp]:
  "usr_Create (is_users (world_identity E)) = UserRepo_Create E"
  "usr_FindByID (is_users (world_identity E)) = UserRepo_FindByID"
  "usr_FindByEmail (is_users (world_identity E)) = UserRepo_FindByEmail"
  "usr_Update (is_users (world_identity E)) = UserRepo_Update"
  "is_tokens (world_identity E) = NewTokenStore E world_exec"
  "is_mail (world_identity E) = world_mailer E"
  by (simp_all add: world_identity_def PostgresUserRepository_def)

lemma keeps_tokens [triple_intros]:
  "keeps db_ok (ts_StoreRefresh (NewTokenStore E world_exec) t v ttl)"
  "keeps db_ok (ts_GetRefresh (NewTokenStore E world_exec) t)"
  "keeps db_ok (ts_RevokeRefresh (NewTokenStore E world_exec) t)"
  "keeps db_ok (ts_StoreVerification (NewTokenStore E world_exec) t v ttl)"
  "keeps db_ok (ts_GetVerification (NewTokenStore E world_exec) t)"
  "keeps db_ok (ts_DeleteVerification (NewTokenStore E world_exec) t)"
  "keeps db_ok (ts_StoreReset (NewTokenStore E world_exec) t v ttl)"
  "keeps db_ok (ts_GetReset (NewTokenStore E world_exec) t)"
  "keeps db_ok (ts_DeleteReset (NewTokenStore E world_exec) t)"
  by (simp_all add: token_defs triple_intros)

lemma keeps_identity_commands [triple_intros]:
  "keeps db_ok (RegisterUser E (db_runtime E) (world_identity E) n e p pc)"
  "keeps db_ok (VerifyEmail E (db_runtime E) (world_identity E) t)"
  "keeps db_ok (LoginUser E (db_runtime E) secret (world_identity E) e p)"
  "keeps db_ok (RefreshToken E (db_runtime E) secret (world_identity E) t)"
  "keeps db_ok (LogoutUser (world_identity E) t)"
  "keeps db_ok (ForgotPassword E (db_runtime E) (world_identity E) e)"
  "keeps db_ok (ResetPassword E (db_runtime E) (world_identity E) t p pc)"
  "keeps db_ok (UpdateProfile E (db_runtime E) (world_identity E) u n)"
  "keeps db_ok (ChangePassword E (db_runtime E) (world_identity E) u p q)"
  unfolding RegisterUser_def VerifyEmail_def LoginUser_def RefreshToken_def LogoutUser_def
    ForgotPassword_def ResetPassword_def UpdateProfile_def ChangePassword_def identity_fields
  by (intro triple_intros)+

section \<open>The whole program\<close>

text \<open>
  One step of the program: a command runs, a goroutine stores what it made of an answer of the
  language model, an entry is seeded, a middleware counts, identifies or logs a request, the process is
  restarted, or time passes. The arguments, the answers and the stale request of the goroutine are arbitrary.
\<close>

definition run_step :: "('s, err, 'a) prog \<Rightarrow> 's \<Rightarrow> 's \<Rightarrow> bool" where
  "run_step m s s' \<longleftrightarrow> s' = snd (m s)"

inductive identity_step :: "ext \<Rightarrow> string \<Rightarrow> world \<Rightarrow> world \<Rightarrow> bool" for E secret where
  register: "run_step (RegisterUser E (db_runtime E) (world_identity E) n e p pc) w w' \<Longrightarrow> identity_step E secret w w'"
| verify: "run_step (VerifyEmail E (db_runtime E) (world_identity E) t) w w' \<Longrightarrow> identity_step E secret w w'"
| login: "run_step (LoginUser E (db_runtime E) secret (world_identity E) e p) w w' \<Longrightarrow> identity_step E secret w w'"
| refresh: "run_step (RefreshToken E (db_runtime E) secret (world_identity E) t) w w' \<Longrightarrow> identity_step E secret w w'"
| logout: "run_step (LogoutUser (world_identity E) t) w w' \<Longrightarrow> identity_step E secret w w'"
| forgot: "run_step (ForgotPassword E (db_runtime E) (world_identity E) e) w w' \<Longrightarrow> identity_step E secret w w'"
| reset: "run_step (ResetPassword E (db_runtime E) (world_identity E) t p pc) w w' \<Longrightarrow> identity_step E secret w w'"
| profile: "run_step (UpdateProfile E (db_runtime E) (world_identity E) u n) w w' \<Longrightarrow> identity_step E secret w w'"
| password: "run_step (ChangePassword E (db_runtime E) (world_identity E) u p q) w w' \<Longrightarrow> identity_step E secret w w'"

inductive dictionary_step :: "ext \<Rightarrow> world \<Rightarrow> world \<Rightarrow> bool" for E where
  create: "run_step (CreateWord E (db_runtime E) (PostgresWordRepository E) a i) w w' \<Longrightarrow> dictionary_step E w w'"
| update: "run_step (UpdateWord E (db_runtime E) (PostgresWordRepository E) a t i) w w' \<Longrightarrow> dictionary_step E w w'"
| delete: "run_step (SoftDeleteWord E (PostgresWordRepository E) t) w w' \<Longrightarrow> dictionary_step E w w'"
| seed: "run_step (seed_all E es) w w' \<Longrightarrow> dictionary_step E w w'"
| admin: "run_step (seedAdmin E env) w w' \<Longrightarrow> dictionary_step E w w'"
| seeder: "run_step (seed_main E env connect file) w w' \<Longrightarrow> dictionary_step E w w'"

inductive community_step :: "ext \<Rightarrow> world \<Rightarrow> world \<Rightarrow> bool" for E where
  submit: "run_step (SubmitContribution (db_runtime E) db_contribution_svc u inp) w w' \<Longrightarrow> community_step E w w'"
| withdraw: "run_step (WithdrawContribution db_contribution_svc u i) w w' \<Longrightarrow> community_step E w w'"
| decide: "run_step (Update_contribution db_contribution_svc c) w w' \<Longrightarrow> community_step E w w'"
| vote: "run_step (CastVote (db_runtime E) db_vote_svc u ty t x) w w' \<Longrightarrow> community_step E w w'"
| unvote: "run_step (RemoveVote db_vote_svc u ty t) w w' \<Longrightarrow> community_step E w w'"
| bookmark: "run_step (AddBookmark (db_runtime E) (db_bookmark_svc E) u i) w w' \<Longrightarrow> community_step E w w'"
| unbookmark: "run_step (RemoveBookmark (db_bookmark_svc E) u i) w w' \<Longrightarrow> community_step E w w'"
| post: "run_step (PostComment (db_runtime E) db_comment_svc u i body) w w' \<Longrightarrow> community_step E w w'"
| edit: "run_step (EditComment (db_runtime E) db_comment_svc u i body) w w' \<Longrightarrow> community_step E w w'"
| uncomment: "run_step (DeleteComment db_comment_svc u role i) w w' \<Longrightarrow> community_step E w w'"
| flag: "run_step (FlagComment (db_runtime E) db_comment_svc i) w w' \<Longrightarrow> community_step E w w'"

inductive moderation_step :: "ext \<Rightarrow> world \<Rightarrow> world \<Rightarrow> bool" for E where
  approve: "run_step (ApproveContribution (db_runtime E) (db_moderation_svc E) a i note) w w' \<Longrightarrow> moderation_step E w w'"
| reject: "run_step (RejectContribution (db_runtime E) (db_moderation_svc E) a i note) w w' \<Longrightarrow> moderation_step E w w'"
| ban: "run_step (BanUser (db_runtime E) (db_moderation_svc E) a u reason) w w' \<Longrightarrow> moderation_step E w w'"
| unban: "run_step (UnbanUser (db_runtime E) (db_moderation_svc E) a u) w w' \<Longrightarrow> moderation_step E w w'"
| role: "run_step (ChangeUserRole (db_runtime E) (db_moderation_svc E) a u role) w w' \<Longrightarrow> moderation_step E w w'"

inductive ai_step :: "ext \<Rightarrow> world \<Rightarrow> world \<Rightarrow> bool" for E where
  definition_: "run_step (TriggerDefinitionEnrichment (db_runtime E) (db_enrichment_svc E llm model) a i) w w' \<Longrightarrow> ai_step E w w'"
| example: "run_step (TriggerExampleSuggestion (db_runtime E) (db_enrichment_svc E llm model) a i) w w' \<Longrightarrow> ai_step E w w'"
| related: "run_step (TriggerRelatedWordSuggestion (db_runtime E) (db_enrichment_svc E llm model) a i) w w' \<Longrightarrow> ai_step E w w'"
| quality: "run_step (TriggerQualityCheck (db_runtime E) (db_enrichment_svc E llm model) a i) w w' \<Longrightarrow> ai_step E w w'"
| answer: "run_step (runLLM_store E (db_enrichment_svc E llm model) ans req) w w' \<Longrightarrow> ai_step E w w'"
| approve: "run_step (ApproveAIRequest (db_runtime E) (db_enrichment_svc E llm model) a i) w w' \<Longrightarrow> ai_step E w w'"
| reject: "run_step (RejectAIRequest (db_runtime E) (db_enrichment_svc E llm model) a i) w w' \<Longrightarrow> ai_step E w w'"

inductive system_step :: "ext \<Rightarrow> string \<Rightarrow> world \<Rightarrow> world \<Rightarrow> bool" for E secret where
  identity: "identity_step E secret w w' \<Longrightarrow> system_step E secret w w'"
| dictionary: "dictionary_step E w w' \<Longrightarrow> system_step E secret w w'"
| community: "community_step E w w' \<Longrightarrow> system_step E secret w w'"
| moderation: "moderation_step E w w' \<Longrightarrow> system_step E secret w w'"
| ai: "ai_step E w w' \<Longrightarrow> system_step E secret w w'"
| count: "run_step (RedisIncrement world_exec key window) w w' \<Longrightarrow> system_step E secret w w'"
| identify: "run_step (uuidP (db_runtime E)) w w' \<Longrightarrow> system_step E secret w w'"
| record_: "w' = w\<lparr>wd_log := wd_log w @ [entry]\<rparr> \<Longrightarrow> system_step E secret w w'"
| restart: "w' = restart mailer w \<Longrightarrow> system_step E secret w w'"
| tick: "w' = w\<lparr>db_now := t, wd_redis := (wd_redis w)\<lparr>rd_clock := t\<rparr>\<rparr> \<Longrightarrow> system_step E secret w w'"

lemma run_step_keeps: "run_step m s s' \<Longrightarrow> keeps I m \<Longrightarrow> I s \<Longrightarrow> I s'"
  by (simp add: run_step_def keeps_def)

lemma identity_step_ok: "identity_step E secret w w' \<Longrightarrow> db_ok w \<Longrightarrow> db_ok w'"
  by (induction rule: identity_step.induct) (erule run_step_keeps, intro triple_intros, assumption)+

lemma dictionary_step_ok: "dictionary_step E w w' \<Longrightarrow> db_ok w \<Longrightarrow> db_ok w'"
  by (induction rule: dictionary_step.induct) (erule run_step_keeps, intro triple_intros, assumption)+

lemma community_step_ok: "community_step E w w' \<Longrightarrow> db_ok w \<Longrightarrow> db_ok w'"
  by (induction rule: community_step.induct) (erule run_step_keeps, intro triple_intros, assumption)+

lemma moderation_step_ok: "moderation_step E w w' \<Longrightarrow> db_ok w \<Longrightarrow> db_ok w'"
  by (induction rule: moderation_step.induct) (erule run_step_keeps, intro triple_intros, assumption)+

lemma ai_step_ok: "ai_step E w w' \<Longrightarrow> db_ok w \<Longrightarrow> db_ok w'"
  by (induction rule: ai_step.induct) (erule run_step_keeps, intro triple_intros, assumption)+

lemma db_ok_redis [simp]:
  "db_ok (w\<lparr>wd_redis := r\<rparr>) = db_ok w" "db_ok (w\<lparr>wd_mail := m\<rparr>) = db_ok w" "db_ok (w\<lparr>wd_log := l\<rparr>) = db_ok w"
  by (simp_all add: db_ok_def user_ids_def word_ids_def contribution_ids_def)

lemma restart_keeps: "(\<And>w m. I (w\<lparr>wd_mail := m\<rparr>) = I w) \<Longrightarrow> I (restart mailer w) = I w"
  by (simp add: restart_def)

lemma keeps_RedisIncrement:
  assumes "\<And>w r. I (w\<lparr>wd_redis := r\<rparr>) = I w"
  shows "keeps I (RedisIncrement world_exec key window)"
proof -
  have "keeps I (world_exec cs)" for cs
    by (auto simp: keeps_def world_exec_def assms split: prod.splits)
  then show ?thesis unfolding RedisIncrement_def by (intro triple_intros)
qed

lemma count_step_ok: "run_step (RedisIncrement world_exec key window) w w' \<Longrightarrow> db_ok w \<Longrightarrow> db_ok w'"
proof -
  have "keeps db_ok (RedisIncrement world_exec key window)" by (rule keeps_RedisIncrement) (rule db_ok_redis(1))
  then show "run_step (RedisIncrement world_exec key window) w w' \<Longrightarrow> db_ok w \<Longrightarrow> db_ok w'"
    by (simp only: run_step_def keeps_def)
qed

lemma identify_step_ok: "run_step (uuidP (db_runtime E)) w w' \<Longrightarrow> db_ok w \<Longrightarrow> db_ok (w' :: world)"
  by (erule run_step_keeps, intro triple_intros)

lemma system_step_ok: "system_step E secret w w' \<Longrightarrow> db_ok w \<Longrightarrow> db_ok w'"
  by (induction rule: system_step.induct)
    (auto simp: restart_keeps dest: identity_step_ok dictionary_step_ok community_step_ok moderation_step_ok
      ai_step_ok count_step_ok identify_step_ok)

lemma db_ok_world_empty: "db_ok (world_empty t)"
  using db_empty_ok [of t]
  by (simp add: db_ok_def user_ids_def word_ids_def contribution_ids_def world_empty_def db.defs db_empty_def)

lemma system_steps_ok: "(system_step E secret)\<^sup>*\<^sup>* w w' \<Longrightarrow> db_ok w \<Longrightarrow> db_ok w'"
  by (induction rule: rtranclp_induct) (auto dest: system_step_ok)

end
