(* ===== verification/Identity_Properties.thy ===== *)
theory Identity_Properties
  imports System_Invariant Foundation_Properties
begin

text \<open>
  Properties of the identity context, on PostgreSQL's repository, Redis's token store and the
  mailer in one state.
\<close>

section \<open>Commands that cannot fail halfway\<close>

text \<open>The system's entropy never fails (\<open>crypto/rand\<close> documents that \<open>Read\<close> never returns an error).\<close>

definition rand_total :: "ext \<Rightarrow> bool" where
  "rand_total E \<longleftrightarrow> (\<forall>n k. \<exists>b. x_rand_read E n k = Inr b)"

lemma demo_rand_total: "rand_total demo_ext"
  by (simp add: rand_total_def demo_ext_def)

lemma randomHex_runs:
  assumes "rand_total E"
  shows "\<exists>t w'. randomHex (db_runtime E) n w = (Inr t, w')"
proof -
  obtain b where "x_rand_read E (db_draws w) n = Inr b" using assms by (auto simp: rand_total_def)
  then show ?thesis by (simp add: randomHex_def db_runtime_def prog_defs)
qed

lemma store_refresh_runs: "\<exists>w'. ts_StoreRefresh (NewTokenStore E world_exec) t v ttl w = (Inr (), w')"
  by (simp add: token_defs redis_set_def world_exec_def redis_mem_def prog_defs)

lemma get_refresh_runs:
  "refresh_tokens w (token_hash E t) = Some v \<Longrightarrow>
     ts_GetRefresh (NewTokenStore E world_exec) t w = (Inr v, w)"
  by (auto simp: token_defs redis_get_cmd_def world_exec_def redis_mem_def prog_defs refresh_tokens_def
      token_view_def redis_get_def split: option.splits)

lemma revoke_refresh_runs: "ts_RevokeRefresh (NewTokenStore E world_exec) t w \<noteq> (Inl e, w')"
  by (auto simp: token_defs redis_del_def world_exec_def redis_mem_def prog_defs split: option.splits)

lemmas pg = postgres.intro

lemma world_parts:
  "world_identity E = \<lparr>is_users = PostgresUserRepository E, is_tokens = NewTokenStore E world_exec, is_mail = world_mailer E\<rparr>"
  by (simp add: world_identity_def)

context postgres
begin

lemmas world_commands = wd.register_sound [folded world_parts] wd.login_sound [folded world_parts]
  wd.login_wrong [folded world_parts] wd.refresh_sound [folded world_parts] wd.reset_sound [folded world_parts]

end

lemmas register_world = postgres.world_commands(1) [OF pg]
  and login_world = postgres.world_commands(2) [OF pg]
  and login_wrong_world = postgres.world_commands(3) [OF pg]
  and refresh_world = postgres.world_commands(4) [OF pg]
  and reset_world = postgres.world_commands(5) [OF pg]

lemma find_by_email:
  assumes "db_ok w" and "db_user_map w i = Some u"
  shows "UserRepo_FindByEmail (us_email u) w = (Inr u, w)"
proof -
  from assms(2) obtain r where "r \<in> set (db_users w)" "u = user_toDomain r" by (auto dest: db_user_map_Some)
  with assms(1) show ?thesis
    by (simp add: UserRepo_FindByEmail_run db_ok_def users_ok_def lookup_by_distinct)
qed

text \<open>What a login does when the address is known, the password is right and the tokens can be made\<close>

lemma login_runs:
  assumes "rand_total E" "db_ok w" "db_user_map w (us_id u) = Some u"
    and "us_is_active u" "VerifyPassword E u p"
    and "GenerateAccessToken E secret (db_now w) (x_uuid_string E (us_id u)) (us_role u) = Inr acc"
  shows "\<exists>rfr w'. LoginUser E (db_runtime E) secret (world_identity E) (us_email u) p w = (Inr (acc, rfr), w')"
proof -
  have find: "UserRepo_FindByEmail (us_email u) w = (Inr u, w)"
    by (rule find_by_email [OF assms(2,3)])
  obtain t w1 where t: "randomHex (db_runtime E) 32 w = (Inr t, w1)"
    using randomHex_runs [OF assms(1)] by blast
  obtain w2 where st: "ts_StoreRefresh (NewTokenStore E world_exec) t (x_uuid_string E (us_id u)) refreshTTL w1 = (Inr (), w2)"
    using store_refresh_runs by blast
  show ?thesis
    using find t st assms(4-6)
    by (simp add: LoginUser_def world_parts PostgresUserRepository_def prog_defs db_runtime_def)
qed

text \<open>A refresh needs a stored token of an existing user; it does not look at the user's state.\<close>

lemma refresh_runs:
  assumes "rand_total E" "refresh_tokens w (token_hash E old) = Some t" "x_uuid_parse E t = (i, True)"
    and "db_user_map w i = Some u"
    and "GenerateAccessToken E secret (db_now w) (x_uuid_string E i) (us_role u) = Inr acc"
  shows "\<exists>new w'. RefreshToken E (db_runtime E) secret (world_identity E) old w = (Inr (acc, new), w')"
proof -
  have i: "us_id u = i" using assms(4) by (auto dest: db_user_map_Some)
  have find: "UserRepo_FindByID i w = (Inr u, w)" using assms(4) by (simp add: UserRepo_FindByID_run)
  obtain n w1 where n: "randomHex (db_runtime E) 32 w = (Inr n, w1)" using randomHex_runs [OF assms(1)] by blast
  obtain w2 where st: "ts_StoreRefresh (NewTokenStore E world_exec) n (x_uuid_string E i) refreshTTL w1 = (Inr (), w2)"
    using store_refresh_runs by blast
  obtain r w3 where rv: "ts_RevokeRefresh (NewTokenStore E world_exec) old w2 = (r, w3)" by fastforce
  show ?thesis
    using get_refresh_runs [OF assms(2)] find n st rv assms(3,5)
    by (simp add: RefreshToken_def world_parts PostgresUserRepository_def prog_defs db_runtime_def parse_uuidP_def i)
qed

section \<open>A concrete world\<close>

definition demo_user :: user where
  "demo_user = \<lparr>us_id = 101, us_name = ''Ada'', us_email = ''a@b.co'', us_password_hash = ''$password'',
     us_role = RoleUser, us_is_active = True, us_email_verified_at = None, us_created_at = 0, us_updated_at = 0\<rparr>"

lemma demo_email: "emailRe ''a@b.co''"
  by (simp add: emailRe_def email_at_def upt_rec local_char_def domain_char_def is_letter_def is_digit_def byte_def)

definition demo_world :: world where
  "demo_world = snd (RegisterUser demo_ext (db_runtime demo_ext) (world_identity demo_ext) ''Ada'' ''a@b.co''
     ''password'' ''password'' (world_empty 0))"

lemma demo_register:
  "RegisterUser demo_ext (db_runtime demo_ext) (world_identity demo_ext) ''Ada'' ''a@b.co'' ''password'' ''password''
     (world_empty 0) = (Inr demo_user, demo_world)"
  unfolding demo_world_def RegisterUser_def NewUser_def world_parts
  using demo_email
  by (simp add: prog_defs db_runtime_def world_empty_def db_empty_def db.defs demo_ext_def demo_user_def
    PostgresUserRepository_def UserRepo_Create_def CreateUser_def sqlP_def user_params_def randomHex_def
    token_defs redis_set_def world_exec_def redis_mem_def world_mailer_def running_mailer_def mock_mailer_def no_mail_def in_mail_def mock_verification_def)

lemma demo_world_user: "db_ok demo_world" "db_user_map demo_world 101 = Some demo_user"
  using register_world [OF demo_sql_text_ok db_ok_world_empty demo_register] by (simp_all add: demo_user_def)

lemma demo_user_id: "us_id demo_user = 101" by (simp add: demo_user_def)

lemma demo_sign: "\<exists>acc. GenerateAccessToken demo_ext secret t i r = Inr acc"
  by (simp add: GenerateAccessToken_def demo_ext_def)

lemma demo_login:
  "\<exists>acc rfr w. LoginUser demo_ext (db_runtime demo_ext) secret (world_identity demo_ext) ''a@b.co'' ''password'' demo_world =
     (Inr (acc, rfr), w)"
proof -
  obtain acc where "GenerateAccessToken demo_ext secret (db_now demo_world) (x_uuid_string demo_ext (us_id demo_user))
      (us_role demo_user) = Inr acc" using demo_sign by blast
  moreover have "us_is_active demo_user" "us_email demo_user = ''a@b.co''" "VerifyPassword demo_ext demo_user ''password''"
    by (simp_all add: demo_user_def VerifyPassword_def demo_ext_def)
  ultimately show ?thesis
    using login_runs [OF demo_rand_total demo_world_user(1), of demo_user "''password''" secret acc] demo_world_user(2)
    by (auto simp: demo_user_id)
qed

text \<open>The world after a ban, with a refresh and a reset token of the user\<close>

definition banned_world :: world where
  "banned_world = db.extend ((db_empty 0)\<lparr>db_users := [user_params (Ban 0 demo_user)]\<rparr>)
     \<lparr>wd_redis = \<lparr>rd_clock = 0, rd_data = (\<lambda>_. None)(
        ''refresh:'' @ token_hash demo_ext ''t'' \<mapsto> (x_uuid_string demo_ext 101, None),
        ''reset:t'' \<mapsto> (x_uuid_string demo_ext 101, None))\<rparr>,
      wd_mail = no_mail None, wd_log = []\<rparr>"

lemma banned_world_facts:
  "refresh_tokens banned_world (token_hash demo_ext ''t'') = Some (x_uuid_string demo_ext 101)"
  "reset_tokens banned_world ''t'' = Some (x_uuid_string demo_ext 101)"
  "db_user_map banned_world 101 = Some (Ban 0 demo_user)"
  "db_ok banned_world"
  by (simp_all add: refresh_tokens_def reset_tokens_def token_view_def redis_get_def alive_def banned_world_def
      db.defs db_user_map_def lookup_by_def user_params_def user_toDomain_def demo_user_def Ban_def db_empty_def
      db_ok_def users_ok_def words_ok_def definitions_ok_def examples_ok_def contributions_ok_def votes_ok_def
      bookmarks_ok_def comments_ok_def audit_ok_def ai_ok_def)

lemma demo_uuid: "x_uuid_parse demo_ext (x_uuid_string demo_ext 101) = (101, True)"
  using demo_uuid_text_ok by (simp add: uuid_text_ok_def)

lemma banned_reset:
  "\<exists>w. ResetPassword demo_ext (db_runtime demo_ext) (world_identity demo_ext) ''t'' ''new pass'' ''new pass'' banned_world =
     (Inr (), w)"
  unfolding ResetPassword_def world_parts
  by (simp add: prog_defs db_runtime_def banned_world_def db_empty_def db.defs demo_ext_def demo_user_def Ban_def
    PostgresUserRepository_def UserRepo_FindByID_def GetUserByID_def UserRepo_Update_def UpdateUser_def
    sqlP_def user_params_def token_defs redis_get_cmd_def redis_del_def world_exec_def
    redis_mem_def alive_def parse_uuidP_def one_row_def lookup_by_def user_toDomain_def update_where_def SetPasswordHash_def)

section \<open>Properties\<close>

text \<open>C16. Registration creates exactly the user that was asked for, as an active, unverified user without
  rights and with the given password, stores a verification token for it and touches nothing else; and this
  user can then log in with the password.\<close>

theorem register_then_login:
  assumes E: "sql_text_ok E" "bcrypt_ok E" "rand_total E" and w: "db_ok w"
    and reg: "RegisterUser E (db_runtime E) (world_identity E) name email pw pc w = (Inr u, w')"
    and acc: "GenerateAccessToken E secret (db_now w') (x_uuid_string E (us_id u)) RoleUser = Inr acc"
  shows "db_user_map w (us_id u) = None \<and> db_user_map w' = (db_user_map w)(us_id u \<mapsto> u) \<and> db_ok w' \<and>
    us_email u = email \<and> us_name u = name \<and> us_role u = RoleUser \<and> us_is_active u \<and> \<not> IsEmailVerified u \<and>
    (\<exists>t. verify_tokens w' = (verify_tokens w)(t \<mapsto> x_uuid_string E (us_id u))) \<and>
    (\<exists>rfr w''. LoginUser E (db_runtime E) secret (world_identity E) email pw w' = (Inr (acc, rfr), w''))"
proof -
  note r = register_world [OF E(1) w reg]
  from reg obtain s1 where "NewUser E (db_runtime E) name email pw w = (Inr u, s1)"
    by (auto simp: RegisterUser_def prog_Inr)
  then have "VerifyPassword E u pw" by (rule NewUser_verifies [OF E(2)])
  with r login_runs [OF E(3), of w' u pw secret acc] acc show ?thesis by auto
qed

theorem register_then_login_witness:
  "\<exists>u w' acc rfr w''. RegisterUser demo_ext (db_runtime demo_ext) (world_identity demo_ext) ''Ada'' ''a@b.co''
      ''password'' ''password'' (world_empty 0) = (Inr u, w') \<and> us_email u = ''a@b.co'' \<and>
     LoginUser demo_ext (db_runtime demo_ext) ''k'' (world_identity demo_ext) ''a@b.co'' ''password'' w' =
       (Inr (acc, rfr), w'')"
proof -
  obtain acc where acc: "GenerateAccessToken demo_ext ''k'' (db_now demo_world)
      (x_uuid_string demo_ext (us_id demo_user)) RoleUser = Inr acc" using demo_sign by blast
  from register_then_login [OF demo_sql_text_ok demo_bcrypt_ok demo_rand_total db_ok_world_empty demo_register acc]
    demo_register show ?thesis by blast
qed

text \<open>C5. A login succeeds only with the password of the active user of that address; it hands out an access
  token of this user with the role from the database, and stores the refresh token, under its hash, for this
  user. It changes no user.\<close>

theorem login_only_with_password:
  assumes "sql_text_ok E" and "db_ok w"
    and "LoginUser E (db_runtime E) secret (world_identity E) email pw w = (Inr (acc, rfr), w')"
  shows "\<exists>u. db_user_map w (us_id u) = Some u \<and> us_email u = email \<and> us_is_active u \<and> VerifyPassword E u pw \<and>
      GenerateAccessToken E secret (db_now w) (x_uuid_string E (us_id u)) (us_role u) = Inr acc \<and>
      refresh_tokens w' = (refresh_tokens w)(token_hash E rfr \<mapsto> x_uuid_string E (us_id u)) \<and>
      db_user_map w' = db_user_map w \<and> db_ok w'"
  using login_world [OF assms(1) assms(2) assms(3)] assms(2) by blast

theorem login_only_with_password_witness:
  "\<exists>acc rfr w' u. LoginUser demo_ext (db_runtime demo_ext) ''k'' (world_identity demo_ext) ''a@b.co'' ''password''
      demo_world = (Inr (acc, rfr), w') \<and> us_email u = ''a@b.co'' \<and> VerifyPassword demo_ext u ''password''"
proof -
  obtain acc rfr w' where l: "LoginUser demo_ext (db_runtime demo_ext) ''k'' (world_identity demo_ext) ''a@b.co''
      ''password'' demo_world = (Inr (acc, rfr), w')" using demo_login by blast
  from login_only_with_password [OF demo_sql_text_ok demo_world_user(1) l] l show ?thesis by blast
qed

text \<open>An unknown address and a wrong password get the same answer, and nothing changes.\<close>

theorem login_hides_addresses:
  assumes "sql_text_ok E" and "db_ok w"
    and "\<forall>u. db_user_map w (us_id u) = Some u \<longrightarrow> us_email u = email \<longrightarrow> us_is_active u \<and> \<not> VerifyPassword E u pw"
  shows "LoginUser E (db_runtime E) secret (world_identity E) email pw w = (Inl (Identity ErrWrongPassword), w)"
  using login_wrong_world [OF assms(1,2)] assms(3)
  by blast

theorem login_hides_addresses_witness:
  "LoginUser demo_ext (db_runtime demo_ext) ''k'' (world_identity demo_ext) ''x@y.zz'' ''password'' (world_empty 0) =
     (Inl (Identity ErrWrongPassword), world_empty 0)"
  using login_hides_addresses [OF demo_sql_text_ok db_ok_world_empty, of 0 "''x@y.zz''" "''password''" "''k''"]
  by (simp add: db_user_map_def world_empty_def db.defs db_empty_def lookup_by_def)

text \<open>A refresh does not look at the state of the user: with a refresh token from before, a user who was
  banned gets new tokens.\<close>

theorem refresh_ignores_ban:
  assumes "rand_total E" and "refresh_tokens w (token_hash E old) = Some t" and "x_uuid_parse E t = (i, True)"
    and "db_user_map w i = Some (Ban now u)"
    and "GenerateAccessToken E secret (db_now w) (x_uuid_string E i) (us_role u) = Inr acc"
  shows "\<exists>new w'. RefreshToken E (db_runtime E) secret (world_identity E) old w = (Inr (acc, new), w') \<and>
    \<not> us_is_active (Ban now u)"
  using refresh_runs [OF assms(1-4), of secret acc] assms(5) by (auto simp: Ban_def)

theorem refresh_ignores_ban_witness:
  "\<exists>acc new w'. RefreshToken demo_ext (db_runtime demo_ext) ''k'' (world_identity demo_ext) ''t'' banned_world =
      (Inr (acc, new), w') \<and> \<not> us_is_active (Ban 0 demo_user)"
proof -
  obtain acc where "GenerateAccessToken demo_ext ''k'' (db_now banned_world) (x_uuid_string demo_ext 101)
      (us_role demo_user) = Inr acc" using demo_sign by blast
  from refresh_ignores_ban [OF demo_rand_total banned_world_facts(1) demo_uuid banned_world_facts(3) this]
  show ?thesis by blast
qed

text \<open>C31. A reset token sets the password of the user it was stored for, to one of at least eight bytes, and
  is gone afterwards; no other user and no refresh token changes.\<close>

theorem reset_sets_password_once:
  assumes "sql_text_ok E" and "bcrypt_ok E" and "db_ok w"
    and "ResetPassword E (db_runtime E) (world_identity E) t pw pc w = (Inr (), w')"
  shows "8 \<le> length pw \<and> (\<exists>i v u h. reset_tokens w t = Some v \<and> x_uuid_parse E v = (i, True) \<and>
      db_user_map w i = Some u \<and> VerifyPassword E (u\<lparr>us_password_hash := h\<rparr>) pw \<and>
      db_user_map w' = (db_user_map w)(i \<mapsto> u\<lparr>us_password_hash := h, us_updated_at := db_now w\<rparr>) \<and>
      reset_tokens w' = (reset_tokens w)(t := None) \<and> refresh_tokens w' = refresh_tokens w \<and> db_ok w')"
  using reset_world [OF assms(1) assms(3) assms(4) assms(2)] by blast

theorem reset_sets_password_once_witness:
  "\<exists>w'. ResetPassword demo_ext (db_runtime demo_ext) (world_identity demo_ext) ''t'' ''new pass'' ''new pass''
      banned_world = (Inr (), w') \<and> reset_tokens w' ''t'' = None"
proof -
  obtain w' where r: "ResetPassword demo_ext (db_runtime demo_ext) (world_identity demo_ext) ''t'' ''new pass''
      ''new pass'' banned_world = (Inr (), w')" using banned_reset by blast
  from reset_sets_password_once [OF demo_sql_text_ok demo_bcrypt_ok banned_world_facts(4) r] r show ?thesis by auto
qed

end
