(* ===== verification/Dictionary_Properties.thy ===== *)
theory Dictionary_Properties
  imports Dictionary_Proofs
begin

text \<open>
  Properties of the dictionary context on the PostgreSQL repository: what the commands store and
  the queries show, the listing and its pages, the handlers.
\<close>

section \<open>A concrete word\<close>

definition demo_input :: word_input where
  "demo_input = \<lparr>wi_banjar = ''banyu'', wi_syllabified = [], wi_class = ''n'', wi_dialect = [], wi_homonym = 0,
     wi_is_root = True, wi_root = None,
     wi_definitions = [\<lparr>di_meaning = ''air'', di_sort_order = 0\<rparr>],
     wi_examples = [\<lparr>ei_banjar = ''banyu putih'', ei_indonesian = ''air putih''\<rparr>], wi_reference = []\<rparr>"

definition demo_word :: word where
  "demo_word = \<lparr>wd_id = 100, wd_banjar = ''banyu'', wd_syllabified = [], wd_dialect = DialectHulu, wd_class = ''n'',
     wd_homonym = 1, wd_is_root = True, wd_root = None,
     wd_definitions = [\<lparr>df_id = 101, df_meaning = ''air'', df_sort_order = 1, df_source = SourceSeeded,
       df_upvotes = 0, df_downvotes = 0\<rparr>],
     wd_examples = [\<lparr>ex_id = 102, ex_banjar = ''banyu putih'', ex_indonesian = ''air putih'', ex_source = SourceSeeded\<rparr>],
     wd_related = [], wd_status = WordStatusActive, wd_source = SourceSeeded, wd_reference = [], wd_created_by = None,
     wd_created_at = 0, wd_updated_at = 0, wd_deleted_at = None\<rparr>"

definition demo_dictionary :: db where
  "demo_dictionary = (db_empty 0)\<lparr>db_draws := 3, db_words := [toCreateParams demo_word],
     db_definitions := map (definition_params 0 100) (wd_definitions demo_word),
     db_examples := map (example_params 0 100) (wd_examples demo_word)\<rparr>"

lemma runtime_run:
  "uuidP (db_runtime E) d = (Inr (x_new_uuid E (db_draws d)), d\<lparr>db_draws := Suc (db_draws d)\<rparr>)"
  "nowP (db_runtime E) d = (Inr (db_now d), d)"
  by (simp_all add: uuidP_def nowP_def db_runtime_def getP_def)

lemma demo_new_uuid: "x_new_uuid demo_ext n = word_of_nat (100 + n)"
  by (simp add: demo_ext_def)

lemma UpsertDefinition_new:
  "dr_source r \<in> set word_source_enum \<Longrightarrow> dr_id r \<notin> dr_id ` set (db_definitions d) \<Longrightarrow> dr_word r \<in> word_ids d \<Longrightarrow>
     UpsertDefinition r d = (Inr r, d\<lparr>db_definitions := db_definitions d @ [r]\<rparr>)"
  using lookup_by_None [of dr_id "dr_id r" "db_definitions d"]
  by (simp add: UpsertDefinition_def sqlP_def bindP_def GetDefinitionByID_def readP_def one_row_def table_simps
      split: option.splits)

lemma UpsertExample_new:
  "xr_source r \<in> set word_source_enum \<Longrightarrow> xr_id r \<notin> xr_id ` set (db_examples d) \<Longrightarrow> xr_word r \<in> word_ids d \<Longrightarrow>
     UpsertExample r d = (Inr (), d\<lparr>db_examples := db_examples d @ [r]\<rparr>)"
  by (simp add: UpsertExample_def sqlP_def bindP_def)

lemmas run_simps = bindP_def retP_def rejectP_def sumP_def errP_def getP_def runtime_run Let_def

lemma demo_create:
  "CreateWord demo_ext (db_runtime demo_ext) (PostgresWordRepository demo_ext) [] demo_input (db_empty 0) =
     (Inr demo_word, demo_dictionary)"
  unfolding CreateWord_def NewWord_def demo_input_def db_empty_def
  apply (simp add: run_simps WordClass_Validate_def validWordClasses_def Dialect_Validate_def fill_word_def
      set_created_by_def AddDefinition_def NewDefinition_def MaxMeaningLength_def AddExample_def NewExample_def
      demo_new_uuid DialectHulu_def)
  apply (simp add: run_simps PostgresWordRepository_def WordRepo_Create_def)
  apply (simp add: CreateWord_stmt_def sqlP_def toCreateParams_def null_string_def word_ids_def
      dialect_enum_def word_class_enum_def word_status_enum_def word_source_enum_def WordStatusActive_def
      SourceSeeded_def)
  apply (simp add: upsertChildren_def run_simps definition_params_def example_params_def word_ids_def
      UpsertDefinition_new UpsertExample_new word_source_enum_def demo_word_def DialectHulu_def
      WordStatusActive_def SourceSeeded_def demo_dictionary_def db_empty_def toCreateParams_def null_string_def)
  done

section \<open>Commands\<close>

text \<open>C6. A word that is created is made of the input as the input says, gets a new identifier, leaves every other
  word as it was, and is read back as it is stored: with its numbers cut to the width of their columns and its
  definitions in the order of the query.\<close>

theorem created_word_read_back:
  assumes "uuid_text_ok E" and "db_ok d"
    and "CreateWord E (db_runtime E) (PostgresWordRepository E) adminID input d = (Inr w, d')"
    and "fresh_children (other_definitions d (wd_id w)) (other_examples d (wd_id w)) w"
  shows "word_of_input E adminID input w \<and> db_ok d' \<and> db_word d (wd_id w) = None \<and>
    db_word d' = (db_word d)(wd_id w \<mapsto> stored_word w) \<and>
    GetWord E (PostgresWordRepository E) (x_uuid_string E (wd_id w)) d' = (Inr (stored_word w), d')"
  using pg_dictionary.create_sound [OF assms(2-4)] pg_dictionary.create_get [OF assms(2-4,1)] by blast

lemma demo_fresh: "fresh_children (other_definitions (db_empty 0) (wd_id demo_word))
    (other_examples (db_empty 0) (wd_id demo_word)) demo_word"
  by (simp add: fresh_children_def other_definitions_def other_examples_def db_empty_def demo_word_def)

theorem created_word_read_back_witness:
  "GetWord demo_ext (PostgresWordRepository demo_ext) (x_uuid_string demo_ext 100) demo_dictionary =
     (Inr (stored_word demo_word), demo_dictionary) \<and> wd_banjar demo_word = ''banyu''"
  using created_word_read_back [OF demo_uuid_text_ok db_empty_ok demo_create demo_fresh] by (simp add: demo_word_def)

lemma demo_dictionary_facts:
  "db_ok demo_dictionary" "db_word demo_dictionary = (db_word (db_empty 0))(100 \<mapsto> stored_word demo_word)"
  using pg_dictionary.create_sound [OF db_empty_ok demo_create demo_fresh] by (simp_all add: demo_word_def)

lemma demo_word_uuid: "x_uuid_parse demo_ext (x_uuid_string demo_ext i) = (i, True)"
  using demo_uuid_text_ok by (simp add: uuid_text_ok_def)

text \<open>C29. An update replaces the definitions and examples of the word by those of the input, so that the votes of
  the old definitions are lost, and keeps status, source, creator, dialect and time of creation; no other word
  changes.\<close>

theorem updated_word_replaced:
  assumes "db_ok d" and "UpdateWord E (db_runtime E) (PostgresWordRepository E) adminID t input d = (Inr w, d')"
    and "fresh_children (other_definitions d (wd_id w)) (other_examples d (wd_id w)) w"
  shows "x_uuid_parse E t = (wd_id w, True) \<and> db_ok d' \<and>
    map df_meaning (wd_definitions w) = map di_meaning (wi_definitions input) \<and>
    list_all (\<lambda>x. df_upvotes x = 0 \<and> df_downvotes x = 0) (wd_definitions w) \<and>
    map ex_banjar (wd_examples w) = map ei_banjar (wi_examples input) \<and>
    (\<exists>v. db_word d (wd_id w) = Some v \<and> wd_status w = wd_status v \<and> wd_source w = wd_source v \<and>
      db_word d' = (db_word d)(wd_id w \<mapsto> (stored_word w)
        \<lparr>wd_dialect := wd_dialect v, wd_created_by := wd_created_by v,
         wd_created_at := wd_created_at v, wd_updated_at := db_now d\<rparr>))"
  using pg_dictionary.update_sound [OF assms] by (auto simp: list_all_iff)

lemma demo_update:
  "\<exists>w d'. UpdateWord demo_ext (db_runtime demo_ext) (PostgresWordRepository demo_ext) [] (x_uuid_string demo_ext 100)
      (demo_input\<lparr>wi_definitions := [], wi_examples := []\<rparr>) demo_dictionary = (Inr w, d') \<and> wd_definitions w = []
      \<and> wd_examples w = [] \<and> wd_id w = 100"
proof -
  have e: "edit_word (demo_input\<lparr>wi_definitions := [], wi_examples := []\<rparr>) (stored_word demo_word) =
      Inr (stored_word demo_word)"
    by (simp add: edit_word_def demo_input_def Let_def WordClass_Validate_def validWordClasses_def stored_word_def demo_word_def)
  have find: "WordRepo_FindByID 100 demo_dictionary = (Inr (stored_word demo_word), demo_dictionary)"
    by (simp add: WordRepo_FindByID_run demo_dictionary_facts(2))
  have upd: "fst (WordRepo_Update ((stored_word demo_word)\<lparr>wd_definitions := [], wd_examples := [], wd_updated_at := 0\<rparr>)
      demo_dictionary) = Inr ()"
    unfolding WordRepo_Update_def UpdateWord_stmt_def demo_dictionary_def
    by (simp add: run_simps sqlP_def toCreateParams_def stored_word_def demo_word_def live_word_def lookup_by_def
        GetWordByID_def readP_def one_row_def update_where_def set_word_columns_def db_empty_def upsertChildren_def
        DeleteDefinitionsByWordID_def DeleteExamplesByWordID_def word_class_enum_def word_status_enum_def
        word_source_enum_def WordStatusActive_def SourceSeeded_def null_string_def)
  have live: "\<not> IsDeleted (stored_word demo_word)" by (simp add: IsDeleted_def)
  have now: "db_now demo_dictionary = 0" by (simp add: demo_dictionary_def db_empty_def)
  obtain r d' where u: "WordRepo_Update ((stored_word demo_word)\<lparr>wd_definitions := [], wd_examples := [],
      wd_updated_at := 0\<rparr>) demo_dictionary = (r, d')" by fastforce
  with upd have "r = Inr ()" by simp
  with u find live e now show ?thesis
    by (simp add: UpdateWord_def demo_word_uuid run_simps PostgresWordRepository_def)
      (simp add: demo_input_def run_simps demo_word_def)
qed

theorem updated_word_replaced_witness:
  "\<exists>w d'. UpdateWord demo_ext (db_runtime demo_ext) (PostgresWordRepository demo_ext) [] (x_uuid_string demo_ext 100)
      (demo_input\<lparr>wi_definitions := [], wi_examples := []\<rparr>) demo_dictionary = (Inr w, d') \<and>
     wd_definitions w = [] \<and> wd_id w = 100 \<and> (\<exists>v. db_word demo_dictionary 100 = Some v \<and> wd_status w = wd_status v)"
proof -
  obtain w d' where u: "UpdateWord demo_ext (db_runtime demo_ext) (PostgresWordRepository demo_ext) []
      (x_uuid_string demo_ext 100) (demo_input\<lparr>wi_definitions := [], wi_examples := []\<rparr>) demo_dictionary = (Inr w, d')"
    and w: "wd_definitions w = []" "wd_examples w = []" "wd_id w = 100" using demo_update by blast
  have "fresh_children (other_definitions demo_dictionary (wd_id w)) (other_examples demo_dictionary (wd_id w)) w"
    by (simp add: fresh_children_def w)
  from updated_word_replaced [OF demo_dictionary_facts(1) u this] u w show ?thesis by auto
qed

text \<open>C30. Deleting a word by an identifier that parses always succeeds, hides exactly this word, and doing it twice
  is doing it once.\<close>

theorem deleted_word_hidden:
  assumes "db_ok d" and "x_uuid_parse E t = (i, True)"
    and "SoftDeleteWord E (PostgresWordRepository E) t d = (r, d')"
  shows "r = Inr () \<and> db_ok d' \<and> db_word d' = (db_word d)(i := None) \<and>
    GetWord E (PostgresWordRepository E) t d' = (Inl (Dictionary ErrWordNotFound), d') \<and>
    SoftDeleteWord E (PostgresWordRepository E) t d' = (Inr (), d')"
  using pg_dictionary.delete_sound [OF assms] .

theorem deleted_word_hidden_witness:
  "\<exists>d'. SoftDeleteWord demo_ext (PostgresWordRepository demo_ext) (x_uuid_string demo_ext 100) demo_dictionary =
      (Inr (), d') \<and> db_word demo_dictionary 100 \<noteq> None \<and> db_word d' 100 = None"
proof -
  obtain r d' where run: "SoftDeleteWord demo_ext (PostgresWordRepository demo_ext) (x_uuid_string demo_ext 100)
      demo_dictionary = (r, d')" by fastforce
  from deleted_word_hidden [OF demo_dictionary_facts(1) demo_word_uuid run] run show ?thesis
    by (simp add: demo_dictionary_facts(2))
qed

section \<open>Queries\<close>

text \<open>C15. If no two of the words that pass the filter are spelled alike, the pages of a listing, one after the other,
  hold every such word exactly once, and unless the newest come first they are in the order of the database's
  collation. The statement orders by the spelling only, so for homonyms this fails, as shown below.\<close>

theorem pages_partition_listing:
  fixes k :: nat and d :: "'z db_scheme"
  assumes "1 \<le> k" "k \<le> 100" and "length (db_listing E f d) < 2 ^ 31 - 100"
    and "collation_ok E" and "no_homonyms f d"
  shows "\<exists>pages n. int n = TotalPages (int (length (db_listing E f d))) (int k) \<and>
    list_all (\<lambda>p. \<exists>m. ListWords (PostgresWordRepository E) f (int p + 1) (int k) d =
       (Inr \<lparr>lr_words = pages p, lr_meta = m\<rparr>, d)) [0..<n] \<and>
    mset (concat (map pages [0..<n])) =
      mset (map (\<lambda>r. word_toDomain r (db_definitions_of d (wr_id r)) (db_examples_of d (wr_id r)))
        (filter (word_filter (filterStrings (active_by_default f))) (db_words d))) \<and>
    (wf_sort f \<noteq> ''recently_added'' \<longrightarrow>
      sorted_wrt (x_text_le E) (map wd_banjar (concat (map pages [0..<n]))))"
proof -
  let ?n = "nat (TotalPages (int (length (db_listing E f d))) (int k))"
  from list_pages [OF assms] obtain pages where
    "\<forall>p < ?n. \<exists>m. ListWords (PostgresWordRepository E) f (int p + 1) (int k) d =
            (Inr \<lparr>lr_words = pages p, lr_meta = m\<rparr>, d)"
    and "concat (map pages [0..<?n]) = db_listing E f d" by blast
  moreover have "0 \<le> TotalPages (int (length (db_listing E f d))) (int k)"
    using assms(1) by (simp add: TotalPages_nonneg div_int_pos_iff)
  ultimately show ?thesis
    using db_listing_mset [of E f d] db_listing_order [OF assms(4), of f d]
    by (intro exI [of _ pages] exI [of _ ?n]) (simp add: list_all_iff)
qed

definition all_words :: word_filters where
  "all_words = \<lparr>wf_class = None, wf_is_root = None, wf_source = None, wf_status = None, wf_sort = []\<rparr>"

theorem pages_partition_listing_witness:
  "\<exists>pages n. int n = TotalPages (int (length (db_listing demo_ext all_words demo_dictionary))) 20 \<and>
     list_all (\<lambda>p. \<exists>m. ListWords (PostgresWordRepository demo_ext) all_words (int p + 1) 20 demo_dictionary =
       (Inr \<lparr>lr_words = pages p, lr_meta = m\<rparr>, demo_dictionary)) [0..<n]"
proof -
  have "length (filter P (db_words demo_dictionary)) \<le> 1" for P by (simp add: demo_dictionary_def)
  then have "length (db_listing demo_ext all_words demo_dictionary) \<le> 1" by (simp add: db_listing_def)
  then have "length (db_listing demo_ext all_words demo_dictionary) < 2 ^ 31 - 100" by (rule le_less_trans) simp
  moreover have "no_homonyms all_words demo_dictionary" by (simp add: no_homonyms_def demo_dictionary_def)
  ultimately show ?thesis
    using pages_partition_listing [of 20 demo_ext all_words demo_dictionary] demo_collation_ok by auto
qed

text \<open>C40. With two homonyms the pages need not hold every word. If the database comes across the first of them first when
  it answers the query for the first page, and across the second first when it answers the one for the second, as it
  may for rows that the \<open>ORDER BY\<close> of the statement does not tell apart, then both pages of size one show the same
  word, and the other is on none, although the pages claim a total of two.\<close>

theorem homonym_on_both_pages:
  fixes d :: "'z db_scheme"
  assumes "collation_ok E" and words: "db_words d = [a, b]" and "wr_banjar a = wr_banjar b"
    and "wr_deleted_at a = None" "wr_deleted_at b = None" "wr_status a = ''active''" "wr_status b = ''active''"
    and scan: "x_scan E 1 0 (wr_id a) < x_scan E 1 0 (wr_id b)" "x_scan E 1 1 (wr_id b) < x_scan E 1 1 (wr_id a)"
  shows "\<exists>w m1 m2. wd_id w = wr_id a \<and> pm_total m1 = 2 \<and>
    ListWords (PostgresWordRepository E) all_words 1 1 d = (Inr \<lparr>lr_words = [w], lr_meta = m1\<rparr>, d) \<and>
    ListWords (PostgresWordRepository E) all_words 2 1 d = (Inr \<lparr>lr_words = [w], lr_meta = m2\<rparr>, d)"
proof -
  have off: "sql_offset 1 1 = 0" "sql_offset 2 1 = 1" "sql_limit 1 = 1"
    by (simp_all add: sql_offset_exact sql_limit_def int32_id)
  have norm: "norm_page 1 = 1" "norm_page 2 = 2" "norm_per_page 1 = 1" by (simp_all add: norm_page_id norm_per_page_id)
  have shown: "filter (word_filter (filterStrings (active_by_default all_words))) (db_words d) = [a, b]"
    using assms by (simp add: word_filter_def filterStrings_def active_by_default_def all_words_def text_filter_def option_string_def
        WordStatusActive_def)
  have "x_text_le E (wr_banjar b) (wr_banjar b)" using assms(1) by (auto simp: collation_ok_def total_preorder_def)
  then have order: "word_order E ''alphabetical'' a b" "word_order E ''alphabetical'' b a"
    using assms(3) by (simp_all add: word_order_def)
  have scans: "scan_order E 1 0 a b" "\<not> scan_order E 1 1 a b" using scan by (simp_all add: scan_order_def)
  have srt: "wf_sort (active_by_default all_words) = []" by (simp add: active_by_default_def all_words_def)
  let ?p = "filterStrings (active_by_default all_words)"
  have rows: "ListWords_stmt E ?p ''alphabetical'' 1 0 d = (Inr [a], d)" "ListWords_stmt E ?p ''alphabetical'' 1 1 d = (Inr [a], d)"
    "CountWords ?p d = (Inr 2, d)"
    using order scans by (simp_all add: ListWords_stmt_def CountWords_def count_int_def readP_def shown limit_offset_def)
  let ?w = "word_toDomain a (db_definitions_of d (wr_id a)) (db_examples_of d (wr_id a))"
  have listed: "\<exists>m. pm_total m = 2 \<and> ListWords (PostgresWordRepository E) all_words p 1 d = (Inr \<lparr>lr_words = [?w], lr_meta = m\<rparr>, d)"
    if "p \<in> {1, 2}" for p
  proof -
    from that rows have "ListWords_stmt E ?p ''alphabetical'' (sql_limit (norm_per_page 1)) (sql_offset (norm_page p) (norm_per_page 1)) d =
        (Inr [a], d)" by (auto simp: norm off)
    with rows(3) show ?thesis
      by (simp add: ListWords_def PostgresWordRepository_def WordRepo_FindAll_def bindP_def retP_def Let_def hydrateMany_run
          list_result_of_def srt)
  qed
  obtain m1 where 1: "pm_total m1 = 2"
    "ListWords (PostgresWordRepository E) all_words 1 1 d = (Inr \<lparr>lr_words = [?w], lr_meta = m1\<rparr>, d)" using listed [of 1] by auto
  obtain m2 where 2: "ListWords (PostgresWordRepository E) all_words 2 1 d = (Inr \<lparr>lr_words = [?w], lr_meta = m2\<rparr>, d)"
    using listed [of 2] by auto
  show ?thesis
    by (rule exI [of _ ?w], rule exI [of _ m1], rule exI [of _ m2]) (simp only: 1 2 word_toDomain_def word.simps simp_thms)
qed

text \<open>A database that comes across the rows of the first page by their identifiers, and across those of the second the
  other way round\<close>

definition two_ways :: ext where
  "two_ways = demo_ext\<lparr>x_scan := (\<lambda>l off i. if off = 0 then unat i else 1000 - unat i)\<rparr>"

definition homonyms :: db where
  "homonyms = (db_empty 0)\<lparr>db_words :=
     [\<lparr>wr_id = i, wr_banjar = ''banyu'', wr_syllabified = None, wr_dialect = ''hulu'', wr_word_class = ''n'',
       wr_homonym = h, wr_is_root = True, wr_root = None, wr_status = ''active'', wr_source = ''seeded'',
       wr_reference = None, wr_created_by = None, wr_created_at = 0, wr_updated_at = 0, wr_deleted_at = None\<rparr>.
       (i, h) \<leftarrow> [(9, 1), (10, 2)]]\<rparr>"

theorem homonym_on_both_pages_witness:
  "\<exists>w m1 m2. wd_id w = 9 \<and> pm_total m1 = 2 \<and>
    ListWords (PostgresWordRepository two_ways) all_words 1 1 homonyms = (Inr \<lparr>lr_words = [w], lr_meta = m1\<rparr>, homonyms) \<and>
    ListWords (PostgresWordRepository two_ways) all_words 2 1 homonyms = (Inr \<lparr>lr_words = [w], lr_meta = m2\<rparr>, homonyms)"
proof -
  have "collation_ok two_ways" using demo_collation_ok by (simp add: collation_ok_def two_ways_def)
  from homonym_on_both_pages [OF this, where d = homonyms] show ?thesis by (simp add: homonyms_def two_ways_def)
qed

text \<open>The definitions of a word are shown best net score first, in the given order among equals, and all of
  them are shown.\<close>

theorem definitions_best_first:
  assumes "GetWord E words (rq_param c ''id'') s = (Inr w, s')"
  shows "\<exists>ds. GetDefinitions E words c s = (OK (DefinitionsData ds), s') \<and>
    sorted_wrt (\<lambda>a b. do_net_score b < do_net_score a \<or>
      (do_net_score a = do_net_score b \<and> do_sort_order a \<le> do_sort_order b)) ds \<and>
    mset ds = mset (map to_definition_response (wd_definitions w))"
proof -
  have "total_preorder score_order" unfolding total_preorder_def score_order_def by auto
  then have "sorted_wrt score_order (sort_by score_order (map to_definition_response (wd_definitions w)))"
    by (rule sorted_sort_by)
  moreover have "score_order = (\<lambda>a b. do_net_score b < do_net_score a \<or>
      (do_net_score a = do_net_score b \<and> do_sort_order a \<le> do_sort_order b))"
    by (auto simp: score_order_def fun_eq_iff)
  ultimately show ?thesis
    using assms by (intro exI [of _ "sort_by score_order (map to_definition_response (wd_definitions w))"])
      (simp add: GetDefinitions_def respond_def)
qed

theorem definitions_best_first_witness:
  "\<exists>ds. GetDefinitions demo_ext (PostgresWordRepository demo_ext)
      \<lparr>rq_header = (\<lambda>_. []), rq_query = (\<lambda>_. []), rq_param = (\<lambda>_. x_uuid_string demo_ext 100), rq_ip = [],
       rq_body = ((), True), rq_locals = None\<rparr> demo_dictionary = (OK (DefinitionsData ds), demo_dictionary) \<and>
     mset ds = mset (map to_definition_response (wd_definitions (stored_word demo_word)))"
proof -
  have "GetWord demo_ext (PostgresWordRepository demo_ext) (x_uuid_string demo_ext 100) demo_dictionary =
      (Inr (stored_word demo_word), demo_dictionary)"
    by (simp add: pg_dictionary.GetWord_run demo_word_uuid demo_dictionary_facts(2))
      (simp add: demo_word_def WordStatusActive_def WordStatusDeprecated_def)
  from definitions_best_first [of demo_ext "PostgresWordRepository demo_ext"
      "\<lparr>rq_header = (\<lambda>_. []), rq_query = (\<lambda>_. []), rq_param = (\<lambda>_. x_uuid_string demo_ext 100), rq_ip = [],
       rq_body = ((), True), rq_locals = None\<rparr>" demo_dictionary "stored_word demo_word" demo_dictionary] this
  show ?thesis by auto
qed

text \<open>There is no table for related words: whatever was added to words, the list of related words is empty
  for every word that is shown.\<close>

theorem related_words_never_shown:
  "GetRelatedWords E (PostgresWordRepository E) c d = (OK (SummaryData []), d) \<or>
   (\<exists>e. GetRelatedWords E (PostgresWordRepository E) c d = (mapWordError E e, d))"
proof -
  obtain g d1 where g: "GetWord E (PostgresWordRepository E) (rq_param c ''id'') d = (g, d1)" by fastforce
  have d1: "d1 = d" using g by (auto simp: pg_dictionary.GetWord_run split: prod.splits)
  show ?thesis
  proof (cases g)
    case (Inl e)
    with g d1 show ?thesis by (auto simp: GetRelatedWords_def respond_def prog_defs)
  next
    case (Inr w)
    then have "wd_related w = []"
      using g by (auto simp: pg_dictionary.GetWord_run db_word_def word_toDomain_def split: prod.splits option.splits if_splits)
    with Inr g d1 show ?thesis by (simp add: GetRelatedWords_def respond_def prog_defs)
  qed
qed

text \<open>A deleted word keeps its key: creating a word with the same text, dialect, homonym number and root is
  answered with a conflict and changes nothing.\<close>

theorem deleted_word_keeps_key:
  assumes "sql_text_ok E" and "r \<in> set (db_words d)" and "WordRepo_SoftDelete (wr_id r) d = (x, d')"
    and "word_key (toCreateParams w) = word_key r"
    and "Dialect_Validate (wd_dialect w) = None" "WordClass_Validate (wd_class w) = None"
      "WordStatus_Validate (wd_status w) = None" "Source_Validate (wd_source w) = None"
  shows "WordRepo_Create E w d' = (Inl (Dictionary ErrWordConflict), d')"
proof (rule WordRepo_Create_conflict [OF assms(1)])
  have "word_key ` set (db_words d') = word_key ` set (db_words d)"
  proof -
    have "word_key ` set (update_where P (\<lambda>r. r\<lparr>wr_deleted_at := t, wr_updated_at := u\<rparr>) ws) = word_key ` set ws"
      for P t u ws by (rule image_update_where) (simp add: word_key_def)
    moreover have "d' = snd (WordRepo_SoftDelete (wr_id r) d)" using assms(3) by simp
    ultimately show ?thesis by (simp add: WordRepo_SoftDelete_run)
  qed
  with assms(2,4) show "word_key (toCreateParams w) \<in> word_key ` set (db_words d')" by (metis imageI)
qed (use assms(5-8) in \<open>auto simp: Dialect_Validate_def WordClass_Validate_def WordStatus_Validate_def
  Source_Validate_def dialect_enum_def word_class_enum_def word_status_enum_def word_source_enum_def
  DialectHulu_def validWordClasses_def WordStatusActive_def WordStatusDeprecated_def SourceSeeded_def
  SourceContributed_def SourceAIGenerated_def split: if_splits\<close>)

theorem deleted_word_keeps_key_witness:
  "\<exists>d'. WordRepo_SoftDelete 100 demo_dictionary = (Inr (), d') \<and>
     WordRepo_Create demo_ext demo_word d' = (Inl (Dictionary ErrWordConflict), d')"
proof -
  obtain x d' where run: "WordRepo_SoftDelete (wr_id (toCreateParams demo_word)) demo_dictionary = (x, d')" by fastforce
  have "toCreateParams demo_word \<in> set (db_words demo_dictionary)" by (simp add: demo_dictionary_def)
  from deleted_word_keeps_key [OF demo_sql_text_ok this run refl] run show ?thesis
    by (simp add: WordRepo_SoftDelete_run demo_word_def toCreateParams_def Dialect_Validate_def WordClass_Validate_def
        WordStatus_Validate_def Source_Validate_def validWordClasses_def)
qed

end
