(* ===== verification/Community_Contract.thy ===== *)
theory Community_Contract
  imports Community_Invariant Identity_Store
begin

text \<open>
  What the repositories of the community context promise, as locales over finite maps, what the
  commands do by these promises, and the interpretation on the PostgreSQL repositories.
\<close>

section \<open>Existence checkers\<close>

locale exist_checker =
  fixes check :: "'s exist_checker" and known :: "'s \<Rightarrow> uuid set"
  assumes check_run: "check i s = (Inr (i \<in> known s), s)"

definition live_word_ids :: "'z db_scheme \<Rightarrow> uuid set" where
  "live_word_ids d = wr_id ` {r \<in> set (db_words d). wr_deleted_at r = None}"

definition definition_ids :: "'z db_scheme \<Rightarrow> uuid set" where
  "definition_ids d = dr_id ` set (db_definitions d)"

interpretation pg_words_check: exist_checker word_Exists live_word_ids
  by unfold_locales (auto simp: word_Exists_def getP_def live_word_ids_def list_ex_iff)

interpretation pg_definitions_check: exist_checker definition_Exists definition_ids
  by unfold_locales (auto simp: definition_Exists_def getP_def definition_ids_def list_ex_iff)

section \<open>Contributions\<close>

locale contribution_repository_contract =
  fixes repo :: "'s contribution_repository" and contributions :: "'s \<Rightarrow> uuid \<Rightarrow> contribution option"
    and inv :: "'s \<Rightarrow> bool"
  assumes contributions_id: "contributions s i = Some c \<Longrightarrow> cb_id c = i"
    and find_contribution: "crp_FindByID repo i s =
      (case contributions s i of None \<Rightarrow> Inl (Community ErrContributionNotFound) | Some c \<Rightarrow> Inr c, s)"
    and create_contribution: "inv s \<Longrightarrow> crp_Create repo c s = (Inr c', s') \<Longrightarrow>
      cb_status c = StatusPending \<Longrightarrow> cb_reviewer c = None \<Longrightarrow> cb_note c = None \<Longrightarrow> cb_reviewed_at c = None \<Longrightarrow>
      inv s' \<and> cb_id c' = cb_id c \<and> contributions s (cb_id c) = None \<and>
      contributions s' = (contributions s)(cb_id c \<mapsto> c') \<and> (\<exists>t. c' = c\<lparr>cb_submitted_at := t\<rparr>)"
    and create_contribution_err: "crp_Create repo c s = (Inl e, s') \<Longrightarrow> s' = s"
    and update_contribution: "inv s \<Longrightarrow> crp_Update repo c s = (r, s') \<Longrightarrow>
      inv s' \<and> (contributions s' = contributions s \<or>
        (\<exists>v. contributions s (cb_id c) = Some v \<and> contributions s' = (contributions s)(cb_id c \<mapsto>
          v\<lparr>cb_status := cb_status c, cb_reviewer := cb_reviewer c, cb_note := cb_note c,
            cb_reviewed_at := cb_reviewed_at c\<rparr>)))"
    and update_contribution_ok: "inv s \<Longrightarrow> crp_Update repo c s = (Inr x, s') \<Longrightarrow>
      \<exists>v. contributions s (cb_id c) = Some v \<and> contributions s' = (contributions s)(cb_id c \<mapsto>
          v\<lparr>cb_status := cb_status c, cb_reviewer := cb_reviewer c, cb_note := cb_note c,
            cb_reviewed_at := cb_reviewed_at c\<rparr>)"
begin

lemma find_contribution_Inr: "crp_FindByID repo i s = (Inr c, s') \<longleftrightarrow> contributions s i = Some c \<and> s' = s"
  by (auto simp: find_contribution split: option.splits)

text \<open>Storing what a transition made of a stored contribution stores exactly that: a transition
  changes only the columns that the statement writes.\<close>

lemma update_step:
  assumes "inv s" "contributions s i = Some c" "contribution_step c c'" "crp_Update repo c' s = (r, s')"
  shows "inv s' \<and> (contributions s' = contributions s \<or> contributions s' = (contributions s)(i \<mapsto> c'))"
    and "r = Inr x \<Longrightarrow> contributions s' = (contributions s)(i \<mapsto> c')"
proof -
  from contribution_step_status [OF assms(3)] contributions_id [OF assms(2)] have
    id: "cb_id c' = i" by simp
  have same: "c\<lparr>cb_status := cb_status c', cb_reviewer := cb_reviewer c', cb_note := cb_note c',
      cb_reviewed_at := cb_reviewed_at c'\<rparr> = c'"
    using contribution_step_status [OF assms(3)] by (cases c; cases c') simp
  show "inv s' \<and> (contributions s' = contributions s \<or> contributions s' = (contributions s)(i \<mapsto> c'))"
    using update_contribution [OF assms(1,4)] assms(2) same by (auto simp: id)
  show "contributions s' = (contributions s)(i \<mapsto> c')" if "r = Inr x"
    using update_contribution_ok [OF assms(1) assms(4) [unfolded that]] assms(2) same by (auto simp: id)
qed

text \<open>Only the contributor can withdraw a contribution, and only while it is pending.\<close>

lemma withdraw_sound:
  assumes "inv s" "cs_repo v = repo" "WithdrawContribution v u i s = (Inr c', s')"
  shows "\<exists>c. contributions s i = Some c \<and> cb_contributor c = u \<and> cb_status c = StatusPending \<and>
    c' = c\<lparr>cb_status := StatusWithdrawn\<rparr> \<and> contributions s' = (contributions s)(i \<mapsto> c') \<and> inv s'"
proof -
  from assms(2,3) obtain c s1 x where
    c: "contributions s i = Some c" and w: "Withdraw u c = Inr c'" and
    up: "crp_Update repo c' s = (Inr x, s')"
    by (auto simp: WithdrawContribution_def prog_Inr find_contribution_Inr)
  from update_step [OF assms(1) c contribution_step.withdraw [OF w] up] w c show ?thesis
    by (auto simp: Withdraw_def split: if_splits)
qed

text \<open>A contribution is shown to its contributor and to admins only.\<close>

lemma get_authorised:
  assumes "cs_repo v = repo" "GetContribution v u role i s = (Inr c, s')"
  shows "contributions s i = Some c \<and> (role = ''admin'' \<or> cb_contributor c = u) \<and> s' = s"
  using assms by (auto simp: GetContribution_def prog_Inr find_contribution_Inr)

end

definition db_contribution :: "'z db_scheme \<Rightarrow> uuid \<Rightarrow> contribution option" where
  "db_contribution d i = map_option rowToContribution (lookup_by cr_id i (db_contributions d))"

lemma ContribRepo_FindByID_run:
  "ContribRepo_FindByID i d =
     (case db_contribution d i of None \<Rightarrow> Inl (Community ErrContributionNotFound) | Some c \<Rightarrow> Inr c, d)"
  by (simp add: ContribRepo_FindByID_def GetContributionByID_def db_contribution_def prog_defs one_row_def
      contribution_not_found_def split: option.split)

lemma db_contribution_update:
  "db_contribution (d\<lparr>db_contributions := update_where (\<lambda>r. cr_id r = i)
       (\<lambda>r. r\<lparr>cr_status := st, cr_reviewer := rv, cr_note := n, cr_reviewed_at := t\<rparr>) (db_contributions d)\<rparr>) =
   (case db_contribution d i of
      None \<Rightarrow> db_contribution d
    | Some v \<Rightarrow> (db_contribution d)(i \<mapsto>
        v\<lparr>cb_status := st, cb_reviewer := rv, cb_note := n, cb_reviewed_at := t\<rparr>))"
proof (rule ext)
  fix j
  show "db_contribution (d\<lparr>db_contributions := update_where (\<lambda>r. cr_id r = i)
       (\<lambda>r. r\<lparr>cr_status := st, cr_reviewer := rv, cr_note := n, cr_reviewed_at := t\<rparr>) (db_contributions d)\<rparr>) j =
   (case db_contribution d i of
      None \<Rightarrow> db_contribution d
    | Some v \<Rightarrow> (db_contribution d)(i \<mapsto>
        v\<lparr>cb_status := st, cb_reviewer := rv, cb_note := n, cb_reviewed_at := t\<rparr>)) j"
    by (cases "lookup_by cr_id j (db_contributions d)"; cases "j = i")
      (auto simp: db_contribution_def lookup_update_where rowToContribution_def dest: lookup_by_Some
        split: option.split)
qed

lemma ContribRepo_Update_run:
  "ContribRepo_Update c d =
     (if cb_status c \<notin> set contribution_status_enum then (Inl (Sql (InvalidEnum (cb_status c))), d)
      else if cb_id c \<in> contribution_ids d \<and> \<not> opt_in (cb_reviewer c) (user_ids d)
      then (Inl (Sql (ForeignKeyViolation ''contributions_reviewer_id_fkey'')), d)
      else (case db_contribution d (cb_id c) of None \<Rightarrow> Inl NoRows | Some _ \<Rightarrow> Inr (),
            d\<lparr>db_contributions := update_where (\<lambda>r. cr_id r = cb_id c)
               (\<lambda>r. r\<lparr>cr_status := cb_status c, cr_reviewer := cb_reviewer c, cr_note := cb_note c,
                  cr_reviewed_at := cb_reviewed_at c\<rparr>) (db_contributions d)\<rparr>))"
  by (auto simp: ContribRepo_Update_def UpdateContribution_def sqlP_def prog_defs GetContributionByID_def
      one_row_def lookup_update_where db_contribution_def split: option.split)

lemma ContribRepo_Create_ok:
  assumes "ContribRepo_Create c d = (Inr c', d')" and "cb_status c = StatusPending"
    "cb_reviewer c = None" "cb_note c = None" "cb_reviewed_at c = None"
  shows "c' = c\<lparr>cb_submitted_at := db_now d\<rparr> \<and> db_contribution d (cb_id c) = None \<and>
    db_contribution d' = (db_contribution d)(cb_id c \<mapsto> c')"
proof -
  define r where "r = \<lparr>cr_id = cb_id c, cr_type = cb_type c, cr_contributor = cb_contributor c,
      cr_target = cb_target c, cr_payload = json_of_map (cb_payload c), cr_status = ''pending'',
      cr_reviewer = None, cr_note = None, cr_submitted_at = db_now d, cr_reviewed_at = None\<rparr>"
  have row: "rowToContribution r = c\<lparr>cb_submitted_at := db_now d\<rparr>" "cr_id r = cb_id c"
    using assms(2-5) by (cases c; simp add: rowToContribution_def r_def StatusPending_def)+
  from assms(1) have c': "c' = c\<lparr>cb_submitted_at := db_now d\<rparr>"
    and d': "d' = d\<lparr>db_contributions := db_contributions d @ [r]\<rparr>" and new: "cb_id c \<notin> contribution_ids d"
    by (auto simp: ContribRepo_Create_def CreateContribution_def prog_Inr sqlP_Inr Let_def r_def)
  from new have none: "lookup_by cr_id (cb_id c) (db_contributions d) = None"
    by (simp add: contribution_ids_def lookup_by_None)
  then have "db_contribution d' = (db_contribution d)(cb_id c \<mapsto> c')"
    by (intro ext) (auto simp: d' c' db_contribution_def table_simps row split: option.split)
  with c' none show ?thesis by (simp add: db_contribution_def)
qed

interpretation pg_contributions: contribution_repository_contract
  PostgresContributionRepository db_contribution db_ok
proof (unfold_locales, unfold PostgresContributionRepository_def contribution_repository.simps)
  fix s :: "'z db_scheme" and i c
  show "db_contribution s i = Some c \<Longrightarrow> cb_id c = i"
    by (auto simp: db_contribution_def rowToContribution_def dest: lookup_by_Some)
next
  fix s :: "'z db_scheme" and i
  show "ContribRepo_FindByID i s =
      (case db_contribution s i of None \<Rightarrow> Inl (Community ErrContributionNotFound) | Some c \<Rightarrow> Inr c, s)"
    by (rule ContribRepo_FindByID_run)
next
  fix s s' :: "'z db_scheme" and c c'
  assume s: "db_ok s" and cr: "ContribRepo_Create c s = (Inr c', s')" and new: "cb_status c = StatusPending"
    "cb_reviewer c = None" "cb_note c = None" "cb_reviewed_at c = None"
  show "db_ok s' \<and> cb_id c' = cb_id c \<and> db_contribution s (cb_id c) = None \<and>
      db_contribution s' = (db_contribution s)(cb_id c \<mapsto> c') \<and> (\<exists>t. c' = c\<lparr>cb_submitted_at := t\<rparr>)"
    using ContribRepo_Create_ok [OF cr new] keepsD [OF keeps_ContribRepo(1) s cr] by auto
next
  fix s s' :: "'z db_scheme" and c e
  assume "ContribRepo_Create c s = (Inl e, s')"
  then show "s' = s"
    by (auto simp: ContribRepo_Create_def CreateContribution_def bindP_Inl retP_def dest: sqlP_Inl)
next
  fix s s' :: "'z db_scheme" and c r
  assume s: "db_ok s" and up: "ContribRepo_Update c s = (r, s')"
  then show "db_ok s' \<and> (db_contribution s' = db_contribution s \<or>
        (\<exists>v. db_contribution s (cb_id c) = Some v \<and> db_contribution s' = (db_contribution s)(cb_id c \<mapsto>
          v\<lparr>cb_status := cb_status c, cb_reviewer := cb_reviewer c, cb_note := cb_note c,
            cb_reviewed_at := cb_reviewed_at c\<rparr>)))"
    using keepsD [OF keeps_ContribRepo(2) s up] db_contribution_update [where d = s]
    by (auto simp: ContribRepo_Update_run split: if_splits option.splits)
next
  fix s s' :: "'z db_scheme" and c x
  assume "db_ok s" and "ContribRepo_Update c s = (Inr x, s')"
  then show "\<exists>v. db_contribution s (cb_id c) = Some v \<and> db_contribution s' = (db_contribution s)(cb_id c \<mapsto>
          v\<lparr>cb_status := cb_status c, cb_reviewer := cb_reviewer c, cb_note := cb_note c,
            cb_reviewed_at := cb_reviewed_at c\<rparr>)"
    using db_contribution_update [where d = s]
    by (auto simp: ContribRepo_Update_run split: if_splits option.splits)
qed

section \<open>Votes\<close>

locale vote_repository_contract =
  fixes repo :: "'s vote_repository" and votes :: "'s \<Rightarrow> uuid \<times> string \<times> uuid \<Rightarrow> vote option"
    and inv :: "'s \<Rightarrow> bool"
  assumes upsert_vote: "inv s \<Longrightarrow> vrp_Upsert repo v s = (Inr v', s') \<Longrightarrow>
      inv s' \<and> vt_value v' = vt_value v \<and>
      votes s' = (votes s)((vt_user v, vt_type v, vt_target v) \<mapsto> v') \<and>
      (\<forall>w. votes s (vt_user v, vt_type v, vt_target v) = Some w \<longrightarrow> vt_id v' = vt_id w)"
    and upsert_vote_err: "vrp_Upsert repo v s = (Inl e, s') \<Longrightarrow> s' = s"
    and find_vote: "ty \<in> {VoteTargetWord, VoteTargetDefinition} \<Longrightarrow> vrp_Find repo u ty t s =
      (case votes s (u, ty, t) of None \<Rightarrow> Inl (Community ErrVoteNotFound) | Some v \<Rightarrow> Inr v, s)"
    and delete_vote: "inv s \<Longrightarrow> ty \<in> {VoteTargetWord, VoteTargetDefinition} \<Longrightarrow>
      \<exists>s'. vrp_Delete repo u ty t s = (Inr (), s') \<and> inv s' \<and> votes s' = (votes s)((u, ty, t) := None)"
begin

text \<open>\<open>RemoveVote\<close> removes the vote of the caller, and only that; without a vote it is an error.\<close>

lemma remove_sound:
  assumes "inv s" "vs_repo v = repo" "ty \<in> {VoteTargetWord, VoteTargetDefinition}"
  shows "case votes s (u, ty, t) of
      None \<Rightarrow> RemoveVote v u ty t s = (Inl (CommunityCmd ErrVoteTargetNotFound), s)
    | Some _ \<Rightarrow> \<exists>s'. RemoveVote v u ty t s = (Inr (), s') \<and> inv s' \<and> votes s' = (votes s)((u, ty, t) := None)"
proof (cases "votes s (u, ty, t)")
  case None
  with assms show ?thesis by (simp add: RemoveVote_def find_vote prog_defs)
next
  case (Some w)
  with assms delete_vote [OF assms(1,3), of u t] show ?thesis
    by (auto simp: RemoveVote_def find_vote prog_defs)
qed

end

definition db_vote :: "'z db_scheme \<Rightarrow> uuid \<times> string \<times> uuid \<Rightarrow> vote option" where
  "db_vote d k = map_option vote_toDomain (lookup_by vote_key k (db_votes d))"

lemma vote_targets: "set vote_target_enum = {VoteTargetWord, VoteTargetDefinition}"
  by (simp add: vote_target_enum_def VoteTargetWord_def VoteTargetDefinition_def)

lemma VoteRepo_Upsert_ok:
  assumes s: "db_ok d" and up: "VoteRepo_Upsert v d = (Inr v', d')"
  shows "db_ok d' \<and> vt_value v' = vt_value v \<and>
      db_vote d' = (db_vote d)((vt_user v, vt_type v, vt_target v) \<mapsto> v') \<and>
      (\<forall>w. db_vote d (vt_user v, vt_type v, vt_target v) = Some w \<longrightarrow> vt_id v' = vt_id w)"
proof -
  define r where "r = \<lparr>vr_id = vt_id v, vr_user = vt_user v, vr_type = vt_type v,
              vr_target = vt_target v, vr_value = vt_value v, vr_created_at = vt_created_at v\<rparr>"
  have k: "vote_key r = (vt_user v, vt_type v, vt_target v)" by (simp add: r_def vote_key_def)
  from up obtain row where v': "v' = vote_toDomain row"
    and d': "d' = d\<lparr>db_votes := (if vote_key r \<in> vote_key ` set (db_votes d) then
             update_where (\<lambda>v. vote_key v = vote_key r) (\<lambda>v. v\<lparr>vr_value := vr_value r\<rparr>) (db_votes d)
           else db_votes d @ [r\<lparr>vr_created_at := db_now d\<rparr>])\<rparr>"
    and row: "lookup_by vote_key (vote_key r) (db_votes d') = Some row"
    unfolding VoteRepo_Upsert_def UpsertVote_def r_def [symmetric]
    by (auto simp: prog_Inr sqlP_Inr Let_def one_row_def split: option.splits)
  let ?f = "\<lambda>x. x\<lparr>vr_value := vr_value r\<rparr>"
  have upd: "lookup_by vote_key j (update_where (\<lambda>v. vote_key v = vote_key r) ?f (db_votes d)) =
      (if j = vote_key r then map_option ?f (lookup_by vote_key j (db_votes d))
       else lookup_by vote_key j (db_votes d))" for j
  proof -
    have "lookup_by vote_key j (update_where (\<lambda>v. vote_key v = vote_key r) ?f (db_votes d))
        = map_option (\<lambda>v. if vote_key v = vote_key r then ?f v else v) (lookup_by vote_key j (db_votes d))"
      by (rule lookup_update_where) simp
    then show ?thesis
      by (cases "lookup_by vote_key j (db_votes d)") (auto dest: lookup_by_Some)
  qed
  have "db_vote d' = (db_vote d)(vote_key r \<mapsto> v') \<and>
    vt_value v' = vt_value v \<and> (\<forall>w. db_vote d (vote_key r) = Some w \<longrightarrow> vt_id v' = vt_id w)"
  proof (cases "lookup_by vote_key (vote_key r) (db_votes d)")
    case (Some z)
    then have "vote_key r \<in> vote_key ` set (db_votes d)" using lookup_by_Some by (metis imageI)
    then have d'': "d' = d\<lparr>db_votes := update_where (\<lambda>v. vote_key v = vote_key r) ?f (db_votes d)\<rparr>"
      by (simp add: d')
    from row Some have v'': "v' = vote_toDomain (?f z)" by (simp add: d'' upd v')
    have "db_vote d' = (db_vote d)(vote_key r \<mapsto> v')"
      using Some by (intro ext) (simp add: db_vote_def d'' upd v'')
    with Some show ?thesis by (simp add: db_vote_def v'' vote_toDomain_def r_def)
  next
    case None
    then have d'': "d' = d\<lparr>db_votes := db_votes d @ [r\<lparr>vr_created_at := db_now d\<rparr>]\<rparr>"
      by (simp add: d' lookup_by_None)
    from row None have v'': "v' = vote_toDomain (r\<lparr>vr_created_at := db_now d\<rparr>)"
      by (simp add: d'' v' table_simps)
    have "db_vote d' = (db_vote d)(vote_key r \<mapsto> v')"
      using None by (intro ext) (auto simp add: db_vote_def d'' v'' table_simps split: option.split)
    with None show ?thesis by (simp add: db_vote_def v'' vote_toDomain_def r_def)
  qed
  then show ?thesis using keepsD [OF keeps_VoteRepo(1) s up] by (simp add: k)
qed

lemma VoteRepo_Upsert_Inl: "VoteRepo_Upsert v d = (Inl e, d') \<Longrightarrow> d' = d"
proof -
  assume up: "VoteRepo_Upsert v d = (Inl e, d')"
  define r where "r = \<lparr>vr_id = vt_id v, vr_user = vt_user v, vr_type = vt_type v,
              vr_target = vt_target v, vr_value = vt_value v, vr_created_at = vt_created_at v\<rparr>"
  have found: "lookup_by vote_key (vote_key r) vs \<noteq> None"
    if "vs = (if vote_key r \<in> vote_key ` set (db_votes d) then
             update_where (\<lambda>v. vote_key v = vote_key r) (\<lambda>v. v\<lparr>vr_value := vr_value r\<rparr>) (db_votes d)
           else db_votes d @ [r\<lparr>vr_created_at := db_now d\<rparr>])" for vs
    unfolding lookup_by_None that by (auto simp: image_update_where)
  show "d' = d"
    using up found unfolding VoteRepo_Upsert_def UpsertVote_def r_def [symmetric]
    by (auto simp: bindP_Inl sqlP_Inr readP_def retP_def one_row_def split: option.splits dest: sqlP_Inl)
qed

lemma VoteRepo_Delete_ok:
  assumes "db_ok d" and "ty \<in> {VoteTargetWord, VoteTargetDefinition}"
  shows "\<exists>d'. VoteRepo_Delete u ty t d = (Inr (), d') \<and> db_ok d' \<and> db_vote d' = (db_vote d)((u, ty, t) := None)"
proof -
  have run: "VoteRepo_Delete u ty t d =
      (Inr (), d\<lparr>db_votes := delete_where (\<lambda>v. vote_key v = (u, ty, t)) (db_votes d)\<rparr>)"
    using assms(2) by (simp add: VoteRepo_Delete_def DeleteVote_def sqlP_def vote_targets)
  moreover have "lookup_by vote_key k (delete_where (\<lambda>v. vote_key v = (u, ty, t)) (db_votes d)) =
      (if k = (u, ty, t) then None else lookup_by vote_key k (db_votes d))" for k
    using db_okD(6) [OF assms(1)]
    by (auto simp: delete_where_def lookup_by_filter votes_ok_def dest: lookup_by_Some split: option.split)
  then have "db_vote (d\<lparr>db_votes := delete_where (\<lambda>v. vote_key v = (u, ty, t)) (db_votes d)\<rparr>) =
      (db_vote d)((u, ty, t) := None)"
    by (intro ext) (simp add: db_vote_def)
  ultimately show ?thesis using keepsD [OF keeps_VoteRepo(2) assms(1) run] by simp
qed

interpretation pg_votes: vote_repository_contract PostgresVoteRepository db_vote db_ok
proof (unfold_locales, unfold PostgresVoteRepository_def vote_repository.simps)
  fix s s' :: "'z db_scheme" and v e
  assume "VoteRepo_Upsert v s = (Inl e, s')"
  then show "s' = s" by (rule VoteRepo_Upsert_Inl)
next
  fix s :: "'z db_scheme" and ty t u
  assume "ty \<in> {VoteTargetWord, VoteTargetDefinition}"
  then show "VoteRepo_Find u ty t s =
      (case db_vote s (u, ty, t) of None \<Rightarrow> Inl (Community ErrVoteNotFound) | Some v \<Rightarrow> Inr v, s)"
    by (simp add: VoteRepo_Find_def GetVoteByUserAndTarget_def vote_targets prog_defs one_row_def db_vote_def
        split: option.split)
qed (fact VoteRepo_Upsert_ok VoteRepo_Delete_ok)+

section \<open>Bookmarks\<close>

locale bookmark_repository_contract =
  fixes repo :: "'s bookmark_repository" and bookmarks :: "'s \<Rightarrow> (uuid \<times> uuid) set" and inv :: "'s \<Rightarrow> bool"
  assumes create_bookmark: "inv s \<Longrightarrow> brp_Create repo b s = (Inr b', s') \<Longrightarrow>
      inv s' \<and> (bm_user b, bm_word b) \<notin> bookmarks s \<and> bm_user b' = bm_user b \<and> bm_word b' = bm_word b \<and>
      bookmarks s' = insert (bm_user b, bm_word b) (bookmarks s)"
    and create_bookmark_conflict: "(bm_user b, bm_word b) \<in> bookmarks s \<Longrightarrow>
      brp_Create repo b s = (Inl (Community ErrBookmarkConflict), s)"
    and exists_bookmark: "brp_Exists repo u w s = (Inr ((u, w) \<in> bookmarks s), s)"
    and delete_bookmark: "inv s \<Longrightarrow>
      \<exists>s'. brp_Delete repo u w s = (Inr (), s') \<and> inv s' \<and> bookmarks s' = bookmarks s - {(u, w)}"
begin

text \<open>\<open>RemoveBookmark\<close> undoes \<open>AddBookmark\<close>; what is not there cannot be removed.\<close>

lemma remove_sound:
  assumes "inv s" "bs_repo v = repo"
  shows "if (u, w) \<in> bookmarks s
    then \<exists>s'. RemoveBookmark v u w s = (Inr (), s') \<and> inv s' \<and> bookmarks s' = bookmarks s - {(u, w)}
    else RemoveBookmark v u w s = (Inl (Community ErrBookmarkNotFound), s)"
  using assms delete_bookmark [OF assms(1), of u w]
  by (auto simp: RemoveBookmark_def exists_bookmark prog_defs)

end

definition db_bookmark_keys :: "'z db_scheme \<Rightarrow> (uuid \<times> uuid) set" where
  "db_bookmark_keys d = bookmark_key ` set (db_bookmarks d)"

sublocale postgres \<subseteq> bm: bookmark_repository_contract "PostgresBookmarkRepository E" db_bookmark_keys db_ok
proof (unfold_locales, unfold PostgresBookmarkRepository_def bookmark_repository.simps)
  fix s s' :: "'z db_scheme" and b b'
  assume s: "db_ok s" and c: "BookmarkRepo_Create E b s = (Inr b', s')"
  then show "db_ok s' \<and> (bm_user b, bm_word b) \<notin> db_bookmark_keys s \<and> bm_user b' = bm_user b \<and>
      bm_word b' = bm_word b \<and> db_bookmark_keys s' = insert (bm_user b, bm_word b) (db_bookmark_keys s)"
    using keepsD [OF keeps_BookmarkRepo(1) s c]
    by (auto simp: BookmarkRepo_Create_def CreateBookmark_def prog_Inr sqlP_Inr Let_def db_bookmark_keys_def
        bookmark_key_def bookmark_toDomain_def)
next
  fix s :: "'z db_scheme" and b
  have "strings_contains (x_sql_text E (UniqueViolation t)) ''23505''" for t
    using sql_text by (auto simp: sql_text_ok_def strings_contains_iff)
  then show "(bm_user b, bm_word b) \<in> db_bookmark_keys s \<Longrightarrow>
      BookmarkRepo_Create E b s = (Inl (Community ErrBookmarkConflict), s)"
    by (simp add: BookmarkRepo_Create_def CreateBookmark_def sqlP_def prog_defs db_bookmark_keys_def
        community_isUniqueViolation_def)
next
  fix s :: "'z db_scheme" and u w
  show "BookmarkRepo_Exists u w s = (Inr ((u, w) \<in> db_bookmark_keys s), s)"
    using lookup_by_None [of bookmark_key "(u, w)" "db_bookmarks s"]
    by (auto simp: BookmarkRepo_Exists_def GetBookmarkByUserAndWord_def prog_defs one_row_def db_bookmark_keys_def
        split: option.split)
next
  fix s :: "'z db_scheme" and u w
  assume s: "db_ok s"
  have run: "BookmarkRepo_Delete u w s =
      (Inr (), s\<lparr>db_bookmarks := delete_where (\<lambda>b. bookmark_key b = (u, w)) (db_bookmarks s)\<rparr>)"
    by (simp add: BookmarkRepo_Delete_def DeleteBookmark_def)
  show "\<exists>s'. BookmarkRepo_Delete u w s = (Inr (), s') \<and> db_ok s' \<and> db_bookmark_keys s' = db_bookmark_keys s - {(u, w)}"
    using keepsD [OF keeps_BookmarkRepo(2) s run] by (auto simp: run db_bookmark_keys_def)
qed

section \<open>Comments\<close>

locale comment_repository_contract =
  fixes repo :: "'s comment_repository" and comments :: "'s \<Rightarrow> uuid \<Rightarrow> comment option"
    and inv :: "'s \<Rightarrow> bool" and now :: "'s \<Rightarrow> time"
  assumes comments_id: "comments s i = Some c \<Longrightarrow> cm_id c = i"
    and find_comment: "mrp_FindByID repo i s =
      (case comments s i of None \<Rightarrow> Inl (Community ErrCommentNotFound) | Some c \<Rightarrow> Inr c, s)"
    and create_comment: "inv s \<Longrightarrow> mrp_Create repo c s = (Inr c', s') \<Longrightarrow> cm_flagged c = False \<Longrightarrow>
      inv s' \<and> comments s (cm_id c) = None \<and> comments s' = (comments s)(cm_id c \<mapsto> c') \<and>
      (\<exists>t u. c' = c\<lparr>cm_created_at := t, cm_updated_at := u\<rparr>)"
    and update_comment: "inv s \<Longrightarrow> comments s (cm_id c) = Some v \<Longrightarrow>
      \<exists>s'. mrp_Update repo c s = (Inr (v\<lparr>cm_body := cm_body c, cm_updated_at := now s\<rparr>), s') \<and> inv s' \<and>
        comments s' = (comments s)(cm_id c \<mapsto> v\<lparr>cm_body := cm_body c, cm_updated_at := now s\<rparr>)"
    and delete_comment: "inv s \<Longrightarrow>
      \<exists>s'. mrp_Delete repo i s = (Inr (), s') \<and> inv s' \<and> comments s' = (comments s)(i := None)"
begin

lemma find_comment_Inr: "mrp_FindByID repo i s = (Inr c, s') \<longleftrightarrow> comments s i = Some c \<and> s' = s"
  by (auto simp: find_comment split: option.splits)

text \<open>Only the author edits a comment, and only to a body within the limit.\<close>

lemma edit_sound:
  assumes "inv s" "ms_repo v = repo" "rt_now R = now" "EditComment R v u i body s = (Inr c', s')"
  shows "\<exists>c. comments s i = Some c \<and> cm_user c = u \<and> body_error body = None \<and>
    c' = c\<lparr>cm_body := body, cm_updated_at := now s\<rparr> \<and> comments s' = (comments s)(i \<mapsto> c') \<and> inv s'"
proof -
  from assms(2-4) obtain c c1 where c: "comments s i = Some c" and e: "Edit (now s) u body c = Inr c1"
    and up: "mrp_Update repo c1 s = (Inr c', s')"
    by (auto simp: EditComment_def prog_Inr find_comment_Inr nowP_def)
  have c1: "c1 = c\<lparr>cm_body := body, cm_updated_at := now s\<rparr>" "cm_user c = u" "body_error body = None"
    using e by (auto simp: Edit_def split: if_splits option.splits)
  with update_comment [OF assms(1), of c1 c] up c comments_id [OF c] show ?thesis by auto
qed

text \<open>The author and admins delete a comment, nobody else.\<close>

lemma delete_authorised:
  assumes "inv s" "ms_repo v = repo"
  shows "DeleteComment v u role i s =
     (case comments s i of
        None \<Rightarrow> (Inl (Community ErrCommentNotFound), s)
      | Some c \<Rightarrow>
          if role = ''admin'' \<or> cm_user c = u then mrp_Delete repo i s else (Inl (Community ErrForbidden), s))"
  using assms by (auto simp: DeleteComment_def find_comment prog_defs split: option.split)

text \<open>Flagging a comment changes nothing but the time of the last update: the flag itself is not
  among the columns that the repository writes.\<close>

lemma flag_lost:
  assumes "inv s" "ms_repo v = repo" "rt_now R = now" "comments s i = Some c"
  shows "\<exists>s'. FlagComment R v i s = (Inr (c\<lparr>cm_updated_at := now s\<rparr>), s') \<and> inv s' \<and>
    comments s' = (comments s)(i \<mapsto> c\<lparr>cm_updated_at := now s\<rparr>)"
  using update_comment [OF assms(1), of "Flag (now s) c" c] assms comments_id [OF assms(4)]
  by (auto simp: FlagComment_def find_comment prog_defs nowP_def Flag_def)

end

definition db_comment :: "'z db_scheme \<Rightarrow> uuid \<Rightarrow> comment option" where
  "db_comment d i = map_option rowToComment (lookup_by mr_id i (db_comments d))"

lemma db_comment_update:
  assumes "db_comment d i = Some v"
  shows "db_comment (d\<lparr>db_comments := update_where (\<lambda>r. mr_id r = i)
       (\<lambda>r. r\<lparr>mr_body := body, mr_updated_at := t\<rparr>) (db_comments d)\<rparr>) =
     (db_comment d)(i \<mapsto> v\<lparr>cm_body := body, cm_updated_at := t\<rparr>)"
proof (rule ext)
  fix j
  show "db_comment (d\<lparr>db_comments := update_where (\<lambda>r. mr_id r = i)
       (\<lambda>r. r\<lparr>mr_body := body, mr_updated_at := t\<rparr>) (db_comments d)\<rparr>) j =
     ((db_comment d)(i \<mapsto> v\<lparr>cm_body := body, cm_updated_at := t\<rparr>)) j"
    using assms
    by (cases "lookup_by mr_id j (db_comments d)"; cases "j = i")
      (auto simp: db_comment_def lookup_update_where rowToComment_def dest: lookup_by_Some)
qed

interpretation pg_comments: comment_repository_contract PostgresCommentRepository db_comment db_ok db_now
proof (unfold_locales, unfold PostgresCommentRepository_def comment_repository.simps)
  fix s :: "'z db_scheme" and i c
  show "db_comment s i = Some c \<Longrightarrow> cm_id c = i"
    by (auto simp: db_comment_def rowToComment_def dest: lookup_by_Some)
next
  fix s :: "'z db_scheme" and i
  show "CommentRepo_FindByID i s =
      (case db_comment s i of None \<Rightarrow> Inl (Community ErrCommentNotFound) | Some c \<Rightarrow> Inr c, s)"
    by (simp add: CommentRepo_FindByID_def GetCommentByID_def db_comment_def prog_defs one_row_def
        comment_not_found_def split: option.split)
next
  fix s s' :: "'z db_scheme" and c c' :: comment
  assume s: "db_ok s" and cr: "CommentRepo_Create c s = (Inr c', s')" and f: "cm_flagged c = False"
  define r where "r = \<lparr>mr_id = cm_id c, mr_user = cm_user c, mr_type = cm_type c, mr_target = cm_target c,
      mr_body = cm_body c, mr_flagged = False, mr_created_at = db_now s, mr_updated_at = db_now s\<rparr>"
  have row: "rowToComment r = c\<lparr>cm_created_at := db_now s, cm_updated_at := db_now s\<rparr>" "mr_id r = cm_id c"
    using f by (cases c; simp add: rowToComment_def r_def)+
  from cr have c': "c' = rowToComment r" and s': "s' = s\<lparr>db_comments := db_comments s @ [r]\<rparr>"
    and new: "cm_id c \<notin> mr_id ` set (db_comments s)"
    by (auto simp: CommentRepo_Create_def CreateComment_def prog_Inr sqlP_Inr Let_def r_def)
  from new have none: "lookup_by mr_id (cm_id c) (db_comments s) = None" by (simp add: lookup_by_None)
  then have "db_comment s' = (db_comment s)(cm_id c \<mapsto> c')"
    by (intro ext) (auto simp: s' c' db_comment_def table_simps row split: option.split)
  then show "db_ok s' \<and> db_comment s (cm_id c) = None \<and> db_comment s' = (db_comment s)(cm_id c \<mapsto> c') \<and>
      (\<exists>t u. c' = c\<lparr>cm_created_at := t, cm_updated_at := u\<rparr>)"
    using keepsD [OF keeps_CommentRepo(1) s cr] none by (auto simp: c' row db_comment_def)
next
  fix s :: "'z db_scheme" and c v :: comment
  assume s: "db_ok s" and v: "db_comment s (cm_id c) = Some v"
  then have run: "CommentRepo_Update c s = (Inr (v\<lparr>cm_body := cm_body c, cm_updated_at := db_now s\<rparr>),
      s\<lparr>db_comments := update_where (\<lambda>r. mr_id r = cm_id c)
        (\<lambda>r. r\<lparr>mr_body := cm_body c, mr_updated_at := db_now s\<rparr>) (db_comments s)\<rparr>)"
    by (auto simp: CommentRepo_Update_def UpdateComment_def GetCommentByID_def prog_defs one_row_def
        lookup_update_where db_comment_def rowToComment_def dest: lookup_by_Some)
  from keepsD [OF keeps_CommentRepo(4) s run] db_comment_update [OF v] run
  show "\<exists>s'. CommentRepo_Update c s = (Inr (v\<lparr>cm_body := cm_body c, cm_updated_at := db_now s\<rparr>), s') \<and> db_ok s' \<and>
        db_comment s' = (db_comment s)(cm_id c \<mapsto> v\<lparr>cm_body := cm_body c, cm_updated_at := db_now s\<rparr>)"
    by simp
next
  fix s :: "'z db_scheme" and i
  assume s: "db_ok s"
  have run: "CommentRepo_Delete i s =
      (Inr (), s\<lparr>db_comments := delete_where (\<lambda>r. mr_id r = i) (db_comments s)\<rparr>)"
    by (simp add: CommentRepo_Delete_def DeleteComment_stmt_def)
  have "lookup_by mr_id k (delete_where (\<lambda>r. mr_id r = i) (db_comments s)) =
      (if k = i then None else lookup_by mr_id k (db_comments s))" for k
    using db_okD(8) [OF s]
    by (auto simp: delete_where_def lookup_by_filter comments_ok_def dest: lookup_by_Some split: option.split)
  then have "db_comment (s\<lparr>db_comments := delete_where (\<lambda>r. mr_id r = i) (db_comments s)\<rparr>) = (db_comment s)(i := None)"
    by (intro ext) (simp add: db_comment_def)
  with keepsD [OF keeps_CommentRepo(5) s run] run
  show "\<exists>s'. CommentRepo_Delete i s = (Inr (), s') \<and> db_ok s' \<and> db_comment s' = (db_comment s)(i := None)"
    by simp
qed

end
