(* ===== verification/Community_Http.thy ===== *)
theory Community_Http
  imports Community_Service Auth Ratelimit
begin

text \<open>
  \<open>internal/community/http\<close>: responses, handlers and routes. A handler that reads
  \<open>claims.UserID\<close> panics without claims (\<open>with_claims\<close>); \<open>callerID, _ := uuid.Parse(...)\<close> uses
  whatever the parser returns.
\<close>

section \<open>Requests and responses (\<open>dto.go\<close>)\<close>

record submit_request =
  sq_type :: string
  sq_target :: "string option"
  sq_payload :: json_map

text \<open>A contribution, a vote, a bookmark and a comment are rendered field by field; the body of a
  bookmark leaves out the user.\<close>

record bookmark_response =
  bo_id :: uuid
  bo_word :: uuid
  bo_created_at :: time

datatype community_data =
    ContributionData contribution
  | ContributionsData "contribution list"
  | VoteData vote
  | BookmarkData bookmark_response
  | BookmarksData "bookmark_response list"
  | CommentData comment
  | CommentsData "comment list"

definition toBookmarkResponse :: "bookmark \<Rightarrow> bookmark_response" where
  "toBookmarkResponse b = \<lparr>bo_id = bm_id b, bo_word = bm_word b, bo_created_at = bm_created_at b\<rparr>"

section \<open>Errors\<close>

definition mapContributionError :: "ext \<Rightarrow> err \<Rightarrow> 'd response" where
  "mapContributionError E e =
     (let text = err_text (x_sql_text E) e in
      if errors_is e (Community ErrContributionNotFound) then Send 404 (NotFound ''contribution not found'')
      else if errors_is e (CommunityCmd ErrEmailNotVerified) then Send 403 (Forbidden text)
      else if errors_is e (CommunityCmd ErrTargetWordNotFound) then Send 404 (NotFound ''target word not found'')
      else if errors_is e (CommunityCmd ErrContributionForbidden) then Send 403 (Forbidden text)
      else if errors_is e (Community ErrInvalidTransition) then Send 409 (Conflict text)
      else if errors_is e (Community ErrForbidden) then Send 403 (Forbidden text)
      else if errors_is e (Community ErrTargetRequired) then
        Send 422 (Validation text [detail ''target_word_id'' ''required''])
      else Send 500 (Internal ''internal error''))"

definition mapCommentError :: "ext \<Rightarrow> err \<Rightarrow> 'd response" where
  "mapCommentError E e =
     (let text = err_text (x_sql_text E) e in
      if errors_is e (Community ErrCommentNotFound) then Send 404 (NotFound ''comment not found'')
      else if errors_is e (Community ErrForbidden) then Send 403 (Forbidden text)
      else if errors_is e (Community ErrBodyTooLong) \<or> errors_is e (Community ErrEmptyBody) then
        Send 422 (Validation text [])
      else if errors_is e (CommunityCmd ErrCommentWordNotFound) then Send 404 (NotFound ''word not found'')
      else Send 500 (Internal ''internal error''))"

definition internal_error :: "err \<Rightarrow> 'd response" where
  "internal_error e = Send 500 (Internal ''internal error'')"

text \<open>The meta data of the paginated handlers\<close>

definition page_meta :: "params \<Rightarrow> int \<Rightarrow> pagination_meta" where
  "page_meta p tot =
     \<lparr>pm_page = pg_page p, pm_per_page = pg_per_page p, pm_total = tot,
      pm_total_pages = total_pages_inline tot (pg_per_page p)\<rparr>"

text \<open>\<open>uuid.Parse(...)\<close> of a parameter, with the response of its failure\<close>

definition with_uuid ::
  "ext \<Rightarrow> string \<Rightarrow> 'd response \<Rightarrow> (uuid \<Rightarrow> 's \<Rightarrow> 'd response \<times> 's) \<Rightarrow> 's \<Rightarrow> 'd response \<times> 's" where
  "with_uuid E t bad k s = (case x_uuid_parse E t of (i, ok) \<Rightarrow> if ok then k i s else (bad, s))"

section \<open>Contributions\<close>

definition SubmitContribution_handler ::
  "ext \<Rightarrow> 's runtime \<Rightarrow> 's contribution_svc \<Rightarrow> ('s, submit_request, community_data) handler" where
  "SubmitContribution_handler E R v = with_claims (\<lambda>claims c.
     with_uuid E (cl_user_id claims) (Send 422 (Validation ''invalid user id'' [])) (\<lambda>userID s.
     case rq_body c of (req, ok) \<Rightarrow>
       if \<not> ok then (Send 422 (Validation ''invalid request body'' []), s)
       else if sq_type req = [] then
         (Send 422 (Validation ''type is required'' [detail ''type'' ''required'']), s)
       else
         let payload = (case sq_payload req of None \<Rightarrow> Some [] | Some m \<Rightarrow> Some m);
             submit = (\<lambda>target s.
               respond (mapContributionError E) (\<lambda>x. Created (ContributionData x))
                 (SubmitContribution R v userID
                    \<lparr>ci_type = sq_type req, ci_target = target, ci_payload = payload\<rparr>) s)
         in case sq_target req of
              None \<Rightarrow> submit None s
            | Some t \<Rightarrow>
                if t = [] then submit None s
                else with_uuid E t
                  (Send 422 (Validation ''invalid target_word_id''
                     [detail ''target_word_id'' ''must be a valid UUID'']))
                  (\<lambda>i. submit (Some i)) s))"

definition ListContributions_handler ::
  "ext \<Rightarrow> 's contribution_svc \<Rightarrow> ('s, 'b, community_data) handler" where
  "ListContributions_handler E v = with_claims (\<lambda>claims c s.
     let callerID = fst (x_uuid_parse E (cl_user_id claims)) in
     case Parse c of
       Inl errResp \<Rightarrow> (Send 422 errResp, s)
     | Inr p \<Rightarrow>
         respond internal_error (\<lambda>(cs, tot). Paginated (ContributionsData cs) (page_meta p tot))
           (ListContributions v callerID (cl_role claims)
              \<lparr>cf_status = (if rq_query c ''status'' \<noteq> [] then Some (rq_query c ''status'') else None),
               cf_type = (if rq_query c ''type'' \<noteq> [] then Some (rq_query c ''type'') else None)\<rparr>
              (pg_page p) (pg_per_page p)) s)"

definition GetContribution_handler ::
  "ext \<Rightarrow> 's contribution_svc \<Rightarrow> ('s, 'b, community_data) handler" where
  "GetContribution_handler E v = with_claims (\<lambda>claims c.
     let callerID = fst (x_uuid_parse E (cl_user_id claims)) in
     with_uuid E (rq_param c ''id'') (Send 404 (NotFound ''contribution not found'')) (\<lambda>i.
     respond (mapContributionError E) (\<lambda>x. OK (ContributionData x))
       (GetContribution v callerID (cl_role claims) i)))"

definition WithdrawContribution_handler ::
  "ext \<Rightarrow> 's contribution_svc \<Rightarrow> ('s, 'b, community_data) handler" where
  "WithdrawContribution_handler E v = with_claims (\<lambda>claims c.
     let callerID = fst (x_uuid_parse E (cl_user_id claims)) in
     with_uuid E (rq_param c ''id'') (Send 404 (NotFound ''contribution not found'')) (\<lambda>i.
     respond (mapContributionError E) (\<lambda>x. OK (ContributionData x))
       (WithdrawContribution v callerID i)))"

text \<open>\<open>ApproveContribution\<close> and \<open>RejectContribution\<close> of this package change the contribution in the
  handler: fetch, change, store. The body of the request is the note; that of an approval is
  used whether or not it could be parsed.\<close>

definition decide ::
  "ext \<Rightarrow> 's contribution_svc \<Rightarrow> uuid \<Rightarrow> uuid \<Rightarrow> (contribution \<Rightarrow> err + contribution) \<Rightarrow>
     's \<Rightarrow> community_data response \<times> 's" where
  "decide E v reviewerID i change s =
     (case GetContribution v reviewerID ''admin'' i s of
        (Inl e, s1) \<Rightarrow> (mapContributionError E e, s1)
      | (Inr c, s1) \<Rightarrow>
          (case change c of
             Inl e \<Rightarrow> (Send 409 (Conflict (err_text (x_sql_text E) e)), s1)
           | Inr c' \<Rightarrow>
               (case Update_contribution v c' s1 of
                  (Inl _, s2) \<Rightarrow> (Send 500 (Internal ''internal error''), s2)
                | (Inr _, s2) \<Rightarrow> (OK (ContributionData c'), s2))))"

definition ApproveContribution_handler ::
  "ext \<Rightarrow> 's runtime \<Rightarrow> 's contribution_svc \<Rightarrow> ('s, string, community_data) handler" where
  "ApproveContribution_handler E R v c =
     with_uuid E (rq_param c ''id'') (Send 404 (NotFound ''contribution not found'')) (\<lambda>i.
     with_claims (\<lambda>claims c s.
       decide E v (fst (x_uuid_parse E (cl_user_id claims))) i
         (Approve (rt_now R s) (fst (x_uuid_parse E (cl_user_id claims))) (fst (rq_body c))) s) c)"

definition RejectContribution_handler ::
  "ext \<Rightarrow> 's runtime \<Rightarrow> 's contribution_svc \<Rightarrow> ('s, string, community_data) handler" where
  "RejectContribution_handler E R v c =
     with_uuid E (rq_param c ''id'') (Send 404 (NotFound ''contribution not found'')) (\<lambda>i.
     with_claims (\<lambda>claims c s.
       case rq_body c of (note, ok) \<Rightarrow>
         if \<not> ok \<or> trim_space note = [] then
           (Send 422 (Validation ''note is required'' [detail ''note'' ''required'']), s)
         else
           decide E v (fst (x_uuid_parse E (cl_user_id claims))) i
             (Reject (rt_now R s) (fst (x_uuid_parse E (cl_user_id claims))) note) s) c)"

section \<open>Votes\<close>

abbreviation quote :: string where "quote \<equiv> [CHR 0x27]"

definition vote_value_text :: string where
  "vote_value_text = ''must be '' @ quote @ ''up'' @ quote @ '' or '' @ quote @ ''down'' @ quote"

definition castVote ::
  "ext \<Rightarrow> 's runtime \<Rightarrow> 's vote_svc \<Rightarrow> string \<Rightarrow> ('s, string, community_data) handler" where
  "castVote E R v targetType = with_claims (\<lambda>claims c.
     let userID = fst (x_uuid_parse E (cl_user_id claims)) in
     with_uuid E (rq_param c ''id'') (Send 404 (NotFound ''target not found'')) (\<lambda>targetID s.
     case rq_body c of (value, ok) \<Rightarrow>
       if \<not> ok \<or> (value \<noteq> ''up'' \<and> value \<noteq> ''down'') then
         (Send 422 (Validation (''value '' @ vote_value_text) [detail ''value'' vote_value_text]), s)
       else
         respond
           (\<lambda>e. if errors_is e (CommunityCmd ErrVoteTargetNotFound)
                then Send 404 (NotFound ''target not found'') else internal_error e)
           (\<lambda>x. Created (VoteData x)) (CastVote R v userID targetType targetID value) s))"

definition removeVote ::
  "ext \<Rightarrow> 's vote_svc \<Rightarrow> string \<Rightarrow> ('s, 'b, community_data) handler" where
  "removeVote E v targetType = with_claims (\<lambda>claims c.
     let userID = fst (x_uuid_parse E (cl_user_id claims)) in
     with_uuid E (rq_param c ''id'') (Send 404 (NotFound ''target not found'')) (\<lambda>targetID.
     respond
       (\<lambda>e. if errors_is e (CommunityCmd ErrVoteTargetNotFound)
            then Send 404 (NotFound ''vote not found'') else internal_error e)
       (\<lambda>_. NoContent) (RemoveVote v userID targetType targetID)))"

definition CastWordVote :: "ext \<Rightarrow> 's runtime \<Rightarrow> 's vote_svc \<Rightarrow> ('s, string, community_data) handler" where
  "CastWordVote E R v = castVote E R v VoteTargetWord"

definition RemoveWordVote :: "ext \<Rightarrow> 's vote_svc \<Rightarrow> ('s, 'b, community_data) handler" where
  "RemoveWordVote E v = removeVote E v VoteTargetWord"

definition CastDefinitionVote ::
  "ext \<Rightarrow> 's runtime \<Rightarrow> 's vote_svc \<Rightarrow> ('s, string, community_data) handler" where
  "CastDefinitionVote E R v = castVote E R v VoteTargetDefinition"

definition RemoveDefinitionVote :: "ext \<Rightarrow> 's vote_svc \<Rightarrow> ('s, 'b, community_data) handler" where
  "RemoveDefinitionVote E v = removeVote E v VoteTargetDefinition"

section \<open>Bookmarks\<close>

definition ListBookmarks_handler :: "ext \<Rightarrow> 's bookmark_svc \<Rightarrow> ('s, 'b, community_data) handler" where
  "ListBookmarks_handler E v = with_claims (\<lambda>claims c s.
     let userID = fst (x_uuid_parse E (cl_user_id claims)) in
     case Parse c of
       Inl errResp \<Rightarrow> (Send 422 errResp, s)
     | Inr p \<Rightarrow>
         respond internal_error
           (\<lambda>(bs, tot). Paginated (BookmarksData (map toBookmarkResponse bs)) (page_meta p tot))
           (ListBookmarks v userID (pg_page p) (pg_per_page p)) s)"

definition AddBookmark_handler ::
  "ext \<Rightarrow> 's runtime \<Rightarrow> 's bookmark_svc \<Rightarrow> ('s, string, community_data) handler" where
  "AddBookmark_handler E R v = with_claims (\<lambda>claims c s.
     let userID = fst (x_uuid_parse E (cl_user_id claims)) in
     case rq_body c of (w, ok) \<Rightarrow>
       if \<not> ok \<or> w = [] then
         (Send 422 (Validation ''word_id is required'' [detail ''word_id'' ''required'']), s)
       else
         with_uuid E w
           (Send 422 (Validation ''invalid word_id'' [detail ''word_id'' ''must be a valid UUID'']))
           (\<lambda>wordID. respond
              (\<lambda>e. if errors_is e (Community ErrBookmarkConflict) then Send 409 (Conflict ''bookmark already exists'')
                   else if errors_is e (CommunityCmd ErrBookmarkWordNotFound)
                   then Send 404 (NotFound ''word not found'') else internal_error e)
              (\<lambda>b. Created (BookmarkData (toBookmarkResponse b)))
              (AddBookmark R v userID wordID)) s)"

definition RemoveBookmark_handler :: "ext \<Rightarrow> 's bookmark_svc \<Rightarrow> ('s, 'b, community_data) handler" where
  "RemoveBookmark_handler E v = with_claims (\<lambda>claims c.
     let userID = fst (x_uuid_parse E (cl_user_id claims)) in
     with_uuid E (rq_param c ''word_id'') (Send 404 (NotFound ''bookmark not found'')) (\<lambda>wordID.
     respond
       (\<lambda>e. if errors_is e (Community ErrBookmarkNotFound)
            then Send 404 (NotFound ''bookmark not found'') else internal_error e)
       (\<lambda>_. NoContent) (RemoveBookmark v userID wordID)))"

section \<open>Comments\<close>

definition ListComments_handler :: "ext \<Rightarrow> 's comment_svc \<Rightarrow> ('s, 'b, community_data) handler" where
  "ListComments_handler E v c =
     with_uuid E (rq_param c ''id'') (Send 404 (NotFound ''word not found'')) (\<lambda>wordID s.
     case Parse c of
       Inl errResp \<Rightarrow> (Send 422 errResp, s)
     | Inr p \<Rightarrow>
         respond
           (\<lambda>e. if errors_is e (CommunityCmd ErrCommentWordNotFound)
                then Send 404 (NotFound ''word not found'') else internal_error e)
           (\<lambda>(cs, tot). Paginated (CommentsData cs) (page_meta p tot))
           (ListComments v wordID (pg_page p) (pg_per_page p)) s)"

definition PostComment_handler ::
  "ext \<Rightarrow> 's runtime \<Rightarrow> 's comment_svc \<Rightarrow> ('s, string, community_data) handler" where
  "PostComment_handler E R v = with_claims (\<lambda>claims c.
     let userID = fst (x_uuid_parse E (cl_user_id claims)) in
     with_uuid E (rq_param c ''id'') (Send 404 (NotFound ''word not found'')) (\<lambda>wordID s.
     case rq_body c of (body, ok) \<Rightarrow>
       if \<not> ok \<or> trim_space body = [] then
         (Send 422 (Validation ''body is required'' [detail ''body'' ''required'']), s)
       else
         respond (mapCommentError E) (\<lambda>x. Created (CommentData x)) (PostComment R v userID wordID body) s))"

definition EditComment_handler ::
  "ext \<Rightarrow> 's runtime \<Rightarrow> 's comment_svc \<Rightarrow> ('s, string, community_data) handler" where
  "EditComment_handler E R v = with_claims (\<lambda>claims c.
     let callerID = fst (x_uuid_parse E (cl_user_id claims)) in
     with_uuid E (rq_param c ''id'') (Send 404 (NotFound ''comment not found'')) (\<lambda>i s.
     case rq_body c of (body, ok) \<Rightarrow>
       if \<not> ok \<or> trim_space body = [] then
         (Send 422 (Validation ''body is required'' [detail ''body'' ''required'']), s)
       else
         respond (mapCommentError E) (\<lambda>x. OK (CommentData x)) (EditComment R v callerID i body) s))"

definition DeleteComment_handler :: "ext \<Rightarrow> 's comment_svc \<Rightarrow> ('s, 'b, community_data) handler" where
  "DeleteComment_handler E v = with_claims (\<lambda>claims c.
     let callerID = fst (x_uuid_parse E (cl_user_id claims)) in
     with_uuid E (rq_param c ''id'') (Send 404 (NotFound ''comment not found'')) (\<lambda>i.
     respond (mapCommentError E) (\<lambda>_. NoContent) (DeleteComment v callerID (cl_role claims) i)))"

definition FlagComment_handler :: "ext \<Rightarrow> 's runtime \<Rightarrow> 's comment_svc \<Rightarrow> ('s, 'b, community_data) handler" where
  "FlagComment_handler E R v c =
     with_uuid E (rq_param c ''id'') (Send 404 (NotFound ''comment not found'')) (\<lambda>i.
     respond (mapCommentError E) (\<lambda>x. OK (CommentData x)) (FlagComment R v i))"

section \<open>Routes (\<open>routes.go\<close>)\<close>

definition contribution_key :: "'b request \<Rightarrow> string" where
  "contribution_key c =
     (case GetClaims c of
        None \<Rightarrow> ''ratelimit:contributions:ip:'' @ rq_ip c
      | Some claims \<Rightarrow> ''ratelimit:contributions:'' @ cl_user_id claims)"

definition submit_route ::
  "ext \<Rightarrow> 's runtime \<Rightarrow> string \<Rightarrow> 's counter \<Rightarrow> 's contribution_svc \<Rightarrow>
     ('s, submit_request, community_data) handler" where
  "submit_route E R secret ct v =
     RequireAuth E secret (rt_now R)
       (Limiter ct contribution_key 10 hour (SubmitContribution_handler E R v))"

definition approve_route ::
  "ext \<Rightarrow> 's runtime \<Rightarrow> string \<Rightarrow> 's contribution_svc \<Rightarrow> ('s, string, community_data) handler" where
  "approve_route E R secret v =
     RequireAuth E secret (rt_now R) (RequireRole [''admin''] (ApproveContribution_handler E R v))"

definition reject_route ::
  "ext \<Rightarrow> 's runtime \<Rightarrow> string \<Rightarrow> 's contribution_svc \<Rightarrow> ('s, string, community_data) handler" where
  "reject_route E R secret v =
     RequireAuth E secret (rt_now R) (RequireRole [''admin''] (RejectContribution_handler E R v))"

text \<open>The other routes of the package have \<open>RequireAuth\<close> alone in front of the handler;
  \<open>ListComments\<close> has nothing.\<close>

definition community_auth_route ::
  "ext \<Rightarrow> 's runtime \<Rightarrow> string \<Rightarrow> ('s, 'b, community_data) handler \<Rightarrow> ('s, 'b, community_data) handler" where
  "community_auth_route E R secret h = RequireAuth E secret (rt_now R) h"

end
