(* ===== verification/Decisions.thy ===== *)
theory Decisions
  imports Community_Contract Community_Http System_Invariant
begin

text \<open>
  The life of contributions in the database: the operations of the community context and of
  moderation as steps of a relation, in any order, and what no sequence of them can change. The
  merge of an approved contribution into the dictionary.
\<close>

section \<open>Writing words and logs leaves the contributions alone\<close>

lemma frames_sqlP: "(\<And>d. f (snd (act d)) = f d) \<Longrightarrow> frames f (sqlP checks act)"
  by (simp add: frames_def sqlP_def split: option.split prod.split) (metis snd_conv)

lemma frames_contribution [frame_intros]: "frames db_contributions m \<Longrightarrow> frames db_contribution m"
  by (simp add: frames_def db_contribution_def fun_eq_iff)

text \<open>A view of the database that the tables of the dictionary and the draws do not show in\<close>

definition dictionary_blind :: "('z db_scheme \<Rightarrow> 'x) \<Rightarrow> bool" where
  "dictionary_blind f \<longleftrightarrow>
     (\<forall>d x. f (d\<lparr>db_words := x\<rparr>) = f d) \<and> (\<forall>d x. f (d\<lparr>db_definitions := x\<rparr>) = f d) \<and>
     (\<forall>d x. f (d\<lparr>db_examples := x\<rparr>) = f d) \<and> (\<forall>d x. f (d\<lparr>db_draws := x\<rparr>) = f d)"

lemma dictionary_blindD:
  assumes "dictionary_blind f"
  shows "f (d\<lparr>db_words := ws\<rparr>) = f d" "f (d\<lparr>db_definitions := ds\<rparr>) = f d"
    "f (d\<lparr>db_examples := es\<rparr>) = f d" "f (d\<lparr>db_draws := n\<rparr>) = f d"
  using assms by (simp_all add: dictionary_blind_def)

lemma blind_tables [frame_intros]:
  "dictionary_blind db_contributions" "dictionary_blind db_audit_logs" "dictionary_blind db_ai_requests"
  "dictionary_blind db_users"
  by (simp_all add: dictionary_blind_def)

lemma frames_runtime_db [frame_intros]:
  "dictionary_blind f \<Longrightarrow> frames f (uuidP (db_runtime E))" "frames f (nowP R)"
  by (simp_all add: frames_def uuidP_def db_runtime_def nowP_def getP_def dictionary_blindD)

lemma frames_word_statements [frame_intros]:
  assumes "dictionary_blind f"
  shows "frames f (CreateWord_stmt r)" "frames f (GetWordByID i)" "frames f (UpdateWord_stmt p)"
    "frames f (DeleteDefinitionsByWordID i)" "frames f (DeleteExamplesByWordID i)" "frames f (UpsertDefinition x)"
    "frames f (UpsertExample y)" "frames f (hydrate r)"
  unfolding CreateWord_stmt_def GetWordByID_def UpdateWord_stmt_def UpsertDefinition_def UpsertExample_def
    GetDefinitionByID_def hydrate_def GetDefinitionsByWordID_def GetExamplesByWordID_def
    DeleteDefinitionsByWordID_def DeleteExamplesByWordID_def
  by ((intro frame_intros frames_sqlP; simp add: dictionary_blindD [OF assms])
      | simp add: frames_def dictionary_blindD [OF assms])+

lemma frames_WordRepo [frame_intros]:
  assumes "dictionary_blind f"
  shows "frames f (WordRepo_Create E w)" "frames f (WordRepo_FindByID i)" "frames f (WordRepo_Update w)"
    "frames f (WordRepo_FindByBanjar b)"
  unfolding WordRepo_Create_def WordRepo_FindByID_def WordRepo_Update_def upsertChildren_def
    WordRepo_FindByBanjar_def GetWordByBanjar_def
  by (intro frame_intros assms)+

lemma frames_words [frame_intros]:
  assumes "dictionary_blind f"
  shows "frames f (NewWord (db_runtime E) b c dl)" "frames f (AddDefinition (db_runtime E) m i w)"
    "frames f (AddExample (db_runtime E) b' i' w)"
  unfolding NewWord_def AddDefinition_def NewDefinition_def AddExample_def NewExample_def
  by (intro frame_intros assms)+

lemma frames_merge_loops [frame_intros]:
  "dictionary_blind f \<Longrightarrow> frames f (merge_definitions (db_runtime E) i xs w)"
  "dictionary_blind f \<Longrightarrow> frames f (merge_examples (db_runtime E) ys w)"
  by (induction xs arbitrary: i w; auto simp: Let_def intro!: frame_intros)
    (induction ys arbitrary: w; auto simp: Let_def intro!: frame_intros)

lemma frames_merge [frame_intros]:
  "dictionary_blind f \<Longrightarrow> frames f (mergeContribution (db_runtime E) (db_moderation_svc E) c)"
  unfolding mergeContribution_def mergeNewWord_def mergeNewDefinition_def mergeNewExample_def
    mergeEditWord_def moderation_fields Let_def
  by (intro frame_intros)

lemma frames_audit [frame_intros]: "frames db_contributions (CreateAuditLog l)"
  unfolding CreateAuditLog_def CreateAuditLog_stmt_def by (intro frames_sqlP) simp

lemma frames_log [frame_intros]:
  "frames db_contributions (log_action (db_runtime E) (db_moderation_svc E) a act ty t m)"
  unfolding log_action_def NewAuditLog_def moderation_fields by (intro frame_intros)

section \<open>How contributions evolve\<close>

text \<open>Every contribution is as before or has made one transition; a new one is pending.\<close>

definition evolves :: "(uuid \<Rightarrow> contribution option) \<Rightarrow> (uuid \<Rightarrow> contribution option) \<Rightarrow> bool" where
  "evolves C C' \<longleftrightarrow>
     (\<forall>i. case C i of
            Some c \<Rightarrow> C' i = Some c \<or> (\<exists>c'. C' i = Some c' \<and> contribution_step c c')
          | None \<Rightarrow> C' i = None \<or> (\<exists>c'. C' i = Some c' \<and> cb_status c' = StatusPending))"

lemma evolves_refl [simp]: "evolves C C"
  by (simp add: evolves_def split: option.split)

lemma evolves_update: "C i = Some c \<Longrightarrow> contribution_step c c' \<Longrightarrow> evolves C (C(i \<mapsto> c'))"
  by (auto simp: evolves_def split: option.split)

lemma evolves_new: "C i = None \<Longrightarrow> cb_status c' = StatusPending \<Longrightarrow> evolves C (C(i \<mapsto> c'))"
  by (auto simp: evolves_def split: option.split)

inductive decision_step :: "ext \<Rightarrow> 'z db_scheme \<Rightarrow> 'z db_scheme \<Rightarrow> bool" for E where
  submit: "SubmitContribution (db_runtime E) db_contribution_svc u inp d = (r, d') \<Longrightarrow> decision_step E d d'"
| withdraw: "WithdrawContribution db_contribution_svc u i d = (r, d') \<Longrightarrow> decision_step E d d'"
| approve_http: "decide E db_contribution_svc a i (Approve t a note) d = (resp, d') \<Longrightarrow> decision_step E d d'"
| reject_http: "decide E db_contribution_svc a i (Reject t a note) d = (resp, d') \<Longrightarrow> decision_step E d d'"
| approve: "ApproveContribution (db_runtime E) (db_moderation_svc E) a i note d = (r, d') \<Longrightarrow> decision_step E d d'"
| reject: "RejectContribution (db_runtime E) (db_moderation_svc E) a i note d = (r, d') \<Longrightarrow> decision_step E d d'"

inductive_cases decision_stepE: "decision_step E d d'"

lemma contribution_fields [simp]:
  "cs_repo db_contribution_svc = PostgresContributionRepository"
  "cs_words db_contribution_svc = word_Exists" "cs_verifier db_contribution_svc = IsEmailVerified_check"
  "crp_Create PostgresContributionRepository = ContribRepo_Create"
  "crp_FindByID PostgresContributionRepository = ContribRepo_FindByID"
  "crp_Update PostgresContributionRepository = ContribRepo_Update"
  by (simp_all add: db_contribution_svc_def PostgresContributionRepository_def)

lemmas find_contribution_row = pg_contributions.find_contribution_Inr [unfolded contribution_fields]
lemmas update_contribution_row = pg_contributions.update_step [unfolded contribution_fields]

lemma store_transition:
  assumes "db_ok d" "db_contribution d i = Some c" "contribution_step c c'" "ContribRepo_Update c' d1 = (r, d')"
    and "db_ok d1" "db_contribution d1 = db_contribution d"
  shows "db_ok d' \<and> evolves (db_contribution d) (db_contribution d')"
  using update_contribution_row(1) [OF assms(5) _ assms(3,4), of i] assms(2,6)
    evolves_update [where C = "db_contribution d" and i = i, OF assms(2,3)]
  by auto

text \<open>Each operation leaves the state as it is, or it loads a contribution, makes a transition and stores it.\<close>

lemma decide_parts:
  assumes run: "decide E db_contribution_svc a i change d = (resp, d')"
  obtains (same) "d' = d"
  | (stored) c c' u where "db_contribution d i = Some c" "change c = Inr c'" "ContribRepo_Update c' d = (u, d')"
proof -
  obtain g d1 where g: "GetContribution db_contribution_svc a ''admin'' i d = (g, d1)" by fastforce
  have d1: "d1 = d"
    using g by (auto simp: GetContribution_def ContribRepo_FindByID_run prog_defs split: option.splits if_splits)
  show thesis
  proof (cases g)
    case (Inl e)
    with run g d1 show ?thesis by (intro same) (simp add: decide_def)
  next
    case (Inr c)
    with g have c: "db_contribution d i = Some c"
      using pg_contributions.get_authorised [of db_contribution_svc a "''admin''" i d c d1] by simp
    show ?thesis
    proof (cases "change c")
      case (Inl e)
      with run g d1 \<open>g = Inr c\<close> show ?thesis by (intro same) (simp add: decide_def)
    next
      case (Inr c')
      obtain u d2 where u: "ContribRepo_Update c' d = (u, d2)" by fastforce
      with run g Inr \<open>g = Inr c\<close> d1 have "d' = d2" by (simp add: decide_def Update_contribution_def split: sum.splits)
      with c Inr u show ?thesis by (intro stored) simp_all
    qed
  qed
qed

lemma decide_evolves:
  assumes d: "db_ok d" and step: "\<And>c c'. change c = Inr c' \<Longrightarrow> contribution_step c c'"
    and run: "decide E db_contribution_svc a i change d = (resp, d')"
  shows "db_ok d' \<and> evolves (db_contribution d) (db_contribution d')"
  using run
proof (cases rule: decide_parts)
  case same
  with d show ?thesis by simp
next
  case (stored c c' u)
  from store_transition [OF d stored(1) step [OF stored(2)] stored(3) d refl] show ?thesis .
qed

lemma Approve_step: "Approve t a note c = Inr c' \<Longrightarrow> contribution_step c c'"
  by (rule contribution_step.approve)

lemma Reject_step: "Reject t a note c = Inr c' \<Longrightarrow> contribution_step c c'"
  by (rule contribution_step.reject)

lemma ModApprove_parts:
  fixes d :: "'z db_scheme"
  assumes run: "ApproveContribution (db_runtime E) (db_moderation_svc E) a i note d = (r, d')"
  obtains (same) "d' = d"
  | (merged) c c' m d1 u d2 where "db_contribution d i = Some c" "Approve (db_now d) a note c = Inr c'"
      "mergeContribution (db_runtime E) (db_moderation_svc E) c' d = (m, d1)" "ContribRepo_Update c' d1 = (u, d2)"
      "d' = d1 \<or> d' = d2 \<or> (\<exists>r2. log_action (db_runtime E) (db_moderation_svc E) a ActionApproveContribution
        ''contribution'' i None d2 = (r2, d'))"
proof (cases "db_contribution d i")
  case None
  then show ?thesis
    using run by (intro same) (simp add: ApproveContribution_def ContribRepo_FindByID_run prog_defs)
next
  case (Some c)
  show ?thesis
  proof (cases "Approve (db_now d) a note c")
    case (Inl e)
    then show ?thesis
      using run Some
      by (intro same) (simp add: ApproveContribution_def ContribRepo_FindByID_run prog_defs nowP_def db_runtime_def)
  next
    case (Inr c')
    obtain m d1 where m: "mergeContribution (db_runtime E) (db_moderation_svc E) c' d = (m, d1)" by fastforce
    obtain u d2 where u: "ContribRepo_Update c' d1 = (u, d2)" by fastforce
    show ?thesis
      using run Some Inr m u
      by (intro merged [OF Some Inr m u])
        (auto simp: ApproveContribution_def ContribRepo_FindByID_run bindP_def elseP_def sumP_def nowP_def getP_def
          db_runtime_def split: sum.splits)
  qed
qed

lemma ModApprove_evolves:
  assumes d: "db_ok d" and run: "ApproveContribution (db_runtime E) (db_moderation_svc E) a i note d = (r, d')"
  shows "evolves (db_contribution d) (db_contribution d')"
  using run
proof (cases rule: ModApprove_parts)
  case (merged c c' m d1 u d2)
  have d1: "db_ok d1" "db_contribution d1 = db_contribution d"
    using keepsD [OF keeps_mergeContribution d merged(3)]
      framesD [OF frames_contribution [OF frames_merge [OF blind_tables(1)]] merged(3)] by auto
  note st = store_transition [OF d merged(1) Approve_step [OF merged(2)] merged(4) d1]
  from merged(5) st d1 show ?thesis
    using framesD [OF frames_contribution [OF frames_log]] by fastforce
qed simp

lemma ModReject_parts:
  assumes run: "RejectContribution (db_runtime E) (db_moderation_svc E) a i reason d = (r, d')"
  obtains (same) "d' = d"
  | (stored) c c' u d2 where "db_contribution d i = Some c" "Reject (db_now d) a reason c = Inr c'"
      "ContribRepo_Update c' d = (u, d2)"
      "d' = d2 \<or> (\<exists>r2. log_action (db_runtime E) (db_moderation_svc E) a ActionRejectContribution
        ''contribution'' i (Some [(''note'', JStr reason)]) d2 = (r2, d'))"
proof (cases "reason = [] \<or> db_contribution d i = None")
  case True
  then show ?thesis
    using run by (intro same; cases "reason = []") (simp_all add: RejectContribution_def ContribRepo_FindByID_run prog_defs)
next
  case False
  then obtain c where Some: "db_contribution d i = Some c" and given: "reason \<noteq> []" by blast
  show ?thesis
  proof (cases "Reject (db_now d) a reason c")
    case (Inl e)
    then show ?thesis
      using run Some given
      by (intro same) (simp add: RejectContribution_def ContribRepo_FindByID_run prog_defs nowP_def db_runtime_def)
  next
    case (Inr c')
    obtain u d2 where u: "ContribRepo_Update c' d = (u, d2)" by fastforce
    show ?thesis
      using run Some Inr u given
      by (intro stored [OF Some Inr u])
        (auto simp: RejectContribution_def ContribRepo_FindByID_run bindP_def elseP_def sumP_def nowP_def getP_def
          rejectP_def db_runtime_def split: sum.splits)
  qed
qed

lemma ModReject_evolves:
  assumes d: "db_ok d" and run: "RejectContribution (db_runtime E) (db_moderation_svc E) a i reason d = (r, d')"
  shows "evolves (db_contribution d) (db_contribution d')"
  using run
proof (cases rule: ModReject_parts)
  case (stored c c' u d2)
  note st = store_transition [OF d stored(1) Reject_step [OF stored(2)] stored(3) d refl]
  from stored(4) st show ?thesis using framesD [OF frames_contribution [OF frames_log]] by fastforce
qed simp

lemma Withdraw_parts:
  assumes run: "WithdrawContribution db_contribution_svc u i d = (r, d')"
  obtains (same) "d' = d"
  | (stored) c c' x where "db_contribution d i = Some c" "Withdraw u c = Inr c'" "ContribRepo_Update c' d = (x, d')"
proof (cases "db_contribution d i")
  case None
  then show ?thesis
    using run by (intro same) (simp add: WithdrawContribution_def ContribRepo_FindByID_run prog_defs)
next
  case (Some c)
  show ?thesis
  proof (cases "Withdraw u c")
    case (Inl e)
    with run Some show ?thesis
      by (intro same) (simp add: WithdrawContribution_def ContribRepo_FindByID_run prog_defs)
  next
    case (Inr c')
    obtain x d2 where u: "ContribRepo_Update c' d = (x, d2)" by fastforce
    with run Some Inr have "d' = d2"
      by (auto simp: WithdrawContribution_def ContribRepo_FindByID_run prog_defs split: sum.splits)
    with Some Inr u show ?thesis by (intro stored) simp_all
  qed
qed

lemma Withdraw_evolves:
  assumes d: "db_ok d" and run: "WithdrawContribution db_contribution_svc u i d = (r, d')"
  shows "evolves (db_contribution d) (db_contribution d')"
  using run
proof (cases rule: Withdraw_parts)
  case (stored c c' x)
  from store_transition [OF d stored(1) contribution_step.withdraw [OF stored(2)] stored(3) d refl] show ?thesis by simp
qed simp

lemma frames_submit_checks [frame_intros]:
  "frames f (IsEmailVerified_check u)" "frames f (word_Exists i)"
  unfolding IsEmailVerified_check_def word_Exists_def by (intro frame_intros)+

lemma frames_NewContribution [frame_intros]:
  "frames db_contributions (NewContribution (db_runtime E) u ty t p)"
  unfolding NewContribution_def by (intro frame_intros)

lemma NewContribution_pending:
  "NewContribution R u ty t p s = (Inr c, s') \<Longrightarrow>
     cb_status c = StatusPending \<and> cb_reviewer c = None \<and> cb_note c = None \<and> cb_reviewed_at c = None \<and>
     cb_contributor c = u \<and> cb_type c = ty \<and> cb_target c = t \<and> cb_payload c = p"
  by (auto simp: NewContribution_def prog_Inr)

lemma Submit_evolves:
  fixes d :: "'a db_scheme"
  assumes d: "db_ok d" and run: "SubmitContribution (db_runtime E) db_contribution_svc u inp d = (r, d')"
  shows "evolves (db_contribution d) (db_contribution d')"
proof -
  let ?check = "case ci_target inp of
              Some t \<Rightarrow>
                if ci_type inp \<noteq> ContributionTypeNewWord then
                  bindP (word_Exists t) (\<lambda>exists.
                  rejectP (\<not> exists) (CommunityCmd ErrTargetWordNotFound) (retP ()))
                else retP ()
            | None \<Rightarrow> (retP () :: ('a db_scheme, err, unit) prog)"
  let ?rest = "bindP ?check (\<lambda>_.
     bindP (NewContribution (db_runtime E) u (ci_type inp) (ci_target inp) (ci_payload inp)) ContribRepo_Create)"
  have quiet: "frames db_contributions ?check" by (auto split: option.split intro!: frame_intros)
  have "evolves (db_contribution d) (db_contribution d')" if "?rest d = (r, d')" for r d'
  proof -
    obtain x d1 where x: "?check d = (x, d1)" by fastforce
    have ok1: "keeps db_ok ?check" by (auto split: option.split intro!: triple_intros)
    from framesD [OF quiet x] have d1: "db_contribution d1 = db_contribution d"
      by (simp add: db_contribution_def fun_eq_iff)
    show ?thesis
    proof (cases x)
      case (Inl e) with that x d1 show ?thesis by (simp add: bindP_def)
    next
      case (Inr y)
      obtain z d2 where z: "NewContribution (db_runtime E) u (ci_type inp) (ci_target inp) (ci_payload inp) d1 = (z, d2)"
        by fastforce
      have d2: "db_contribution d2 = db_contribution d"
        using framesD [OF frames_contribution [OF frames_NewContribution] z] d1 by simp
      show ?thesis
      proof (cases z)
        case (Inl e) with that x z d2 Inr show ?thesis by (simp add: bindP_def)
      next
        case (Inr c)
        note new = NewContribution_pending [OF z [unfolded Inr]]
        from that x z Inr \<open>x = Inr y\<close> have c: "ContribRepo_Create c d2 = (r, d')" by (simp add: bindP_def)
        show ?thesis
        proof (cases r)
          case (Inl e)
          with c have "d' = d2" using pg_contributions.create_contribution_err [of c d2 e d'] by simp
          with d2 show ?thesis by simp
        next
          case (Inr c')
          with ContribRepo_Create_ok [of c d2 c' d'] c new d2 show ?thesis
            by (auto intro!: evolves_new)
        qed
      qed
    qed
  qed
  moreover obtain v d0 where v: "IsEmailVerified_check u d = (v, d0)" by fastforce
  then have "d0 = d" by (auto simp: IsEmailVerified_check_def readP_def split: option.splits)
  ultimately show ?thesis
    using run v unfolding SubmitContribution_def contribution_fields bindP_def [of "IsEmailVerified_check u"]
    by (cases v) (auto simp: failP_def rejectP_def [where e = "CommunityCmd ErrEmailNotVerified"] split: if_splits)
qed

section \<open>Any sequence of operations\<close>

theorem decision_step_ok: "decision_step E d d' \<Longrightarrow> db_ok d \<Longrightarrow> db_ok d'"
  by (erule decision_step.cases)
    (auto dest: keepsD [OF keeps_contribution_commands(1)] keepsD [OF keeps_contribution_commands(2)]
      keepsD [OF keeps_moderation_commands(1)] keepsD [OF keeps_moderation_commands(2)]
      decide_evolves [OF _ Approve_step] decide_evolves [OF _ Reject_step])

theorem decision_step_evolves:
  "decision_step E d d' \<Longrightarrow> db_ok d \<Longrightarrow> evolves (db_contribution d) (db_contribution d')"
  by (erule decision_step.cases)
    (auto dest: Submit_evolves Withdraw_evolves ModApprove_evolves ModReject_evolves
      decide_evolves [OF _ Approve_step] decide_evolves [OF _ Reject_step])

definition same_content :: "contribution \<Rightarrow> contribution \<Rightarrow> bool" where
  "same_content c c' \<longleftrightarrow> cb_id c' = cb_id c \<and> cb_type c' = cb_type c \<and> cb_contributor c' = cb_contributor c \<and>
     cb_target c' = cb_target c \<and> cb_payload c' = cb_payload c \<and> cb_submitted_at c' = cb_submitted_at c"

lemma evolves_Some:
  "evolves C C' \<Longrightarrow> C i = Some c \<Longrightarrow>
     \<exists>c'. C' i = Some c' \<and> same_content c c' \<and> (cb_status c \<noteq> StatusPending \<longrightarrow> c' = c)"
  by (auto simp: evolves_def same_content_def dest!: spec [of _ i] contribution_step_status)

lemma decision_steps_content:
  assumes "(decision_step E)\<^sup>*\<^sup>* d d'" "db_ok d" "db_contribution d i = Some c"
  shows "db_ok d' \<and> (\<exists>c'. db_contribution d' i = Some c' \<and> same_content c c' \<and>
    (cb_status c \<noteq> StatusPending \<longrightarrow> c' = c))"
  using assms
proof (induction rule: rtranclp_induct)
  case base
  then show ?case by (simp add: same_content_def)
next
  case (step d1 d2)
  then obtain c1 where c1: "db_ok d1" "db_contribution d1 i = Some c1" "same_content c c1"
    "cb_status c \<noteq> StatusPending \<longrightarrow> c1 = c" by blast
  from evolves_Some [OF decision_step_evolves [OF step(2) c1(1)] c1(2)] c1 decision_step_ok [OF step(2) c1(1)]
  show ?case by (auto simp: same_content_def)
qed

end
