(* ===== verification/Sample.thy ===== *)
theory Sample
  imports Decisions
begin

text \<open>
  A small database on which the hypotheses of the properties are met: a contributor (1), an
  admin (2) and a member whose address is not verified (3), a word (9) with a definition (11), a
  pending (21) and an approved (22) contribution, a comment (31) and a request to the language
  model (41).
\<close>

definition sample_user :: "uuid \<Rightarrow> string \<Rightarrow> string \<Rightarrow> time option \<Rightarrow> user_row" where
  "sample_user i email role verified =
     \<lparr>ur_id = i, ur_name = ''u'', ur_email = email, ur_password_hash = ''$password'', ur_role = role,
      ur_is_active = True, ur_email_verified_at = verified, ur_created_at = 0, ur_updated_at = 0\<rparr>"

definition sample_word :: word_row where
  "sample_word =
     \<lparr>wr_id = 9, wr_banjar = ''banyu'', wr_syllabified = None, wr_dialect = ''hulu'', wr_word_class = ''n'',
      wr_homonym = 1, wr_is_root = True, wr_root = None, wr_status = ''active'', wr_source = ''seeded'',
      wr_reference = None, wr_created_by = None, wr_created_at = 0, wr_updated_at = 0, wr_deleted_at = None\<rparr>"

definition sample_definition :: definition_row where
  "sample_definition =
     \<lparr>dr_id = 11, dr_word = 9, dr_meaning = ''air'', dr_sort_order = 1, dr_source = ''seeded'',
      dr_upvotes = 0, dr_downvotes = 0, dr_created_at = 0, dr_updated_at = 0\<rparr>"

definition sample_contribution :: "uuid \<Rightarrow> string \<Rightarrow> uuid option \<Rightarrow> contribution_row" where
  "sample_contribution i status reviewer =
     \<lparr>cr_id = i, cr_type = ''new_definition'', cr_contributor = 1, cr_target = Some 9,
      cr_payload = JObj [(''meaning'', JStr ''sungai'')], cr_status = status, cr_reviewer = reviewer,
      cr_note = None, cr_submitted_at = 0, cr_reviewed_at = None\<rparr>"

definition sample_comment :: comment_row where
  "sample_comment =
     \<lparr>mr_id = 31, mr_user = 1, mr_type = ''word'', mr_target = 9, mr_body = ''bagus'', mr_flagged = False,
      mr_created_at = 0, mr_updated_at = 0\<rparr>"

definition sample_ai :: ai_row where
  "sample_ai =
     \<lparr>qr_id = 41, qr_type = ''suggest_related'', qr_word = Some 9, qr_contribution = None,
      qr_requested_by = 2, qr_model = ''m'', qr_prompt = ''p'', qr_response = None, qr_parsed = None,
      qr_status = ''pending'', qr_review = ''unreviewed'', qr_reviewed_by = None, qr_reviewed_at = None,
      qr_created_at = 0\<rparr>"

definition sample_db :: db where
  "sample_db = (db_empty 7)\<lparr>
     db_users := [sample_user 1 ''a@b.co'' ''user'' (Some 0), sample_user 2 ''b@b.co'' ''admin'' (Some 0),
                  sample_user 3 ''c@b.co'' ''user'' None],
     db_words := [sample_word], db_definitions := [sample_definition],
     db_contributions := [sample_contribution 21 ''pending'' None, sample_contribution 22 ''approved'' (Some 2)],
     db_comments := [sample_comment], db_ai_requests := [sample_ai]\<rparr>"

lemma sample_fields [simp]:
  "db_now sample_db = 7" "db_draws sample_db = 0" "db_words sample_db = [sample_word]"
  "db_definitions sample_db = [sample_definition]" "db_examples sample_db = []" "db_votes sample_db = []"
  "db_bookmarks sample_db = []" "db_comments sample_db = [sample_comment]" "db_audit_logs sample_db = []"
  "db_ai_requests sample_db = [sample_ai]"
  "db_contributions sample_db =
     [sample_contribution 21 ''pending'' None, sample_contribution 22 ''approved'' (Some 2)]"
  "db_users sample_db = [sample_user 1 ''a@b.co'' ''user'' (Some 0), sample_user 2 ''b@b.co'' ''admin'' (Some 0),
     sample_user 3 ''c@b.co'' ''user'' None]"
  by (simp_all add: sample_db_def db_empty_def)

lemma sample_user_fields [simp]:
  "ur_id (sample_user i e r v) = i" "ur_email (sample_user i e r v) = e" "ur_role (sample_user i e r v) = r"
  "ur_email_verified_at (sample_user i e r v) = v" "ur_is_active (sample_user i e r v) = True"
  by (simp_all add: sample_user_def)

lemma sample_row_fields [simp]:
  "wr_id sample_word = 9" "wr_deleted_at sample_word = None" "dr_id sample_definition = 11"
  "dr_word sample_definition = 9" "cr_id (sample_contribution i st rv) = i"
  "cr_status (sample_contribution i st rv) = st" "mr_id sample_comment = 31" "mr_user sample_comment = 1"
  "mr_flagged sample_comment = False" "qr_id sample_ai = 41"
  by (simp_all add: sample_word_def sample_definition_def sample_contribution_def sample_comment_def sample_ai_def)

lemma sample_ids [simp]:
  "user_ids sample_db = {1, 2, 3}" "contribution_ids (d\<lparr>db_draws := n\<rparr>) = contribution_ids d" "word_ids sample_db = {9}" "contribution_ids sample_db = {21, 22}"
  by (simp_all add: user_ids_def word_ids_def contribution_ids_def)

lemma sample_live_words [simp]: "live_word_ids sample_db = {9}" "definition_ids sample_db = {11}"
  by (auto simp: live_word_ids_def definition_ids_def)

lemma sample_db_ok [simp]: "db_ok sample_db"
proof -
  have "users_ok (db_users sample_db)" by (simp add: users_ok_def RoleUser_def RoleAdmin_def)
  moreover have "words_ok (user_ids sample_db) (db_words sample_db)"
    by (simp add: words_ok_def word_row_ok_def sample_word_def dialect_enum_def word_class_enum_def
        word_status_enum_def word_source_enum_def)
  moreover have "definitions_ok (word_ids sample_db) (db_definitions sample_db)"
    by (simp add: definitions_ok_def sample_definition_def word_source_enum_def)
  moreover have "contributions_ok (user_ids sample_db) (word_ids sample_db) (db_contributions sample_db)"
    by (simp add: contributions_ok_def contribution_row_ok_def sample_contribution_def
        contribution_type_enum_def contribution_status_enum_def)
  moreover have "comments_ok (user_ids sample_db) (db_comments sample_db)"
    by (simp add: comments_ok_def sample_comment_def comment_target_enum_def)
  moreover have "ai_ok (user_ids sample_db) (word_ids sample_db) (contribution_ids sample_db) (db_ai_requests sample_db)"
    by (simp add: ai_ok_def sample_ai_def)
  ultimately show ?thesis
    by (simp add: db_ok_def examples_ok_def votes_ok_def bookmarks_ok_def audit_ok_def)
qed

definition pending_contribution :: contribution where
  "pending_contribution =
     \<lparr>cb_id = 21, cb_type = ''new_definition'', cb_contributor = 1, cb_target = Some 9,
      cb_payload = Some [(''meaning'', JStr ''sungai'')], cb_status = StatusPending, cb_reviewer = None,
      cb_note = None, cb_submitted_at = 0, cb_reviewed_at = None\<rparr>"

lemma sample_contributions:
  "db_contribution sample_db 21 = Some pending_contribution"
  "db_contribution sample_db 22 =
     Some (pending_contribution\<lparr>cb_id := 22, cb_status := StatusApproved, cb_reviewer := Some 2\<rparr>)"
  by (simp_all add: db_contribution_def table_simps rowToContribution_def sample_contribution_def
      pending_contribution_def unmarshal_map_def StatusPending_def StatusApproved_def)

section \<open>Requests\<close>

text \<open>A request for the row \<open>i\<close> with the claims of the user \<open>u\<close>\<close>

definition sample_request :: "uuid \<Rightarrow> uuid \<Rightarrow> string \<Rightarrow> 'b \<Rightarrow> 'b request" where
  "sample_request i u role body =
     \<lparr>rq_header = (\<lambda>_. []), rq_query = (\<lambda>_. []), rq_param = (\<lambda>_. x_uuid_string demo_ext i), rq_ip = [],
      rq_body = (body, True),
      rq_locals = Some \<lparr>cl_user_id = x_uuid_string demo_ext u, cl_role = role, cl_subject = [],
        cl_issued_at = None, cl_expires_at = None\<rparr>\<rparr>"

lemma demo_uuid_parse [simp]: "x_uuid_parse demo_ext (x_uuid_string demo_ext i) = (i, True)"
  using demo_uuid_text_ok by (simp add: uuid_text_ok_def)

lemma sample_request_fields [simp]:
  "rq_param (sample_request i u role body) = (\<lambda>_. x_uuid_string demo_ext i)"
  "rq_query (sample_request i u role body) = (\<lambda>_. [])"
  "rq_body (sample_request i u role body) = (body, True)"
  "rq_locals (sample_request i u role body) = Some \<lparr>cl_user_id = x_uuid_string demo_ext u, cl_role = role,
     cl_subject = [], cl_issued_at = None, cl_expires_at = None\<rparr>"
  by (simp_all add: sample_request_def)

lemma db_runtime_run [simp]:
  "rt_now (db_runtime E) = db_now"
  "rt_uuid (db_runtime E) d = (x_new_uuid E (db_draws d), d\<lparr>db_draws := Suc (db_draws d)\<rparr>)"
  "uuidP (db_runtime E) d = (Inr (x_new_uuid E (db_draws d)), d\<lparr>db_draws := Suc (db_draws d)\<rparr>)"
  "nowP (db_runtime E) d = (Inr (db_now d), d)"
  by (simp_all add: db_runtime_def uuidP_def nowP_def getP_def)

lemma demo_draws [simp]: "x_new_uuid demo_ext n = word_of_nat (100 + n)"
  by (simp add: demo_ext_def)

end
