(* ===== verification/Community_Properties.thy ===== *)
theory Community_Properties
  imports Sample
begin

text \<open>
  Properties of the community context on the PostgreSQL repositories: the life of contributions,
  votes, bookmarks, and comments.
\<close>

section \<open>Contributions\<close>

text \<open>C3. Whatever sequence of operations on contributions runs, by whatever callers, no contribution is lost, its
  author, type, target, payload and time of submission never change, and once it is decided or withdrawn it never
  changes at all.\<close>

theorem contribution_history_final:
  assumes "(decision_step E)\<^sup>*\<^sup>* d d'" and "db_ok d" and "db_contribution d i = Some c"
  shows "db_ok d' \<and> (\<exists>c'. db_contribution d' i = Some c' \<and> same_content c c' \<and>
    (cb_status c \<noteq> StatusPending \<longrightarrow> c' = c))"
  using decision_steps_content [OF assms] .

lemma contribution_reviewer_ok:
  assumes "db_ok d" "db_contribution d i = Some c"
  shows "opt_in (cb_reviewer c) (user_ids d)"
  using assms
  by (auto simp: db_contribution_def rowToContribution_def db_ok_def contributions_ok_def contribution_row_ok_def
      dest!: lookup_by_Some)

text \<open>C25. Withdrawing succeeds exactly for a pending contribution of the caller; otherwise the error says what is
  wrong, and the database is as it was.\<close>

theorem withdraw_cases:
  assumes "db_ok d"
  shows "case db_contribution d i of
      None \<Rightarrow> WithdrawContribution db_contribution_svc u i d = (Inl (Community ErrContributionNotFound), d)
    | Some c \<Rightarrow>
        if cb_contributor c \<noteq> u
        then WithdrawContribution db_contribution_svc u i d = (Inl (Community ErrForbidden), d)
        else if cb_status c \<noteq> StatusPending
        then WithdrawContribution db_contribution_svc u i d = (Inl (Community ErrInvalidTransition), d)
        else \<exists>d'. WithdrawContribution db_contribution_svc u i d = (Inr (c\<lparr>cb_status := StatusWithdrawn\<rparr>), d') \<and>
          db_ok d' \<and> db_contribution d' = (db_contribution d)(i \<mapsto> c\<lparr>cb_status := StatusWithdrawn\<rparr>)"
proof (cases "db_contribution d i")
  case None
  then show ?thesis by (simp add: WithdrawContribution_def ContribRepo_FindByID_run prog_defs)
next
  case (Some c)
  let ?c = "c\<lparr>cb_status := StatusWithdrawn\<rparr>"
  have "opt_in (cb_reviewer c) (user_ids d)" "cb_id c = i"
    using contribution_reviewer_ok [OF assms Some] pg_contributions.contributions_id [OF Some] by auto
  then have up: "fst (ContribRepo_Update ?c d) = Inr ()"
    using Some by (simp add: ContribRepo_Update_run contribution_status_enum_def StatusWithdrawn_def)
  show ?thesis
  proof (cases "cb_contributor c = u \<and> cb_status c = StatusPending")
    case True
    obtain r d' where r: "ContribRepo_Update ?c d = (r, d')" by fastforce
    with up have "r = Inr ()" by simp
    with True Some r have run: "WithdrawContribution db_contribution_svc u i d = (Inr ?c, d')"
      by (simp add: WithdrawContribution_def ContribRepo_FindByID_run Withdraw_def prog_defs)
    from pg_contributions.withdraw_sound [OF assms contribution_fields(1) run] Some run True show ?thesis by auto
  qed (use Some in \<open>auto simp: WithdrawContribution_def ContribRepo_FindByID_run Withdraw_def prog_defs\<close>)
qed

theorem withdraw_cases_witness:
  "\<exists>d'. WithdrawContribution db_contribution_svc 1 21 sample_db =
      (Inr (pending_contribution\<lparr>cb_status := StatusWithdrawn\<rparr>), d') \<and> db_ok d' \<and>
    WithdrawContribution db_contribution_svc 2 21 sample_db = (Inl (Community ErrForbidden), sample_db)"
  using withdraw_cases [OF sample_db_ok, where i = 21 and u = 1] withdraw_cases [OF sample_db_ok, where i = 21 and u = 2]
  by (auto simp: sample_contributions pending_contribution_def)

theorem contribution_history_final_witness:
  "\<exists>d' c. decision_step demo_ext sample_db d' \<and> db_contribution sample_db 22 = Some c \<and>
    cb_status c = StatusApproved \<and> db_contribution d' 22 = Some c"
proof -
  obtain r d' where w: "WithdrawContribution db_contribution_svc 1 21 sample_db = (r, d')" by fastforce
  note st = decision_step.withdraw [OF w, of demo_ext]
  from contribution_history_final [OF r_into_rtranclp [of "decision_step demo_ext", OF st] sample_db_ok
      sample_contributions(2)] st sample_contributions(2) show ?thesis by auto
qed

text \<open>C24. A contribution that is accepted is pending, belongs to a caller whose address is verified, is of a known
  type, has a target that exists unless it is a new word, and is the only thing that the store gains.\<close>

theorem submitted_contribution:
  fixes d :: "'z db_scheme"
  assumes "db_ok d" and "SubmitContribution (db_runtime E) db_contribution_svc u inp d = (Inr c, d')"
  shows "(\<exists>r \<in> set (db_users d). ur_id r = u \<and> ur_email_verified_at r \<noteq> None) \<and> db_ok d' \<and>
    cb_status c = StatusPending \<and> cb_contributor c = u \<and> cb_type c = ci_type inp \<and> cb_target c = ci_target inp \<and>
    cb_payload c = ci_payload inp \<and> cb_type c \<in> set contribution_type_enum \<and>
    (cb_type c \<noteq> ContributionTypeNewWord \<longrightarrow> (\<exists>t \<in> live_word_ids d. cb_target c = Some t)) \<and>
    db_contribution d (cb_id c) = None \<and> db_contribution d' = (db_contribution d)(cb_id c \<mapsto> c)"
proof -
  from assms(2) obtain v c0 d1 where v: "IsEmailVerified_check u d = (Inr True, d)"
    and new: "NewContribution (db_runtime E) u (ci_type inp) (ci_target inp) (ci_payload inp) d = (Inr c0, d1)"
    and target: "ci_target inp = Some t \<Longrightarrow> ci_type inp \<noteq> ContributionTypeNewWord \<Longrightarrow> t \<in> live_word_ids d"
    and cr: "ContribRepo_Create c0 d1 = (Inr c, d')" for t
    by (auto simp: SubmitContribution_def prog_Inr IsEmailVerified_check_def pg_words_check.check_run
        split: option.splits if_splits)
  note pending = NewContribution_pending [OF new]
  have given: "ci_type inp \<noteq> ContributionTypeNewWord \<Longrightarrow> ci_target inp \<noteq> None"
    using new by (auto simp: NewContribution_def prog_Inr)
  note d1 = framesD [OF frames_contribution [OF frames_NewContribution] new]
  have c: "c = c0\<lparr>cb_submitted_at := db_now d1\<rparr> \<and> db_contribution d1 (cb_id c0) = None \<and>
      db_contribution d' = (db_contribution d1)(cb_id c0 \<mapsto> c)"
    using pending by (intro ContribRepo_Create_ok [OF cr]) simp_all
  have ty: "cb_type c0 \<in> set contribution_type_enum"
    using cr by (auto simp: ContribRepo_Create_def CreateContribution_def prog_Inr sqlP_Inr)
  have verified: "\<exists>r \<in> set (db_users d). ur_id r = u \<and> ur_email_verified_at r \<noteq> None"
    using v by (auto simp: IsEmailVerified_check_def readP_def split: option.splits dest!: lookup_by_Some)
  have known: "cb_type c \<noteq> ContributionTypeNewWord \<longrightarrow> (\<exists>t \<in> live_word_ids d. cb_target c = Some t)"
    using given target pending c by (cases "ci_target inp") auto
  show ?thesis
    using verified keepsD [OF keeps_contribution_commands(1) assms] pending ty known c d1
    by simp
qed

theorem submitted_contribution_witness:
  "\<exists>c d'. SubmitContribution (db_runtime demo_ext) db_contribution_svc 1
      \<lparr>ci_type = ''new_definition'', ci_target = Some 9, ci_payload = None\<rparr> sample_db = (Inr c, d') \<and>
    cb_contributor c = 1 \<and> db_contribution d' (cb_id c) = Some c"
proof -
  have "\<exists>c. fst (SubmitContribution (db_runtime demo_ext) db_contribution_svc 1
      \<lparr>ci_type = ''new_definition'', ci_target = Some 9, ci_payload = None\<rparr> sample_db) = Inr c"
    by (simp add: SubmitContribution_def IsEmailVerified_check_def pg_words_check.check_run prog_defs table_simps
        ContributionTypeNewWord_def NewContribution_def ContribRepo_Create_def
        CreateContribution_def sqlP_def contribution_type_enum_def user_ids_def word_ids_def Let_def)
  then obtain c d' where run: "SubmitContribution (db_runtime demo_ext) db_contribution_svc 1
      \<lparr>ci_type = ''new_definition'', ci_target = Some 9, ci_payload = None\<rparr> sample_db = (Inr c, d')"
    by (metis prod.collapse)
  from submitted_contribution [OF sample_db_ok run] run show ?thesis by auto
qed

text \<open>C26. The approval that is routed marks the contribution as approved and does nothing else: the proposed content
  is not merged into the dictionary and nothing is logged.\<close>

theorem approved_without_merge:
  fixes d :: "'z db_scheme"
  assumes "db_ok d" and "ApproveContribution_handler E (db_runtime E) db_contribution_svc c d = (resp, d')"
    and "rs_status resp = 200"
  shows "db_words d' = db_words d \<and> db_definitions d' = db_definitions d \<and> db_examples d' = db_examples d \<and>
    db_audit_logs d' = db_audit_logs d \<and>
    (\<exists>i x x'. x_uuid_parse E (rq_param c ''id'') = (i, True) \<and> db_contribution d i = Some x \<and> cb_status x = StatusPending \<and> cb_status x' = StatusApproved \<and>
      rs_body resp = DataBody (ContributionData x') \<and> db_contribution d' = (db_contribution d)(i \<mapsto> x'))"
proof -
  from assms(2,3) obtain i a nt x x' where get: "GetContribution db_contribution_svc a ''admin'' i d = (Inr x, d)"
    and ap: "Approve (db_now d) a nt x = Inr x'" and up: "ContribRepo_Update x' d = (Inr (), d')"
    and body: "rs_body resp = DataBody (ContributionData x')" "x_uuid_parse E (rq_param c ''id'') = (i, True)"
    by (auto simp: ApproveContribution_handler_def with_uuid_def with_claims_def decide_def Update_contribution_def
        panic_response_def ErrorHandler_def Send_def NotFound_def OK_def mapContributionError_def Let_def GetContribution_def
        ContribRepo_FindByID_run prog_defs split: prod.splits if_splits option.splits sum.splits)
  have x: "db_contribution d i = Some x"
    using pg_contributions.get_authorised [OF contribution_fields(1) get] by simp
  have "db_contribution d' = (db_contribution d)(i \<mapsto> x')"
    using update_contribution_row(2) [OF assms(1) x contribution_step.approve [OF ap] up] by simp
  moreover have "cb_status x = StatusPending" "cb_status x' = StatusApproved"
    using ap by (auto simp: Approve_def split: if_splits)
  moreover have "db_words d' = db_words d \<and> db_definitions d' = db_definitions d \<and> db_examples d' = db_examples d \<and>
    db_audit_logs d' = db_audit_logs d"
    using up by (auto simp: ContribRepo_Update_run split: if_splits option.splits)
  ultimately show ?thesis using x body by blast
qed

theorem approved_without_merge_witness:
  "\<exists>resp d' x'. ApproveContribution_handler demo_ext (db_runtime demo_ext) db_contribution_svc
      (sample_request 21 2 ''admin'' []) sample_db = (resp, d') \<and> rs_status resp = 200 \<and>
    db_contribution d' 21 = Some x' \<and> cb_status x' = StatusApproved \<and> db_definitions d' = db_definitions sample_db"
proof -
  obtain resp d' where run: "ApproveContribution_handler demo_ext (db_runtime demo_ext) db_contribution_svc
      (sample_request 21 2 ''admin'' []) sample_db = (resp, d')" by fastforce
  have "Approve 7 2 [] pending_contribution = Inr (pending_contribution\<lparr>cb_status := StatusApproved,
      cb_reviewer := Some 2, cb_reviewed_at := Some 7\<rparr>)"
    by (simp add: Approve_def pending_contribution_def note_option_def)
  with run have resp: "resp = OK (ContributionData (pending_contribution\<lparr>cb_status := StatusApproved,
      cb_reviewer := Some 2, cb_reviewed_at := Some 7\<rparr>))"
    by (simp add: ApproveContribution_handler_def with_uuid_def with_claims_def decide_def GetContribution_def
        ContribRepo_FindByID_run sample_contributions prog_defs Update_contribution_def ContribRepo_Update_run
        contribution_status_enum_def StatusApproved_def)
      (simp add: pending_contribution_def sample_contributions StatusApproved_def)
  then have "rs_status resp = 200" by (simp add: OK_def)
  from approved_without_merge [OF sample_db_ok run this] show ?thesis
    using run resp \<open>rs_status resp = 200\<close> by (auto simp: OK_def)
qed

section \<open>Votes\<close>

text \<open>C18. A vote that is accepted is the only vote of its user on its target, which exists: it replaces an older one
  under the identifier of the latter. The counters of the definitions stay as they are, and removing the vote leaves
  every other vote.\<close>

theorem one_vote_per_target:
  fixes d :: "'z db_scheme"
  assumes "db_ok d" and "CastVote (db_runtime E) db_vote_svc u ty t x d = (Inr v, d')"
  shows "(ty = VoteTargetWord \<and> t \<in> live_word_ids d \<or> ty = VoteTargetDefinition \<and> t \<in> definition_ids d) \<and>
    x \<in> {VoteUp, VoteDown} \<and> vt_value v = x \<and> db_ok d' \<and> db_vote d' = (db_vote d)((u, ty, t) \<mapsto> v) \<and>
    (\<forall>w. db_vote d (u, ty, t) = Some w \<longrightarrow> vt_id v = vt_id w) \<and> db_definitions d' = db_definitions d \<and>
    (\<exists>d''. RemoveVote db_vote_svc u ty t d' = (Inr (), d'') \<and> db_vote d'' = (db_vote d)((u, ty, t) := None))"
proof -
  let ?n = "db_draws d" and ?d = "d\<lparr>db_draws := Suc (db_draws d)\<rparr>"
  let ?v = "\<lparr>vt_id = x_new_uuid E ?n, vt_user = u, vt_type = ty, vt_target = t, vt_value = x, vt_created_at = db_now d\<rparr>"
  have target: "ty = VoteTargetWord \<and> t \<in> live_word_ids d \<or> ty = VoteTargetDefinition \<and> t \<in> definition_ids d"
    and x: "x \<in> {VoteUp, VoteDown}" and up: "VoteRepo_Upsert ?v ?d = (Inr v, d')"
    using assms(2) by (auto simp: CastVote_def CastVote_domain_def db_vote_svc_def PostgresVoteRepository_def prog_Inr
        pg_words_check.check_run pg_definitions_check.check_run VoteTargetWord_def VoteTargetDefinition_def
        split: if_splits)
  have ok: "db_ok ?d" using assms(1) by simp
  have old: "db_vote ?d = db_vote d" by (simp add: db_vote_def fun_eq_iff)
  note v = VoteRepo_Upsert_ok [OF ok up, unfolded old vote.simps]
  have ty: "ty \<in> {VoteTargetWord, VoteTargetDefinition}" using target by blast
  have "vs_repo db_vote_svc = PostgresVoteRepository" by (simp add: db_vote_svc_def)
  from pg_votes.remove_sound [OF conjunct1 [OF v] this ty, of u t] v
  have "\<exists>d''. RemoveVote db_vote_svc u ty t d' = (Inr (), d'') \<and> db_vote d'' = (db_vote d)((u, ty, t) := None)"
    by auto
  moreover have "db_definitions d' = db_definitions d"
    using up by (auto simp: VoteRepo_Upsert_def UpsertVote_def prog_Inr sqlP_Inr)
  ultimately show ?thesis using target x v by simp
qed

lemma sample_vote:
  "\<exists>v d'. CastVote (db_runtime demo_ext) db_vote_svc 1 VoteTargetDefinition 11 VoteUp sample_db = (Inr v, d')"
  by (simp add: CastVote_def CastVote_domain_def db_vote_svc_def PostgresVoteRepository_def prog_defs
      pg_definitions_check.check_run VoteTargetWord_def VoteTargetDefinition_def VoteUp_def VoteDown_def
      VoteRepo_Upsert_def UpsertVote_def sqlP_def vote_target_enum_def vote_value_enum_def user_ids_def one_row_def
      table_simps Let_def)

theorem one_vote_per_target_witness:
  "\<exists>v d'. CastVote (db_runtime demo_ext) db_vote_svc 1 VoteTargetDefinition 11 VoteUp sample_db = (Inr v, d') \<and>
     db_vote d' (1, VoteTargetDefinition, 11) = Some v \<and> db_definitions d' = [sample_definition]"
proof -
  obtain v d' where run: "CastVote (db_runtime demo_ext) db_vote_svc 1 VoteTargetDefinition 11 VoteUp sample_db =
      (Inr v, d')" using sample_vote by blast
  from one_vote_per_target [OF sample_db_ok run] run show ?thesis by auto
qed

section \<open>Bookmarks\<close>

context postgres
begin

lemmas bookmark_laws = bm.create_bookmark bm.create_bookmark_conflict bm.remove_sound

end

text \<open>C34. A bookmark that is added was not there and is on a word that is; adding it again is a conflict that changes
  no bookmark, and removing it restores the bookmarks as they were.\<close>

theorem bookmark_roundtrip:
  fixes d :: "'z db_scheme"
  assumes "sql_text_ok E" and "db_ok d" and "AddBookmark (db_runtime E) (db_bookmark_svc E) u w d = (Inr b, d')"
  shows "w \<in> live_word_ids d \<and> (u, w) \<notin> db_bookmark_keys d \<and>
    db_bookmark_keys d' = insert (u, w) (db_bookmark_keys d) \<and>
    (\<exists>d2. AddBookmark (db_runtime E) (db_bookmark_svc E) u w d' = (Inl (Community ErrBookmarkConflict), d2) \<and>
      db_bookmarks d2 = db_bookmarks d') \<and>
    (\<exists>d3. RemoveBookmark (db_bookmark_svc E) u w d' = (Inr (), d3) \<and> db_bookmark_keys d3 = db_bookmark_keys d \<and>
      RemoveBookmark (db_bookmark_svc E) u w d3 = (Inl (Community ErrBookmarkNotFound), d3))"
proof -
  note laws = postgres.bookmark_laws [OF postgres.intro [OF assms(1)]]
  have svc: "bs_repo (db_bookmark_svc E) = PostgresBookmarkRepository E" "bs_words (db_bookmark_svc E) = word_Exists"
    by (simp_all add: db_bookmark_svc_def)
  let ?b = "\<lambda>d. \<lparr>bm_id = x_new_uuid E (db_draws d), bm_user = u, bm_word = w, bm_created_at = db_now d\<rparr>"
  let ?d = "\<lambda>d. d\<lparr>db_draws := Suc (db_draws d)\<rparr>"
  have w: "w \<in> live_word_ids d" and cr: "brp_Create (PostgresBookmarkRepository E) (?b d) (?d d) = (Inr b, d')"
    using assms(3) by (auto simp: AddBookmark_def NewBookmark_def svc prog_Inr pg_words_check.check_run)
  have keys: "db_bookmark_keys (?d d) = db_bookmark_keys d" for d :: "'z db_scheme"
    by (simp add: db_bookmark_keys_def)
  have ok: "db_ok (?d d)" using assms(2) by simp
  note new = laws(1) [OF ok cr, unfolded keys bookmark.simps]
  have live: "live_word_ids d' = live_word_ids d"
    using cr by (auto simp: PostgresBookmarkRepository_def BookmarkRepo_Create_def CreateBookmark_def prog_Inr
        sqlP_Inr live_word_ids_def Let_def)
  have "brp_Create (PostgresBookmarkRepository E) (?b d') (?d d') = (Inl (Community ErrBookmarkConflict), ?d d')"
    by (rule laws(2)) (simp add: keys new)
  then have "AddBookmark (db_runtime E) (db_bookmark_svc E) u w d' = (Inl (Community ErrBookmarkConflict), ?d d')"
    using w live by (simp add: AddBookmark_def NewBookmark_def svc prog_defs pg_words_check.check_run)
  moreover obtain d3 where "RemoveBookmark (db_bookmark_svc E) u w d' = (Inr (), d3)" "db_ok d3"
    "db_bookmark_keys d3 = db_bookmark_keys d"
    using laws(3) [OF conjunct1 [OF new] svc(1), of u w] new by (auto simp: insert_Diff_if)
  moreover from this have "RemoveBookmark (db_bookmark_svc E) u w d3 = (Inl (Community ErrBookmarkNotFound), d3)"
    using laws(3) [of d3 "db_bookmark_svc E" u w] svc(1) new by simp
  ultimately show ?thesis using w new by auto
qed

theorem bookmark_roundtrip_witness:
  "\<exists>b d' d3. AddBookmark (db_runtime demo_ext) (db_bookmark_svc demo_ext) 1 9 sample_db = (Inr b, d') \<and>
     RemoveBookmark (db_bookmark_svc demo_ext) 1 9 d' = (Inr (), d3) \<and> db_bookmark_keys d3 = {}"
proof -
  have "\<exists>b d'. AddBookmark (db_runtime demo_ext) (db_bookmark_svc demo_ext) 1 9 sample_db = (Inr b, d')"
    by (simp add: AddBookmark_def NewBookmark_def db_bookmark_svc_def PostgresBookmarkRepository_def prog_defs
        pg_words_check.check_run BookmarkRepo_Create_def CreateBookmark_def sqlP_def user_ids_def word_ids_def Let_def)
  then obtain b d' where run: "AddBookmark (db_runtime demo_ext) (db_bookmark_svc demo_ext) 1 9 sample_db = (Inr b, d')"
    by blast
  from bookmark_roundtrip [OF demo_sql_text_ok sample_db_ok run] run show ?thesis
    by (auto simp: db_bookmark_keys_def)
qed

section \<open>Comments\<close>

lemma comment_svc_repo [simp]: "ms_repo db_comment_svc = PostgresCommentRepository"
  by (simp add: db_comment_svc_def)

lemma sample_comments: "db_comment sample_db 31 = Some (rowToComment sample_comment)"
    "cm_user (rowToComment sample_comment) = 1"
  by (simp_all add: db_comment_def table_simps rowToComment_def)

text \<open>Editing succeeds exactly when the comment exists, the caller wrote it and the new body is neither empty nor
  longer than 1000 runes; it changes this comment's body and time only.\<close>

theorem edit_comment_cases:
  fixes d :: "'z db_scheme"
  assumes "db_ok d"
  shows "case db_comment d i of
      None \<Rightarrow> EditComment (db_runtime E) db_comment_svc u i body d = (Inl (Community ErrCommentNotFound), d)
    | Some c \<Rightarrow>
        if cm_user c \<noteq> u
        then EditComment (db_runtime E) db_comment_svc u i body d = (Inl (Community ErrForbidden), d)
        else if body = []
        then EditComment (db_runtime E) db_comment_svc u i body d = (Inl (Community ErrEmptyBody), d)
        else if 1000 < rune_count body
        then EditComment (db_runtime E) db_comment_svc u i body d = (Inl (Community ErrBodyTooLong), d)
        else \<exists>d'. EditComment (db_runtime E) db_comment_svc u i body d =
            (Inr (c\<lparr>cm_body := body, cm_updated_at := db_now d\<rparr>), d') \<and> db_ok d' \<and>
          db_comment d' = (db_comment d)(i \<mapsto> c\<lparr>cm_body := body, cm_updated_at := db_now d\<rparr>)"
proof (cases "db_comment d i")
  case None
  then show ?thesis by (simp add: EditComment_def comment_svc_repo pg_comments.find_comment prog_defs)
next
  case (Some c)
  let ?c = "c\<lparr>cm_body := body, cm_updated_at := db_now d\<rparr>"
  have id: "cm_id c = i" using pg_comments.comments_id [OF Some] .
  obtain d' where "mrp_Update PostgresCommentRepository ?c d = (Inr ?c, d')" "db_ok d'"
    "db_comment d' = (db_comment d)(i \<mapsto> ?c)"
    using pg_comments.update_comment [OF assms, of ?c c] Some id by auto
  with Some show ?thesis
    by (auto simp: EditComment_def comment_svc_repo pg_comments.find_comment Edit_def body_error_def
        maxCommentBody_def prog_defs)
qed

theorem edit_comment_cases_witness:
  "EditComment (db_runtime demo_ext) db_comment_svc 2 31 ''baru'' sample_db = (Inl (Community ErrForbidden), sample_db) \<and>
   EditComment (db_runtime demo_ext) db_comment_svc 1 31 [] sample_db = (Inl (Community ErrEmptyBody), sample_db)"
  using edit_comment_cases [OF sample_db_ok, where i = 31 and u = 2 and body = "''baru''" and E = demo_ext]
    edit_comment_cases [OF sample_db_ok, where i = 31 and u = 1 and body = "[]" and E = demo_ext]
  by (simp add: sample_comments)

text \<open>Only the author and admins delete a comment; deleting leaves every other comment.\<close>

theorem delete_comment_cases:
  fixes d :: "'z db_scheme"
  assumes "db_ok d"
  shows "case db_comment d i of
      None \<Rightarrow> DeleteComment db_comment_svc u role i d = (Inl (Community ErrCommentNotFound), d)
    | Some c \<Rightarrow>
        if role = ''admin'' \<or> cm_user c = u
        then \<exists>d'. DeleteComment db_comment_svc u role i d = (Inr (), d') \<and> db_ok d' \<and>
          db_comment d' = (db_comment d)(i := None)
        else DeleteComment db_comment_svc u role i d = (Inl (Community ErrForbidden), d)"
  using pg_comments.delete_authorised [OF assms comment_svc_repo, of u role i]
    pg_comments.delete_comment [OF assms, of i]
  by (simp split: option.split)

theorem delete_comment_cases_witness:
  "\<exists>d'. DeleteComment db_comment_svc 2 ''admin'' 31 sample_db = (Inr (), d') \<and> db_comment d' 31 = None \<and>
     DeleteComment db_comment_svc 2 ''user'' 31 sample_db = (Inl (Community ErrForbidden), sample_db)"
  using delete_comment_cases [OF sample_db_ok, where i = 31 and u = 2 and role = "''admin''"]
    delete_comment_cases [OF sample_db_ok, where i = 31 and u = 2 and role = "''user''"]
  by (auto simp: sample_comments)

end
