(* ===== verification/Content_Invariant.thy ===== *)
theory Content_Invariant
  imports System_Invariant
begin

text \<open>
  An invariant of the whole program beside \<open>db_ok\<close>, on what the schema does not check: no comment
  carries the flag, as comments are created without it and the only statement that sets it is
  called by nobody (the repository stores a flagged comment with the statement that writes its
  text); the action of an audit log and the type of a request to the language model, both columns
  of type text, hold the declared values.
\<close>

definition ai_types :: "string list" where
  "ai_types = [AIRequestTypeEnrichDefinition, AIRequestTypeSuggestExample, AIRequestTypeSuggestRelated,
     AIRequestTypeQualityCheck]"

definition content_ok :: "'z db_scheme \<Rightarrow> bool" where
  "content_ok d \<longleftrightarrow>
     (\<forall>r \<in> set (db_comments d). \<not> mr_flagged r) \<and>
     (\<forall>l \<in> set (db_audit_logs d). ar_action l \<in> set validActions) \<and>
     (\<forall>q \<in> set (db_ai_requests d). qr_type q \<in> set ai_types)"

section \<open>Statements\<close>

lemma keeps_content_sql:
  "(\<And>d. db_comments (snd (act d)) = db_comments d) \<Longrightarrow> (\<And>d. db_audit_logs (snd (act d)) = db_audit_logs d) \<Longrightarrow>
     (\<And>d. db_ai_requests (snd (act d)) = db_ai_requests d) \<Longrightarrow> keeps content_ok (sqlP checks act)"
  by (rule keeps_sqlP) (simp add: content_ok_def)

lemma keeps_content_runtime [triple_intros]:
  "keeps content_ok (uuidP (db_runtime E))" "keeps content_ok (saltP (db_runtime E))"
  "keeps content_ok (rt_rand (db_runtime E) n)"
  by (simp_all add: keeps_def content_ok_def uuidP_def saltP_def db_runtime_def)

lemma keeps_content_comments [triple_intros]:
  "keeps content_ok (CreateComment i u ty t body)" "keeps content_ok (UpdateComment i body)"
  "keeps content_ok (DeleteComment_stmt i)"
proof -
  show "keeps content_ok (CreateComment i u ty t body)"
    unfolding CreateComment_def by (rule keeps_sqlP) (auto simp: content_ok_def Let_def)
  show "keeps content_ok (UpdateComment i body)"
    unfolding UpdateComment_def
    by (intro triple_intros) (auto simp: keeps_def content_ok_def dest!: set_update_where)
  show "keeps content_ok (DeleteComment_stmt i)"
    by (simp add: DeleteComment_stmt_def keeps_def content_ok_def)
qed

lemma keeps_content_statements [triple_intros]:
  "keeps content_ok (CreateUser r)" "keeps content_ok (UpdateUser r)" "keeps content_ok (CreateWord_stmt w)"
  "keeps content_ok (UpdateWord_stmt w)" "keeps content_ok (SoftDeleteWord_stmt i)" "keeps content_ok (UpsertWord w)"
  "keeps content_ok (DeleteDefinitionsByWordID i)" "keeps content_ok (DeleteExamplesByWordID i)"
  "keeps content_ok (UpsertDefinition x)" "keeps content_ok (UpsertExample y)"
  "keeps content_ok (CreateContribution i ty j t p)" "keeps content_ok (UpdateContribution i st rv nt tm)"
  "keeps content_ok (UpsertVote v)" "keeps content_ok (DeleteVote i vt i')" "keeps content_ok (CreateBookmark i j k)"
  "keeps content_ok (DeleteBookmark i j)"
  unfolding CreateUser_def UpdateUser_def CreateWord_stmt_def UpdateWord_stmt_def SoftDeleteWord_stmt_def
    UpsertWord_def DeleteDefinitionsByWordID_def DeleteExamplesByWordID_def UpsertDefinition_def UpsertExample_def
    CreateContribution_def UpdateContribution_def UpsertVote_def DeleteVote_def CreateBookmark_def
    DeleteBookmark_def
  by ((intro triple_intros keeps_content_sql; simp add: Let_def) | simp add: keeps_def content_ok_def)+

lemma keeps_content_ai [triple_intros]: "keeps content_ok (UpdateAIRequest q)"
  unfolding UpdateAIRequest_def
  by (rule keeps_sqlP) (auto simp: content_ok_def set_ai_columns_def dest!: set_update_where)

lemma keeps_content_create_ai: "qr_type q \<in> set ai_types \<Longrightarrow> keeps content_ok (CreateAIRequest q)"
  unfolding CreateAIRequest_def by (rule keeps_sqlP) (auto simp: content_ok_def)

lemma keeps_content_audit: "al_action l \<in> set validActions \<Longrightarrow> keeps content_ok (CreateAuditLog l)"
  unfolding CreateAuditLog_def CreateAuditLog_stmt_def by (rule keeps_sqlP) (auto simp: content_ok_def)

lemma keeps_content_redis [triple_intros]:
  "keeps content_ok (redis_set world_exec k v ttl)" "keeps content_ok (redis_get_cmd world_exec k)"
  "keeps content_ok (redis_del world_exec k)" "keeps content_ok (ml_verification (world_mailer E) a t)"
  "keeps content_ok (ml_reset (world_mailer E) a t)"
  by (simp_all add: keeps_mailer content_ok_def)
    (auto simp: redis_set_def redis_get_cmd_def redis_del_def keeps_def content_ok_def world_exec_def
      prog_defs split: prod.splits sum.splits option.splits)

section \<open>Repositories\<close>

lemma keeps_content_repositories [triple_intros]:
  "keeps content_ok (UserRepo_Create E u)" "keeps content_ok (UserRepo_Update u)"
  "keeps content_ok (UserRepo_FindByID i)" "keeps content_ok (UserRepo_FindByEmail e)"
  "keeps content_ok (upsertChildren w)" "keeps content_ok (WordRepo_SoftDelete i)"
  "keeps content_ok (VoteRepo_Upsert v)" "keeps content_ok (VoteRepo_Delete i ty j)"
  "keeps content_ok (BookmarkRepo_Create E b)" "keeps content_ok (BookmarkRepo_Delete i j)"
  "keeps content_ok (CommentRepo_Create cm)" "keeps content_ok (CommentRepo_Update cm)"
  "keeps content_ok (CommentRepo_Delete i)" "keeps content_ok (AiRepo_Update q)"
  unfolding UserRepo_Create_def UserRepo_Update_def UserRepo_FindByID_def UserRepo_FindByEmail_def
    upsertChildren_def WordRepo_SoftDelete_def
    VoteRepo_Upsert_def VoteRepo_Delete_def BookmarkRepo_Create_def BookmarkRepo_Delete_def CommentRepo_Create_def
    CommentRepo_Update_def CommentRepo_Delete_def AiRepo_Update_def
  by (intro triple_intros)+

lemma keeps_content_updates [triple_intros]:
  "keeps content_ok (ContribRepo_Create c)" "keeps content_ok (ContribRepo_Update c)"
  "keeps content_ok (WordRepo_Create E w)" "keeps content_ok (WordRepo_Update w)"
  unfolding ContribRepo_Create_def ContribRepo_Update_def WordRepo_Create_def WordRepo_Update_def
  by (intro triple_intros)+

lemma keeps_content_entities [triple_intros]:
  "keeps content_ok (NewWord (db_runtime E) b c dl)" "keeps content_ok (AddDefinition (db_runtime E) m i w)"
  "keeps content_ok (AddExample (db_runtime E) b j w)"
  "keeps content_ok (NewAuditLog (db_runtime E) a act ty t meta)"
  unfolding NewWord_def AddDefinition_def NewDefinition_def AddExample_def NewExample_def NewAuditLog_def
  by (intro triple_intros)+

lemma keeps_audited:
  assumes "\<And>l. al_action l \<in> set validActions \<Longrightarrow> keeps content_ok (k l)"
  shows "keeps content_ok (bindP (NewAuditLog (db_runtime E) a act ty t meta) k)"
proof (rule keepsI)
  fix d :: "'a db_scheme"
  assume d: "content_ok d"
  obtain x d1 where n: "NewAuditLog (db_runtime E) a act ty t meta d = (x, d1)" by fastforce
  from keepsD [OF keeps_content_entities(4) d n] have d1: "content_ok d1" .
  show "content_ok (snd (bindP (NewAuditLog (db_runtime E) a act ty t meta) k d))"
  proof (cases x)
    case (Inl e)
    with n d1 show ?thesis by (simp add: bindP_def)
  next
    case (Inr l)
    with n have "al_action l \<in> set validActions" by (auto simp: NewAuditLog_def prog_Inr)
    with assms d1 n Inr show ?thesis by (simp add: bindP_def keeps_def)
  qed
qed

lemma keeps_content_logs [triple_intros]:
  "keeps content_ok (log_action (db_runtime E) (db_moderation_svc E) a act ty t meta)"
  "keeps content_ok (ai_log (db_runtime E) (db_enrichment_svc E llm model) a act i)"
  unfolding log_action_def ai_log_def moderation_fields enrichment_fields
  by (intro keeps_audited triple_intros keeps_content_audit; assumption)+

lemma keeps_content_trigger:
  assumes "ctype \<in> set ai_types"
  shows "keeps content_ok (trigger (db_runtime E) (db_enrichment_svc E llm model) ctype w c a p)"
proof (rule keepsI)
  fix d :: "'a db_scheme"
  assume d: "content_ok d"
  obtain x d1 where n: "NewAIRequest (db_runtime E) ctype w c a model p d = (x, d1)" by fastforce
  have "keeps content_ok (NewAIRequest (db_runtime E) ctype w c a model p)"
    unfolding NewAIRequest_def by (intro triple_intros)
  from keepsD [OF this d n] have d1: "content_ok d1" .
  show "content_ok (snd (trigger (db_runtime E) (db_enrichment_svc E llm model) ctype w c a p d))"
  proof (cases x)
    case (Inl e)
    with n d1 show ?thesis by (simp add: trigger_def bindP_def)
  next
    case (Inr q)
    with n have "qr_type (ai_params q) \<in> set ai_types"
      using assms by (auto simp: NewAIRequest_def prog_Inr ai_params_def)
    from keeps_content_create_ai [OF this] have "keeps content_ok
        (bindP (arp_Create (es_repo (db_enrichment_svc E llm model)) q) (\<lambda>_. retP (q, (aq_id q, p))))"
      unfolding enrichment_fields AiRepo_Create_def by (intro triple_intros)
    with d1 n Inr show ?thesis by (simp add: trigger_def bindP_def [of "NewAIRequest _ _ _ _ _ _ _"] keeps_def)
  qed
qed

section \<open>Commands\<close>

lemma keeps_content_contributions [triple_intros]:
  "keeps content_ok (SubmitContribution (db_runtime E) db_contribution_svc u inp)"
  "keeps content_ok (WithdrawContribution db_contribution_svc u i)"
  "keeps content_ok (Update_contribution db_contribution_svc c)"
  unfolding SubmitContribution_def WithdrawContribution_def Update_contribution_def
    NewContribution_def community_repositories contribution_svc.simps contribution_repository.simps
  by (intro triple_intros)+

lemma keeps_content_votes [triple_intros]:
  "keeps content_ok (CastVote (db_runtime E) db_vote_svc u ty t x)" "keeps content_ok (RemoveVote db_vote_svc u ty t)"
proof -
  show "keeps content_ok (CastVote (db_runtime E) db_vote_svc u ty t x)"
    unfolding CastVote_def CastVote_domain_def community_repositories vote_svc.simps vote_repository.simps
    by (cases "ty = VoteTargetWord"; cases "ty = VoteTargetDefinition"; simp; intro triple_intros)
  show "keeps content_ok (RemoveVote db_vote_svc u ty t)"
    unfolding RemoveVote_def community_repositories vote_svc.simps vote_repository.simps by (intro triple_intros)
qed

lemma keeps_content_bookmarks [triple_intros]:
  "keeps content_ok (AddBookmark (db_runtime E) (db_bookmark_svc E) u w)"
  "keeps content_ok (RemoveBookmark (db_bookmark_svc E) u w)"
  unfolding AddBookmark_def RemoveBookmark_def NewBookmark_def community_repositories bookmark_svc.simps
    bookmark_repository.simps
  by (intro triple_intros)+

lemma keeps_content_comment_commands [triple_intros]:
  "keeps content_ok (PostComment (db_runtime E) db_comment_svc u w body)"
  "keeps content_ok (EditComment (db_runtime E) db_comment_svc u i body)"
  "keeps content_ok (DeleteComment db_comment_svc u role i)"
  "keeps content_ok (FlagComment (db_runtime E) db_comment_svc i)"
  unfolding PostComment_def EditComment_def DeleteComment_def FlagComment_def NewComment_def
    community_repositories comment_svc.simps comment_repository.simps
  by (intro triple_intros)+

lemma keeps_content_merge_definitions [triple_intros]: "keeps content_ok (merge_definitions (db_runtime E) n xs w)"
  by (induction xs arbitrary: n w) (auto simp: Let_def intro!: triple_intros split: sum.split)

lemma keeps_content_merge_examples [triple_intros]: "keeps content_ok (merge_examples (db_runtime E) xs w)"
  by (induction xs arbitrary: w) (auto simp: Let_def intro!: triple_intros)

lemma keeps_content_add_definitions [triple_intros]: "keeps content_ok (add_definitions (db_runtime E) n xs w)"
  by (induction xs arbitrary: n w) (auto intro!: triple_intros)

lemma keeps_content_add_examples [triple_intros]: "keeps content_ok (add_examples (db_runtime E) xs w)"
  by (induction xs arbitrary: w) (auto intro!: triple_intros)

lemma keeps_content_seed_definitions [triple_intros]: "keeps content_ok (seed_definitions E t i n ms)"
  by (induction ms arbitrary: n) (auto intro!: triple_intros)

lemma keeps_content_seed_examples [triple_intros]: "keeps content_ok (seed_examples E t i xs)"
proof (induction xs)
  case Nil
  then show ?case by (simp add: triple_intros)
next
  case (Cons x xs)
  then show ?case by (cases x) (auto intro!: triple_intros)
qed

lemma keeps_content_dictionary [triple_intros]:
  "keeps content_ok (CreateWord E (db_runtime E) (PostgresWordRepository E) a inp)"
  "keeps content_ok (UpdateWord E (db_runtime E) (PostgresWordRepository E) a t inp)"
  "keeps content_ok (SoftDeleteWord E (PostgresWordRepository E) t)"
  "keeps content_ok (seed_all E entries)" "keeps content_ok (seedAdmin E env)"
  unfolding CreateWord_def UpdateWord_def SoftDeleteWord_def Let_def PostgresWordRepository_def
    word_repository.simps seed_all_def seed_one_def upsertEntry_def seedAdmin_def
  by (intro triple_intros)+

lemma keeps_content_seed_main [triple_intros]: "keeps content_ok (seed_main E env connect file)"
  unfolding seed_main_def seed_dsn_def by (intro triple_intros)

lemma keeps_content_moderation [triple_intros]:
  "keeps content_ok (ApproveContribution (db_runtime E) (db_moderation_svc E) a i nt)"
  "keeps content_ok (RejectContribution (db_runtime E) (db_moderation_svc E) a i nt)"
  "keeps content_ok (BanUser (db_runtime E) (db_moderation_svc E) a u reason)"
  "keeps content_ok (UnbanUser (db_runtime E) (db_moderation_svc E) a u)"
  "keeps content_ok (ChangeUserRole (db_runtime E) (db_moderation_svc E) a u role)"
  unfolding ApproveContribution_def RejectContribution_def BanUser_def UnbanUser_def ChangeUserRole_def
    mergeContribution_def mergeNewWord_def mergeNewDefinition_def mergeNewExample_def mergeEditWord_def
    moderation_fields Let_def
  by (intro triple_intros)+

lemma keeps_content_triggers [triple_intros]:
  "keeps content_ok (TriggerDefinitionEnrichment (db_runtime E) (db_enrichment_svc E llm model) a i)"
  "keeps content_ok (TriggerExampleSuggestion (db_runtime E) (db_enrichment_svc E llm model) a i)"
  "keeps content_ok (TriggerRelatedWordSuggestion (db_runtime E) (db_enrichment_svc E llm model) a i)"
  "keeps content_ok (TriggerQualityCheck (db_runtime E) (db_enrichment_svc E llm model) a i)"
  "keeps content_ok (runLLM_store E (db_enrichment_svc E llm model) answer req)"
  unfolding TriggerDefinitionEnrichment_def TriggerExampleSuggestion_def TriggerRelatedWordSuggestion_def
    TriggerQualityCheck_def runLLM_store_def enrichment_fields
  by (intro triple_intros keeps_content_trigger; simp add: ai_types_def)+

lemma keeps_content_reviews [triple_intros]:
  "keeps content_ok (ApproveAIRequest (db_runtime E) (db_enrichment_svc E llm model) a i)"
  "keeps content_ok (RejectAIRequest (db_runtime E) (db_enrichment_svc E llm model) a i)"
  unfolding ApproveAIRequest_def RejectAIRequest_def mergeAIOutput_def merge_definition_def
    merge_example_def merge_related_def Let_def enrichment_fields
  by (intro triple_intros)+

lemma keeps_content_tokens [triple_intros]:
  "keeps content_ok (ts_StoreRefresh (NewTokenStore E world_exec) t v ttl)"
  "keeps content_ok (ts_GetRefresh (NewTokenStore E world_exec) t)"
  "keeps content_ok (ts_RevokeRefresh (NewTokenStore E world_exec) t)"
  "keeps content_ok (ts_StoreVerification (NewTokenStore E world_exec) t v ttl)"
  "keeps content_ok (ts_GetVerification (NewTokenStore E world_exec) t)"
  "keeps content_ok (ts_DeleteVerification (NewTokenStore E world_exec) t)"
  "keeps content_ok (ts_StoreReset (NewTokenStore E world_exec) t v ttl)"
  "keeps content_ok (ts_GetReset (NewTokenStore E world_exec) t)"
  "keeps content_ok (ts_DeleteReset (NewTokenStore E world_exec) t)"
  by (simp_all add: token_defs triple_intros)

lemma keeps_content_identity [triple_intros]:
  "keeps content_ok (RegisterUser E (db_runtime E) (world_identity E) n e p pc)"
  "keeps content_ok (VerifyEmail E (db_runtime E) (world_identity E) t)"
  "keeps content_ok (LoginUser E (db_runtime E) secret (world_identity E) e p)"
  "keeps content_ok (RefreshToken E (db_runtime E) secret (world_identity E) t)"
  "keeps content_ok (LogoutUser (world_identity E) t)"
  "keeps content_ok (ForgotPassword E (db_runtime E) (world_identity E) e)"
  "keeps content_ok (ResetPassword E (db_runtime E) (world_identity E) t p pc)"
  "keeps content_ok (UpdateProfile E (db_runtime E) (world_identity E) u n)"
  "keeps content_ok (ChangePassword E (db_runtime E) (world_identity E) u p q)"
  unfolding RegisterUser_def VerifyEmail_def LoginUser_def RefreshToken_def LogoutUser_def ForgotPassword_def
    ResetPassword_def UpdateProfile_def ChangePassword_def randomHex_def NewUser_def identity_fields
  by (intro triple_intros)+

section \<open>The whole program\<close>

lemma identity_step_content: "identity_step E secret w w' \<Longrightarrow> content_ok w \<Longrightarrow> content_ok w'"
  by (induction rule: identity_step.induct) (erule run_step_keeps, intro triple_intros, assumption)+

lemma dictionary_step_content: "dictionary_step E w w' \<Longrightarrow> content_ok w \<Longrightarrow> content_ok w'"
  by (induction rule: dictionary_step.induct) (erule run_step_keeps, intro triple_intros, assumption)+

lemma community_step_content: "community_step E w w' \<Longrightarrow> content_ok w \<Longrightarrow> content_ok w'"
  by (induction rule: community_step.induct) (erule run_step_keeps, intro triple_intros, assumption)+

lemma moderation_step_content: "moderation_step E w w' \<Longrightarrow> content_ok w \<Longrightarrow> content_ok w'"
  by (induction rule: moderation_step.induct) (erule run_step_keeps, intro triple_intros, assumption)+

lemma ai_step_content: "ai_step E w w' \<Longrightarrow> content_ok w \<Longrightarrow> content_ok w'"
  by (induction rule: ai_step.induct) (erule run_step_keeps, intro triple_intros, assumption)+

lemma content_ok_redis [simp]:
  "content_ok (w\<lparr>wd_redis := r\<rparr>) = content_ok w" "content_ok (w\<lparr>wd_mail := m\<rparr>) = content_ok w"
  "content_ok (w\<lparr>wd_log := l\<rparr>) = content_ok w"
  by (simp_all add: content_ok_def)

lemma count_step_content: "run_step (RedisIncrement world_exec key window) w w' \<Longrightarrow> content_ok w \<Longrightarrow> content_ok w'"
proof -
  have "keeps content_ok (RedisIncrement world_exec key window)" by (rule keeps_RedisIncrement) (rule content_ok_redis(1))
  then show "run_step (RedisIncrement world_exec key window) w w' \<Longrightarrow> content_ok w \<Longrightarrow> content_ok w'"
    by (simp only: run_step_def keeps_def)
qed

lemma content_ok_tick [simp]: "content_ok (w\<lparr>db_now := t\<rparr>) = content_ok w"
  by (simp add: content_ok_def)

lemma identify_step_content: "run_step (uuidP (db_runtime E)) w w' \<Longrightarrow> content_ok w \<Longrightarrow> content_ok (w' :: world)"
  by (erule run_step_keeps, intro triple_intros)

lemma system_step_content: "system_step E secret w w' \<Longrightarrow> content_ok w \<Longrightarrow> content_ok w'"
  by (induction rule: system_step.induct)
    (auto simp: restart_keeps dest: identity_step_content dictionary_step_content community_step_content
      moderation_step_content ai_step_content count_step_content identify_step_content)

lemma system_steps_content: "(system_step E secret)\<^sup>*\<^sup>* w w' \<Longrightarrow> content_ok w \<Longrightarrow> content_ok w'"
  by (induction rule: rtranclp_induct) (auto dest: system_step_content)

lemma content_ok_world_empty: "content_ok (world_empty t)"
  by (simp add: content_ok_def world_empty_def db_empty_def db.defs)

end
