(* ===== verification/Moderation_Http.thy ===== *)
theory Moderation_Http
  imports Moderation Community_Http
begin

text \<open>
  \<open>internal/moderation/http\<close>: the handlers of the admin area for the moderation queues and for
  users, the mapping of errors, and the guard of the routes. A contribution, a comment and the
  statistics are rendered field by field; the body of a user leaves out the password hash.
\<close>

record admin_user_response =
  mu_id :: uuid
  mu_name :: string
  mu_email :: string
  mu_role :: string
  mu_is_active :: bool
  mu_email_verified_at :: "time option"
  mu_created_at :: time
  mu_updated_at :: time

datatype moderation_data =
    QueueData "contribution list"
  | FlagsData "comment list"
  | StatsData moderation_stats
  | AdminUserData admin_user_response
  | AdminUsersData "admin_user_response list"

definition toAdminUserResponse :: "user \<Rightarrow> admin_user_response" where
  "toAdminUserResponse u =
     \<lparr>mu_id = us_id u, mu_name = us_name u, mu_email = us_email u, mu_role = us_role u,
      mu_is_active = us_is_active u, mu_email_verified_at = us_email_verified_at u,
      mu_created_at = us_created_at u, mu_updated_at = us_updated_at u\<rparr>"

section \<open>Errors\<close>

definition mapModerationError :: "err \<Rightarrow> 'd response" where
  "mapModerationError e =
     (if errors_is e (ModerationCmd ModUserNotFound) then Send 404 (NotFound ''user not found'')
      else if errors_is e (ModerationCmd ModContributionNotFound) then
        Send 404 (NotFound ''contribution not found'')
      else if errors_is e (ModerationCmd ModContributionConflict) then
        Send 409 (Conflict ''contribution is not pending'')
      else if errors_is e (ModerationCmd ModNoteRequired) then
        Send 422 (Validation ''reviewer note is required'' [detail ''note'' ''required''])
      else if errors_is e (ModerationCmd ModInvalidRole) then
        Send 422 (Validation ''invalid role''
          [detail ''role'' (''must be '' @ quote @ ''user'' @ quote @ '' or '' @ quote @ ''admin'' @ quote)])
      else if errors_is e (Moderation ErrCannotBanAdmin) then Send 403 (Forbidden ''cannot ban another admin'')
      else if errors_is e (Moderation ErrCannotSelfDemote) then
        Send 403 (Forbidden ''admin cannot change their own role'')
      else Send 500 (Internal ''internal error''))"

section \<open>The moderation queue\<close>

definition GetModerationQueue_handler :: "'s moderation_svc \<Rightarrow> ('s, 'b, moderation_data) handler" where
  "GetModerationQueue_handler v c s =
     (case Parse c of
        Inl errResp \<Rightarrow> (Send 422 errResp, s)
      | Inr p \<Rightarrow>
          respond internal_error (\<lambda>(cs, tot). Paginated (QueueData cs) (page_meta p tot))
            (GetModerationQueue v None (pg_page p) (pg_per_page p)) s)"

definition GetFlaggedComments_handler :: "'s moderation_svc \<Rightarrow> ('s, 'b, moderation_data) handler" where
  "GetFlaggedComments_handler v c s =
     (case Parse c of
        Inl errResp \<Rightarrow> (Send 422 errResp, s)
      | Inr p \<Rightarrow>
          respond internal_error (\<lambda>(cs, tot). Paginated (FlagsData cs) (page_meta p tot))
            (mod_Flagged (mv_repo v) (pg_page p) (pg_per_page p)) s)"

definition GetModerationStats_handler :: "'s moderation_svc \<Rightarrow> ('s, 'b, moderation_data) handler" where
  "GetModerationStats_handler v c =
     respond internal_error (\<lambda>st. OK (StatsData st)) (mod_Stats (mv_repo v))"

section \<open>Users\<close>

definition ListUsers_handler :: "'s moderation_svc \<Rightarrow> ('s, 'b, moderation_data) handler" where
  "ListUsers_handler v c s =
     (case Parse c of
        Inl errResp \<Rightarrow> (Send 422 errResp, s)
      | Inr p \<Rightarrow>
          let raw = rq_query c ''is_active'';
              isActive = (if raw = ''true'' then Some True
                          else if raw = ''false'' then Some False else None) in
          respond internal_error
            (\<lambda>(us, tot). Paginated (AdminUsersData (map toAdminUserResponse us)) (page_meta p tot))
            (mod_ListUsers (mv_repo v) (rq_query c ''role'') (rq_query c ''q'') isActive
               (pg_page p) (pg_per_page p)) s)"

text \<open>An identifier that is no UUID is answered with status 400 and the code \<open>NOT_FOUND\<close>.\<close>

definition GetUser_handler :: "ext \<Rightarrow> 's moderation_svc \<Rightarrow> ('s, 'b, moderation_data) handler" where
  "GetUser_handler E v c =
     with_uuid E (rq_param c ''id'') (Send 400 (NotFound ''user not found'')) (\<lambda>i.
     respond (\<lambda>_. Send 404 (NotFound ''user not found'')) (\<lambda>u. OK (AdminUserData (toAdminUserResponse u)))
       (GetUser v i))"

definition respond_user ::
  "('s, err, user) prog \<Rightarrow> 's \<Rightarrow> moderation_data response \<times> 's" where
  "respond_user m = respond mapModerationError (\<lambda>u. OK (AdminUserData (toAdminUserResponse u))) m"

text \<open>The reason of a ban is what the parser left in the request, whether it succeeded or not.\<close>

definition BanUser_handler ::
  "ext \<Rightarrow> 's runtime \<Rightarrow> 's moderation_svc \<Rightarrow> ('s, string, moderation_data) handler" where
  "BanUser_handler E R v = with_claims (\<lambda>claims c.
     let adminID = fst (x_uuid_parse E (cl_user_id claims)) in
     with_uuid E (rq_param c ''id'') (Send 404 (NotFound ''user not found'')) (\<lambda>targetID.
     respond_user (BanUser R v adminID targetID (fst (rq_body c)))))"

definition UnbanUser_handler ::
  "ext \<Rightarrow> 's runtime \<Rightarrow> 's moderation_svc \<Rightarrow> ('s, 'b, moderation_data) handler" where
  "UnbanUser_handler E R v = with_claims (\<lambda>claims c.
     let adminID = fst (x_uuid_parse E (cl_user_id claims)) in
     with_uuid E (rq_param c ''id'') (Send 404 (NotFound ''user not found'')) (\<lambda>targetID.
     respond_user (UnbanUser R v adminID targetID)))"

definition ChangeUserRole_handler ::
  "ext \<Rightarrow> 's runtime \<Rightarrow> 's moderation_svc \<Rightarrow> ('s, string, moderation_data) handler" where
  "ChangeUserRole_handler E R v = with_claims (\<lambda>claims c.
     let adminID = fst (x_uuid_parse E (cl_user_id claims)) in
     with_uuid E (rq_param c ''id'') (Send 404 (NotFound ''user not found'')) (\<lambda>targetID s.
     case rq_body c of (role, ok) \<Rightarrow>
       if \<not> ok \<or> role = [] then
         (Send 422 (Validation ''role is required'' [detail ''role'' ''required'']), s)
       else respond_user (ChangeUserRole R v adminID targetID role) s))"

section \<open>Routes (\<open>routes.go\<close>)\<close>

text \<open>The group of the admin area: every route of the package has these two guards.\<close>

definition admin_group ::
  "ext \<Rightarrow> 's runtime \<Rightarrow> string \<Rightarrow> ('s, 'b, 'd) handler \<Rightarrow> ('s, 'b, 'd) handler" where
  "admin_group E R secret h = RequireAuth E secret (rt_now R) (RequireRole [''admin''] h)"

definition ban_route ::
  "ext \<Rightarrow> 's runtime \<Rightarrow> string \<Rightarrow> 's moderation_svc \<Rightarrow> ('s, string, moderation_data) handler" where
  "ban_route E R secret v = admin_group E R secret (BanUser_handler E R v)"

definition role_route ::
  "ext \<Rightarrow> 's runtime \<Rightarrow> string \<Rightarrow> 's moderation_svc \<Rightarrow> ('s, string, moderation_data) handler" where
  "role_route E R secret v = admin_group E R secret (ChangeUserRole_handler E R v)"

definition list_users_route ::
  "ext \<Rightarrow> 's runtime \<Rightarrow> string \<Rightarrow> 's moderation_svc \<Rightarrow> ('s, 'b, moderation_data) handler" where
  "list_users_route E R secret v = admin_group E R secret (ListUsers_handler v)"

end
