(* ===== verification/Moderation_Properties.thy ===== *)
theory Moderation_Properties
  imports Sample Content_Invariant Identity_Properties Dictionary_Properties Moderation_Http
begin

text \<open>
  Properties of moderation: deciding contributions with the merge into the dictionary and the
  audit log, banning and promoting users, the queues of the admin area.
\<close>

section \<open>Users\<close>

lemma UserRepo_Update_ok:
  assumes "db_ok d" and "us_role u \<in> {RoleUser, RoleAdmin}" and "db_user_map d (us_id u) = Some v"
    and "us_email u = us_email v" "us_created_at u = us_created_at v"
  shows "\<exists>d'. UserRepo_Update u d = (Inr (), d') \<and> db_ok d' \<and> db_audit_logs d' = db_audit_logs d \<and>
    db_user_map d' = (db_user_map d)(us_id u \<mapsto> u\<lparr>us_updated_at := db_now d\<rparr>)"
proof -
  obtain r d' where r: "UserRepo_Update u d = (r, d')" by fastforce
  have same: "u\<lparr>us_updated_at := t, us_email := us_email v, us_created_at := us_created_at v\<rparr> =
      u\<lparr>us_updated_at := t\<rparr>" for t
    using assms(4,5) by (cases u) simp
  have d': "r = Inr ()" "d' = d\<lparr>db_users := update_where (\<lambda>r. ur_id r = us_id u)
      (set_user_columns (user_params (u\<lparr>us_updated_at := db_now d\<rparr>))) (db_users d)\<rparr>"
    using r assms(2,3) by (auto simp: UserRepo_Update_run db_user_map_def split: if_splits option.splits)
  have "db_user_map d' = (db_user_map d)(us_id u \<mapsto> u\<lparr>us_updated_at := db_now d\<rparr>)"
    using db_user_map_update [where d = d and u = "u\<lparr>us_updated_at := db_now d\<rparr>"] assms(3) same by (simp add: d'(2))
  with r d' keepsD [OF keeps_UserRepo(4) assms(1) r] show ?thesis by simp
qed

lemma log_action_Inr:
  "log_action (db_runtime E) (db_moderation_svc E) a act ty t meta d = (Inr x, d') \<Longrightarrow>
     act \<in> set validActions \<and> a \<in> user_ids d \<and>
     d' = d\<lparr>db_draws := Suc (db_draws d), db_audit_logs := db_audit_logs d @
       [\<lparr>ar_id = x_new_uuid E (db_draws d), ar_actor = a, ar_action = act, ar_type = ty, ar_target = t,
         ar_metadata = map_option JObj meta, ar_created_at = db_now d\<rparr>]\<rparr>"
  by (auto simp: log_action_def NewAuditLog_def CreateAuditLog_def CreateAuditLog_stmt_def prog_Inr sqlP_Inr
      user_ids_def)

lemma user_map_frames [simp]:
  "db_user_map (d\<lparr>db_draws := n, db_audit_logs := l\<rparr>) = db_user_map d"
  by (simp add: db_user_map_def fun_eq_iff)

text \<open>C27. A ban that succeeds hits a user who exists and is no admin, deactivates this user and nobody else, and is
  logged; an attempt to ban an admin is refused and changes nothing.\<close>

theorem ban_never_admin:
  fixes d :: "'z db_scheme"
  assumes "db_ok d" and "db_user_map d t = Some v"
  shows "(us_role v = RoleAdmin \<longrightarrow>
      BanUser (db_runtime E) (db_moderation_svc E) a t reason d = (Inl (Moderation ErrCannotBanAdmin), d)) \<and>
    (\<forall>u d'. BanUser (db_runtime E) (db_moderation_svc E) a t reason d = (Inr u, d') \<longrightarrow>
      us_role v = RoleUser \<and> db_ok d' \<and>
      db_user_map d' = (db_user_map d)(t \<mapsto> v\<lparr>us_is_active := False, us_updated_at := db_now d\<rparr>) \<and>
      (\<exists>l. db_audit_logs d' = db_audit_logs d @ [l] \<and> ar_actor l = a \<and> ar_target l = t \<and> ar_action l = ActionBanUser))"
proof -
  let ?v = "v\<lparr>us_is_active := False, us_updated_at := db_now d\<rparr>"
  have v: "us_id v = t" "us_role v \<in> {RoleUser, RoleAdmin}"
    using db_user_map_Some [OF assms(2)] assms(1) by (auto simp: db_ok_def users_ok_def)
  have banned: "us_role v \<noteq> RoleAdmin \<and> db_ok d' \<and> db_user_map d' = (db_user_map d)(t \<mapsto> ?v) \<and>
      (\<exists>l. db_audit_logs d' = db_audit_logs d @ [l] \<and> ar_actor l = a \<and> ar_target l = t \<and> ar_action l = ActionBanUser)"
    if run: "BanUser (db_runtime E) (db_moderation_svc E) a t reason d = (Inr u, d')" for u d'
  proof -
    from run assms(2) obtain d1 where role: "us_role v \<noteq> RoleAdmin" and up: "UserRepo_Update ?v d = (Inr (), d1)"
      and log: "log_action (db_runtime E) (db_moderation_svc E) a ActionBanUser ''user'' t
        (Some [(''reason'', JStr reason)]) d1 = (Inr (), d')"
      by (auto simp: BanUser_def Ban_def UserRepo_FindByID_run prog_Inr split: option.splits)
    from UserRepo_Update_ok [OF assms(1), of ?v v] up v assms(2)
    have d1: "db_user_map d1 = (db_user_map d)(t \<mapsto> ?v)" "db_audit_logs d1 = db_audit_logs d" by auto
    with log_action_Inr [OF log] role keepsD [OF keeps_moderation_commands(3) assms(1) run] show ?thesis by simp
  qed
  have "BanUser (db_runtime E) (db_moderation_svc E) a t reason d = (Inl (Moderation ErrCannotBanAdmin), d)"
    if "us_role v = RoleAdmin"
    using assms(2) that by (simp add: BanUser_def UserRepo_FindByID_run prog_defs)
  with banned v(2) show ?thesis by blast
qed

lemma sample_users:
  "db_user_map sample_db 1 = Some (user_toDomain (sample_user 1 ''a@b.co'' ''user'' (Some 0)))"
  "db_user_map sample_db 2 = Some (user_toDomain (sample_user 2 ''b@b.co'' ''admin'' (Some 0)))"
  by (simp_all add: db_user_map_def table_simps)

theorem ban_never_admin_witness:
  "BanUser (db_runtime demo_ext) (db_moderation_svc demo_ext) 2 2 [] sample_db =
     (Inl (Moderation ErrCannotBanAdmin), sample_db)"
  using ban_never_admin [OF sample_db_ok sample_users(2), where E = demo_ext and a = 2 and reason = "[]"]
  by (simp add: RoleAdmin_def)

text \<open>C28. Nobody changes the own role: a change of role is of another user, to one of the two roles, and an admin who
  carries it out is an admin afterwards. Nothing else of any user changes.\<close>

theorem role_change_never_own:
  fixes d :: "'z db_scheme"
  assumes "db_ok d" and "ChangeUserRole (db_runtime E) (db_moderation_svc E) a t role d = (Inr u, d')"
  shows "a \<noteq> t \<and> role \<in> {RoleUser, RoleAdmin} \<and> db_ok d' \<and> db_user_map d' a = db_user_map d a \<and>
    (\<exists>v. db_user_map d t = Some v \<and> us_role u = role \<and>
      db_user_map d' = (db_user_map d)(t \<mapsto> v\<lparr>us_role := role, us_updated_at := db_now d\<rparr>)) \<and>
    (\<exists>l. db_audit_logs d' = db_audit_logs d @ [l] \<and> ar_actor l = a \<and> ar_target l = t \<and>
      ar_action l = ActionChangeRole \<and> ar_metadata l = Some (JObj [(''new_role'', JStr role)]))"
proof -
  from assms(2) obtain v d1 where role: "role \<in> {RoleUser, RoleAdmin}" and other: "a \<noteq> t"
    and v: "db_user_map d t = Some v" and u: "u = v\<lparr>us_role := role, us_updated_at := db_now d\<rparr>"
    and up: "UserRepo_Update u d = (Inr (), d1)"
    and log: "log_action (db_runtime E) (db_moderation_svc E) a ActionChangeRole ''user'' t
      (Some [(''new_role'', JStr role)]) d1 = (Inr (), d')"
    by (auto simp: ChangeUserRole_def Promote_def UserRepo_FindByID_run prog_Inr split: option.splits if_splits)
  have id: "us_id v = t" using db_user_map_Some [OF v] by auto
  from UserRepo_Update_ok [OF assms(1), of u v] up id v role u
  have "db_user_map d1 = (db_user_map d)(t \<mapsto> u)" "db_audit_logs d1 = db_audit_logs d" by auto
  with log_action_Inr [OF log] role other v u keepsD [OF keeps_moderation_commands(5) assms]
  show ?thesis by simp
qed

theorem role_change_never_own_witness:
  "\<exists>u d'. ChangeUserRole (db_runtime demo_ext) (db_moderation_svc demo_ext) 2 1 ''admin'' sample_db = (Inr u, d') \<and>
     us_role u = ''admin'' \<and> db_user_map d' 2 = db_user_map sample_db 2"
proof -
  obtain d1 where up: "UserRepo_Update ((user_toDomain (sample_user 1 ''a@b.co'' ''user'' (Some 0)))
      \<lparr>us_role := ''admin'', us_updated_at := 7\<rparr>) sample_db = (Inr (), d1)"
    using UserRepo_Update_ok [OF sample_db_ok, of "(user_toDomain (sample_user 1 ''a@b.co'' ''user'' (Some 0)))
      \<lparr>us_role := ''admin'', us_updated_at := 7\<rparr>"] sample_users(1) by (auto simp: RoleAdmin_def)
  then have d1: "user_ids d1 = {1, 2, 3}" "db_audit_logs d1 = []"
    by (auto simp: UserRepo_Update_run RoleAdmin_def user_ids_def update_where_def
        split: if_splits option.splits)
  have "\<exists>u. fst (ChangeUserRole (db_runtime demo_ext) (db_moderation_svc demo_ext) 2 1 ''admin'' sample_db) = Inr u"
    using up d1
    by (simp add: ChangeUserRole_def RoleAdmin_def RoleUser_def UserRepo_FindByID_run sample_users prog_defs Promote_def
        log_action_def NewAuditLog_def validActions_def ActionChangeRole_def CreateAuditLog_def
        CreateAuditLog_stmt_def sqlP_def user_ids_def)
  then obtain u d' where run: "ChangeUserRole (db_runtime demo_ext) (db_moderation_svc demo_ext) 2 1 ''admin'' sample_db =
      (Inr u, d')" by (metis prod.collapse)
  from role_change_never_own [OF sample_db_ok run] run show ?thesis by auto
qed

section \<open>The queues\<close>

text \<open>The list of users is never shown: a request whose page is valid is answered with status 500, as the statement
  compares an enumeration with a text.\<close>

theorem list_users_always_fails:
  "\<exists>e. ListUsers_handler (db_moderation_svc E) c d = (Send (case Parse c of Inl _ \<Rightarrow> 422 | Inr _ \<Rightarrow> 500) e, d)"
  by (auto simp: ListUsers_handler_def db_moderation_svc_def PostgresModerationRepository_def ModRepo_ListUsers_def
      CountUsersAdmin_def respond_def prog_defs internal_error_def Let_def split: sum.split)

text \<open>C22. However the program runs, and whichever comments its users flag, the queue of flagged comments that
  moderators look at is empty.\<close>

theorem flagged_queue_empty:
  assumes "(system_step E secret)\<^sup>*\<^sup>* (world_empty t) w" and "0 \<le> sql_limit n" and "0 \<le> sql_offset p n"
  shows "mod_Flagged (mv_repo (db_moderation_svc E)) p n w = (Inr ([], 0), w)"
proof -
  have "filter mr_flagged (db_comments w) = []"
    using system_steps_content [OF assms(1) content_ok_world_empty] by (simp add: content_ok_def filter_empty_conv)
  then show ?thesis
    using assms(2,3)
    by (simp add: db_moderation_svc_def PostgresModerationRepository_def GetFlaggedComments_def
        CountFlaggedComments_def ListFlaggedComments_def prog_defs count_int_def limit_offset_def)
qed

lemma demo_world_reachable: "(system_step demo_ext ''k'')\<^sup>*\<^sup>* (world_empty 0) demo_world"
  by (intro r_into_rtranclp system_step.identity identity_step.register [where n = "''Ada''" and e = "''a@b.co''"
      and p = "''password''" and pc = "''password''"]) (simp add: run_step_def demo_register)

theorem flagged_queue_empty_witness:
  "mod_Flagged (mv_repo (db_moderation_svc demo_ext)) 1 20 demo_world = (Inr ([], 0), demo_world)"
  by (intro flagged_queue_empty [OF demo_world_reachable]) (simp_all add: sql_limit_def sql_offset_def int32_id int64_id)

text \<open>C23. However the program runs, every audit log is of one of the eight actions and every request to the language
  model of one of the four types, although the schema admits any text.\<close>

theorem text_columns_declared:
  assumes "(system_step E secret)\<^sup>*\<^sup>* (world_empty t) w"
  shows "ar_action ` set (db_audit_logs w) \<subseteq> set validActions \<and> qr_type ` set (db_ai_requests w) \<subseteq>
    {AIRequestTypeEnrichDefinition, AIRequestTypeSuggestExample, AIRequestTypeSuggestRelated, AIRequestTypeQualityCheck}"
  using system_steps_content [OF assms content_ok_world_empty] by (auto simp: content_ok_def ai_types_def)

theorem text_columns_declared_witness: "ar_action ` set (db_audit_logs demo_world) \<subseteq> set validActions"
  using text_columns_declared [OF demo_world_reachable] by simp

section \<open>Deciding contributions\<close>

lemma db_word_frame:
  assumes "db_words d' = db_words d" "db_definitions d' = db_definitions d" "db_examples d' = db_examples d"
  shows "db_word d' = db_word d"
  using assms by (simp add: db_word_def db_definitions_of_def db_examples_of_def fun_eq_iff)

lemma distinct_sorted_filter:
  "distinct (map key rows) \<Longrightarrow> distinct (map key (sort_by le (filter P rows)))"
proof -
  assume rows: "distinct (map key rows)"
  have "mset (map key (sort_by le (filter P rows))) = mset (map key (filter P rows))" by simp
  from mset_eq_imp_distinct_iff [OF this] distinct_map_filter [OF rows] show ?thesis by (rule iffD2)
qed

lemma db_word_children_fresh:
  assumes "db_ok d" "db_word d t = Some w"
  shows "fresh_children (other_definitions d t) (other_examples d t) w \<and>
    df_id ` set (wd_definitions w) \<subseteq> dr_id ` set (db_definitions d)"
proof -
  have ids: "map df_id (map definition_toDomain xs) = map dr_id xs" "map ex_id (map example_toDomain ys) = map xr_id ys"
    for xs ys by (simp_all add: definition_toDomain_def example_toDomain_def)
  have dist: "distinct (map dr_id (db_definitions d))" "distinct (map xr_id (db_examples d))"
    using db_okD(3,4) [OF assms(1)] by (auto simp: definitions_ok_def examples_ok_def)
  from assms(2) obtain r where w: "w = word_toDomain r (db_definitions_of d t) (db_examples_of d t)"
    by (auto simp: db_word_def)
  have defs: "map df_id (wd_definitions w) = map dr_id (db_definitions_of d t)"
    "map ex_id (wd_examples w) = map xr_id (db_examples_of d t)"
    using ids by (simp_all add: w word_toDomain_def)
  have sets: "df_id ` set (wd_definitions w) = dr_id ` {x \<in> set (db_definitions d). dr_word x = t}"
    "ex_id ` set (wd_examples w) = xr_id ` {x \<in> set (db_examples d). xr_word x = t}"
    using defs [THEN arg_cong, of set] by (simp_all add: db_definitions_of_def db_examples_of_def)
  have inj: "inj_on dr_id (set (db_definitions d))" "inj_on xr_id (set (db_examples d))"
    using dist by (simp_all add: distinct_map)
  then have "df_id ` set (wd_definitions w) \<inter> other_definitions d t = {}"
    "ex_id ` set (wd_examples w) \<inter> other_examples d t = {}"
    unfolding sets other_definitions_def other_examples_def by (auto simp: inj_on_def)
  then show ?thesis
    using defs dist sets(1)
    by (auto simp: fresh_children_def db_definitions_of_def db_examples_of_def intro!: distinct_sorted_filter)
qed

lemma stored_word_meanings:
  "mset (map df_meaning (wd_definitions (stored_word w))) = mset (map df_meaning (wd_definitions w))"
  by (simp add: stored_word_mset stored_definition_def multiset.map_comp o_def)

lemma merge_adds_definition:
  fixes d :: "'z db_scheme"
  assumes "db_ok d" and "mergeContribution (db_runtime E) (db_moderation_svc E) c d = (Inr (), d1)"
    and "cb_type c = ContributionTypeNewDefinition" and "x_new_uuid E (db_draws d) \<notin> dr_id ` set (db_definitions d)"
  obtains t w w' where "cb_target c = Some t" and "db_word d t = Some w" and "db_word d1 = (db_word d)(t \<mapsto> w')"
    and "mset (map df_meaning (wd_definitions w')) =
      add_mset (map_string_or_empty (cb_payload c) ''meaning'') (mset (map df_meaning (wd_definitions w)))"
    and "wd_examples w' = wd_examples w" and "db_ok d1"
proof -
  let ?R = "db_runtime E :: ('z db_scheme) runtime" and ?m = "map_string_or_empty (cb_payload c) ''meaning''"
  from assms(2) obtain t w w1 d0 where t: "cb_target c = Some t" "db_word d t = Some w"
    and add: "AddDefinition ?R ?m (int (length (wd_definitions w)) + 1) w d = (Inr w1, d0)"
    and upw: "WordRepo_Update w1 d0 = (Inr (), d1)"
    by (auto simp: mergeContribution_def assms(3) ContributionTypeNewDefinition_def ContributionTypeNewWord_def
        mergeNewDefinition_def Let_def WordRepo_FindByID_run prog_Inr split: option.splits)
  let ?x = "\<lparr>df_id = x_new_uuid E (db_draws d), df_meaning = ?m, df_sort_order = int (length (wd_definitions w)) + 1,
    df_source = wd_source w, df_upvotes = 0, df_downvotes = 0\<rparr>"
  have w1: "w1 = w\<lparr>wd_definitions := wd_definitions w @ [?x], wd_updated_at := db_now d\<rparr>"
    and d0: "d0 = d\<lparr>db_draws := Suc (db_draws d)\<rparr>"
    using add by (auto simp: AddDefinition_def NewDefinition_def prog_Inr)
  have id: "wd_id w1 = t" and wid: "wd_id w = t" using pg_words.words_id [OF t(2)] by (simp_all add: w1)
  note old = db_word_children_fresh [OF assms(1) t(2)]
  have same: "db_word d0 = db_word d" "other_definitions d0 = other_definitions d" "other_examples d0 = other_examples d"
    by (rule db_word_frame) (simp_all add: d0 other_definitions_def other_examples_def fun_eq_iff)
  have "df_id ?x \<notin> other_definitions d t" "df_id ?x \<notin> df_id ` set (wd_definitions w)"
    using assms(4) old by (auto simp: other_definitions_def)
  with old have fresh: "fresh_children (other_definitions d0 (wd_id w1)) (other_examples d0 (wd_id w1)) w1"
    by (simp add: same id fresh_children_def w1 wid)
  have "db_ok d0" using assms(1) by (simp add: d0)
  from WordRepo_Update_ok [OF this upw fresh, unfolded same id] obtain v :: word where d1: "db_ok d1"
    "db_word d1 = (db_word d)(t \<mapsto> (stored_word w1)\<lparr>wd_dialect := wd_dialect v, wd_created_by := wd_created_by v,
      wd_created_at := wd_created_at v, wd_updated_at := db_now d0\<rparr>)" by blast
  let ?w' = "(stored_word w1)\<lparr>wd_dialect := wd_dialect v, wd_created_by := wd_created_by v,
      wd_created_at := wd_created_at v, wd_updated_at := db_now d0\<rparr>"
  have "mset (map df_meaning (wd_definitions ?w')) = add_mset ?m (mset (map df_meaning (wd_definitions w)))"
    using stored_word_meanings [of w1] by (simp add: w1)
  moreover have "wd_examples ?w' = wd_examples w" by (simp add: w1)
  ultimately show thesis by (rule that [OF t d1(2) _ _ d1(1)])
qed

text \<open>C4. An approval in the moderation service merges before it marks: when it succeeds on a proposed definition, the
  target word has exactly one more definition, with the proposed meaning, the contribution is approved by the caller,
  and the decision is logged.\<close>

theorem approved_definition_merged:
  fixes d :: "'z db_scheme"
  assumes "db_ok d" and "ApproveContribution (db_runtime E) (db_moderation_svc E) a i nt d = (Inr (), d')"
    and "db_contribution d i = Some c" and "cb_type c = ContributionTypeNewDefinition"
    and "x_new_uuid E (db_draws d) \<notin> dr_id ` set (db_definitions d)"
  shows "\<exists>t w w' c' l. cb_target c = Some t \<and> db_word d t = Some w \<and> db_word d' = (db_word d)(t \<mapsto> w') \<and>
    mset (map df_meaning (wd_definitions w')) =
      add_mset (map_string_or_empty (cb_payload c) ''meaning'') (mset (map df_meaning (wd_definitions w))) \<and>
    wd_examples w' = wd_examples w \<and>
    db_contribution d' = (db_contribution d)(i \<mapsto> c') \<and> cb_status c' = StatusApproved \<and> cb_reviewer c' = Some a \<and>
    db_audit_logs d' = db_audit_logs d @ [l] \<and> ar_actor l = a \<and> ar_target l = i \<and>
    ar_action l = ActionApproveContribution \<and> db_ok d'"
proof -
  let ?R = "db_runtime E :: ('z db_scheme) runtime"
  from assms(2,3) obtain c' d1 d2 where ap: "Approve (db_now d) a nt c = Inr c'"
    and merge: "mergeContribution ?R (db_moderation_svc E) c' d = (Inr (), d1)"
    and up: "ContribRepo_Update c' d1 = (Inr (), d2)"
    and log: "log_action ?R (db_moderation_svc E) a ActionApproveContribution ''contribution'' i None d2 = (Inr (), d')"
    by (auto simp: ApproveContribution_def ContribRepo_FindByID_run prog_Inr split: option.splits)
  have c': "cb_type c' = cb_type c" "cb_target c' = cb_target c" "cb_payload c' = cb_payload c"
    "cb_status c' = StatusApproved" "cb_reviewer c' = Some a"
    using ap by (auto simp: Approve_def split: if_splits)
  obtain t w w' where t: "cb_target c = Some t" "db_word d t = Some w" "db_word d1 = (db_word d)(t \<mapsto> w')"
    and parts: "mset (map df_meaning (wd_definitions w')) =
      add_mset (map_string_or_empty (cb_payload c) ''meaning'') (mset (map df_meaning (wd_definitions w)))"
      "wd_examples w' = wd_examples w" and d1: "db_ok d1"
    by (rule merge_adds_definition [OF assms(1) merge _ assms(5)]) (simp_all add: c' assms(4))
  have "db_contribution d1 = db_contribution d"
    using framesD [OF frames_contribution [OF frames_merge [OF blind_tables(1)]] merge] .
  with update_contribution_row(2) [OF d1 _ Approve_step [OF ap] up, of i] assms(3)
  have c2: "db_contribution d2 = (db_contribution d)(i \<mapsto> c')" by simp
  have d2: "db_words d2 = db_words d1" "db_definitions d2 = db_definitions d1" "db_examples d2 = db_examples d1"
    "db_audit_logs d2 = db_audit_logs d1"
    using up by (auto simp: ContribRepo_Update_run split: if_splits option.splits)
  note l = log_action_Inr [OF log]
  have "db_word d' = db_word d1" by (rule db_word_frame) (use l d2 in simp_all)
  then have word: "db_word d' = (db_word d)(t \<mapsto> w')" by (simp add: t(3))
  have contribution: "db_contribution d' = (db_contribution d)(i \<mapsto> c')"
    using l c2 by (simp add: db_contribution_def fun_eq_iff)
  have "db_audit_logs d1 = db_audit_logs d"
    using framesD [OF frames_merge [OF blind_tables(2)] merge] .
  with l d2 have logs: "\<exists>l. db_audit_logs d' = db_audit_logs d @ [l] \<and> ar_actor l = a \<and> ar_target l = i \<and>
      ar_action l = ActionApproveContribution" by simp
  show ?thesis
    using t(1,2) word parts contribution c'(4,5) logs keepsD [OF keeps_moderation_commands(1) assms(1,2)]
    by blast
qed

lemma sample_word_read: "db_word sample_db 9 = Some
    \<lparr>wd_id = 9, wd_banjar = ''banyu'', wd_syllabified = [], wd_dialect = ''hulu'', wd_class = ''n'', wd_homonym = 1,
     wd_is_root = True, wd_root = None,
     wd_definitions = [\<lparr>df_id = 11, df_meaning = ''air'', df_sort_order = 1, df_source = ''seeded'', df_upvotes = 0,
       df_downvotes = 0\<rparr>],
     wd_examples = [], wd_related = [], wd_status = ''active'', wd_source = ''seeded'', wd_reference = [],
     wd_created_by = None, wd_created_at = 0, wd_updated_at = 0, wd_deleted_at = None\<rparr>"
  by (simp add: db_word_def live_word_def table_simps db_definitions_of_def db_examples_of_def word_toDomain_def
      definition_toDomain_def option_string_def)
    (simp add: sample_word_def sample_definition_def)

lemma sample_merge:
  assumes "cb_type c = ContributionTypeNewDefinition" "cb_target c = Some 9"
    "cb_payload c = Some [(''meaning'', JStr ''sungai'')]"
  shows "\<exists>d'. mergeContribution (db_runtime demo_ext) (db_moderation_svc demo_ext) c sample_db = (Inr (), d') \<and>
    db_contributions d' = db_contributions sample_db \<and> db_users d' = db_users sample_db \<and> db_audit_logs d' = [] \<and>
    db_now d' = 7"
  apply (simp add: mergeContribution_def assms ContributionTypeNewDefinition_def ContributionTypeNewWord_def
      mergeNewDefinition_def map_string_or_empty_def map_string_def map_get_def prog_defs WordRepo_FindByID_run
      sample_word_read AddDefinition_def NewDefinition_def MaxMeaningLength_def Let_def)
  apply (simp add: WordRepo_Update_def UpdateWord_stmt_def toCreateParams_def prog_defs sqlP_def word_class_enum_def
      word_status_enum_def word_source_enum_def GetWordByID_def one_row_def live_word_def table_simps update_where_def
      set_word_columns_def null_string_def DeleteDefinitionsByWordID_def DeleteExamplesByWordID_def delete_where_def)
  apply (simp add: upsertChildren_def prog_defs definition_params_def UpsertDefinition_new word_ids_def
      word_source_enum_def)
  done

lemma sample_approval:
  "\<exists>d'. ApproveContribution (db_runtime demo_ext) (db_moderation_svc demo_ext) 2 21 [] sample_db = (Inr (), d')"
proof -
  let ?c = "pending_contribution\<lparr>cb_status := StatusApproved, cb_reviewer := Some 2, cb_reviewed_at := Some 7\<rparr>"
  have ap: "Approve 7 2 [] pending_contribution = Inr ?c"
    by (simp add: Approve_def pending_contribution_def note_option_def)
  obtain d1 where m: "mergeContribution (db_runtime demo_ext) (db_moderation_svc demo_ext) ?c sample_db = (Inr (), d1)"
    and d1: "db_contributions d1 = db_contributions sample_db" "db_users d1 = db_users sample_db" "db_audit_logs d1 = []"
    using sample_merge [of ?c] by (auto simp: pending_contribution_def ContributionTypeNewDefinition_def)
  have "db_contribution d1 21 = Some pending_contribution"
    using sample_contributions(1) d1(1) by (simp add: db_contribution_def)
  moreover have "user_ids d1 = {1, 2, 3}" "contribution_ids d1 = {21, 22}"
    using d1 by (simp_all add: user_ids_def contribution_ids_def)
  ultimately have up: "\<exists>d2. ContribRepo_Update ?c d1 = (Inr (), d2) \<and> user_ids d2 = {1, 2, 3} \<and> db_audit_logs d2 = []"
    using d1(3) by (auto simp: ContribRepo_Update_run contribution_status_enum_def StatusApproved_def user_ids_def
        pending_contribution_def)
  then obtain d2 where "ContribRepo_Update ?c d1 = (Inr (), d2)" "user_ids d2 = {1, 2, 3}" "db_audit_logs d2 = []"
    by blast
  then show ?thesis
    using m ap
    by (simp add: ApproveContribution_def ContribRepo_FindByID_run sample_contributions prog_defs log_action_def
        NewAuditLog_def validActions_def CreateAuditLog_def CreateAuditLog_stmt_def sqlP_def user_ids_def)
qed

theorem approved_definition_merged_witness:
  "\<exists>d' w'. ApproveContribution (db_runtime demo_ext) (db_moderation_svc demo_ext) 2 21 [] sample_db = (Inr (), d') \<and>
     db_word d' 9 = Some w' \<and> mset (map df_meaning (wd_definitions w')) = {#''sungai'', ''air''#}"
proof -
  obtain d' where run: "ApproveContribution (db_runtime demo_ext) (db_moderation_svc demo_ext) 2 21 [] sample_db =
      (Inr (), d')" using sample_approval by blast
  from approved_definition_merged [OF sample_db_ok run sample_contributions(1)] run show ?thesis
    by (auto simp: pending_contribution_def ContributionTypeNewDefinition_def sample_word_read map_string_or_empty_def
        map_string_def map_get_def)
qed

end
