(* ===== verification/Ai_Contract.thy ===== *)
theory Ai_Contract
  imports System_Invariant Decisions
begin

text \<open>
  What the repository of the requests to the language model promises, as a locale over a finite
  map; what the enrichment service does by it, in a locale that extends the first; and the
  interpretations on the PostgreSQL repository.
\<close>

section \<open>The repository\<close>

definition set_review_columns :: "ai_request \<Rightarrow> ai_request \<Rightarrow> ai_request" where
  "set_review_columns q r =
     r\<lparr>aq_response := aq_response q, aq_parsed := aq_parsed q, aq_status := aq_status q, aq_review := aq_review q,
       aq_reviewed_by := aq_reviewed_by q, aq_reviewed_at := aq_reviewed_at q\<rparr>"

locale ai_repository_contract =
  fixes repo :: "'s ai_repository" and requests :: "'s \<Rightarrow> uuid \<Rightarrow> ai_request option"
    and known :: "'s \<Rightarrow> uuid set" and inv :: "'s \<Rightarrow> bool" and storable :: "ai_request \<Rightarrow> bool"
  assumes requests_id: "requests s i = Some r \<Longrightarrow> aq_id r = i"
    and requests_reviewer: "inv s \<Longrightarrow> requests s i = Some r \<Longrightarrow> opt_in (aq_reviewed_by r) (known s)"
    and find_request: "arp_FindByID repo i s = (case requests s i of None \<Rightarrow> Inl NoRows | Some r \<Rightarrow> Inr r, s)"
    and create_request: "inv s \<Longrightarrow> arp_Create repo r s = (Inr (), s') \<Longrightarrow>
      inv s' \<and> requests s (aq_id r) = None \<and> requests s' = (requests s)(aq_id r \<mapsto> r)"
    and update_request: "inv s \<Longrightarrow> requests s (aq_id q) = Some r \<Longrightarrow> opt_in (aq_reviewed_by q) (known s) \<Longrightarrow>
      storable q \<Longrightarrow> \<exists>s'. arp_Update repo q s = (Inr (), s') \<and> inv s' \<and> known s' = known s \<and>
        requests s' = (requests s)(aq_id q \<mapsto> set_review_columns q r)"
    and update_request_Inr: "arp_Update repo q s = (Inr x, s') \<Longrightarrow> requests s (aq_id q) = Some r \<Longrightarrow>
      opt_in (aq_reviewed_by q) (known s) \<and> storable q"
    and update_unstorable: "\<not> storable q \<Longrightarrow> \<exists>e. arp_Update repo q s = (Inl e, s)"
begin

lemma find_request_Inr: "arp_FindByID repo i s = (Inr r, s') \<longleftrightarrow> requests s i = Some r \<and> s' = s"
  by (auto simp: find_request split: option.splits)

end

section \<open>What a review and an answer make of a request\<close>

inductive review_step :: "ai_request \<Rightarrow> ai_request \<Rightarrow> bool" where
  approve: "Ai_Approve now a r = Inr r' \<Longrightarrow> review_step r r'"
| reject: "Ai_Reject now a r = Inr r' \<Longrightarrow> review_step r r'"

inductive_cases review_stepE: "review_step r r'"

inductive_simps review_step_simps: "review_step r r'"

lemma review_step_fields:
  "review_step r r' \<Longrightarrow> aq_id r' = aq_id r \<and> aq_type r' = aq_type r \<and> aq_status r' = aq_status r \<and>
     aq_parsed r' = aq_parsed r \<and> set_review_columns r' r = r' \<and> aq_review r' \<noteq> aq_review r \<and>
     (aq_review r' = AIReviewStatusApproved \<longrightarrow> aq_type r \<noteq> AIRequestTypeQualityCheck)"
  by (auto elim!: review_stepE simp: Ai_Approve_def Ai_Reject_def set_review_columns_def ai_status_defs
      split: if_splits)

lemma llm_outcome_fields:
  "aq_id (llm_outcome E m ans r) = aq_id r" "aq_review (llm_outcome E m ans r) = aq_review r"
  "aq_reviewed_by (llm_outcome E m ans r) = aq_reviewed_by r" "aq_type (llm_outcome E m ans r) = aq_type r"
  "set_review_columns (llm_outcome E m ans r) r = llm_outcome E m ans r"
  by (auto simp: llm_outcome_def MarkCompleted_def MarkFailed_def set_review_columns_def split: sum.split)

lemma llm_outcome_settled:
  "aq_status r = AIRequestStatusPending \<Longrightarrow>
     aq_status (llm_outcome E m ans r) =
       (case ans of Inl _ \<Rightarrow> AIRequestStatusFailed | Inr _ \<Rightarrow> AIRequestStatusCompleted)"
  "aq_status r = AIRequestStatusPending \<Longrightarrow> ans = Inr resp \<Longrightarrow>
     aq_parsed (llm_outcome E m ans r) = extractJSON (cp_content resp)"
  by (auto simp: llm_outcome_def MarkCompleted_def MarkFailed_def split: sum.split)

section \<open>The enrichment service\<close>

locale enrichment = ai_repository_contract +
  fixes v :: "'a enrichment_svc" and R :: "'a runtime"
  assumes svc_repo: "es_repo v = repo"
    and merge_frame: "frames (\<lambda>s. (requests s, known s)) (mergeAIOutput R v t q)"
    and log_frame: "frames (\<lambda>s. (requests s, known s)) (ai_log R v a act i)"
    and merge_inv: "keeps inv (mergeAIOutput R v t q)"
    and log_inv: "keeps inv (ai_log R v a act i)"
begin

text \<open>An approval that succeeds is of a request that is no quality check and is not approved.\<close>

lemma approve_sound:
  assumes "inv s" and "ApproveAIRequest R v a i s = (Inr q, s')"
  shows "\<exists>r. requests s i = Some r \<and> Ai_Approve (rt_now R s) a r = Inr q \<and> inv s' \<and> known s' = known s \<and>
    requests s' = (requests s)(i \<mapsto> q)"
proof -
  from assms(2) obtain r s1 s2 where r: "requests s i = Some r" and ap: "Ai_Approve (rt_now R s) a r = Inr q"
    and m: "(case aq_word q of None \<Rightarrow> retP () | Some t \<Rightarrow> mergeAIOutput R v t q) s = (Inr (), s1)"
    and up: "arp_Update repo q s1 = (Inr (), s2)" and log: "ai_log R v a ActionApproveAI i s2 = (Inr (), s')"
    by (auto simp: ApproveAIRequest_def svc_repo prog_Inr find_request_Inr nowP_def)
  note q = review_step_fields [OF review_step.approve [OF ap]]
  have s1: "requests s1 = requests s" "known s1 = known s" "inv s1"
    using m framesD [OF merge_frame] keepsD [OF merge_inv] assms(1) by (auto simp: retP_def split: option.splits)
  have id: "aq_id q = i" using q requests_id [OF r] by simp
  have rv: "opt_in (aq_reviewed_by q) (known s1)" "storable q" using update_request_Inr [OF up, of r] id r s1 by simp_all
  obtain s3 where "arp_Update repo q s1 = (Inr (), s3)" "inv s3" "known s3 = known s1"
    "requests s3 = (requests s1)(i \<mapsto> set_review_columns q r)"
    using update_request [OF s1(3) _ rv(1) rv(2), of r] id r s1(1) by auto
  with up q s1 have s2: "inv s2" "known s2 = known s" "requests s2 = (requests s)(i \<mapsto> q)" by auto
  with framesD [OF log_frame log] keepsD [OF log_inv s2(1) log] r ap show ?thesis by auto
qed

text \<open>What the goroutine stores is its outcome of the request that it loaded, whatever the store
  holds by then.\<close>

lemma store_outcome:
  assumes "inv s" and "requests s i = Some r" and "set_review_columns (llm_outcome E (es_model v) ans r0) r =
      llm_outcome E (es_model v) ans r0" and "aq_id r0 = i" and "opt_in (aq_reviewed_by r0) (known s)"
    and "storable (llm_outcome E (es_model v) ans r0)"
  shows "\<exists>s'. runLLM_store E v ans r0 s = (Inr (), s') \<and> inv s' \<and>
    requests s' = (requests s)(i \<mapsto> llm_outcome E (es_model v) ans r0)"
proof -
  let ?q = "llm_outcome E (es_model v) ans r0"
  have "aq_id ?q = i" "aq_reviewed_by ?q = aq_reviewed_by r0" using assms(4) by (simp_all add: llm_outcome_fields)
  with update_request [OF assms(1), of ?q r] assms(2,3,5,6) show ?thesis
    by (auto simp: runLLM_store_def svc_repo prog_defs)
qed

text \<open>An outcome that the store does not take is dropped, with the error.\<close>

lemma store_refused:
  assumes "\<not> storable (llm_outcome E (es_model v) ans r0)"
  shows "runLLM_store E v ans r0 s = (Inr (), s)"
  using update_unstorable [OF assms, of s] by (auto simp: runLLM_store_def svc_repo prog_defs)

lemma answer_settles:
  assumes "inv s" and "requests s i = Some r" and "storable (llm_outcome E (es_model v) ans r)"
  shows "\<exists>s'. runLLM_store E v ans r s = (Inr (), s') \<and> inv s' \<and>
    requests s' = (requests s)(i \<mapsto> llm_outcome E (es_model v) ans r)"
  using assms requests_id [OF assms(2)] requests_reviewer [OF assms(1,2)]
  by (intro store_outcome) (auto simp: llm_outcome_fields)

text \<open>An approval between the load and the store of the goroutine is lost.\<close>

lemma approval_lost:
  assumes "inv s" and "requests s i = Some r" and "ApproveAIRequest R v a i s = (Inr q, s1)"
    and "storable (llm_outcome E (es_model v) ans r)"
  shows "\<exists>s2. runLLM_store E v ans r s1 = (Inr (), s2) \<and>
    requests s2 = (requests s)(i \<mapsto> llm_outcome E (es_model v) ans r)"
proof -
  from approve_sound [OF assms(1,3)] assms(2) have ap: "Ai_Approve (rt_now R s) a r = Inr q"
    and s1: "inv s1" "known s1 = known s" "requests s1 = (requests s)(i \<mapsto> q)" by auto
  have "set_review_columns (llm_outcome E (es_model v) ans r) q = llm_outcome E (es_model v) ans r"
    using ap by (auto simp: Ai_Approve_def set_review_columns_def llm_outcome_def MarkCompleted_def MarkFailed_def
        split: if_splits sum.split)
  from store_outcome [OF s1(1) _ this requests_id [OF assms(2)] _ assms(4)] requests_reviewer [OF assms(1,2)] s1(2,3)
  show ?thesis by auto
qed

end

section \<open>PostgreSQL provides it\<close>

definition db_request :: "'z db_scheme \<Rightarrow> uuid \<Rightarrow> ai_request option" where
  "db_request d i = map_option ai_toDomain (lookup_by qr_id i (db_ai_requests d))"

lemma AiRepo_FindByID_run:
  "AiRepo_FindByID i d = (case db_request d i of None \<Rightarrow> Inl NoRows | Some r \<Rightarrow> Inr r, d)"
  by (simp add: AiRepo_FindByID_def GetAIRequestByID_def db_request_def prog_defs one_row_def split: option.split)

lemma db_request_update:
  "db_request (d\<lparr>db_ai_requests := update_where (\<lambda>r. qr_id r = aq_id q) (set_ai_columns (ai_params q))
      (db_ai_requests d)\<rparr>) =
     (case db_request d (aq_id q) of
        None \<Rightarrow> db_request d | Some r \<Rightarrow> (db_request d)(aq_id q \<mapsto> set_review_columns q r))"
proof (rule ext)
  fix i
  show "db_request (d\<lparr>db_ai_requests := update_where (\<lambda>r. qr_id r = aq_id q) (set_ai_columns (ai_params q))
      (db_ai_requests d)\<rparr>) i =
     (case db_request d (aq_id q) of
        None \<Rightarrow> db_request d | Some r \<Rightarrow> (db_request d)(aq_id q \<mapsto> set_review_columns q r)) i"
    by (cases "lookup_by qr_id i (db_ai_requests d)"; cases "i = aq_id q")
      (auto simp: db_request_def lookup_update_where ai_toDomain_set_columns set_review_columns_def
        dest: lookup_by_Some split: option.split)
qed

interpretation pg_ai: ai_repository_contract PostgresAIRequestRepository db_request user_ids db_ok ai_storable
proof (unfold_locales, unfold PostgresAIRequestRepository_def ai_repository.simps)
  fix s :: "'z db_scheme" and i r
  assume r: "db_request s i = Some r"
  then show "aq_id r = i" by (auto simp: db_request_def ai_toDomain_def dest: lookup_by_Some)
  show "opt_in (aq_reviewed_by r) (user_ids s)" if "db_ok s"
    using r db_okD(10) [OF that] by (auto simp: db_request_def ai_ok_def ai_toDomain_def dest!: lookup_by_Some)
next
  fix s :: "'z db_scheme" and i
  show "AiRepo_FindByID i s = (case db_request s i of None \<Rightarrow> Inl NoRows | Some r \<Rightarrow> Inr r, s)"
    by (rule AiRepo_FindByID_run)
next
  fix s s' :: "'z db_scheme" and r
  assume s: "db_ok s" and run: "AiRepo_Create r s = (Inr (), s')"
  have id: "qr_id (ai_params r) = aq_id r" by (simp add: ai_params_def)
  from run have new: "aq_id r \<notin> qr_id ` set (db_ai_requests s)"
    and s': "s' = s\<lparr>db_ai_requests := db_ai_requests s @ [ai_params r]\<rparr>"
    by (auto simp: AiRepo_Create_def CreateAIRequest_def sqlP_Inr id)
  have none: "lookup_by qr_id (aq_id r) (db_ai_requests s) = None" using new by (simp add: lookup_by_None)
  then have "db_request s' = (db_request s)(aq_id r \<mapsto> r)"
    by (intro ext) (auto simp: s' db_request_def table_simps id ai_roundtrip split: option.split)
  with none keepsD [OF keeps_AiRepo(1) s run]
  show "db_ok s' \<and> db_request s (aq_id r) = None \<and> db_request s' = (db_request s)(aq_id r \<mapsto> r)"
    by (simp add: db_request_def)
next
  fix s :: "'z db_scheme" and q r :: ai_request
  assume s: "db_ok s" and r: "db_request s (aq_id q) = Some r" and rv: "opt_in (aq_reviewed_by q) (user_ids s)"
    and st: "ai_storable q"
  let ?s = "s\<lparr>db_ai_requests := update_where (\<lambda>r. qr_id r = aq_id q) (set_ai_columns (ai_params q)) (db_ai_requests s)\<rparr>"
  have run: "AiRepo_Update q s = (Inr (), ?s)"
    using rv st by (simp add: AiRepo_Update_def UpdateAIRequest_def sqlP_def) (simp add: ai_params_def ai_storable_def)
  have "db_request ?s = (db_request s)(aq_id q \<mapsto> set_review_columns q r)"
    using db_request_update [where d = s and q = q] r by simp
  with run keepsD [OF keeps_AiRepo(2) s run]
  show "\<exists>s'. AiRepo_Update q s = (Inr (), s') \<and> db_ok s' \<and> user_ids s' = user_ids s \<and>
      db_request s' = (db_request s)(aq_id q \<mapsto> set_review_columns q r)"
    by (simp add: user_ids_def)
next
  fix s s' :: "'z db_scheme" and q r :: ai_request and x
  assume "AiRepo_Update q s = (Inr x, s')" and "db_request s (aq_id q) = Some r"
  then show "opt_in (aq_reviewed_by q) (user_ids s) \<and> ai_storable q"
    by (auto simp: AiRepo_Update_def UpdateAIRequest_def sqlP_Inr ai_params_def ai_storable_def db_request_def image_iff
        dest!: lookup_by_Some)
next
  fix s :: "'z db_scheme" and q :: ai_request
  assume "\<not> ai_storable q"
  then show "\<exists>e. AiRepo_Update q s = (Inl e, s)"
    by (auto simp: AiRepo_Update_def UpdateAIRequest_def sqlP_def ai_params_def ai_storable_def)
qed

lemma blind_requests [frame_intros]: "dictionary_blind (\<lambda>d. (db_request d, user_ids d))"
  by (simp add: dictionary_blind_def db_request_def user_ids_def fun_eq_iff)

lemma frames_ai_audit [frame_intros]: "frames (\<lambda>d. (db_request d, user_ids d)) (CreateAuditLog l)"
  unfolding CreateAuditLog_def CreateAuditLog_stmt_def
  by (intro frames_sqlP) (simp add: db_request_def user_ids_def fun_eq_iff)

interpretation pg_enrichment: enrichment
  PostgresAIRequestRepository db_request user_ids db_ok ai_storable "db_enrichment_svc E llm model" "db_runtime E" for E llm model
proof
  show "es_repo (db_enrichment_svc E llm model) = PostgresAIRequestRepository"
    by (simp add: db_enrichment_svc_def)
  show "frames (\<lambda>d. (db_request d, user_ids d)) (mergeAIOutput (db_runtime E) (db_enrichment_svc E llm model) t q)" for t q
    unfolding mergeAIOutput_def merge_definition_def merge_example_def merge_related_def Let_def enrichment_fields
    by (intro frame_intros)
  show "frames (\<lambda>d. (db_request d, user_ids d)) (ai_log (db_runtime E) (db_enrichment_svc E llm model) a act i)" for a act i
    unfolding ai_log_def NewAuditLog_def enrichment_fields by (intro frame_intros)
qed (intro triple_intros)+

end
