(* ===== verification/Ai_Http.thy ===== *)
theory Ai_Http
  imports Ai_Service Moderation_Http
begin

text \<open>
  \<open>internal/ai/http\<close>: translation for users, the enrichment requests for admins, and the two
  limiters. \<open>spawn\<close> stands for the \<open>go\<close> statement: what starting a goroutine does to the state.
\<close>

section \<open>Responses\<close>

record ai_request_response =
  ao_id :: string
  ao_type :: string
  ao_word :: "string option"
  ao_contribution :: "string option"
  ao_requested_by :: string
  ao_model :: string
  ao_status :: string
  ao_review :: string
  ao_parsed :: json_map
  ao_reviewed_by :: "string option"
  ao_reviewed_at :: "time option"
  ao_created_at :: time

datatype ai_data =
    TranslationData translation_result
  | AIRequestData ai_request_response
  | AIRequestsData "ai_request_response list"

definition toAIRequestResponse :: "ext \<Rightarrow> ai_request \<Rightarrow> ai_request_response" where
  "toAIRequestResponse E r =
     \<lparr>ao_id = x_uuid_string E (aq_id r), ao_type = aq_type r,
      ao_word = map_option (x_uuid_string E) (aq_word r),
      ao_contribution = map_option (x_uuid_string E) (aq_contribution r),
      ao_requested_by = x_uuid_string E (aq_requested_by r), ao_model = aq_model r,
      ao_status = aq_status r, ao_review = aq_review r, ao_parsed = aq_parsed r,
      ao_reviewed_by = map_option (x_uuid_string E) (aq_reviewed_by r),
      ao_reviewed_at = aq_reviewed_at r, ao_created_at = aq_created_at r\<rparr>"

definition Accepted :: "'d \<Rightarrow> 'd response" where
  "Accepted d = \<lparr>rs_status = 202, rs_body = DataBody d, rs_return = ReturnsNil\<rparr>"

section \<open>Errors and helpers\<close>

definition mapEnrichmentError :: "ext \<Rightarrow> err \<Rightarrow> 'd response" where
  "mapEnrichmentError E e =
     (let t = err_text (x_sql_text E) e in
      if errors_is e (AiCmd AiWordNotFound) \<or> errors_is e (AiCmd AiContributionNotFound)
         \<or> errors_is e (AiCmd AiRequestNotFound) then Send 404 (NotFound t)
      else if errors_is e (AiCmd AiRequestConflict) then Send 409 (Conflict t)
      else Send 500 (Internal ''internal error''))"

text \<open>\<open>adminUUID\<close>: without claims, or with an identifier that is no UUID, an error\<close>

definition adminUUID :: "ext \<Rightarrow> 'b request \<Rightarrow> uuid option" where
  "adminUUID E c =
     (case GetClaims c of
        None \<Rightarrow> None
      | Some claims \<Rightarrow>
          (case x_uuid_parse E (cl_user_id claims) of (i, ok) \<Rightarrow> if ok then Some i else None))"

text \<open>\<open>adminAndWord\<close>: the response it sends is lost, as it returns an error as well.\<close>

definition adminAndWord :: "ext \<Rightarrow> 'b request \<Rightarrow> 'd response + uuid \<times> uuid" where
  "adminAndWord E c =
     (case adminUUID E c of
        None \<Rightarrow> Inl (return_error 401 (Some 401) ''Unauthorized'')
      | Some adminID \<Rightarrow>
          (case x_uuid_parse E (rq_param c ''word_id'') of (i, ok) \<Rightarrow>
             if ok then Inr (adminID, i) else Inl (return_error 400 (Some 400) ''Bad Request'')))"

definition query_int :: "'b request \<Rightarrow> string \<Rightarrow> int \<Rightarrow> int" where
  "query_int c key dflt = (case atoi (rq_query c key) of Some n \<Rightarrow> n | None \<Rightarrow> dflt)"

definition paginate :: "'b request \<Rightarrow> int \<times> int" where
  "paginate c =
     (let page = query_int c ''page'' 1; perPage = query_int c ''per_page'' 20 in
      (if page < 1 then 1 else page, if perPage < 1 \<or> 100 < perPage then 20 else perPage))"

section \<open>Translation (\<open>handler.go\<close>)\<close>

record translate_request =
  tq_text :: string
  tq_context :: string

definition Translate :: "ext \<Rightarrow> 's translate_svc \<Rightarrow> ('s, translate_request, ai_data) handler" where
  "Translate E v c s =
     (case rq_body c of (req, ok) \<Rightarrow>
        if \<not> ok then (Send 422 (Validation ''invalid request body'' []), s)
        else
          let txt = trim_space (tq_text req) in
          if txt = [] then (Send 422 (Validation ''text is required'' [detail ''text'' ''required'']), s)
          else
            respond
              (\<lambda>e. if errors_is e (AiCmd AiTextTooLong) \<or> errors_is e (AiCmd AiEmptyText)
                   then Send 422 (Validation (err_text (x_sql_text E) e) [])
                   else if errors_is e (Ai ErrAIUnavailable)
                   then Send 503 (AIUnavailable ''AI service is temporarily unavailable'')
                   else Send 500 (Internal ''internal server error''))
              (\<lambda>r. OK (TranslationData r))
              (TranslateText v txt (tq_context req)) s)"

section \<open>Enrichment (\<open>admin_handler.go\<close>)\<close>

definition start_job ::
  "ext \<Rightarrow> (job \<Rightarrow> 's \<Rightarrow> 's) \<Rightarrow> ('s, err, ai_request \<times> job) prog \<Rightarrow> 's \<Rightarrow> ai_data response \<times> 's" where
  "start_job E spawn m s =
     (case m s of
        (Inl e, s') \<Rightarrow> (mapEnrichmentError E e, s')
      | (Inr (req, j), s') \<Rightarrow> (Accepted (AIRequestData (toAIRequestResponse E req)), spawn j s'))"

definition on_word ::
  "ext \<Rightarrow> (job \<Rightarrow> 's \<Rightarrow> 's) \<Rightarrow> (uuid \<Rightarrow> uuid \<Rightarrow> ('s, err, ai_request \<times> job) prog) \<Rightarrow> ('s, 'b, ai_data) handler" where
  "on_word E spawn run c s =
     (case adminAndWord E c of
        Inl resp \<Rightarrow> (resp, s)
      | Inr (adminID, wordID) \<Rightarrow> start_job E spawn (run adminID wordID) s)"

definition EnrichDefinition ::
  "ext \<Rightarrow> 's runtime \<Rightarrow> (job \<Rightarrow> 's \<Rightarrow> 's) \<Rightarrow> 's enrichment_svc \<Rightarrow> ('s, 'b, ai_data) handler" where
  "EnrichDefinition E R spawn v = on_word E spawn (TriggerDefinitionEnrichment R v)"

definition SuggestExample ::
  "ext \<Rightarrow> 's runtime \<Rightarrow> (job \<Rightarrow> 's \<Rightarrow> 's) \<Rightarrow> 's enrichment_svc \<Rightarrow> ('s, 'b, ai_data) handler" where
  "SuggestExample E R spawn v = on_word E spawn (TriggerExampleSuggestion R v)"

definition SuggestRelated ::
  "ext \<Rightarrow> 's runtime \<Rightarrow> (job \<Rightarrow> 's \<Rightarrow> 's) \<Rightarrow> 's enrichment_svc \<Rightarrow> ('s, 'b, ai_data) handler" where
  "SuggestRelated E R spawn v = on_word E spawn (TriggerRelatedWordSuggestion R v)"

text \<open>A token whose user is no UUID is answered with status 401 and the code \<open>FORBIDDEN\<close>.\<close>

definition with_admin ::
  "ext \<Rightarrow> (uuid \<Rightarrow> 's \<Rightarrow> 'd response \<times> 's) \<Rightarrow> 'b request \<Rightarrow> 's \<Rightarrow> 'd response \<times> 's" where
  "with_admin E k c s =
     (case adminUUID E c of
        None \<Rightarrow> (Send 401 (Forbidden ''invalid token''), s)
      | Some adminID \<Rightarrow> k adminID s)"

definition QualityCheck ::
  "ext \<Rightarrow> 's runtime \<Rightarrow> (job \<Rightarrow> 's \<Rightarrow> 's) \<Rightarrow> 's enrichment_svc \<Rightarrow> ('s, 'b, ai_data) handler" where
  "QualityCheck E R spawn v c =
     with_admin E (\<lambda>adminID.
       with_uuid E (rq_param c ''contribution_id'') (Send 400 (Validation ''invalid contribution id'' []))
         (\<lambda>i. start_job E spawn (TriggerQualityCheck R v adminID i))) c"

text \<open>The number of pages is left out of the answer: it is 0.\<close>

definition ai_page :: "ext \<Rightarrow> int \<Rightarrow> int \<Rightarrow> ai_request list \<times> int \<Rightarrow> ai_data response" where
  "ai_page E page perPage = (\<lambda>(rs, tot).
     Paginated (AIRequestsData (map (toAIRequestResponse E) rs))
       \<lparr>pm_page = page, pm_per_page = perPage, pm_total = tot, pm_total_pages = 0\<rparr>)"

definition ListAIRequests :: "ext \<Rightarrow> 's enrichment_svc \<Rightarrow> ('s, 'b, ai_data) handler" where
  "ListAIRequests E v c s =
     (case paginate c of (page, perPage) \<Rightarrow>
        if rq_query c ''word_id'' \<noteq> [] then
          with_uuid E (rq_query c ''word_id'') (Send 400 (Validation ''invalid word_id'' []))
            (\<lambda>i. respond internal_error (ai_page E page perPage)
               (arp_ListByWord (es_repo v) i page perPage)) s
        else
          respond internal_error (ai_page E page perPage)
            (arp_ListPendingReview (es_repo v) page perPage) s)"

definition respond_request ::
  "ext \<Rightarrow> ('s, err, ai_request) prog \<Rightarrow> 's \<Rightarrow> ai_data response \<times> 's" where
  "respond_request E m = respond (mapEnrichmentError E) (\<lambda>r. OK (AIRequestData (toAIRequestResponse E r))) m"

definition GetAIRequest_handler :: "ext \<Rightarrow> 's enrichment_svc \<Rightarrow> ('s, 'b, ai_data) handler" where
  "GetAIRequest_handler E v c =
     with_uuid E (rq_param c ''id'') (Send 400 (Validation ''invalid request id'' []))
       (\<lambda>i. respond_request E (GetAIRequest v i))"

definition ApproveAIRequest_handler ::
  "ext \<Rightarrow> 's runtime \<Rightarrow> 's enrichment_svc \<Rightarrow> ('s, 'b, ai_data) handler" where
  "ApproveAIRequest_handler E R v c =
     with_admin E (\<lambda>adminID.
       with_uuid E (rq_param c ''id'') (Send 400 (Validation ''invalid request id'' []))
         (\<lambda>i. respond_request E (ApproveAIRequest R v adminID i))) c"

definition RejectAIRequest_handler ::
  "ext \<Rightarrow> 's runtime \<Rightarrow> 's enrichment_svc \<Rightarrow> ('s, 'b, ai_data) handler" where
  "RejectAIRequest_handler E R v c =
     with_admin E (\<lambda>adminID.
       with_uuid E (rq_param c ''id'') (Send 400 (Validation ''invalid request id'' []))
         (\<lambda>i. respond_request E (RejectAIRequest R v adminID i))) c"

section \<open>Routes (\<open>routes.go\<close>)\<close>

definition ai_key :: "string \<Rightarrow> 'b request \<Rightarrow> string" where
  "ai_key pre c =
     (case GetClaims c of
        None \<Rightarrow> pre @ ''ip:'' @ rq_ip c
      | Some claims \<Rightarrow> pre @ cl_user_id claims)"

definition translate_route ::
  "ext \<Rightarrow> 's runtime \<Rightarrow> string \<Rightarrow> 's counter \<Rightarrow> 's translate_svc \<Rightarrow> ('s, translate_request, ai_data) handler" where
  "translate_route E R secret ct v =
     RequireAuth E secret (rt_now R)
       (Limiter ct (ai_key ''ratelimit:ai_translate:'') 30 hour (Translate E v))"

definition trigger_route ::
  "ext \<Rightarrow> 's runtime \<Rightarrow> string \<Rightarrow> 's counter \<Rightarrow> ('s, 'b, ai_data) handler \<Rightarrow> ('s, 'b, ai_data) handler" where
  "trigger_route E R secret ct h =
     admin_group E R secret (Limiter ct (ai_key ''ratelimit:admin_ai:'') 50 hour h)"

definition approve_ai_route ::
  "ext \<Rightarrow> 's runtime \<Rightarrow> string \<Rightarrow> 's enrichment_svc \<Rightarrow> ('s, 'b, ai_data) handler" where
  "approve_ai_route E R secret v = admin_group E R secret (ApproveAIRequest_handler E R v)"

end
