(* ===== verification/Ai_Properties.thy ===== *)
theory Ai_Properties
  imports Sample Ai_Contract Ai_Http
begin

text \<open>
  Properties of the AI context: the review of requests, the goroutine that stores what the
  language model answered, and translation. Nothing is assumed of the model's answers.
\<close>

section \<open>Reviews\<close>

text \<open>C33. An approval that succeeds is of a request that is no quality check and is not approved yet; it changes the
  review of this request only, and approving again is a conflict that changes nothing. A request that was rejected
  can still be approved: on the model of the code only a quality check and an approved request are refused for their
  state, while the PRD forbids the approval of a rejected request as well.\<close>

theorem ai_approval_once:
  fixes d :: "'z db_scheme"
  assumes "db_ok d" and "ApproveAIRequest (db_runtime E) (db_enrichment_svc E llm model) a i d = (Inr q, d')"
  shows "\<exists>r. db_request d i = Some r \<and> aq_type r \<noteq> AIRequestTypeQualityCheck \<and> aq_review r \<noteq> AIReviewStatusApproved \<and>
    q = r\<lparr>aq_review := AIReviewStatusApproved, aq_reviewed_by := Some a, aq_reviewed_at := Some (db_now d)\<rparr> \<and>
    db_request d' = (db_request d)(i \<mapsto> q) \<and> db_ok d' \<and>
    ApproveAIRequest (db_runtime E) (db_enrichment_svc E llm model) a' i d' = (Inl (AiCmd AiRequestConflict), d') \<and>
    (\<exists>q'. Ai_Approve now a' (r\<lparr>aq_review := AIReviewStatusRejected\<rparr>) = Inr q' \<and> aq_review q' = AIReviewStatusApproved)"
proof -
  from pg_enrichment.approve_sound [OF assms] obtain r where r: "db_request d i = Some r"
    and ap: "Ai_Approve (db_now d) a r = Inr q" and d': "db_ok d'" "db_request d' = (db_request d)(i \<mapsto> q)" by auto
  have q: "aq_type r \<noteq> AIRequestTypeQualityCheck" "aq_review r \<noteq> AIReviewStatusApproved"
    "q = r\<lparr>aq_review := AIReviewStatusApproved, aq_reviewed_by := Some a, aq_reviewed_at := Some (db_now d)\<rparr>"
    using ap by (auto simp: Ai_Approve_def split: if_splits)
  have "ApproveAIRequest (db_runtime E) (db_enrichment_svc E llm model) a' i d' = (Inl (AiCmd AiRequestConflict), d')"
    using q by (simp add: ApproveAIRequest_def AiRepo_FindByID_run d'(2) prog_defs Ai_Approve_def ai_conflict_def)
  moreover have "AIReviewStatusRejected \<noteq> AIReviewStatusApproved" by (simp add: ai_status_defs)
  then have "\<exists>q'. Ai_Approve now a' (r\<lparr>aq_review := AIReviewStatusRejected\<rparr>) = Inr q' \<and> aq_review q' = AIReviewStatusApproved"
    using q(1) by (simp add: Ai_Approve_def)
  ultimately show ?thesis using r q d' by blast
qed

definition sample_request_41 :: ai_request where
  "sample_request_41 = ai_toDomain sample_ai"

lemma sample_requests: "db_request sample_db 41 = Some sample_request_41"
  "aq_type sample_request_41 = AIRequestTypeSuggestRelated" "aq_review sample_request_41 = AIReviewStatusUnreviewed"
  "aq_status sample_request_41 = AIRequestStatusPending" "aq_word sample_request_41 = Some 9"
  "aq_parsed sample_request_41 = None" "aq_id sample_request_41 = 41"
  by (simp_all add: db_request_def table_simps sample_request_41_def ai_toDomain_def column_map_def sample_ai_def
      ai_type_defs ai_status_defs)

lemma sample_storable: "ai_storable (sample_request_41\<lparr>aq_review := v, aq_reviewed_by := u, aq_reviewed_at := t\<rparr>)"
  by (simp add: ai_storable_def sample_request_41_def ai_toDomain_def sample_ai_def column_map_def toNullRaw_def jsonb_column_ok_def)

text \<open>A model that never answers\<close>

definition silent_model :: "db llm_client" where
  "silent_model c d = (Inl (Ai ErrAIUnavailable), d)"

lemma sample_ai_approval:
  "\<exists>q d'. ApproveAIRequest (db_runtime demo_ext) (db_enrichment_svc demo_ext llm model) 2 41 sample_db = (Inr q, d')"
proof -
  let ?q = "sample_request_41\<lparr>aq_review := AIReviewStatusApproved, aq_reviewed_by := Some 2, aq_reviewed_at := Some 7\<rparr>"
  have ap: "Ai_Approve 7 2 sample_request_41 = Inr ?q"
    by (simp add: Ai_Approve_def sample_requests) (simp add: ai_type_defs ai_status_defs)
  obtain d1 where up: "AiRepo_Update ?q sample_db = (Inr (), d1)"
    using pg_ai.update_request [OF sample_db_ok, of ?q sample_request_41]
    by (auto simp: sample_requests PostgresAIRequestRepository_def sample_storable)
  then show ?thesis
    using ap
    by (auto simp: ApproveAIRequest_def AiRepo_FindByID_run sample_requests prog_defs mergeAIOutput_def ai_log_def
        NewAuditLog_def validActions_def split: prod.split)
qed

theorem ai_approval_once_witness:
  "\<exists>q d'. ApproveAIRequest (db_runtime demo_ext) (db_enrichment_svc demo_ext silent_model ''m'') 2 41 sample_db = (Inr q, d') \<and>
     db_request d' 41 = Some q \<and>
     ApproveAIRequest (db_runtime demo_ext) (db_enrichment_svc demo_ext silent_model ''m'') 2 41 d' =
       (Inl (AiCmd AiRequestConflict), d')"
proof -
  obtain q d' where run: "ApproveAIRequest (db_runtime demo_ext) (db_enrichment_svc demo_ext silent_model ''m'') 2 41 sample_db =
      (Inr q, d')" using sample_ai_approval by blast
  from ai_approval_once [OF sample_db_ok run, where a' = 2 and now = 0] run show ?thesis by auto
qed

section \<open>The goroutine\<close>

text \<open>C20. An approval that falls between the moment in which the goroutine loads a request and the moment in which it
  stores the answer succeeds, and is undone: the stored review is the one that was loaded. Only an answer that the
  database refuses, because of a character \<open>\u0000\<close>, leaves the approval in place.\<close>

theorem approval_overwritten:
  fixes d :: "'z db_scheme"
  assumes "db_ok d" and "runLLM_load (db_enrichment_svc E llm model) i d = (Inr r, d)"
    and "ApproveAIRequest (db_runtime E) (db_enrichment_svc E llm model) a i d = (Inr q, d1)"
  shows "aq_review q = AIReviewStatusApproved \<and> aq_review r \<noteq> AIReviewStatusApproved \<and>
    db_request d1 i = Some q \<and>
    (\<exists>d2 r2. runLLM_store E (db_enrichment_svc E llm model) answer r d1 = (Inr (), d2) \<and>
      db_request d2 i = Some r2 \<and> aq_review r2 = (if ai_storable (llm_outcome E model answer r) then aq_review r else aq_review q))"
proof -
  have r: "db_request d i = Some r"
    using assms(2) by (auto simp: runLLM_load_def AiRepo_FindByID_run split: option.splits)
  from pg_enrichment.approve_sound [OF assms(1,3)] r have ap: "Ai_Approve (db_now d) a r = Inr q"
    "db_request d1 = (db_request d)(i \<mapsto> q)" by auto
  moreover from ap(1) have "aq_review q = AIReviewStatusApproved" "aq_review r \<noteq> AIReviewStatusApproved"
    by (auto simp: Ai_Approve_def split: if_splits)
  moreover have model: "es_model (db_enrichment_svc E llm model) = model" by (simp add: db_enrichment_svc_def)
  moreover have "\<exists>d2 r2. runLLM_store E (db_enrichment_svc E llm model) answer r d1 = (Inr (), d2) \<and>
      db_request d2 i = Some r2 \<and> aq_review r2 = (if ai_storable (llm_outcome E model answer r) then aq_review r else aq_review q)"
  proof (cases "ai_storable (llm_outcome E model answer r)")
    case True
    with pg_enrichment.approval_lost [OF assms(1) r assms(3), where ans = answer] model
    obtain d2 where "runLLM_store E (db_enrichment_svc E llm model) answer r d1 = (Inr (), d2)"
      "db_request d2 = (db_request d)(i \<mapsto> llm_outcome E model answer r)" by fastforce
    with True show ?thesis by (auto simp: llm_outcome_fields)
  next
    case False
    with pg_enrichment.store_refused [of E E llm model answer r d1] model ap(2) show ?thesis by auto
  qed
  ultimately show ?thesis by simp
qed

theorem approval_overwritten_witness:
  "\<exists>q d1 d2 r2. ApproveAIRequest (db_runtime demo_ext) (db_enrichment_svc demo_ext silent_model ''m'') 2 41 sample_db = (Inr q, d1) \<and>
     aq_review q = AIReviewStatusApproved \<and>
     runLLM_store demo_ext (db_enrichment_svc demo_ext silent_model ''m'') (Inl NoRows) sample_request_41 d1 = (Inr (), d2) \<and>
     db_request d2 41 = Some r2 \<and> aq_review r2 = AIReviewStatusUnreviewed"
proof -
  obtain q d1 where run: "ApproveAIRequest (db_runtime demo_ext) (db_enrichment_svc demo_ext silent_model ''m'') 2 41 sample_db =
      (Inr q, d1)" using sample_ai_approval by blast
  have load: "runLLM_load (db_enrichment_svc demo_ext silent_model ''m'') 41 sample_db = (Inr sample_request_41, sample_db)"
    by (simp add: runLLM_load_def AiRepo_FindByID_run sample_requests)
  have "ai_storable (llm_outcome demo_ext ''m'' (Inl NoRows) sample_request_41)"
    by (simp add: ai_storable_def llm_outcome_def MarkFailed_def toNullRaw_def jsonb_column_ok_def storable_text_def
        sample_requests)
  with approval_overwritten [OF sample_db_ok load run, where answer = "Inl NoRows"] run sample_requests(3) show ?thesis by auto
qed

lemma db_request_draws [simp]: "db_request (d\<lparr>db_draws := n\<rparr>) = db_request d"
  by (simp add: db_request_def fun_eq_iff)

text \<open>C19. A job that is triggered ends, whatever the model answers, or fails to. If the outcome holds no character
  \<open>\u0000\<close>, the request that was created as pending is failed or completed when the goroutine is done, with the JSON of
  the answer as its output; if it holds one, the database refuses it, the goroutine drops the error, and the request
  stays pending for good.\<close>

theorem triggered_job_settles:
  fixes d :: "'z db_scheme"
  assumes "db_ok d" and "\<And>c. frames (\<lambda>d. d) (llm c)"
    and "TriggerDefinitionEnrichment (db_runtime E) (db_enrichment_svc E llm model) a w d = (Inr (req, job), d1)"
  shows "aq_status req = AIRequestStatusPending \<and> db_request d1 = (db_request d)(aq_id req \<mapsto> req) \<and>
    (\<exists>d2 r. runLLM E (db_enrichment_svc E llm model) job d1 = (Inr (), d2) \<and>
      db_request d2 = (db_request d)(aq_id req \<mapsto> r) \<and>
      (if \<not> ai_storable (llm_outcome E model (fst (llm (llm_request (db_enrichment_svc E llm model) (snd job)) d1)) req)
       then r = req else case fst (llm (llm_request (db_enrichment_svc E llm model) (snd job)) d1) of
         Inl _ \<Rightarrow> aq_status r = AIRequestStatusFailed
       | Inr resp \<Rightarrow> aq_status r = AIRequestStatusCompleted \<and> aq_parsed r = extractJSON (cp_content resp)))"
proof -
  let ?v = "db_enrichment_svc E llm model"
  let ?d0 = "d\<lparr>db_draws := Suc (db_draws d)\<rparr>"
  have pending: "aq_status req = AIRequestStatusPending" and job: "fst job = aq_id req"
    and cr: "AiRepo_Create req ?d0 = (Inr (), d1)"
    using assms(3)
    by (auto simp: TriggerDefinitionEnrichment_def trigger_def NewAIRequest_def prog_Inr WordRepo_FindByID_run
        split: option.splits)
  have "arp_Create PostgresAIRequestRepository = AiRepo_Create" by (simp add: PostgresAIRequestRepository_def)
  from pg_ai.create_request [of ?d0, unfolded this, OF _ cr] assms(1)
  have d1: "db_ok d1" "db_request d1 = (db_request d)(aq_id req \<mapsto> req)" by simp_all
  obtain ans s where l: "llm (llm_request ?v (snd job)) d1 = (ans, s)" by fastforce
  with framesD [OF assms(2) l] have ans: "llm (llm_request ?v (snd job)) d1 = (ans, d1)" by simp
  let ?out = "llm_outcome E model ans req"
  have v: "es_llm ?v = llm" "es_model ?v = model" by (simp_all add: db_enrichment_svc_def)
  obtain d2 where d2: "runLLM_store E ?v ans req d1 = (Inr (), d2)"
    "db_request d2 = (db_request d)(aq_id req \<mapsto> if ai_storable ?out then ?out else req)"
  proof (cases "ai_storable ?out")
    case True
    with pg_enrichment.answer_settles [OF d1(1), where i = "aq_id req" and r = req and ans = ans] d1(2) v that
    show thesis by fastforce
  next
    case False
    with pg_enrichment.store_refused [of E E llm model ans req d1] d1(2) v that show thesis by auto
  qed
  note v(1)
  then have "runLLM E ?v job d1 = (Inr (), d2)"
    using ans d2(1) d1(2) job
    by (cases job) (simp add: runLLM_def runLLM_load_def AiRepo_FindByID_run prog_defs)
  then show ?thesis
    using pending d1(2) d2(2) ans llm_outcome_settled [OF pending]
    by (cases ans) auto
qed

theorem triggered_job_settles_witness:
  "\<exists>req job d1 d2 r. TriggerDefinitionEnrichment (db_runtime demo_ext)
       (db_enrichment_svc demo_ext silent_model ''m'') 2 9 sample_db = (Inr (req, job), d1) \<and>
     runLLM demo_ext (db_enrichment_svc demo_ext silent_model ''m'') job d1 = (Inr (), d2) \<and>
     db_request d2 (aq_id req) = Some r \<and> aq_status r = AIRequestStatusFailed"
proof -
  obtain w where w: "db_word sample_db 9 = Some w"
    by (simp add: db_word_def live_word_def table_simps)
  have "\<exists>r. fst (TriggerDefinitionEnrichment (db_runtime demo_ext) (db_enrichment_svc demo_ext silent_model ''m'') 2 9 sample_db) =
      Inr r"
    by (simp add: TriggerDefinitionEnrichment_def WordRepo_FindByID_run w trigger_def NewAIRequest_def prog_defs
        AiRepo_Create_def CreateAIRequest_def sqlP_def ai_params_def user_ids_def word_ids_def
        jsonb_column_ok_def toNullRaw_def)
  then obtain req job d1 where run: "TriggerDefinitionEnrichment (db_runtime demo_ext)
      (db_enrichment_svc demo_ext silent_model ''m'') 2 9 sample_db = (Inr (req, job), d1)"
    by (metis prod.collapse)
  have "frames (\<lambda>d. d) (silent_model c)" for c by (simp add: frames_def silent_model_def)
  note settled = triggered_job_settles [OF sample_db_ok this run]
  from run have "aq_parsed req = None" by (auto simp: TriggerDefinitionEnrichment_def trigger_def NewAIRequest_def prog_Inr)
  then have "ai_storable (llm_outcome demo_ext ''m'' (Inl (Ai ErrAIUnavailable)) req)"
    by (simp add: ai_storable_def llm_outcome_def MarkFailed_def toNullRaw_def jsonb_column_ok_def storable_text_def)
  with settled run show ?thesis by (auto simp: silent_model_def)
qed

section \<open>Listing\<close>

text \<open>The list of requests never tells how many pages there are: the answer says 0, however many requests it
  counts.\<close>

theorem ai_list_without_pages:
  "case rs_body (fst (ListAIRequests E v c s)) of PageBody _ m \<Rightarrow> pm_total_pages m = 0 | _ \<Rightarrow> True"
  by (auto simp: ListAIRequests_def with_uuid_def respond_def ai_page_def Paginated_def internal_error_def Send_def
      split: prod.split sum.split)

section \<open>Translation\<close>

text \<open>Translation of a text: empty and overlong texts are refused without asking the model, whose errors are passed
  on; any answer at all yields a result for the trimmed text whose confidence is one of the three values.\<close>

theorem translate_cases:
  "if trim_space txt = [] then TranslateText v txt hint s = (Inl (AiCmd AiEmptyText), s)
   else if 1000 < rune_count (trim_space txt) then TranslateText v txt hint s = (Inl (AiCmd AiTextTooLong), s)
   else \<exists>q. cq_model q = tv_model v \<and>
     (case tv_llm v q s of
        (Inl e, s') \<Rightarrow> TranslateText v txt hint s = (Inl e, s')
      | (Inr resp, s') \<Rightarrow> \<exists>r. TranslateText v txt hint s = (Inr r, s') \<and> tr_original r = trim_space txt \<and>
          tr_model r = cp_model resp \<and> tr_dialect r = ''hulu'' \<and> tr_confidence r \<in> {''high'', ''medium'', ''low''})"
proof (cases "trim_space txt = [] \<or> 1000 < rune_count (trim_space txt)")
  case True
  then show ?thesis by (auto simp: TranslateText_def maxInputLength_def prog_defs Let_def)
next
  case False
  let ?q = "\<lparr>cq_model = tv_model v,
         cq_messages = [\<lparr>msg_role = ''system'', msg_content = translate_system\<rparr>,
                        \<lparr>msg_role = ''user'', msg_content = ''Text: '' @ trim_space txt
            @ (if hint \<noteq> [] then newline @ ''Context: '' @ hint else [])\<rparr>],
         cq_temperature = ''0.3''\<rparr>"
  have result: "tr_original r = t \<and> tr_model r = cp_model resp \<and> tr_dialect r = ''hulu'' \<and>
      tr_confidence r \<in> {''high'', ''medium'', ''low''}" if "r = parseTranslationResponse t resp" for r t resp
    by (cases "parse_llmTranslation (cut_braces (cp_content resp))")
      (auto simp: that parseTranslationResponse_def Let_def split: prod.split)
  have run: "TranslateText v txt hint s =
      bindP (tv_llm v ?q) (\<lambda>resp. retP (parseTranslationResponse (trim_space txt) resp)) s"
    using False by (simp add: TranslateText_def maxInputLength_def Let_def rejectP_def)
  have answer: "case tv_llm v ?q s of
        (Inl e, s') \<Rightarrow> TranslateText v txt hint s = (Inl e, s')
      | (Inr resp, s') \<Rightarrow> \<exists>r. TranslateText v txt hint s = (Inr r, s') \<and> tr_original r = trim_space txt \<and>
          tr_model r = cp_model resp \<and> tr_dialect r = ''hulu'' \<and> tr_confidence r \<in> {''high'', ''medium'', ''low''}"
    unfolding run using result by (simp add: bindP_def retP_def split: prod.split sum.split)
  have model: "cq_model ?q = tv_model v" by simp
  have "(trim_space txt = []) = False" "(1000 < rune_count (trim_space txt)) = False" using False by auto
  then show ?thesis unfolding if_False by (simp only: if_False) (rule exI [of _ ?q], rule conjI [OF model answer])
qed

end
