(* ===== verification/Seed_Properties.thy ===== *)
theory Seed_Properties
  imports Sample Dictionary_Properties
begin

text \<open>
  Properties of the seeder, and of the searches in texts that the repositories write by hand.
\<close>

section \<open>Word classes\<close>

lemma switch_word_class_enum: "switch_word_class s = (if s \<in> set word_class_enum then Some s else None)"
  by (auto simp: switch_word_class_def word_class_enum_def)

text \<open>C39. The normalisation of a word class, which calls itself until nothing is left to cut, ends with the text
  without the backticks, apostrophes and double quotes at its end, if this is one of the nine classes that the
  schema of the database declares, and with an error otherwise; letters are never cut or changed.\<close>

theorem normalize_word_class_spec:
  assumes "set marks \<subseteq> {CHR 0x60, CHR 0x27, CHR 0x22}" and "t = [] \<or> last t \<notin> {CHR 0x60, CHR 0x27, CHR 0x22}"
  shows "normalizeWordClass (t @ marks) =
     (if t \<in> {''n'', ''v'', ''a'', ''adv'', ''p'', ''pb'', ''ki'', ''num'', ''pron''} then Some t else None)"
proof -
  have ocr: "set ocr_marks = {CHR 0x60, CHR 0x27, CHR 0x22}" by (simp add: ocr_marks_def)
  have "dropWhile (\<lambda>c. c \<in> set ocr_marks) (rev t) = rev t"
    using assms(2) unfolding ocr by (cases t rule: rev_cases) auto
  then have trimmed: "trim_right (t @ ms) ocr_marks = t" if "set ms \<subseteq> set ocr_marks" for ms
    using that by (auto simp: trim_right_def dropWhile_append)
  have cut: "trim_right (t @ marks) ocr_marks = t" "trim_right t ocr_marks = t"
    using trimmed [of marks] trimmed [of "[]"] assms(1) ocr by simp_all
  have classes: "set word_class_enum = {''n'', ''v'', ''a'', ''adv'', ''p'', ''pb'', ''ki'', ''num'', ''pron''}"
    by (simp add: word_class_enum_def)
  have base: "normalizeWordClass t = switch_word_class t"
    using normalizeWordClass_simps [of t] cut(2) by (simp split: option.split)
  have "normalizeWordClass (t @ marks) = switch_word_class t"
  proof (cases "marks = []")
    case True
    with base show ?thesis by simp
  next
    case False
    with assms(1) have "last (t @ marks) \<in> {CHR 0x60, CHR 0x27, CHR 0x22}" by (metis last_appendR last_in_set subsetD)
    then have "t @ marks \<notin> set word_class_enum" by (auto simp: word_class_enum_def)
    then have "switch_word_class (t @ marks) = None" by (simp add: switch_word_class_enum)
    with normalizeWordClass_simps [of "t @ marks"] cut(1) False base show ?thesis by (simp add: Let_def)
  qed
  then show ?thesis by (simp add: switch_word_class_enum classes)
qed

theorem normalize_word_class_spec_witness:
  "normalizeWordClass (''adv'' @ [CHR 0x60, CHR 0x27]) = Some ''adv'' \<and> normalizeWordClass (''x'' @ [CHR 0x22]) = None"
  using normalize_word_class_spec [of "[CHR 0x60, CHR 0x27]" "''adv''"]
    normalize_word_class_spec [of "[CHR 0x22]" "''x''"] by simp

section \<open>Seeding twice\<close>

lemma frames_seed_children:
  "frames db_words (seed_definitions E now w i ms)" "frames db_words (DeleteDefinitionsByWordID w')"
  "frames db_words (DeleteExamplesByWordID w')"
proof -
  have upsert: "frames db_words (UpsertDefinition r)" for r :: definition_row
    unfolding UpsertDefinition_def GetDefinitionByID_def
    by (intro frame_intros frames_sqlP) (simp_all add: frames_def readP_def)
  have uuid: "frames db_words (uuidP (db_runtime E))" by (simp add: frames_def)
  show "frames db_words (seed_definitions E now w i ms)"
    by (induction ms arbitrary: i) (auto intro!: frame_intros upsert uuid)
  show "frames db_words (DeleteDefinitionsByWordID w')" "frames db_words (DeleteExamplesByWordID w')"
    by (simp_all add: frames_def DeleteDefinitionsByWordID_def DeleteExamplesByWordID_def)
qed

lemma frames_seed_examples: "frames db_words (seed_examples E now w xs)"
proof -
  have upsert: "frames db_words (UpsertExample r)" for r :: example_row
    unfolding UpsertExample_def by (intro frames_sqlP) simp
  have uuid: "frames db_words (uuidP (db_runtime E))" by (simp add: frames_def)
  show ?thesis
  proof (induction xs)
    case Nil
    then show ?case by (simp add: frame_intros)
  next
    case (Cons x xs)
    then show ?case by (cases x) (auto intro!: frame_intros upsert uuid)
  qed
qed

lemma seed_loops_return:
  "\<exists>d'. seed_definitions E now w i ms d = (Inr (), d')" "\<exists>d'. seed_examples E now w xs d = (Inr (), d')"
proof -
  show "\<exists>d'. seed_definitions E now w i ms d = (Inr (), d')"
    by (induction ms arbitrary: i d) (auto simp: prog_defs split: prod.split)
  show "\<exists>d'. seed_examples E now w xs d = (Inr (), d')"
    by (induction xs arbitrary: d) (auto simp: prog_defs split: prod.split)
qed

text \<open>After the statement on the words, the rest of \<open>upsertEntry\<close> cannot fail and leaves the words.\<close>

lemma upsertEntry_words:
  assumes "normalizeWordClass (se_class e) = Some wc"
    and "UpsertWord (seed_params (x_new_uuid E (db_draws d)) (db_now d) wc root e) (d\<lparr>db_draws := Suc (db_draws d)\<rparr>) =
      (Inr row, d1)"
  shows "\<exists>d'. upsertEntry E e root d = (Inr (wr_id row), d') \<and> db_words d' = db_words d1"
proof -
  obtain d2 where 2: "DeleteDefinitionsByWordID (wr_id row) d1 = (Inr (), d2)"
    by (simp add: DeleteDefinitionsByWordID_def)
  obtain d3 where 3: "seed_definitions E (db_now d) (wr_id row) 0 (se_definitions e) d2 = (Inr (), d3)"
    using seed_loops_return by blast
  obtain d4 where 4: "DeleteExamplesByWordID (wr_id row) d3 = (Inr (), d4)"
    by (simp add: DeleteExamplesByWordID_def)
  obtain d5 where 5: "seed_examples E (db_now d) (wr_id row) (se_examples e) d4 = (Inr (), d5)"
    using seed_loops_return by blast
  have "db_words d5 = db_words d1"
    using framesD [OF frames_seed_children(2) 2] framesD [OF frames_seed_children(1) 3]
      framesD [OF frames_seed_children(3) 4] framesD [OF frames_seed_examples 5] by simp
  moreover have "upsertEntry E e root d = (Inr (wr_id row), d5)"
    using assms 2 3 4 5 by (simp add: upsertEntry_def bindP_def retP_def)
  ultimately show ?thesis by blast
qed

lemma set_seed_columns_keys [simp]:
  "word_key (set_seed_columns p r) = word_key r" "wr_id (set_seed_columns p r) = wr_id r"
  "wr_deleted_at (set_seed_columns p r) = wr_deleted_at r" "wr_homonym (set_seed_columns p r) = wr_homonym r"
  by (simp_all add: set_seed_columns_def word_key_def)

lemma UpsertWord_again:
  assumes "UpsertWord p d = (Inr row, d1)" and "db_words d2 = db_words d1"
    and "word_key q = word_key p" "wr_dialect q = wr_dialect p" "wr_word_class q = wr_word_class p"
      "wr_status q = wr_status p" "wr_source q = wr_source p"
  shows "\<exists>d3. UpsertWord q d2 = (Inr (set_seed_columns q row), d3) \<and>
    db_words d3 = update_where (\<lambda>r. word_key r = word_key p) (set_seed_columns q) (db_words d1)"
proof -
  have row: "lookup_by word_key (word_key p) (db_words d1) = Some row"
    and enums: "wr_dialect p \<in> set dialect_enum" "wr_word_class p \<in> set word_class_enum"
      "wr_status p \<in> set word_status_enum" "wr_source p \<in> set word_source_enum"
    using assms(1) by (auto simp: UpsertWord_def prog_Inr sqlP_Inr one_row_def Let_def split: option.splits)
  have old: "word_key p \<in> word_key ` set (db_words d1)"
    using lookup_by_Some [OF row] by (metis image_eqI)
  have "lookup_by word_key (word_key p) (update_where (\<lambda>r. word_key r = word_key p) (set_seed_columns q) (db_words d1)) =
      Some (set_seed_columns q row)"
    using row lookup_by_Some [OF row] by (simp add: lookup_update_where)
  with old enums assms(2-7) show ?thesis
    by (simp add: UpsertWord_def prog_defs sqlP_def Let_def one_row_def)
qed

text \<open>What \<open>UpsertWord\<close> leaves of the identity of the words: one more row at most, and no row comes back from deletion.\<close>

definition word_marks :: "'z db_scheme \<Rightarrow> (uuid \<times> (string \<times> string \<times> int \<times> bool \<times> uuid option) \<times> time option) list" where
  "word_marks d = map (\<lambda>r. (wr_id r, word_key r, wr_deleted_at r)) (db_words d)"

lemma UpsertWord_marks:
  assumes "UpsertWord p d = (Inr row, d1)" and "wr_deleted_at p = None"
  shows "word_marks d1 = word_marks d @
    (if word_key p \<in> word_key ` set (db_words d) then [] else [(wr_id row, word_key p, None)])"
proof (cases "word_key p \<in> word_key ` set (db_words d)")
  case True
  with assms have "db_words d1 = update_where (\<lambda>r. word_key r = word_key p) (set_seed_columns p) (db_words d)"
    by (auto simp: UpsertWord_def prog_Inr sqlP_Inr Let_def)
  with True show ?thesis by (simp add: word_marks_def update_where_def)
next
  case False
  with assms have d1: "db_words d1 = db_words d @ [p]" and row: "lookup_by word_key (word_key p) (db_words d1) = Some row"
    by (auto simp: UpsertWord_def prog_Inr sqlP_Inr Let_def one_row_def split: option.splits)
  from False have "lookup_by word_key (word_key p) (db_words d) = None" by (simp add: lookup_by_None)
  with row have "row = p" by (simp add: d1 table_simps)
  with d1 False assms(2) show ?thesis by (simp add: word_marks_def)
qed

text \<open>C35. Seeding an entry adds at most the one word that it is about, leaves the identifier, the key and the mark of
  deletion of every other row, and never takes back a deletion: a deleted word with the key of the entry stays
  deleted. Seeding it again succeeds, ends with the same word, and adds nothing.\<close>

theorem seeding_twice:
  assumes "upsertEntry E e root d = (Inr i, d1)"
  defines "key \<equiv> (se_banjar e, ''hulu'', seed_homonym (se_homonym e), root = None \<or> \<not> se_derived e, root)"
  shows "map (\<lambda>r. (wr_id r, word_key r, wr_deleted_at r)) (db_words d1) =
      map (\<lambda>r. (wr_id r, word_key r, wr_deleted_at r)) (db_words d) @
        (if key \<in> word_key ` set (db_words d) then [] else [(i, key, None)]) \<and>
    (\<exists>d2. upsertEntry E e root d1 = (Inr i, d2) \<and>
      map (\<lambda>r. (wr_id r, word_key r, wr_deleted_at r)) (db_words d2) =
        map (\<lambda>r. (wr_id r, word_key r, wr_deleted_at r)) (db_words d1))"
proof -
  let ?p = "\<lambda>d wc. seed_params (x_new_uuid E (db_draws d)) (db_now d) wc root e"
    and ?d = "\<lambda>d. d\<lparr>db_draws := Suc (db_draws d)\<rparr>"
  from assms obtain wc row dA where wc: "normalizeWordClass (se_class e) = Some wc"
    and up: "UpsertWord (?p d wc) (?d d) = (Inr row, dA)" and i: "i = wr_id row"
    by (auto simp: upsertEntry_def prog_Inr split: option.splits)
  from upsertEntry_words [OF wc up] assms have d1: "db_words d1 = db_words dA" by simp
  have same: "word_key (?p d1 wc) = word_key (?p d wc)" "wr_dialect (?p d1 wc) = wr_dialect (?p d wc)"
    "wr_word_class (?p d1 wc) = wr_word_class (?p d wc)" "wr_status (?p d1 wc) = wr_status (?p d wc)"
    "wr_source (?p d1 wc) = wr_source (?p d wc)"
    by (simp_all add: seed_params_def word_key_def)
  have "db_words (?d d1) = db_words dA" using d1 by simp
  from UpsertWord_again [OF up this same] obtain d3 where
    3: "UpsertWord (?p d1 wc) (?d d1) = (Inr (set_seed_columns (?p d1 wc) row), d3)"
    and w: "db_words d3 = update_where (\<lambda>r. word_key r = word_key (?p d wc)) (set_seed_columns (?p d1 wc)) (db_words dA)"
    by blast
  from upsertEntry_words [OF wc 3] obtain d2 where "upsertEntry E e root d1 = (Inr i, d2)" "db_words d2 = db_words d3"
    by (auto simp: i)
  moreover have "map (\<lambda>r. (wr_id r, word_key r, wr_deleted_at r)) (db_words d3) =
      map (\<lambda>r. (wr_id r, word_key r, wr_deleted_at r)) (db_words d1)"
    unfolding w d1 update_where_def by simp
  moreover have "word_key (?p d wc) = key" by (simp add: key_def word_key_def seed_params_def)
  with UpsertWord_marks [OF up] d1 i
  have "map (\<lambda>r. (wr_id r, word_key r, wr_deleted_at r)) (db_words d1) =
      map (\<lambda>r. (wr_id r, word_key r, wr_deleted_at r)) (db_words d) @
        (if key \<in> word_key ` set (db_words d) then [] else [(i, key, None)])"
    by (simp add: word_marks_def seed_params_def)
  ultimately show ?thesis by auto
qed

definition sample_entry :: seed_entry where
  "sample_entry = SeedEntry ''abah'' [] (''n'' @ [CHR 0x27]) [''ayah''] [] False 1 [] []"

lemma sample_seeding: "\<exists>i d1. upsertEntry demo_ext sample_entry None sample_db = (Inr i, d1)"
proof -
  have wc: "normalizeWordClass (se_class sample_entry) = Some ''n''"
    by (simp add: sample_entry_def normalizeWordClass_simps switch_word_class_def trim_right_def ocr_marks_def)
  have "\<exists>row d1. UpsertWord (seed_params 100 7 ''n'' None sample_entry) (sample_db\<lparr>db_draws := Suc 0\<rparr>) = (Inr row, d1)"
    by (simp add: UpsertWord_def prog_defs sqlP_def Let_def one_row_def seed_params_def sample_entry_def dialect_enum_def
        word_class_enum_def word_status_enum_def word_source_enum_def word_ids_def word_key_def table_simps)
      (simp add: sample_word_def)
  then obtain row d1 where "UpsertWord (seed_params (x_new_uuid demo_ext (db_draws sample_db)) (db_now sample_db) ''n'' None
      sample_entry) (sample_db\<lparr>db_draws := Suc (db_draws sample_db)\<rparr>) = (Inr row, d1)" by auto
  from upsertEntry_words [OF wc this] show ?thesis by blast
qed

theorem seeding_twice_witness:
  "\<exists>i d1 d2. upsertEntry demo_ext sample_entry None sample_db = (Inr i, d1) \<and>
     upsertEntry demo_ext sample_entry None d1 = (Inr i, d2) \<and> length (db_words d2) = length (db_words d1)"
proof -
  obtain i d1 where run: "upsertEntry demo_ext sample_entry None sample_db = (Inr i, d1)" using sample_seeding by blast
  from seeding_twice [OF run] obtain d2 where d2: "upsertEntry demo_ext sample_entry None d1 = (Inr i, d2)"
    and eq: "map (\<lambda>r. (wr_id r, word_key r, wr_deleted_at r)) (db_words d2) =
      map (\<lambda>r. (wr_id r, word_key r, wr_deleted_at r)) (db_words d1)" by blast
  from arg_cong [OF eq, of length] run d2 show ?thesis by auto
qed

section \<open>Searches in texts\<close>

text \<open>The three searches that are written out as loops, \<open>containsStr\<close> of the identity and of the dictionary
  repository and \<open>contains\<close> of the seeder, find exactly what \<open>strings.Contains\<close> finds.\<close>

theorem hand_written_searches:
  "containsStr s sub = strings_contains s sub \<and> word_containsStr s sub = strings_contains s sub \<and>
   seed_contains s sub = strings_contains s sub"
  by (simp add: containsStr_iff word_containsStr_iff strings_contains_iff seed_contains_iff)

end
