(* ===== verification/Identity_Http.thy ===== *)
theory Identity_Http
  imports World Ratelimit
begin

text \<open>
  \<open>internal/identity/http\<close>: the request and response structures, the handlers, the mapping of
  errors to responses, and the routes with their middleware.
\<close>

section \<open>Requests and responses (\<open>dto.go\<close>)\<close>

record register_request =
  rg_name :: string
  rg_email :: string
  rg_password :: string
  rg_confirmation :: string

record login_request =
  lg_email :: string
  lg_password :: string

record reset_password_request =
  rp_token :: string
  rp_password :: string
  rp_confirmation :: string

record change_password_request =
  cp_current :: string
  cp_new :: string

text \<open>The requests with one field are that field.\<close>

record token_pair_response =
  tp_access :: string
  tp_refresh :: string
  tp_expires_in :: int

record user_response =
  uo_id :: string
  uo_name :: string
  uo_email :: string
  uo_role :: string
  uo_is_active :: bool
  uo_email_verified_at :: "time option"
  uo_created_at :: time
  uo_updated_at :: time

datatype identity_data =
    UserData user_response
  | TokenData token_pair_response
  | MeData string string

definition toUserResponse :: "ext \<Rightarrow> user \<Rightarrow> user_response" where
  "toUserResponse E u =
     \<lparr>uo_id = x_uuid_string E (us_id u), uo_name = us_name u, uo_email = us_email u,
      uo_role = us_role u, uo_is_active = us_is_active u,
      uo_email_verified_at = us_email_verified_at u, uo_created_at = us_created_at u,
      uo_updated_at = us_updated_at u\<rparr>"

section \<open>Errors\<close>

definition mapDomainError :: "ext \<Rightarrow> err \<Rightarrow> 'd response" where
  "mapDomainError E e =
     (let is = (\<lambda>t. errors_is e (Identity t)); text = err_text (x_sql_text E) e in
      if is ErrEmailConflict then Send 409 (Conflict text)
      else if is ErrWrongPassword \<or> is ErrUnverifiedEmail \<or> is ErrUserNotFound then
        Send 401 (Unauthorized text)
      else if is ErrUserBanned then Send 403 (Forbidden text)
      else if is ErrEmptyName \<or> is ErrInvalidEmail \<or> is ErrPasswordTooShort \<or> is ErrPasswordMismatch then
        Send 422 (Validation text [])
      else Send 500 (Internal ''internal server error''))"

section \<open>Handlers (\<open>handler.go\<close>)\<close>

abbreviation invalid_body :: "'d response" where
  "invalid_body \<equiv> Send 422 (Validation ''invalid request body'' [])"

definition Register ::
  "ext \<Rightarrow> 's runtime \<Rightarrow> 's identity_svc \<Rightarrow> ('s, register_request, identity_data) handler" where
  "Register E R v c s =
     (case rq_body c of (req, ok) \<Rightarrow>
        if \<not> ok then (invalid_body, s)
        else if rg_name req = [] \<or> rg_email req = [] \<or> rg_password req = [] then
          (Send 422 (Validation ''name, email and password are required''
             [detail ''name'' ''required'', detail ''email'' ''required'', detail ''password'' ''required'']), s)
        else
          respond (mapDomainError E) (\<lambda>user. Created (UserData (toUserResponse E user)))
            (RegisterUser E R v (rg_name req) (rg_email req) (rg_password req) (rg_confirmation req)) s)"

definition token_pair :: "string \<times> string \<Rightarrow> identity_data" where
  "token_pair p = TokenData \<lparr>tp_access = fst p, tp_refresh = snd p, tp_expires_in = 900\<rparr>"

definition Login ::
  "ext \<Rightarrow> 's runtime \<Rightarrow> string \<Rightarrow> 's identity_svc \<Rightarrow> ('s, login_request, identity_data) handler" where
  "Login E R secret v c s =
     (case rq_body c of (req, ok) \<Rightarrow>
        if \<not> ok then (invalid_body, s)
        else if lg_email req = [] \<or> lg_password req = [] then
          (Send 422 (Validation ''email and password are required'' []), s)
        else
          respond (mapDomainError E) (\<lambda>p. OK (token_pair p))
            (LoginUser E R secret v (lg_email req) (lg_password req)) s)"

definition RefreshToken_handler ::
  "ext \<Rightarrow> 's runtime \<Rightarrow> string \<Rightarrow> 's identity_svc \<Rightarrow> ('s, string, identity_data) handler" where
  "RefreshToken_handler E R secret v c s =
     (case rq_body c of (token, ok) \<Rightarrow>
        if \<not> ok \<or> token = [] then (Send 422 (Validation ''refresh_token is required'' []), s)
        else
          respond (mapDomainError E) (\<lambda>p. OK (token_pair p)) (RefreshToken E R secret v token) s)"

definition Logout :: "'s identity_svc \<Rightarrow> ('s, string, identity_data) handler" where
  "Logout v c s =
     (case rq_body c of (token, ok) \<Rightarrow>
        if \<not> ok \<or> token = [] then (Send 422 (Validation ''refresh_token is required'' []), s)
        else respond (\<lambda>_. NoContent) (\<lambda>_. NoContent) (LogoutUser v token) s)"

definition VerifyEmail_handler ::
  "ext \<Rightarrow> 's runtime \<Rightarrow> 's identity_svc \<Rightarrow> ('s, string, identity_data) handler" where
  "VerifyEmail_handler E R v c s =
     (case rq_body c of (token, ok) \<Rightarrow>
        if \<not> ok \<or> token = [] then (Send 422 (Validation ''token is required'' []), s)
        else respond (mapDomainError E) (\<lambda>_. NoContent) (VerifyEmail E R v token) s)"

definition ForgotPassword_handler ::
  "ext \<Rightarrow> 's runtime \<Rightarrow> 's identity_svc \<Rightarrow> ('s, string, identity_data) handler" where
  "ForgotPassword_handler E R v c s =
     (case rq_body c of (email, ok) \<Rightarrow>
        if \<not> ok then (invalid_body, s)
        else respond (\<lambda>_. NoContent) (\<lambda>_. NoContent) (ForgotPassword E R v email) s)"

definition ResetPassword_handler ::
  "ext \<Rightarrow> 's runtime \<Rightarrow> 's identity_svc \<Rightarrow> ('s, reset_password_request, identity_data) handler" where
  "ResetPassword_handler E R v c s =
     (case rq_body c of (req, ok) \<Rightarrow>
        if \<not> ok then (invalid_body, s)
        else
          respond (mapDomainError E) (\<lambda>_. NoContent)
            (ResetPassword E R v (rp_token req) (rp_password req) (rp_confirmation req)) s)"

definition Me :: "('s, 'b, identity_data) handler" where
  "Me c s =
     (case GetClaims c of
        None \<Rightarrow> (Send 401 (Unauthorized ''authentication required''), s)
      | Some claims \<Rightarrow> (OK (MeData (cl_user_id claims) (cl_role claims)), s))"

text \<open>The claims are used after the body has been parsed: without claims the handler panics
  there.\<close>

definition UpdateProfile_handler ::
  "ext \<Rightarrow> 's runtime \<Rightarrow> 's identity_svc \<Rightarrow> ('s, string, identity_data) handler" where
  "UpdateProfile_handler E R v c s =
     (case rq_body c of (name, ok) \<Rightarrow>
        if \<not> ok then (invalid_body, s)
        else with_claims (\<lambda>claims c s.
          respond (mapDomainError E) (\<lambda>user. OK (UserData (toUserResponse E user)))
            (UpdateProfile E R v (cl_user_id claims) name) s) c s)"

definition ChangePassword_handler ::
  "ext \<Rightarrow> 's runtime \<Rightarrow> 's identity_svc \<Rightarrow> ('s, change_password_request, identity_data) handler" where
  "ChangePassword_handler E R v c s =
     (case rq_body c of (req, ok) \<Rightarrow>
        if \<not> ok then (invalid_body, s)
        else with_claims (\<lambda>claims c s.
          respond (mapDomainError E) (\<lambda>_. NoContent)
            (ChangePassword E R v (cl_user_id claims) (cp_current req) (cp_new req)) s) c s)"

section \<open>Routes (\<open>routes.go\<close>)\<close>

definition loginRL :: "'s counter \<Rightarrow> ('s, 'b, 'd) middleware" where
  "loginRL ct = Limiter ct (\<lambda>c. ''ratelimit:login:ip:'' @ rq_ip c) 5 minute"

definition login_route ::
  "ext \<Rightarrow> 's runtime \<Rightarrow> string \<Rightarrow> 's counter \<Rightarrow> 's identity_svc \<Rightarrow> ('s, login_request, identity_data) handler" where
  "login_route E R secret ct v = loginRL ct (Login E R secret v)"

definition me_route :: "ext \<Rightarrow> 's runtime \<Rightarrow> string \<Rightarrow> ('s, 'b, identity_data) handler" where
  "me_route E R secret = RequireAuth E secret (rt_now R) Me"

definition update_profile_route ::
  "ext \<Rightarrow> 's runtime \<Rightarrow> string \<Rightarrow> 's identity_svc \<Rightarrow> ('s, string, identity_data) handler" where
  "update_profile_route E R secret v =
     RequireAuth E secret (rt_now R) (UpdateProfile_handler E R v)"

definition change_password_route ::
  "ext \<Rightarrow> 's runtime \<Rightarrow> string \<Rightarrow> 's identity_svc \<Rightarrow> ('s, change_password_request, identity_data) handler" where
  "change_password_route E R secret v =
     RequireAuth E secret (rt_now R) (ChangePassword_handler E R v)"

end
