(* ===== verification/Routes.thy ===== *)
theory Routes
  imports Ai_Http Dictionary_Http Identity_Http "HOL-Library.Sublist"
begin

text \<open>
  The route tables of the five packages and their order in \<open>cmd/api/main.go\<close>. A registration is
  what a call of the router leaves behind: a group that has middleware (\<open>Use\<close>) or a route with
  the middleware named at it. Which paths a prefix or a pattern matches is decided by the Fiber
  library and is a parameter; the model relies only on \<open>fiber_groups\<close>. The middleware that let every
  request pass (\<open>recover\<close>, the request identifier, the log) are left out of the tables.
\<close>

section \<open>Registrations\<close>

datatype guard =
    AuthRequired
  | AuthTried
  | RoleRequired "string list"
  | LoginLimit
  | WordsLimit
  | ContributionsLimit
  | TranslateLimit
  | TriggerLimit

datatype registration =
    Use string "guard list"
  | Route string string "guard list" string

abbreviation Get :: "string \<Rightarrow> guard list \<Rightarrow> string \<Rightarrow> registration" where "Get \<equiv> Route ''GET''"
abbreviation Post :: "string \<Rightarrow> guard list \<Rightarrow> string \<Rightarrow> registration" where "Post \<equiv> Route ''POST''"
abbreviation Put :: "string \<Rightarrow> guard list \<Rightarrow> string \<Rightarrow> registration" where "Put \<equiv> Route ''PUT''"
abbreviation Patch :: "string \<Rightarrow> guard list \<Rightarrow> string \<Rightarrow> registration" where "Patch \<equiv> Route ''PATCH''"
abbreviation Delete :: "string \<Rightarrow> guard list \<Rightarrow> string \<Rightarrow> registration" where "Delete \<equiv> Route ''DELETE''"

section \<open>The tables (\<open>routes.go\<close>)\<close>

definition identity_routes :: "registration list" where
  "identity_routes =
     [Post ''/api/v2/auth/register'' [] ''identity.Register'',
      Post ''/api/v2/auth/login'' [LoginLimit] ''identity.Login'',
      Post ''/api/v2/auth/refresh'' [] ''identity.RefreshToken'',
      Post ''/api/v2/auth/logout'' [] ''identity.Logout'',
      Post ''/api/v2/auth/verify-email'' [] ''identity.VerifyEmail'',
      Post ''/api/v2/auth/forgot-password'' [] ''identity.ForgotPassword'',
      Post ''/api/v2/auth/reset-password'' [] ''identity.ResetPassword'',
      Use ''/api/v2/auth/me'' [AuthRequired],
      Get ''/api/v2/auth/me/'' [] ''identity.Me'',
      Put ''/api/v2/auth/me/'' [] ''identity.UpdateProfile'',
      Put ''/api/v2/auth/me/password'' [] ''identity.ChangePassword'']"

definition dictionary_routes :: "registration list" where
  "dictionary_routes =
     [Use ''/api/v2/words'' [AuthTried, WordsLimit],
      Get ''/api/v2/words/'' [] ''dictionary.ListWords'',
      Get ''/api/v2/words/search'' [] ''dictionary.ListWords'',
      Get ''/api/v2/words/:id'' [] ''dictionary.GetWord'',
      Get ''/api/v2/words/:id/definitions'' [] ''dictionary.GetDefinitions'',
      Get ''/api/v2/words/:id/examples'' [] ''dictionary.GetExamples'',
      Get ''/api/v2/words/:id/related'' [] ''dictionary.GetRelatedWords'',
      Use ''/api/v2/admin/words'' [AuthRequired, RoleRequired [''admin'']],
      Post ''/api/v2/admin/words/'' [] ''dictionary.AdminCreateWord'',
      Patch ''/api/v2/admin/words/:id'' [] ''dictionary.AdminUpdateWord'',
      Delete ''/api/v2/admin/words/:id'' [] ''dictionary.AdminDeleteWord'']"

definition community_routes :: "registration list" where
  "community_routes =
     [Use ''/api/v2/contributions'' [AuthRequired],
      Get ''/api/v2/contributions/'' [] ''community.ListContributions'',
      Post ''/api/v2/contributions/'' [ContributionsLimit] ''community.SubmitContribution'',
      Get ''/api/v2/contributions/:id'' [] ''community.GetContribution'',
      Patch ''/api/v2/contributions/:id/withdraw'' [] ''community.WithdrawContribution'',
      Patch ''/api/v2/contributions/:id/approve'' [RoleRequired [''admin'']] ''community.ApproveContribution'',
      Patch ''/api/v2/contributions/:id/reject'' [RoleRequired [''admin'']] ''community.RejectContribution'',
      Post ''/api/v2/words/:id/votes/'' [AuthRequired] ''community.CastWordVote'',
      Delete ''/api/v2/words/:id/votes/'' [AuthRequired] ''community.RemoveWordVote'',
      Post ''/api/v2/definitions/:id/votes/'' [AuthRequired] ''community.CastDefinitionVote'',
      Delete ''/api/v2/definitions/:id/votes/'' [AuthRequired] ''community.RemoveDefinitionVote'',
      Use ''/api/v2/bookmarks'' [AuthRequired],
      Get ''/api/v2/bookmarks/'' [] ''community.ListBookmarks'',
      Post ''/api/v2/bookmarks/'' [] ''community.AddBookmark'',
      Delete ''/api/v2/bookmarks/:word_id'' [] ''community.RemoveBookmark'',
      Get ''/api/v2/words/:id/comments/'' [] ''community.ListComments'',
      Post ''/api/v2/words/:id/comments/'' [AuthRequired] ''community.PostComment'',
      Use ''/api/v2/comments'' [AuthRequired],
      Patch ''/api/v2/comments/:id'' [] ''community.EditComment'',
      Delete ''/api/v2/comments/:id'' [] ''community.DeleteComment'',
      Post ''/api/v2/comments/:id/flag'' [] ''community.FlagComment'']"

definition moderation_routes :: "registration list" where
  "moderation_routes =
     [Use ''/api/v2/admin'' [AuthRequired, RoleRequired [''admin'']],
      Get ''/api/v2/admin/moderation/queue'' [] ''moderation.GetModerationQueue'',
      Get ''/api/v2/admin/moderation/flags'' [] ''moderation.GetFlaggedComments'',
      Get ''/api/v2/admin/moderation/stats'' [] ''moderation.GetModerationStats'',
      Get ''/api/v2/admin/users/'' [] ''moderation.ListUsers'',
      Get ''/api/v2/admin/users/:id'' [] ''moderation.GetUser'',
      Patch ''/api/v2/admin/users/:id/ban'' [] ''moderation.BanUser'',
      Patch ''/api/v2/admin/users/:id/unban'' [] ''moderation.UnbanUser'',
      Patch ''/api/v2/admin/users/:id/role'' [] ''moderation.ChangeUserRole'']"

definition ai_routes :: "registration list" where
  "ai_routes =
     [Use ''/api/v2/ai'' [AuthRequired],
      Post ''/api/v2/ai/translate'' [TranslateLimit] ''ai.Translate'',
      Use ''/api/v2/admin/ai'' [AuthRequired, RoleRequired [''admin'']],
      Post ''/api/v2/admin/ai/enrich/:word_id'' [TriggerLimit] ''ai.EnrichDefinition'',
      Post ''/api/v2/admin/ai/example/:word_id'' [TriggerLimit] ''ai.SuggestExample'',
      Post ''/api/v2/admin/ai/related/:word_id'' [TriggerLimit] ''ai.SuggestRelated'',
      Post ''/api/v2/admin/ai/check/:contribution_id'' [TriggerLimit] ''ai.QualityCheck'',
      Get ''/api/v2/admin/ai/requests'' [] ''ai.ListAIRequests'',
      Get ''/api/v2/admin/ai/requests/:id'' [] ''ai.GetAIRequest'',
      Patch ''/api/v2/admin/ai/requests/:id/approve'' [] ''ai.ApproveAIRequest'',
      Patch ''/api/v2/admin/ai/requests/:id/reject'' [] ''ai.RejectAIRequest'']"

definition docs_routes :: "registration list" where
  "docs_routes =
     [Get ''/docs/openapi.yaml'' [] ''docs.openapi'',
      Get ''/docs'' [] ''docs.ui'']"

text \<open>The order of the calls in \<open>main\<close>\<close>

definition api_routes :: "registration list" where
  "api_routes =
     [Get ''/health'' [] ''health''] @ identity_routes @ dictionary_routes @ community_routes @
     moderation_routes @ ai_routes @ docs_routes"

section \<open>Middleware\<close>

definition guard_mw ::
  "ext \<Rightarrow> 's runtime \<Rightarrow> string \<Rightarrow> 's counter \<Rightarrow> guard \<Rightarrow> ('s, 'b, 'd) middleware" where
  "guard_mw E R secret ct g =
     (case g of
        AuthRequired \<Rightarrow> RequireAuth E secret (rt_now R)
      | AuthTried \<Rightarrow> TryAuth E secret (rt_now R)
      | RoleRequired roles \<Rightarrow> RequireRole roles
      | LoginLimit \<Rightarrow> loginRL ct
      | WordsLimit \<Rightarrow> AdaptiveLimiter ct words_key_limit minute
      | ContributionsLimit \<Rightarrow> Limiter ct contribution_key 10 hour
      | TranslateLimit \<Rightarrow> Limiter ct (ai_key ''ratelimit:ai_translate:'') 30 hour
      | TriggerLimit \<Rightarrow> Limiter ct (ai_key ''ratelimit:admin_ai:'') 50 hour)"

definition apply_guards ::
  "ext \<Rightarrow> 's runtime \<Rightarrow> string \<Rightarrow> 's counter \<Rightarrow> guard list \<Rightarrow> ('s, 'b, 'd) middleware" where
  "apply_guards E R secret ct gs h = foldr (guard_mw E R secret ct) gs h"

text \<open>The guards of the tables are the middleware that stands in front of the handlers.\<close>

lemma apply_guards_groups:
  "apply_guards E R secret ct [AuthTried, WordsLimit] h = words_group E R secret ct h"
  "apply_guards E R secret ct [AuthRequired, RoleRequired [''admin'']] h = admin_group E R secret h"
  "apply_guards E R secret ct [AuthRequired, RoleRequired [''admin'']] h = admin_words_group E R secret h"
  "apply_guards E R secret ct [AuthRequired, RoleRequired [''admin''], TriggerLimit] ha = trigger_route E R secret ct ha"
  "apply_guards E R secret ct [AuthRequired] hc = community_auth_route E R secret hc"
  by (simp_all add: apply_guards_def guard_mw_def words_group_def admin_group_def admin_words_group_def
      trigger_route_def community_auth_route_def)

section \<open>Dispatch\<close>

text \<open>
  \<open>fb_use p path\<close>: the middleware of a group with prefix \<open>p\<close> runs for \<open>path\<close>;
  \<open>fb_match pat path\<close>: a route with pattern \<open>pat\<close> takes \<open>path\<close>. Registrations are tried in order, the
  first route that takes a request ends the search, as no handler calls \<open>Next\<close>. A route for \<open>GET\<close>
  takes \<open>HEAD\<close> as well. \<open>fb_params\<close> gives the parameters of a path by its pattern, \<open>fb_unmatched\<close> the
  status and the text of the error for a request that no route takes. \<open>fb_known m\<close>: \<open>m\<close> is one of the methods
  that Fiber handles.
\<close>

record fiber =
  fb_use :: "string \<Rightarrow> string \<Rightarrow> bool"
  fb_match :: "string \<Rightarrow> string \<Rightarrow> bool"
  fb_params :: "string \<Rightarrow> string \<Rightarrow> string \<Rightarrow> string"
  fb_unmatched :: "string \<Rightarrow> string \<Rightarrow> nat \<times> string"
  fb_known :: "string \<Rightarrow> bool"

text \<open>What is relied on: a path that a route of a group takes passes the middleware of the group.\<close>

definition fiber_groups :: "fiber \<Rightarrow> bool" where
  "fiber_groups F \<longleftrightarrow> (\<forall>p q path. fb_match F (p @ ''/'' @ q) path \<longrightarrow> fb_use F p path)"

definition method_matches :: "string \<Rightarrow> string \<Rightarrow> bool" where
  "method_matches m' m \<longleftrightarrow> m' = m \<or> m' = ''GET'' \<and> m = ''HEAD''"

fun dispatch ::
  "fiber \<Rightarrow> string \<Rightarrow> string \<Rightarrow> registration list \<Rightarrow> (guard list \<times> string \<times> string) option" where
  "dispatch F m path [] = None"
| "dispatch F m path (Use p gs # rs) =
     (if fb_use F p path then map_option (\<lambda>(gs', pat, e). (gs @ gs', pat, e)) (dispatch F m path rs)
      else dispatch F m path rs)"
| "dispatch F m path (Route m' pat gs e # rs) =
     (if method_matches m' m \<and> fb_match F pat path then Some (gs, pat, e) else dispatch F m path rs)"

text \<open>The middleware that a request passes that no route takes\<close>

fun group_guards :: "fiber \<Rightarrow> string \<Rightarrow> registration list \<Rightarrow> guard list" where
  "group_guards F path [] = []"
| "group_guards F path (Use p gs # rs) = (if fb_use F p path then gs else []) @ group_guards F path rs"
| "group_guards F path (Route m' pat gs e # rs) = group_guards F path rs"

section \<open>What the tables guarantee\<close>

text \<open>The guards that stand directly in front of each endpoint on every dispatch: those of the last
  group before it, when the endpoint belongs to this group, and its own.\<close>

fun last_guards :: "string \<Rightarrow> guard list \<Rightarrow> registration list \<Rightarrow> (string \<times> guard list) list" where
  "last_guards p g [] = []"
| "last_guards p g (Use p' g' # rs) = last_guards p' g' rs"
| "last_guards p g (Route m pat gs e # rs) =
     (e, (if has_prefix pat (p @ ''/'') then g else []) @ gs) # last_guards p g rs"

lemma dispatch_last_guards:
  assumes "fiber_groups F" and "dispatch F m path rs = Some (gs, pat0, e)"
  shows "\<exists>g0. (e, g0) \<in> set (last_guards p g rs) \<and> suffix g0 ((if fb_use F p path then g else []) @ gs)"
  using assms(2)
proof (induction p g rs arbitrary: gs rule: last_guards.induct)
  case (2 p g p' g' rs)
  show ?case
  proof (cases "fb_use F p' path")
    case True
    with 2(2) obtain gs' where gs: "dispatch F m path rs = Some (gs', pat0, e)" "gs = g' @ gs'"
      by (auto split: if_splits)
    with 2(1) [OF gs(1)] True show ?thesis by (auto intro: suffix_appendI)
  next
    case False
    with 2 show ?thesis by (auto intro: suffix_appendI)
  qed
next
  case (3 p g m' pat gs' e' rs)
  show ?case
  proof (cases "method_matches m' m \<and> fb_match F pat path")
    case True
    then have eq: "gs' = gs" "e' = e" using 3(2) by simp_all
    show ?thesis
    proof (cases "has_prefix pat (p @ ''/'')")
      case in_group: True
      then obtain q where "pat = p @ ''/'' @ q" by (auto simp: has_prefix_iff prefix_def)
      with True assms(1) have "fb_use F p path" unfolding fiber_groups_def by blast
      with eq in_group show ?thesis by auto
    next
      case False
      with eq show ?thesis by (auto intro: suffix_appendI)
    qed
  next
    case False
    with 3 show ?thesis by auto
  qed
qed simp

text \<open>Which of the endpoints need no token, and which the role of an admin\<close>

definition public_endpoints :: "string list" where
  "public_endpoints =
     [''health'', ''docs.openapi'', ''docs.ui'', ''identity.Register'', ''identity.Login'', ''identity.RefreshToken'',
      ''identity.Logout'', ''identity.VerifyEmail'', ''identity.ForgotPassword'', ''identity.ResetPassword'',
      ''dictionary.ListWords'', ''dictionary.GetWord'', ''dictionary.GetDefinitions'', ''dictionary.GetExamples'',
      ''dictionary.GetRelatedWords'', ''community.ListComments'']"

definition admin_endpoints :: "string list" where
  "admin_endpoints =
     [''dictionary.AdminCreateWord'', ''dictionary.AdminUpdateWord'', ''dictionary.AdminDeleteWord'',
      ''community.ApproveContribution'', ''community.RejectContribution'', ''moderation.GetModerationQueue'',
      ''moderation.GetFlaggedComments'', ''moderation.GetModerationStats'', ''moderation.ListUsers'',
      ''moderation.GetUser'', ''moderation.BanUser'', ''moderation.UnbanUser'', ''moderation.ChangeUserRole'',
      ''ai.EnrichDefinition'', ''ai.SuggestExample'', ''ai.SuggestRelated'', ''ai.QualityCheck'', ''ai.ListAIRequests'',
      ''ai.GetAIRequest'', ''ai.ApproveAIRequest'', ''ai.RejectAIRequest'']"

text \<open>A list of guards that ends with claims from a token, of one of the given roles\<close>

definition is_limit :: "guard \<Rightarrow> bool" where
  "is_limit g = (g \<in> {LoginLimit, WordsLimit, ContributionsLimit, TranslateLimit, TriggerLimit})"

fun token_guards :: "guard list \<Rightarrow> bool" where
  "token_guards (AuthRequired # gs) = list_all is_limit gs"
| "token_guards gs = False"

fun role_guards :: "string list \<Rightarrow> guard list \<Rightarrow> bool" where
  "role_guards roles (AuthRequired # RoleRequired rs # gs) = (rs = roles \<and> list_all is_limit gs)"
| "role_guards roles gs = False"

fun_cases token_guardsE: "token_guards gs"
fun_cases role_guardsE: "role_guards roles gs"

lemma api_guards:
  "list_all (\<lambda>(e, g). if e \<in> set public_endpoints then True
     else if e \<in> set admin_endpoints then role_guards [''admin''] g else token_guards g) (last_guards [] [] api_routes)"
  by code_simp

section \<open>What a guard does\<close>

text \<open>
  A middleware refuses a request with one of three codes, or hands it on to the handler behind it,
  where \<open>P\<close> holds of the request and the state; which of both does not depend on the handler.
\<close>

definition refusals :: "nat set" where "refusals = {401, 403, 429}"

definition outcome :: "('s, 'b, 'd) middleware \<Rightarrow> 'b request \<Rightarrow> 's \<Rightarrow> ('b request \<Rightarrow> 's \<Rightarrow> bool) \<Rightarrow> bool" where
  "outcome m c s P \<longleftrightarrow>
     (\<exists>resp s'. rs_status resp \<in> refusals \<and> (\<forall>h. m h c s = (resp, s'))) \<or>
     (\<exists>c' s'. P c' s' \<and> (\<forall>h. m h c s = h c' s'))"

lemma outcome_refuse: "(\<And>h. m h c s = (resp, s')) \<Longrightarrow> rs_status resp \<in> refusals \<Longrightarrow> outcome m c s P"
  unfolding outcome_def by blast

lemma outcome_pass: "(\<And>h. m h c s = h c' s') \<Longrightarrow> P c' s' \<Longrightarrow> outcome m c s P"
  unfolding outcome_def by blast

lemma outcome_comp:
  assumes "outcome m c s P" and "\<And>c' s'. P c' s' \<Longrightarrow> outcome m' c' s' Q"
  shows "outcome (\<lambda>h. m (m' h)) c s Q"
  using assms(1)
proof (unfold outcome_def [of m], elim disjE exE conjE)
  fix resp s'
  assume "rs_status resp \<in> refusals" "\<forall>h. m h c s = (resp, s')"
  then show ?thesis by (intro outcome_refuse [of _ _ _ resp s']) simp_all
next
  fix c' s'
  assume "P c' s'" "\<forall>h. m h c s = h c' s'"
  with assms(2) show ?thesis by (simp add: outcome_def)
qed

lemma outcome_mono: "outcome m c s P \<Longrightarrow> (\<And>c' s'. P c' s' \<Longrightarrow> Q c' s') \<Longrightarrow> outcome m c s Q"
  unfolding outcome_def by blast

text \<open>A middleware changes at most the claims of a request.\<close>

lemma locals_same: "\<exists>l. c = c\<lparr>rq_locals := l\<rparr>"
  by (rule exI [of _ "rq_locals c"]) simp

text \<open>Counting changes no clock: a request is handled at one instant, as an operation is (\<open>runtime\<close>).\<close>

definition counter_clock :: "'s runtime \<Rightarrow> 's counter \<Rightarrow> bool" where
  "counter_clock R ct \<longleftrightarrow> (\<forall>k w s. rt_now R (snd (ct_Increment ct k w s)) = rt_now R s)"

lemma outcome_adaptive:
  assumes "counter_clock R ct"
  shows "outcome (AdaptiveLimiter ct kf w) c s (\<lambda>c' s'. c' = c \<and> rt_now R s' = rt_now R s)"
proof -
  obtain k l where k: "kf c = (k, l)" by fastforce
  obtain x s' where x: "ct_Increment ct k w s = (x, s')" by fastforce
  with assms have now: "rt_now R s' = rt_now R s" unfolding counter_clock_def by (metis snd_conv)
  show ?thesis
  proof (cases "\<exists>n. x = Inr n \<and> l < n")
    case True
    with k x show ?thesis
      by (intro outcome_refuse [of _ _ _ "Send 429 (RateLimited ''rate limit exceeded'')" s'])
        (auto simp: AdaptiveLimiter_def Send_def refusals_def)
  next
    case False
    with k x now show ?thesis
      by (intro outcome_pass [of _ _ _ c s']) (auto simp: AdaptiveLimiter_def split: sum.split)
  qed
qed

lemma limiter_eta: "Limiter ct kf limit w = AdaptiveLimiter ct (\<lambda>c. (kf c, limit)) w"
  by (simp add: fun_eq_iff limiter_adaptive)

lemma outcome_auth:
  "outcome (RequireAuth E secret now) c s (\<lambda>c' s'. s' = s \<and> (\<exists>tok cl. rq_header c ''Authorization'' = ''Bearer '' @ tok \<and>
     ParseToken E secret (now s) tok = Inr cl \<and> c' = c\<lparr>rq_locals := Some cl\<rparr>))"
proof (cases "has_prefix (rq_header c ''Authorization'') ''Bearer ''")
  case False
  then show ?thesis
    by (intro outcome_refuse [of _ _ _ "Send 401 (Unauthorized ''missing or invalid authorization header'')" s])
      (auto simp: RequireAuth_def Send_def refusals_def)
next
  case True
  then obtain tok where tok: "rq_header c ''Authorization'' = ''Bearer '' @ tok"
    unfolding has_prefix_iff prefix_def by blast
  show ?thesis
  proof (cases "ParseToken E secret (now s) tok")
    case (Inl e)
    with tok show ?thesis
      by (intro outcome_refuse [of _ _ _ "Send 401 (Unauthorized ''invalid or expired token'')" s])
        (auto simp: RequireAuth_def Send_def has_prefix_def trim_prefix_def refusals_def)
  next
    case (Inr cl)
    with tok show ?thesis
      by (intro outcome_pass [of _ _ _ "c\<lparr>rq_locals := Some cl\<rparr>" s])
        (simp_all add: RequireAuth_def has_prefix_def trim_prefix_def)
  qed
qed

lemma outcome_try: "outcome (TryAuth E secret now) c s (\<lambda>c' s'. s' = s \<and> (\<exists>l. c' = c\<lparr>rq_locals := l\<rparr>))"
proof (cases "has_prefix (rq_header c ''Authorization'') ''Bearer '' \<and>
    (\<exists>cl. ParseToken E secret (now s) (trim_prefix (rq_header c ''Authorization'') ''Bearer '') = Inr cl)")
  case True
  then obtain cl where "has_prefix (rq_header c ''Authorization'') ''Bearer ''"
    "ParseToken E secret (now s) (trim_prefix (rq_header c ''Authorization'') ''Bearer '') = Inr cl" by blast
  then show ?thesis by (intro outcome_pass [of _ _ _ "c\<lparr>rq_locals := Some cl\<rparr>" s]) (auto simp: TryAuth_def Let_def)
next
  case False
  with locals_same [of c] show ?thesis
    by (intro outcome_pass [of _ _ _ c s]) (auto simp: TryAuth_def Let_def split: sum.split)
qed

lemma outcome_role:
  "outcome (RequireRole roles) c s (\<lambda>c' s'. c' = c \<and> s' = s \<and> (\<exists>cl. rq_locals c = Some cl \<and> cl_role cl \<in> set roles))"
proof (cases "\<exists>cl. rq_locals c = Some cl \<and> cl_role cl \<in> set roles")
  case True
  then show ?thesis by (intro outcome_pass [of _ _ _ c s]) (auto simp: RequireRole_def GetClaims_def)
next
  case False
  then show ?thesis
    by (intro outcome_refuse [of _ _ _ "fst (RequireRole roles undefined c s)" s])
      (auto simp: RequireRole_def GetClaims_def Send_def refusals_def split: option.split)
qed

section \<open>What a list of guards does\<close>

lemma guard_mw_simps:
  "guard_mw E R secret ct AuthRequired = RequireAuth E secret (rt_now R)"
  "guard_mw E R secret ct AuthTried = TryAuth E secret (rt_now R)"
  "guard_mw E R secret ct (RoleRequired roles) = RequireRole roles"
  by (simp_all add: guard_mw_def fun_eq_iff)

lemma outcome_limit:
  fixes R :: "'s runtime"
  assumes "counter_clock R ct" and "is_limit g"
  shows "outcome (guard_mw E R secret ct g :: ('s, 'b, 'd) middleware) c s (\<lambda>c' s'. c' = c \<and> rt_now R s' = rt_now R s)"
  using assms(2)
  by (auto simp: is_limit_def guard_mw_def loginRL_def limiter_eta intro: outcome_adaptive [OF assms(1)])

lemma apply_guards_simps [simp]:
  "apply_guards E R secret ct [] = (\<lambda>h. h)"
  "apply_guards E R secret ct (g # gs) = (\<lambda>h. guard_mw E R secret ct g (apply_guards E R secret ct gs h))"
  "apply_guards E R secret ct (us @ vs) = (\<lambda>h. apply_guards E R secret ct us (apply_guards E R secret ct vs h))"
  by (simp_all add: apply_guards_def fun_eq_iff)

lemma outcome_limits:
  assumes "counter_clock R ct"
  shows "list_all is_limit gs \<Longrightarrow>
    outcome (apply_guards E R secret ct gs) c s (\<lambda>c' s'. c' = c \<and> rt_now R s' = rt_now R s)"
proof (induction gs arbitrary: c s)
  case Nil
  show ?case by (rule outcome_pass [of _ _ _ c s]) simp_all
next
  case (Cons g gs)
  then have "is_limit g" and gs: "list_all is_limit gs" by simp_all
  show ?case unfolding apply_guards_simps
    by (rule outcome_comp [OF outcome_limit [OF assms \<open>is_limit g\<close>]], elim conjE,
        rule outcome_mono [OF Cons.IH [OF gs]]) auto
qed

text \<open>Any guards leave all but the claims of a request, and the clock.\<close>

lemma outcome_guard:
  assumes "counter_clock R ct"
  shows "outcome (guard_mw E R secret ct g) c s (\<lambda>c' s'. (\<exists>l. c' = c\<lparr>rq_locals := l\<rparr>) \<and> rt_now R s' = rt_now R s)"
proof (cases "is_limit g")
  case True
  show ?thesis by (rule outcome_mono [OF outcome_limit [OF assms True]]) (use locals_same in auto)
next
  case False
  then show ?thesis
  proof (cases g)
    case AuthRequired
    show ?thesis unfolding AuthRequired guard_mw_simps by (rule outcome_mono [OF outcome_auth]) auto
  next
    case AuthTried
    show ?thesis unfolding AuthTried guard_mw_simps by (rule outcome_mono [OF outcome_try]) auto
  next
    case (RoleRequired roles)
    show ?thesis unfolding RoleRequired guard_mw_simps
      by (rule outcome_mono [OF outcome_role]) (use locals_same in auto)
  qed (simp_all add: is_limit_def)
qed

lemma outcome_guards:
  assumes "counter_clock R ct"
  shows "outcome (apply_guards E R secret ct gs) c s
    (\<lambda>c' s'. (\<exists>l. c' = c\<lparr>rq_locals := l\<rparr>) \<and> rt_now R s' = rt_now R s)"
proof (induction gs arbitrary: c s)
  case Nil
  show ?case by (rule outcome_pass [of _ _ _ c s]) (use locals_same in auto)
next
  case (Cons g gs)
  show ?case unfolding apply_guards_simps
    by (rule outcome_comp [OF outcome_guard [OF assms]], elim conjE exE, rule outcome_mono [OF Cons.IH]) auto
qed

text \<open>A handler behind a token guard sees the claims of a token in the header that \<open>ParseToken\<close> accepts at that time,
  that is, one that the JWT library verifies with the secret of the server, for an HMAC method only; behind a role
  guard these claims have this role.\<close>

definition valid_claims :: "ext \<Rightarrow> string \<Rightarrow> time \<Rightarrow> 'b request \<Rightarrow> claims \<Rightarrow> bool" where
  "valid_claims E secret t c cl \<longleftrightarrow>
     (\<exists>tok. rq_header c ''Authorization'' = ''Bearer '' @ tok \<and> ParseToken E secret t tok = Inr cl)"

lemma parsed_valid:
  assumes "rq_header c ''Authorization'' = ''Bearer '' @ tok" and "ParseToken E secret t tok = Inr cl"
  shows "valid_claims E secret t c cl"
  unfolding valid_claims_def using assms by blast

lemma outcome_token:
  assumes "counter_clock R ct" and "token_guards gs"
  shows "outcome (apply_guards E R secret ct gs) c s
    (\<lambda>c' s'. \<exists>cl. valid_claims E secret (rt_now R s) c cl \<and> c' = c\<lparr>rq_locals := Some cl\<rparr>)"
proof -
  from assms(2) obtain vs where gs: "gs = AuthRequired # vs" and vs: "list_all is_limit vs"
    by (auto elim!: token_guardsE)
  show ?thesis unfolding gs apply_guards_simps guard_mw_simps
  proof (rule outcome_comp [OF outcome_auth], elim conjE exE)
    fix c' s' tok cl
    assume s': "s' = s" and c': "c' = c\<lparr>rq_locals := Some cl\<rparr>"
      and tok: "rq_header c ''Authorization'' = ''Bearer '' @ tok" "ParseToken E secret (rt_now R s) tok = Inr cl"
    show "outcome (apply_guards E R secret ct vs) c' s'
        (\<lambda>c' s'. \<exists>cl. valid_claims E secret (rt_now R s) c cl \<and> c' = c\<lparr>rq_locals := Some cl\<rparr>)"
      by (rule outcome_mono [OF outcome_limits [OF assms(1) vs]]) (use parsed_valid [OF tok] c' in blast)
  qed
qed

lemma outcome_role_guards:
  assumes "counter_clock R ct" and "role_guards roles gs"
  shows "outcome (apply_guards E R secret ct gs) c s
    (\<lambda>c' s'. \<exists>cl. valid_claims E secret (rt_now R s) c cl \<and> cl_role cl \<in> set roles \<and> c' = c\<lparr>rq_locals := Some cl\<rparr>)"
proof -
  from assms(2) obtain vs where gs: "gs = AuthRequired # RoleRequired roles # vs" and vs: "list_all is_limit vs"
    by (auto elim!: role_guardsE)
  show ?thesis unfolding gs apply_guards_simps guard_mw_simps
  proof (rule outcome_comp [OF outcome_auth], elim conjE exE, rule outcome_comp [OF outcome_role], elim conjE exE)
    fix c' s' tok cl c'' s'' cl'
    assume "c'' = c'" "c' = c\<lparr>rq_locals := Some cl\<rparr>" "rq_locals c' = Some cl'" and role: "cl_role cl' \<in> set roles"
      and tok: "rq_header c ''Authorization'' = ''Bearer '' @ tok" "ParseToken E secret (rt_now R s) tok = Inr cl"
    then have c'': "c'' = c\<lparr>rq_locals := Some cl\<rparr>" and "cl' = cl" by auto
    with role have "cl_role cl \<in> set roles" by simp
    with c'' show "outcome (apply_guards E R secret ct vs) c'' s'' (\<lambda>c' s'. \<exists>cl. valid_claims E secret (rt_now R s) c cl \<and>
        cl_role cl \<in> set roles \<and> c' = c\<lparr>rq_locals := Some cl\<rparr>)"
      by (intro outcome_mono [OF outcome_limits [OF assms(1) vs]]) (use parsed_valid [OF tok] in blast)
  qed
qed

text \<open>The same behind any other guards, as these leave the header and the clock\<close>

lemma valid_claims_locals [simp]: "valid_claims E secret t (c\<lparr>rq_locals := l\<rparr>) cl = valid_claims E secret t c cl"
  by (simp add: valid_claims_def)

text \<open>What a guard behind other guards checks holds of the request as it came in.\<close>

lemma outcome_claims:
  assumes "outcome m c' s' (\<lambda>c'' s''. \<exists>cl. valid_claims E secret t c' cl \<and> A cl \<and> c'' = c'\<lparr>rq_locals := Some cl\<rparr>)"
    and "c' = c\<lparr>rq_locals := l\<rparr>"
  shows "outcome m c' s' (\<lambda>c'' s''. \<exists>cl. valid_claims E secret t c cl \<and> c'' = c\<lparr>rq_locals := Some cl\<rparr> \<and> A cl)"
  by (rule outcome_mono [OF assms(1)]) (auto simp: assms(2))

lemma dispatched_guarded:
  assumes "fiber_groups F" and "counter_clock R ct"
    and "dispatch F m path api_routes = Some (gs, pat, e)" and "e \<notin> set public_endpoints"
  shows "outcome (apply_guards E R secret ct gs) c s (\<lambda>c' s'. \<exists>cl. valid_claims E secret (rt_now R s) c cl \<and>
    c' = c\<lparr>rq_locals := Some cl\<rparr> \<and> (if e \<in> set admin_endpoints then cl_role cl = ''admin'' else True))"
proof -
  from dispatch_last_guards [OF assms(1,3), of "[]" "[]"] obtain us g0
    where g0: "(e, g0) \<in> set (last_guards [] [] api_routes)" and gs: "gs = us @ g0" by (auto simp: suffix_def)
  from g0 api_guards assms(4)
  have guarded: "if e \<in> set admin_endpoints then role_guards [''admin''] g0 else token_guards g0"
    unfolding list_all_iff by fastforce
  show ?thesis unfolding gs apply_guards_simps
  proof (rule outcome_comp [OF outcome_guards [OF assms(2)]], elim conjE exE)
    fix c' s' l
    assume c': "c' = c\<lparr>rq_locals := l\<rparr>" and now: "rt_now R s' = rt_now R s"
    note claims = outcome_claims [where c = c and c' = c' and t = "rt_now R s"]
    show "outcome (apply_guards E R secret ct g0) c' s' (\<lambda>c' s'. \<exists>cl. valid_claims E secret (rt_now R s) c cl \<and>
        c' = c\<lparr>rq_locals := Some cl\<rparr> \<and> (if e \<in> set admin_endpoints then cl_role cl = ''admin'' else True))"
    proof (cases "e \<in> set admin_endpoints")
      case True
      with guarded have "role_guards [''admin''] g0" by simp
      from claims [OF outcome_role_guards [OF assms(2) this, where c = c' and s = s' and E = E and secret = secret, unfolded now] c'] True show ?thesis by simp
    next
      case False
      with guarded have "token_guards g0" by simp
      from outcome_token [OF assms(2) this, where c = c' and s = s' and E = E and secret = secret, unfolded now]
      have "outcome (apply_guards E R secret ct g0) c' s'
          (\<lambda>c'' s''. \<exists>cl. valid_claims E secret (rt_now R s) c' cl \<and> True \<and> c'' = c'\<lparr>rq_locals := Some cl\<rparr>)" by simp
      from claims [OF this c'] False show ?thesis by simp
    qed
  qed
qed

end
