(* ===== verification/Server.thy ===== *)
theory Server
  imports Routes World
begin

text \<open>
  The server that \<open>cmd/api/main.go\<close> assembles: the handlers of all packages over the services, the
  services over the repositories, and the way of a request through the route tables. The state is
  the one of the whole program. What \<open>BodyParser\<close> makes of a request is a parameter, one function
  for each struct that a handler parses into (\<open>bp_string\<close> for those with one field, by its name).
\<close>

section \<open>Requests and answers of the whole interface\<close>

datatype api_data =
    IdentityPart identity_data
  | DictionaryPart dictionary_data
  | CommunityPart community_data
  | ModerationPart moderation_data
  | AiPart ai_data
  | HealthPart
  | DocsPart string

type_synonym raw_request = "string request"
type_synonym api_handler = "(world, string, api_data) handler"

record body_parsers =
  bp_string :: "string \<Rightarrow> raw_request \<Rightarrow> string \<times> bool"
  bp_register :: "raw_request \<Rightarrow> register_request \<times> bool"
  bp_login :: "raw_request \<Rightarrow> login_request \<times> bool"
  bp_reset :: "raw_request \<Rightarrow> reset_password_request \<times> bool"
  bp_password :: "raw_request \<Rightarrow> change_password_request \<times> bool"
  bp_word :: "raw_request \<Rightarrow> word_input_request \<times> bool"
  bp_submit :: "raw_request \<Rightarrow> submit_request \<times> bool"
  bp_translate :: "raw_request \<Rightarrow> translate_request \<times> bool"

definition parsed :: "(raw_request \<Rightarrow> 'b \<times> bool) \<Rightarrow> ('s, 'b, 'd) handler \<Rightarrow> ('s, string, 'd) handler" where
  "parsed p h c =
     h \<lparr>rq_header = rq_header c, rq_query = rq_query c, rq_param = rq_param c, rq_ip = rq_ip c,
        rq_body = p c, rq_locals = rq_locals c\<rparr>"

definition tagged :: "('d \<Rightarrow> 'e) \<Rightarrow> ('s, 'b, 'd) handler \<Rightarrow> ('s, 'b, 'e) handler" where
  "tagged f h c s =
     (case h c s of (resp, s') \<Rightarrow>
        (\<lparr>rs_status = rs_status resp, rs_body = map_body f (rs_body resp), rs_return = rs_return resp\<rparr>, s'))"

section \<open>The assembly (\<open>cmd/api/main.go\<close>)\<close>

text \<open>What the configuration and the libraries bring. The mailer that \<open>main\<close> chooses is in the state.\<close>

record api =
  ap_ext :: ext
  ap_secret :: string
  ap_client :: open_router_client
  ap_transport :: "http_call \<Rightarrow> world \<Rightarrow> err + nat \<times> string option"
  ap_model :: string
  ap_parsers :: body_parsers
  ap_fiber :: fiber
  ap_openapi :: string
  ap_swagger :: string
  ap_logger :: slog_handler

abbreviation ap_runtime :: "api \<Rightarrow> world runtime" where "ap_runtime A \<equiv> db_runtime (ap_ext A)"

definition rlCounter :: "world counter" where
  "rlCounter = NewRedisCounter world_exec"

text \<open>A call of the language model leaves the program's state alone; what it returns is arbitrary.\<close>

definition aiClient :: "api \<Rightarrow> world llm_client" where
  "aiClient A = openrouter_Complete (ap_client A) (\<lambda>call. readP (ap_transport A call))"

definition aiSvc :: "api \<Rightarrow> world translate_svc" where
  "aiSvc A = \<lparr>tv_llm = aiClient A, tv_model = ap_model A\<rparr>"

definition enrichmentSvc :: "api \<Rightarrow> world enrichment_svc" where
  "enrichmentSvc A = db_enrichment_svc (ap_ext A) (aiClient A) (ap_model A)"

text \<open>A goroutine that is started runs later: the step of the program that stores what it made of the
  answer is \<open>runLLM_store\<close>.\<close>

definition spawn :: "job \<Rightarrow> world \<Rightarrow> world" where
  "spawn j w = w"

definition identityHandler :: "api \<Rightarrow> (string \<times> api_handler) list" where
  "identityHandler A =
     (let E = ap_ext A; R = ap_runtime A; secret = ap_secret A; v = world_identity E; B = ap_parsers A in
      [(''identity.Register'', tagged IdentityPart (parsed (bp_register B) (Register E R v))),
       (''identity.Login'', tagged IdentityPart (parsed (bp_login B) (Login E R secret v))),
       (''identity.RefreshToken'', tagged IdentityPart (parsed (bp_string B ''refresh_token'') (RefreshToken_handler E R secret v))),
       (''identity.Logout'', tagged IdentityPart (parsed (bp_string B ''refresh_token'') (Logout v))),
       (''identity.VerifyEmail'', tagged IdentityPart (parsed (bp_string B ''token'') (VerifyEmail_handler E R v))),
       (''identity.ForgotPassword'', tagged IdentityPart (parsed (bp_string B ''email'') (ForgotPassword_handler E R v))),
       (''identity.ResetPassword'', tagged IdentityPart (parsed (bp_reset B) (ResetPassword_handler E R v))),
       (''identity.Me'', tagged IdentityPart Me),
       (''identity.UpdateProfile'', tagged IdentityPart (parsed (bp_string B ''name'') (UpdateProfile_handler E R v))),
       (''identity.ChangePassword'', tagged IdentityPart (parsed (bp_password B) (ChangePassword_handler E R v)))])"

definition dictionaryHandler :: "api \<Rightarrow> (string \<times> api_handler) list" where
  "dictionaryHandler A =
     (let E = ap_ext A; R = ap_runtime A; v = PostgresWordRepository E; B = ap_parsers A in
      [(''dictionary.ListWords'', tagged DictionaryPart (ListWords_handler E v)),
       (''dictionary.GetWord'', tagged DictionaryPart (GetWord_handler E v)),
       (''dictionary.GetDefinitions'', tagged DictionaryPart (GetDefinitions E v)),
       (''dictionary.GetExamples'', tagged DictionaryPart (GetExamples E v)),
       (''dictionary.GetRelatedWords'', tagged DictionaryPart (GetRelatedWords E v)),
       (''dictionary.AdminCreateWord'', tagged DictionaryPart (parsed (bp_word B) (AdminCreateWord E R v))),
       (''dictionary.AdminUpdateWord'', tagged DictionaryPart (parsed (bp_word B) (AdminUpdateWord E R v))),
       (''dictionary.AdminDeleteWord'', tagged DictionaryPart (AdminDeleteWord E v))])"

definition communityHandler :: "api \<Rightarrow> (string \<times> api_handler) list" where
  "communityHandler A =
     (let E = ap_ext A; R = ap_runtime A; cs = db_contribution_svc; vs = db_vote_svc; bs = db_bookmark_svc E;
          ms = db_comment_svc; B = ap_parsers A in
      [(''community.ListContributions'', tagged CommunityPart (ListContributions_handler E cs)),
       (''community.SubmitContribution'', tagged CommunityPart (parsed (bp_submit B) (SubmitContribution_handler E R cs))),
       (''community.GetContribution'', tagged CommunityPart (GetContribution_handler E cs)),
       (''community.WithdrawContribution'', tagged CommunityPart (WithdrawContribution_handler E cs)),
       (''community.ApproveContribution'', tagged CommunityPart (parsed (bp_string B ''note'') (ApproveContribution_handler E R cs))),
       (''community.RejectContribution'', tagged CommunityPart (parsed (bp_string B ''note'') (RejectContribution_handler E R cs))),
       (''community.CastWordVote'', tagged CommunityPart (parsed (bp_string B ''value'') (CastWordVote E R vs))),
       (''community.RemoveWordVote'', tagged CommunityPart (RemoveWordVote E vs)),
       (''community.CastDefinitionVote'', tagged CommunityPart (parsed (bp_string B ''value'') (CastDefinitionVote E R vs))),
       (''community.RemoveDefinitionVote'', tagged CommunityPart (RemoveDefinitionVote E vs)),
       (''community.ListBookmarks'', tagged CommunityPart (ListBookmarks_handler E bs)),
       (''community.AddBookmark'', tagged CommunityPart (parsed (bp_string B ''word_id'') (AddBookmark_handler E R bs))),
       (''community.RemoveBookmark'', tagged CommunityPart (RemoveBookmark_handler E bs)),
       (''community.ListComments'', tagged CommunityPart (ListComments_handler E ms)),
       (''community.PostComment'', tagged CommunityPart (parsed (bp_string B ''body'') (PostComment_handler E R ms))),
       (''community.EditComment'', tagged CommunityPart (parsed (bp_string B ''body'') (EditComment_handler E R ms))),
       (''community.DeleteComment'', tagged CommunityPart (DeleteComment_handler E ms)),
       (''community.FlagComment'', tagged CommunityPart (FlagComment_handler E R ms))])"

definition moderationHandler :: "api \<Rightarrow> (string \<times> api_handler) list" where
  "moderationHandler A =
     (let E = ap_ext A; R = ap_runtime A; v = db_moderation_svc E; B = ap_parsers A in
      [(''moderation.GetModerationQueue'', tagged ModerationPart (GetModerationQueue_handler v)),
       (''moderation.GetFlaggedComments'', tagged ModerationPart (GetFlaggedComments_handler v)),
       (''moderation.GetModerationStats'', tagged ModerationPart (GetModerationStats_handler v)),
       (''moderation.ListUsers'', tagged ModerationPart (ListUsers_handler v)),
       (''moderation.GetUser'', tagged ModerationPart (GetUser_handler E v)),
       (''moderation.BanUser'', tagged ModerationPart (parsed (bp_string B ''reason'') (BanUser_handler E R v))),
       (''moderation.UnbanUser'', tagged ModerationPart (UnbanUser_handler E R v)),
       (''moderation.ChangeUserRole'', tagged ModerationPart (parsed (bp_string B ''role'') (ChangeUserRole_handler E R v)))])"

definition aiHandler :: "api \<Rightarrow> (string \<times> api_handler) list" where
  "aiHandler A =
     (let E = ap_ext A; R = ap_runtime A; v = enrichmentSvc A; B = ap_parsers A in
      [(''ai.Translate'', tagged AiPart (parsed (bp_translate B) (Translate E (aiSvc A)))),
       (''ai.EnrichDefinition'', tagged AiPart (EnrichDefinition E R spawn v)),
       (''ai.SuggestExample'', tagged AiPart (SuggestExample E R spawn v)),
       (''ai.SuggestRelated'', tagged AiPart (SuggestRelated E R spawn v)),
       (''ai.QualityCheck'', tagged AiPart (QualityCheck E R spawn v)),
       (''ai.ListAIRequests'', tagged AiPart (ListAIRequests E v)),
       (''ai.GetAIRequest'', tagged AiPart (GetAIRequest_handler E v)),
       (''ai.ApproveAIRequest'', tagged AiPart (ApproveAIRequest_handler E R v)),
       (''ai.RejectAIRequest'', tagged AiPart (RejectAIRequest_handler E R v))])"

definition health_handler :: api_handler where
  "health_handler c s = (OK HealthPart, s)"

definition docs_handlers :: "api \<Rightarrow> (string \<times> api_handler) list" where
  "docs_handlers A =
     [(''docs.openapi'', (\<lambda>c s. (OK (DocsPart (ap_openapi A)), s))),
      (''docs.ui'', (\<lambda>c s. (OK (DocsPart (ap_swagger A)), s)))]"

definition api_handlers :: "api \<Rightarrow> (string \<times> api_handler) list" where
  "api_handlers A =
     (''health'', health_handler) # identityHandler A @ dictionaryHandler A @ communityHandler A @
     moderationHandler A @ aiHandler A @ docs_handlers A"

section \<open>A request\<close>

record http_request =
  hq_method :: string
  hq_path :: string
  hq_header :: "string \<Rightarrow> string"
  hq_query :: "string \<Rightarrow> string"
  hq_ip :: string
  hq_body :: string

definition to_request :: "http_request \<Rightarrow> (string \<Rightarrow> string) \<Rightarrow> raw_request" where
  "to_request q params =
     \<lparr>rq_header = hq_header q, rq_query = hq_query q, rq_param = params, rq_ip = hq_ip q,
      rq_body = (hq_body q, True), rq_locals = None\<rparr>"

text \<open>A request that no route takes still passes the middleware of its groups; the error of the router
  is rendered by the error handler.\<close>

definition handle :: "api \<Rightarrow> http_request \<Rightarrow> world \<Rightarrow> api_data response \<times> world" where
  "handle A q w =
     (let F = ap_fiber A;
          guarded = apply_guards (ap_ext A) (ap_runtime A) (ap_secret A) rlCounter in
      case dispatch F (hq_method q) (hq_path q) api_routes of
        None \<Rightarrow>
          guarded (group_guards F (hq_path q) api_routes)
            (\<lambda>c s. case fb_unmatched F (hq_method q) (hq_path q) of (code, text) \<Rightarrow> (return_error 200 (Some code) text, s))
            (to_request q (\<lambda>_. [])) w
      | Some (gs, pat, e) \<Rightarrow>
          guarded gs (the (map_of (api_handlers A) e)) (to_request q (fb_params F pat (hq_path q))) w)"

text \<open>
  The middleware around it: Fiber refuses a body above the limit and then an unknown method, the latter with
  plain text, before anything else; \<open>recover\<close> (in \<open>panic_response\<close>), the request id and the log. With the response comes its header \<open>X-Request-ID\<close>, which a
  refused request does not have.
\<close>

definition BodyLimit :: nat where "BodyLimit = 1 * 1024 * 1024"

definition invalid_method :: "'d response" where
  "invalid_method = \<lparr>rs_status = 400, rs_body = TextBody ''Invalid http method'', rs_return = ReturnsNil\<rparr>"

definition write_log :: "log_entry \<Rightarrow> world \<Rightarrow> world" where
  "write_log e w = w\<lparr>wd_log := wd_log w @ [e]\<rparr>"

definition serve :: "api \<Rightarrow> http_request \<Rightarrow> world \<Rightarrow> (string \<times> api_data response) \<times> world" where
  "serve A q w =
     (if BodyLimit < length (hq_body q) then (([], ErrorHandler (Some 413) ''Request Entity Too Large''), w)
      else if \<not> fb_known (ap_fiber A) (hq_method q) then (([], invalid_method), w)
      else
        RequestID (ap_ext A) (rt_uuid (ap_runtime A))
          (RequestLogger db_now write_log (hq_method q) (hq_path q) (\<lambda>_. handle A q))
          (to_request q (\<lambda>_. [])) w)"

fun serve_all :: "api \<Rightarrow> http_request list \<Rightarrow> world \<Rightarrow> (string \<times> api_data response) list \<times> world" where
  "serve_all A [] w = ([], w)"
| "serve_all A (q # qs) w =
     (case serve A q w of (r, w') \<Rightarrow> case serve_all A qs w' of (rs, w'') \<Rightarrow> (r # rs, w''))"

section \<open>The clock\<close>

text \<open>Counting in Redis takes no time that the server's clock would show.\<close>

lemma world_counter_clock: "counter_clock (db_runtime E) (NewRedisCounter world_exec)"
proof -
  have "frames db_now (RedisIncrement world_exec k w :: (world, err, int) prog)" for k w
    unfolding RedisIncrement_def
    by (intro frame_intros frames_comp [OF frames_exec, of "\<lambda>x. snd (snd x)", simplified])
  from framesD [OF this] show ?thesis
    by (simp add: counter_clock_def NewRedisCounter_def db_runtime_def) (metis prod.collapse)
qed

end
