(* ===== verification/Route_Properties.thy ===== *)
theory Route_Properties
  imports Server Foundation_Properties
begin

text \<open>
  Authorization of the whole surface: the property of the route tables, and a router that has the
  behaviour the tables rely on.
\<close>

section \<open>A router\<close>

text \<open>Prefixes, patterns and paths are compared segment by segment; a segment with a colon takes any.\<close>

fun segments :: "string \<Rightarrow> string list" where
  "segments [] = [[]]"
| "segments (c # cs) =
     (if c = CHR ''/'' then [] # segments cs
      else case segments cs of [] \<Rightarrow> [[c]] | x # xs \<Rightarrow> (c # x) # xs)"

definition path_parts :: "string \<Rightarrow> string list" where
  "path_parts s = filter (\<lambda>x. x \<noteq> []) (segments s)"

definition segment_match :: "string \<Rightarrow> string \<Rightarrow> bool" where
  "segment_match pat s = (pat = s \<or> take 1 pat = '':'')"

definition demo_fiber :: fiber where
  "demo_fiber =
     \<lparr>fb_use = (\<lambda>p path. list_all2 segment_match (path_parts p) (take (length (path_parts p)) (path_parts path))),
      fb_match = (\<lambda>pat path. list_all2 segment_match (path_parts pat) (path_parts path)),
      fb_params = (\<lambda>pat path key.
        (case map_of (zip (path_parts pat) (path_parts path)) (CHR '':'' # key) of Some v \<Rightarrow> v | None \<Rightarrow> [])),
      fb_unmatched = (\<lambda>m path. (404, ''Cannot '' @ m @ '' '' @ path)),
      fb_known = (\<lambda>m. m \<in> set [''GET'', ''HEAD'', ''POST'', ''PUT'', ''DELETE'', ''CONNECT'', ''OPTIONS'', ''TRACE'', ''PATCH''])\<rparr>"

lemma segments_ne [simp]: "segments s \<noteq> []"
  by (induction s) (auto split: list.split)

lemma segments_slash: "segments (p @ CHR ''/'' # q) = segments p @ segments q"
  by (induction p) (auto split: list.split)

lemma demo_fiber_groups: "fiber_groups demo_fiber"
proof -
  have "fb_use demo_fiber p path" if "fb_match demo_fiber (p @ ''/'' @ q) path" for p q path
  proof -
    from that have "list_all2 segment_match (path_parts p @ path_parts q) (path_parts path)"
      by (simp add: demo_fiber_def path_parts_def segments_slash)
    from list_all2_takeI [OF this, of "length (path_parts p)"] show ?thesis by (simp add: demo_fiber_def)
  qed
  then show ?thesis unfolding fiber_groups_def by blast
qed

section \<open>The property\<close>

text \<open>C7. Whatever path a request has, if it is dispatched to an endpoint that is not public, the middleware in front
  of the handler refuses it (401, 403, 429) or hands it on with the claims of a token of its header that \<open>ParseToken\<close> accepts with the
  secret of the server; for the endpoints of the admin area and the decisions on contributions these claims have the role \<open>admin\<close>.\<close>

theorem dispatched_request_authorized:
  assumes "fiber_groups F" and "counter_clock R ct"
    and "dispatch F m path api_routes = Some (gs, pat, e)" and "e \<notin> set public_endpoints"
  shows "outcome (apply_guards E R secret ct gs) c s (\<lambda>c' s'. \<exists>cl. valid_claims E secret (rt_now R s) c cl \<and>
    c' = c\<lparr>rq_locals := Some cl\<rparr> \<and> (if e \<in> set admin_endpoints then cl_role cl = ''admin'' else True))"
  using assms by (rule dispatched_guarded)

definition anonymous :: "unit request" where
  "anonymous = \<lparr>rq_header = (\<lambda>_. []), rq_query = (\<lambda>_. []), rq_param = (\<lambda>_. []), rq_ip = ''::1'',
     rq_body = ((), True), rq_locals = None\<rparr>"

theorem dispatched_request_authorized_witness:
  "\<exists>gs. dispatch demo_fiber ''PATCH'' ''/api/v2/admin/users/2/ban'' api_routes =
      Some (gs, ''/api/v2/admin/users/:id/ban'', ''moderation.BanUser'') \<and>
     (\<exists>resp w. rs_status resp \<in> {401, 403, 429} \<and>
        (\<forall>h. apply_guards demo_ext (db_runtime demo_ext) ''k'' (NewRedisCounter world_exec) gs h anonymous (world_empty 0) =
           (resp :: unit response, w)))"
proof -
  have run: "dispatch demo_fiber ''PATCH'' ''/api/v2/admin/users/2/ban'' api_routes =
      Some ([AuthRequired, RoleRequired [''admin'']], ''/api/v2/admin/users/:id/ban'', ''moderation.BanUser'')" by code_simp
  have "''moderation.BanUser'' \<notin> set public_endpoints" by code_simp
  from dispatched_request_authorized [OF demo_fiber_groups world_counter_clock run this,
      where E = demo_ext and secret = "''k''" and c = anonymous and s = "world_empty 0", of demo_ext] run
  show ?thesis
    by (auto simp: outcome_def valid_claims_def anonymous_def refusals_def simp del: apply_guards_simps)
qed

end
