(* ===== verification/Bootstrap_Properties.thy ===== *)
theory Bootstrap_Properties
  imports Identity_Properties Route_Properties
begin

text \<open>
  From an empty installation to the admin area: the account that the seeder makes, the login of the
  identity context, the access token, and the guards of the route tables.
\<close>

text \<open>The configured account\<close>

definition admin_mail :: "(string \<Rightarrow> string) \<Rightarrow> string" where
  "admin_mail env = getEnvOrDefault env ''ADMIN_EMAIL'' ''iqbaleff214@gmail.com''"

definition admin_pass :: "(string \<Rightarrow> string) \<Rightarrow> string" where
  "admin_pass env = getEnvOrDefault env ''ADMIN_PASSWORD'' ''Admin1234!''"

lemma seedAdmin_new:
  fixes w :: "'z db_scheme"
  assumes "seedAdmin E env w = (Inr (), w')"
    and "admin_mail env \<notin> ur_email ` set (db_users w)"
    and "x_new_uuid E (Suc (db_draws w)) \<notin> user_ids w"
  obtains h where "x_bcrypt_hash E (db_draws w) (admin_pass env) = Inr h"
    and "w' = w\<lparr>db_draws := Suc (Suc (db_draws w)), db_users := db_users w @
      [\<lparr>ur_id = x_new_uuid E (Suc (db_draws w)), ur_name = getEnvOrDefault env ''ADMIN_NAME'' ''Admin'',
        ur_email = admin_mail env, ur_password_hash = h,
        ur_role = ''admin'', ur_is_active = True, ur_email_verified_at = Some (db_now w),
        ur_created_at = db_now w, ur_updated_at = db_now w\<rparr>]\<rparr>"
proof -
  obtain h where h: "x_bcrypt_hash E (db_draws w) (admin_pass env) = Inr h"
    using assms(1) by (auto simp: seedAdmin_def Let_def admin_mail_def admin_pass_def prog_Inr saltP_def db_runtime_def)
  with assms show thesis
    by (intro that [OF h]) (auto simp: seedAdmin_def Let_def admin_mail_def admin_pass_def prog_defs saltP_def db_runtime_def CreateUser_def sqlP_def user_role_enum_def user_ids_def)
qed

text \<open>C17. The seeder opens the admin area: on a database without an account for the configured address it adds
  exactly this account, active, verified and with the role of an admin; a login with the configured password
  succeeds, and for a quarter of an hour (less a second) the access token it returns passes the guards of the
  admin routes.\<close>

theorem seeded_admin_administers:
  fixes w :: world
  assumes "bcrypt_ok E" "rand_total E" "jwt_complete E" and "db_ok w"
    and "seedAdmin E env w = (Inr (), w')"
    and "admin_mail env \<notin> ur_email ` set (db_users w)" and "x_new_uuid E (Suc (db_draws w)) \<notin> user_ids w"
    and "GenerateAccessToken E secret (db_now w) (x_uuid_string E (x_new_uuid E (Suc (db_draws w)))) ''admin'' = Inr acc"
  shows "\<exists>u rfr w'' cl. db_user_map w' = (db_user_map w)(us_id u \<mapsto> u) \<and> db_user_map w (us_id u) = None \<and> us_email u = admin_mail env \<and>
    us_role u = RoleAdmin \<and> us_is_active u \<and> IsEmailVerified u \<and> db_ok w' \<and>
    LoginUser E (db_runtime E) secret (world_identity E) (admin_mail env) (admin_pass env) w' = (Inr (acc, rfr), w'') \<and>
    cl_user_id cl = x_uuid_string E (us_id u) \<and> cl_role cl = RoleAdmin \<and>
    (if rq_header c ''Authorization'' = ''Bearer '' @ acc \<and> db_now s \<le> db_now w + AccessTokenTTL - second
     then apply_guards E (db_runtime E) secret ct [AuthRequired, RoleRequired [''admin'']] h c s =
       h (c\<lparr>rq_locals := Some cl\<rparr>) s
     else True)"
proof -
  let ?i = "x_new_uuid E (Suc (db_draws w))"
  obtain p where hash: "x_bcrypt_hash E (db_draws w) (admin_pass env) = Inr p"
    and w': "w' = w\<lparr>db_draws := Suc (Suc (db_draws w)), db_users := db_users w @
      [\<lparr>ur_id = ?i, ur_name = getEnvOrDefault env ''ADMIN_NAME'' ''Admin'', ur_email = admin_mail env, ur_password_hash = p,
        ur_role = ''admin'', ur_is_active = True, ur_email_verified_at = Some (db_now w),
        ur_created_at = db_now w, ur_updated_at = db_now w\<rparr>]\<rparr>"
    using seedAdmin_new [OF assms(5,6,7)] by blast
  define u where "u = \<lparr>us_id = ?i, us_name = getEnvOrDefault env ''ADMIN_NAME'' ''Admin'', us_email = admin_mail env,
    us_password_hash = p, us_role = RoleAdmin, us_is_active = True, us_email_verified_at = Some (db_now w),
    us_created_at = db_now w, us_updated_at = db_now w\<rparr>"
  have old: "lookup_by ur_id ?i (db_users w) = None" using assms(7) by (simp add: lookup_by_None user_ids_def)
  have users: "db_user_map w' = (db_user_map w)(us_id u \<mapsto> u)"
    by (auto simp: w' u_def db_user_map_def fun_eq_iff table_simps old user_toDomain_def RoleAdmin_def split: option.split)
  have ok: "db_ok w'" using keepsD [OF keeps_seedAdmin assms(4,5)] .
  have "VerifyPassword E u (admin_pass env)" using assms(1) hash by (simp add: bcrypt_ok_def VerifyPassword_def u_def)
  moreover have acc: "GenerateAccessToken E secret (db_now w') (x_uuid_string E (us_id u)) (us_role u) = Inr acc"
    using assms(8) by (simp add: w' u_def RoleAdmin_def)
  ultimately obtain rfr w'' where
    login: "LoginUser E (db_runtime E) secret (world_identity E) (admin_mail env) (admin_pass env) w' = (Inr (acc, rfr), w'')"
    using login_runs [OF assms(2) ok, of u "admin_pass env" secret acc] users by (auto simp: u_def)
  define cl where "cl = \<lparr>cl_user_id = x_uuid_string E ?i, cl_role = ''admin'', cl_subject = x_uuid_string E ?i,
    cl_issued_at = Some (db_now w div second), cl_expires_at = Some ((db_now w + AccessTokenTTL) div second)\<rparr>"
  have "apply_guards E (db_runtime E) secret ct [AuthRequired, RoleRequired [''admin'']] h c s =
      h (c\<lparr>rq_locals := Some cl\<rparr>) s"
    if "rq_header c ''Authorization'' = ''Bearer '' @ acc" "db_now s \<le> db_now w + AccessTokenTTL - second"
  proof -
    have "db_now s < (db_now w + AccessTokenTTL) div second * second"
      using whole_second [of "db_now w + AccessTokenTTL"] that(2) by linarith
    from ParseToken_generated [OF assms(3,8) this] that(1) show ?thesis
      by (simp add: guard_mw_simps RequireAuth_def RequireRole_def GetClaims_def has_prefix_def trim_prefix_def
          db_runtime_def cl_def)
  qed
  moreover have "db_user_map w (us_id u) = None" using old by (simp add: db_user_map_def u_def)
  ultimately show ?thesis
    using users ok login by (intro exI [of _ u] exI [of _ rfr] exI [of _ w''] exI [of _ cl])
      (simp add: u_def cl_def RoleAdmin_def IsEmailVerified_def)
qed

theorem seeded_admin_administers_witness:
  "\<exists>w' acc rfr w''. seedAdmin demo_ext (\<lambda>_. []) (world_empty 0) = (Inr (), w') \<and>
     LoginUser demo_ext (db_runtime demo_ext) ''k'' (world_identity demo_ext) ''iqbaleff214@gmail.com'' ''Admin1234!'' w' =
       (Inr (acc, rfr), w'') \<and>
     apply_guards demo_ext (db_runtime demo_ext) ''k'' (NewRedisCounter world_exec) [AuthRequired, RoleRequired [''admin'']]
       (\<lambda>_ s. (OK (), s)) (bearer acc) w' = (OK (), w')"
proof -
  have "\<exists>w'. seedAdmin demo_ext (\<lambda>_. []) (world_empty 0) = (Inr (), w') \<and> db_now w' = 0"
    by (simp add: seedAdmin_def Let_def getEnvOrDefault_def prog_defs saltP_def db_runtime_def demo_ext_def CreateUser_def sqlP_def
        user_role_enum_def world_empty_def db_empty_def db.defs)
  then obtain w' where seed: "seedAdmin demo_ext (\<lambda>_. []) (world_empty 0) = (Inr (), w')" and now: "db_now w' = 0" by blast
  obtain acc where acc: "GenerateAccessToken demo_ext ''k'' (db_now (world_empty 0)) (x_uuid_string demo_ext
      (x_new_uuid demo_ext (Suc (db_draws (world_empty 0))))) ''admin'' = Inr acc" using demo_sign by blast
  have env: "admin_mail (\<lambda>_. []) = ''iqbaleff214@gmail.com''" "admin_pass (\<lambda>_. []) = ''Admin1234!''"
    by (simp_all add: admin_mail_def admin_pass_def getEnvOrDefault_def)
  have empty: "db_users (world_empty 0) = []" "db_now (world_empty 0) = 0"
    by (simp_all add: world_empty_def db_empty_def db.defs)
  have late: "db_now w' \<le> db_now (world_empty 0) + AccessTokenTTL - second" by (simp add: now empty AccessTokenTTL_def)
  have "rq_header (bearer acc) ''Authorization'' = ''Bearer '' @ acc" by (simp add: bearer_def)
  with seeded_admin_administers [OF demo_bcrypt_ok demo_rand_total demo_jwt_complete db_ok_world_empty seed _ _ acc,
      of "bearer acc" w' "NewRedisCounter world_exec" "\<lambda>_ s. (OK (), s)"] late
  show ?thesis by (auto simp: env empty user_ids_def seed)
qed

end
