(* ===== verification/Sql_Values.thy ===== *)
theory Sql_Values
  imports Database
begin

text \<open>
  The conversions that sqlc generates for the enumerations of the schema (\<open>models.go\<close>): reading
  a column (\<open>Scan\<close>), reading and writing a nullable one. A value of the driver is the variants
  that the code distinguishes; \<open>OtherValue\<close> carries the name of its type, as \<open>%T\<close> prints it.
\<close>

datatype driver_value =
    NilValue
  | BytesValue string
  | StringValue string
  | OtherValue string

record null_enum =
  ne_label :: string
  ne_valid :: bool

fun type_name :: "driver_value \<Rightarrow> string" where
  "type_name NilValue = ''<nil>''"
| "type_name (BytesValue s) = ''[]uint8''"
| "type_name (StringValue s) = ''string''"
| "type_name (OtherValue t) = t"

text \<open>The common shape of the methods\<close>

definition scan_enum :: "string \<Rightarrow> driver_value \<Rightarrow> err + string" where
  "scan_enum name src =
     (case src of
        BytesValue s \<Rightarrow> Inr s
      | StringValue s \<Rightarrow> Inr s
      | _ \<Rightarrow> Inl (Other (''unsupported scan type for '' @ name @ '': '' @ type_name src)))"

definition scan_null :: "(driver_value \<Rightarrow> err + string) \<Rightarrow> driver_value \<Rightarrow> err + null_enum" where
  "scan_null scan value =
     (if value = NilValue then Inr \<lparr>ne_label = [], ne_valid = False\<rparr>
      else (case scan value of Inl e \<Rightarrow> Inl e | Inr s \<Rightarrow> Inr \<lparr>ne_label = s, ne_valid = True\<rparr>))"

definition null_value :: "null_enum \<Rightarrow> driver_value" where
  "null_value ns = (if \<not> ne_valid ns then NilValue else StringValue (ne_label ns))"

lemma scan_enum_Inr: "scan_enum name src = Inr s \<longleftrightarrow> src \<in> {BytesValue s, StringValue s}"
  by (auto simp: scan_enum_def split: driver_value.split)

lemma scan_null_value: "scan_null (scan_enum name) (null_value ns) =
    Inr (if ne_valid ns then ns else \<lparr>ne_label = [], ne_valid = False\<rparr>)"
  by (cases ns) (simp add: scan_null_def null_value_def scan_enum_def)

section \<open>The enumerations\<close>

definition CommentTargetType_Scan :: "driver_value \<Rightarrow> err + string" where
  "CommentTargetType_Scan = scan_enum ''CommentTargetType''"

definition NullCommentTargetType_Scan :: "driver_value \<Rightarrow> err + null_enum" where
  "NullCommentTargetType_Scan value = scan_null CommentTargetType_Scan value"

definition NullCommentTargetType_Value :: "null_enum \<Rightarrow> driver_value" where
  "NullCommentTargetType_Value ns = null_value ns"

definition ContributionStatus_Scan :: "driver_value \<Rightarrow> err + string" where
  "ContributionStatus_Scan = scan_enum ''ContributionStatus''"

definition NullContributionStatus_Scan :: "driver_value \<Rightarrow> err + null_enum" where
  "NullContributionStatus_Scan value = scan_null ContributionStatus_Scan value"

definition NullContributionStatus_Value :: "null_enum \<Rightarrow> driver_value" where
  "NullContributionStatus_Value ns = null_value ns"

definition ContributionType_Scan :: "driver_value \<Rightarrow> err + string" where
  "ContributionType_Scan = scan_enum ''ContributionType''"

definition NullContributionType_Scan :: "driver_value \<Rightarrow> err + null_enum" where
  "NullContributionType_Scan value = scan_null ContributionType_Scan value"

definition NullContributionType_Value :: "null_enum \<Rightarrow> driver_value" where
  "NullContributionType_Value ns = null_value ns"

definition Dialect_Scan :: "driver_value \<Rightarrow> err + string" where
  "Dialect_Scan = scan_enum ''Dialect''"

definition NullDialect_Scan :: "driver_value \<Rightarrow> err + null_enum" where
  "NullDialect_Scan value = scan_null Dialect_Scan value"

definition NullDialect_Value :: "null_enum \<Rightarrow> driver_value" where
  "NullDialect_Value ns = null_value ns"

definition UserRole_Scan :: "driver_value \<Rightarrow> err + string" where
  "UserRole_Scan = scan_enum ''UserRole''"

definition NullUserRole_Scan :: "driver_value \<Rightarrow> err + null_enum" where
  "NullUserRole_Scan value = scan_null UserRole_Scan value"

definition NullUserRole_Value :: "null_enum \<Rightarrow> driver_value" where
  "NullUserRole_Value ns = null_value ns"

definition VoteTargetType_Scan :: "driver_value \<Rightarrow> err + string" where
  "VoteTargetType_Scan = scan_enum ''VoteTargetType''"

definition NullVoteTargetType_Scan :: "driver_value \<Rightarrow> err + null_enum" where
  "NullVoteTargetType_Scan value = scan_null VoteTargetType_Scan value"

definition NullVoteTargetType_Value :: "null_enum \<Rightarrow> driver_value" where
  "NullVoteTargetType_Value ns = null_value ns"

definition VoteValue_Scan :: "driver_value \<Rightarrow> err + string" where
  "VoteValue_Scan = scan_enum ''VoteValue''"

definition NullVoteValue_Scan :: "driver_value \<Rightarrow> err + null_enum" where
  "NullVoteValue_Scan value = scan_null VoteValue_Scan value"

definition NullVoteValue_Value :: "null_enum \<Rightarrow> driver_value" where
  "NullVoteValue_Value ns = null_value ns"

definition WordClass_Scan :: "driver_value \<Rightarrow> err + string" where
  "WordClass_Scan = scan_enum ''WordClass''"

definition NullWordClass_Scan :: "driver_value \<Rightarrow> err + null_enum" where
  "NullWordClass_Scan value = scan_null WordClass_Scan value"

definition NullWordClass_Value :: "null_enum \<Rightarrow> driver_value" where
  "NullWordClass_Value ns = null_value ns"

definition WordSource_Scan :: "driver_value \<Rightarrow> err + string" where
  "WordSource_Scan = scan_enum ''WordSource''"

definition NullWordSource_Scan :: "driver_value \<Rightarrow> err + null_enum" where
  "NullWordSource_Scan value = scan_null WordSource_Scan value"

definition NullWordSource_Value :: "null_enum \<Rightarrow> driver_value" where
  "NullWordSource_Value ns = null_value ns"

definition WordStatus_Scan :: "driver_value \<Rightarrow> err + string" where
  "WordStatus_Scan = scan_enum ''WordStatus''"

definition NullWordStatus_Scan :: "driver_value \<Rightarrow> err + null_enum" where
  "NullWordStatus_Scan value = scan_null WordStatus_Scan value"

definition NullWordStatus_Value :: "null_enum \<Rightarrow> driver_value" where
  "NullWordStatus_Value ns = null_value ns"

lemmas scan_defs =
  CommentTargetType_Scan_def NullCommentTargetType_Scan_def NullCommentTargetType_Value_def
  ContributionStatus_Scan_def NullContributionStatus_Scan_def NullContributionStatus_Value_def
  ContributionType_Scan_def NullContributionType_Scan_def NullContributionType_Value_def
  Dialect_Scan_def NullDialect_Scan_def NullDialect_Value_def
  UserRole_Scan_def NullUserRole_Scan_def NullUserRole_Value_def
  VoteTargetType_Scan_def NullVoteTargetType_Scan_def NullVoteTargetType_Value_def
  VoteValue_Scan_def NullVoteValue_Scan_def NullVoteValue_Value_def
  WordClass_Scan_def NullWordClass_Scan_def NullWordClass_Value_def
  WordSource_Scan_def NullWordSource_Scan_def NullWordSource_Value_def
  WordStatus_Scan_def NullWordStatus_Scan_def NullWordStatus_Value_def

text \<open>
  What is written to a nullable column is read back, and the value \<open>Valid = false\<close> is normalised.
\<close>

lemma null_enums_roundtrip:
  assumes "ne_valid ns"
  shows "NullCommentTargetType_Scan (NullCommentTargetType_Value ns) = Inr ns"
    "NullContributionStatus_Scan (NullContributionStatus_Value ns) = Inr ns"
    "NullContributionType_Scan (NullContributionType_Value ns) = Inr ns"
    "NullDialect_Scan (NullDialect_Value ns) = Inr ns"
    "NullUserRole_Scan (NullUserRole_Value ns) = Inr ns"
    "NullVoteTargetType_Scan (NullVoteTargetType_Value ns) = Inr ns"
    "NullVoteValue_Scan (NullVoteValue_Value ns) = Inr ns"
    "NullWordClass_Scan (NullWordClass_Value ns) = Inr ns"
    "NullWordSource_Scan (NullWordSource_Value ns) = Inr ns"
    "NullWordStatus_Scan (NullWordStatus_Value ns) = Inr ns"
  using scan_null_value [of _ ns] assms by (simp_all add: scan_defs)

text \<open>
  Reading never fails on text, but nothing checks that the text is a label of the enumeration: that
  only labels arrive is a property of the database (\<open>db_ok\<close>).
\<close>

lemma scan_accepts_any_text:
  "CommentTargetType_Scan (BytesValue s) = Inr s"
  "ContributionStatus_Scan (BytesValue s) = Inr s"
  "ContributionType_Scan (BytesValue s) = Inr s"
  "Dialect_Scan (BytesValue s) = Inr s"
  "UserRole_Scan (BytesValue s) = Inr s"
  "VoteTargetType_Scan (BytesValue s) = Inr s"
  "VoteValue_Scan (BytesValue s) = Inr s"
  "WordClass_Scan (BytesValue s) = Inr s"
  "WordSource_Scan (BytesValue s) = Inr s"
  "WordStatus_Scan (BytesValue s) = Inr s"
  by (simp_all add: scan_defs scan_enum_def)

end
