(* ===== verification/Read_Only.thy ===== *)
theory Read_Only
  imports Server Decisions
begin

text \<open>
  The operations that only read: the queries, down to the statements, leave any view of the state
  as it is.
\<close>

lemma frames_map [frame_intros]: "(\<And>x. frames f (g x)) \<Longrightarrow> frames f (mapP g xs)"
  by (induction xs) (auto intro!: frame_intros)

lemma frames_prod [frame_intros]: "(\<And>a b. frames f (g a b)) \<Longrightarrow> frames f (case p of (a, b) \<Rightarrow> g a b)"
  by (cases p) simp

lemma frames_queries [frame_intros]:
  "frames f (GetWordByID i)" "frames f (GetWordByBanjar b)" "frames f (ListWords_stmt E ps o' l k)"
  "frames f (CountWords ps)" "frames f (SearchWords_stmt E q ps l k)" "frames f (CountSearchWords E q ps)"
  "frames f (GetDefinitionsByWordID i)" "frames f (GetExamplesByWordID i)"
  "frames f (GetContributionByID i)" "frames f (CountContributionsByContributor u st ty)"
  "frames f (ListContributionsByContributor u st ty l k)" "frames f (CountAllContributions st ty)"
  "frames f (ListAllContributions st ty l k)" "frames f (CountBookmarksByUser u)" "frames f (ListBookmarksByUser u l k)"
  "frames f (CountCommentsByTarget ty t)" "frames f (ListCommentsByTarget ty t l k)"
  "frames f CountFlaggedComments" "frames f (ListFlaggedComments l k)" "frames f GetModerationStats"
  "frames f (CountUsersAdmin role act q)" "frames f (ListUsersAdmin role act q l k)" "frames f (GetUserByID i)"
  "frames f (GetAIRequestByID i)" "frames f (CountAIRequestsByWord i)" "frames f (ListAIRequestsByWord i l k)"
  "frames f CountAIRequestsPendingReview" "frames f (ListAIRequestsPendingReview l k)"
  "frames f (word_Exists i)" "frames f (definition_Exists i)" "frames f (IsEmailVerified_check i)"
  unfolding GetWordByID_def GetWordByBanjar_def ListWords_stmt_def CountWords_def SearchWords_stmt_def
    CountSearchWords_def GetDefinitionsByWordID_def GetExamplesByWordID_def GetContributionByID_def
    CountContributionsByContributor_def ListContributionsByContributor_def CountAllContributions_def
    ListAllContributions_def CountBookmarksByUser_def ListBookmarksByUser_def CountCommentsByTarget_def
    ListCommentsByTarget_def CountFlaggedComments_def ListFlaggedComments_def GetModerationStats_def
    CountUsersAdmin_def ListUsersAdmin_def GetUserByID_def GetAIRequestByID_def CountAIRequestsByWord_def
    ListAIRequestsByWord_def CountAIRequestsPendingReview_def ListAIRequestsPendingReview_def
    word_Exists_def definition_Exists_def IsEmailVerified_check_def
  by (intro frame_intros)+

section \<open>Repositories\<close>

lemma frames_hydrate [frame_intros]: "frames f (hydrate r)" "frames f (hydrateMany rs)"
  unfolding hydrateMany_def hydrate_def by (intro frame_intros)+

lemma frames_readers [frame_intros]:
  "frames f (WordRepo_FindByID i)" "frames f (WordRepo_FindByBanjar b)" "frames f (WordRepo_FindAll E fs p n)"
  "frames f (WordRepo_Search E q fs p n)" "frames f (ContribRepo_FindByID i)" "frames f (ContribRepo_FindAll cf p n)"
  "frames f (ContribRepo_FindByContributor u cf p n)" "frames f (BookmarkRepo_FindByUser u p n)"
  "frames f (CommentRepo_FindByTarget ty t p n)" "frames f (GetPendingContributions ct p n)"
  "frames f (GetFlaggedComments p n)" "frames f GetStats" "frames f (ModRepo_ListUsers role q act p n)"
  "frames f (UserRepo_FindByID i)" "frames f (AiRepo_FindByID i)" "frames f (AiRepo_ListByWord i p n)"
  "frames f (AiRepo_ListPendingReview p n)"
  unfolding WordRepo_FindByID_def WordRepo_FindByBanjar_def WordRepo_FindAll_def WordRepo_Search_def
    ContribRepo_FindByID_def ContribRepo_FindAll_def ContribRepo_FindByContributor_def
    BookmarkRepo_FindByUser_def CommentRepo_FindByTarget_def GetPendingContributions_def
    GetFlaggedComments_def GetStats_def ModRepo_ListUsers_def UserRepo_FindByID_def AiRepo_FindByID_def
    AiRepo_ListByWord_def AiRepo_ListPendingReview_def Let_def
  by (intro frame_intros)+

section \<open>Queries\<close>

text \<open>\<open>snd (m s)\<close> is the state after \<open>m\<close>.\<close>

lemma frames_id: "frames (\<lambda>s. s) m \<Longrightarrow> snd (m s) = s"
  by (simp add: frames_def)

lemma words_read [frame_intros]:
  "frames f (ListWords (PostgresWordRepository E) fs p n)" "frames f (SearchWords (PostgresWordRepository E) q fs p n)"
  "frames f (GetWord E (PostgresWordRepository E) i)"
  unfolding SearchWords_def ListWords_def GetWord_def PostgresWordRepository_def word_repository.simps
  by (intro frame_intros)+

lemma related_read [frame_intros]: "frames f (related_summaries E (PostgresWordRepository E) is)"
  by (induction "is") (auto intro!: frame_intros)

lemma community_read [frame_intros]:
  "frames f (ListContributions db_contribution_svc u role cf p n)" "frames f (GetContribution db_contribution_svc u role i)"
  "frames f (ListBookmarks (db_bookmark_svc E) u p n)" "frames f (ListComments db_comment_svc i p n)"
  unfolding ListContributions_def GetContribution_def ListBookmarks_def ListComments_def community_repositories
    contribution_svc.simps contribution_repository.simps bookmark_svc.simps bookmark_repository.simps
    comment_svc.simps comment_repository.simps
  by (intro frame_intros)+

lemma moderation_read [frame_intros]:
  "frames f (GetModerationQueue (db_moderation_svc E) ct p n)" "frames f (mod_Flagged (mv_repo (db_moderation_svc E)) p n)"
  "frames f (mod_Stats (mv_repo (db_moderation_svc E)))"
  "frames f (mod_ListUsers (mv_repo (db_moderation_svc E)) role q act p n)" "frames f (GetUser (db_moderation_svc E) i)"
  unfolding GetModerationQueue_def GetUser_def moderation_repositories by (intro frame_intros)+

lemma enrichment_read [frame_intros]:
  "frames f (arp_ListByWord (es_repo (db_enrichment_svc E llm model)) i p n)"
  "frames f (arp_ListPendingReview (es_repo (db_enrichment_svc E llm model)) p n)"
  "frames f (GetAIRequest (db_enrichment_svc E llm model) i)"
  unfolding GetAIRequest_def enrichment_repositories by (intro frame_intros)+

lemmas enrichment_svc_read = enrichment_read [where llm = "aiClient A" and model = "ap_model A" and E = "ap_ext A" for A,
  folded enrichmentSvc_def]

lemma translate_read [frame_intros]: "frames f (TranslateText (aiSvc A) t h)"
  unfolding TranslateText_def aiSvc_def translate_svc.simps aiClient_def openrouter_Complete_def Let_def
  by (intro frame_intros) (auto split: list.split intro!: frame_intros)

end
