(* ===== verification/Server_Contract.thy ===== *)
theory Server_Contract
  imports Read_Only
begin

text \<open>
  What a request can do, for any relation \<open>S\<close> between the states before and after. The contracts say
  which commands move the state along \<open>S\<close>: those that anyone can reach, those of signed-in users,
  those of admins. Each contract extends the one before it, and each gives the requests that it
  covers.
\<close>

section \<open>Moves\<close>

definition moves :: "('s \<Rightarrow> 's \<Rightarrow> bool) \<Rightarrow> ('s \<Rightarrow> 'r \<times> 's) \<Rightarrow> bool" where
  "moves S g \<longleftrightarrow> (\<forall>s. S s (snd (g s)))"

definition handler_moves :: "('s \<Rightarrow> 's \<Rightarrow> bool) \<Rightarrow> ('s, 'b, 'd) handler \<Rightarrow> bool" where
  "handler_moves S h \<longleftrightarrow> (\<forall>c. moves S (h c))"

lemma movesD: "moves S g \<Longrightarrow> S s (snd (g s))"
  by (simp add: moves_def)

lemma snd_respond [simp]: "snd (respond on_err on_ok m s) = snd (m s)"
  by (simp add: respond_def split: prod.split sum.split)

lemma snd_tagged [simp]: "snd (tagged f h c s) = snd (h c s)"
  by (simp add: tagged_def split: prod.split)

lemma moves_respond [simp]:
  "moves S (respond on_err on_ok m) = moves S m"
  "moves S (\<lambda>s. respond on_err on_ok m s) = moves S m"
  by (simp_all add: moves_def)

lemma handler_moves_tagged [simp]: "handler_moves S (tagged f h) = handler_moves S h"
  by (simp add: handler_moves_def moves_def)

lemma handler_moves_parsed [intro]: "handler_moves S h \<Longrightarrow> handler_moves S (parsed p h)"
  by (simp add: handler_moves_def moves_def parsed_def)

text \<open>The state after the pieces that handlers are made of\<close>

lemma snd_start_job [simp]: "snd (start_job E spawn m s) = snd (m s)"
  by (simp add: start_job_def spawn_def split: prod.split sum.split)

locale walk =
  fixes S :: "world \<Rightarrow> world \<Rightarrow> bool"
  assumes stay: "S w w"
    and follow: "S u v \<Longrightarrow> S v w \<Longrightarrow> S u w"
begin

lemma reads_move: "frames (\<lambda>w. w) m \<Longrightarrow> moves S m"
  by (simp add: moves_def frames_def stay)

lemma with_uuid_moves: "(\<And>i. moves S (k i)) \<Longrightarrow> moves S (with_uuid E t bad k)"
  by (simp add: moves_def with_uuid_def stay split: prod.split)

lemma with_claims_moves: "(\<And>cl. handler_moves S (h cl)) \<Longrightarrow> handler_moves S (with_claims h)"
  by (simp add: handler_moves_def moves_def with_claims_def stay split: option.split)

lemma limiter_moves:
  assumes "\<And>k win. moves S (ct_Increment ct k win)" and "\<And>c. moves S (next c)"
  shows "moves S (AdaptiveLimiter ct kf win next c)"
proof -
  have "S s (snd (AdaptiveLimiter ct kf win next c s))" for s
  proof -
    obtain k l where k: "kf c = (k, l)" by fastforce
    obtain x s' where x: "ct_Increment ct k win s = (x, s')" by fastforce
    with movesD [OF assms(1), of s k win] have "S s s'" by simp
    with movesD [OF assms(2), of s' c] k x show ?thesis
      by (auto simp: AdaptiveLimiter_def split: sum.split intro: follow)
  qed
  then show ?thesis by (simp add: moves_def)
qed

lemma guard_moves:
  assumes "\<And>k win. moves S (ct_Increment ct k win)" and h: "handler_moves S h"
  shows "handler_moves S (guard_mw E R secret ct g h)"
proof -
  have next_: "\<And>c s. S s (snd (h c s))" using h by (simp add: handler_moves_def moves_def)
  show ?thesis
  proof (cases "is_limit g")
    case True
    with limiter_moves [OF assms(1), of h] h show ?thesis
      by (auto simp: handler_moves_def is_limit_def guard_mw_def loginRL_def limiter_eta)
  next
    case False
    with next_ stay show ?thesis
      by (cases g) (auto simp: is_limit_def guard_mw_def handler_moves_def moves_def RequireAuth_def TryAuth_def
          RequireRole_def Let_def split: sum.split option.split)
  qed
qed

lemma guards_move:
  assumes "\<And>k win. moves S (ct_Increment ct k win)" and "handler_moves S h"
  shows "handler_moves S (apply_guards E R secret ct gs h)"
  using assms(2) by (induction gs) (simp_all add: guard_moves [OF assms(1)])

end

section \<open>Requests\<close>

text \<open>\<open>carries A q w cl\<close>: the header of the request has a token from which \<open>ParseToken\<close> reads these claims, with the
  server's secret and at this time.\<close>

definition carries :: "api \<Rightarrow> http_request \<Rightarrow> world \<Rightarrow> claims \<Rightarrow> bool" where
  "carries A q w cl = valid_claims (ap_ext A) (ap_secret A) (db_now w) (to_request q (\<lambda>_. [])) cl"

lemma valid_claims_carries:
  "valid_claims (ap_ext A) (ap_secret A) (rt_now (ap_runtime A) w) (to_request q ps) cl = carries A q w cl"
  by (simp add: carries_def valid_claims_def to_request_def db_runtime_def)

lemma carries_clock: "db_now w' = db_now w \<Longrightarrow> carries A q w' cl \<Longrightarrow> carries A q w cl"
  by (simp add: carries_def)

fun endpoints :: "registration list \<Rightarrow> string list" where
  "endpoints [] = []"
| "endpoints (Use p gs # rs) = endpoints rs"
| "endpoints (Route m pat gs e # rs) = e # endpoints rs"

lemma dispatch_endpoint: "dispatch F m path rs = Some (gs, pat, e) \<Longrightarrow> e \<in> set (endpoints rs)"
  by (induction rs arbitrary: gs rule: endpoints.induct) (auto split: if_splits)

lemma handler_names:
  "map fst (api_handlers A) = ''health'' # map fst (identityHandler A) @ map fst (dictionaryHandler A) @
     map fst (communityHandler A) @ map fst (moderationHandler A) @ map fst (aiHandler A) @ map fst (docs_handlers A)"
  by (simp add: api_handlers_def)

lemma endpoints_handled: "set (endpoints api_routes) \<subseteq> fst ` set (api_handlers A)"
proof -
  have "list_all (\<lambda>e. e \<in> set (map fst (api_handlers A))) (endpoints api_routes)"
    unfolding handler_names
    by (simp add: api_routes_def identity_routes_def dictionary_routes_def community_routes_def moderation_routes_def
        ai_routes_def docs_routes_def identityHandler_def dictionaryHandler_def communityHandler_def
        moderationHandler_def aiHandler_def docs_handlers_def Let_def)
  then show ?thesis by (auto simp: list_all_iff)
qed

text \<open>The handler of a route is one of the list.\<close>

lemma dispatched_handler:
  assumes "dispatch F m path api_routes = Some (gs, pat, e)"
  shows "(e, the (map_of (api_handlers A) e)) \<in> set (api_handlers A)"
proof -
  from dispatch_endpoint [OF assms] endpoints_handled have "e \<in> fst ` set (api_handlers A)" by blast
  then obtain h where "map_of (api_handlers A) e = Some h" by (metis domD dom_map_of_conv_image_fst)
  with map_of_SomeD show ?thesis by fastforce
qed

context walk begin

lemma outcome_moves:
  fixes h :: "(world, 'b, 'd) handler"
  assumes count: "\<And>k win. moves S (ct_Increment ct k win)"
    and out: "outcome (apply_guards E R secret ct gs :: (world, 'b, 'd) middleware) c w P"
    and h: "(\<exists>c' w'. P c' w') \<Longrightarrow> handler_moves S h"
  shows "S w (snd (apply_guards E R secret ct gs h c w))"
  using out unfolding outcome_def
proof (elim disjE exE conjE)
  fix resp :: "'d response" and w'
  assume refused: "\<forall>h. apply_guards E R secret ct gs h c w = (resp, w')"
  have "handler_moves S (\<lambda>(c :: 'b request) s. (resp, s))" by (simp add: handler_moves_def moves_def stay)
  from guards_move [OF count this, of E R secret gs] have "S w (snd (apply_guards E R secret ct gs (\<lambda>c s. (resp, s)) c w))"
    by (simp add: handler_moves_def moves_def)
  with refused show ?thesis by simp
next
  fix c' w'
  assume "P c' w'"
  with h have "handler_moves S h" by blast
  from guards_move [OF count this, of E R secret gs] show ?thesis by (simp add: handler_moves_def moves_def)
qed

lemma handle_moves:
  assumes count: "\<And>k win. moves S (ct_Increment rlCounter k win)"
    and h: "\<And>gs pat e h. dispatch (ap_fiber A) (hq_method q) (hq_path q) api_routes = Some (gs, pat, e) \<Longrightarrow>
      (e, h) \<in> set (api_handlers A) \<Longrightarrow>
      S w (snd (apply_guards (ap_ext A) (ap_runtime A) (ap_secret A) rlCounter gs h
        (to_request q (fb_params (ap_fiber A) pat (hq_path q))) w))"
  shows "S w (snd (handle A q w))"
proof (cases "dispatch (ap_fiber A) (hq_method q) (hq_path q) api_routes")
  case None
  have "handler_moves S (\<lambda>(c :: raw_request) s.
      case fb_unmatched (ap_fiber A) (hq_method q) (hq_path q) of (code, text) \<Rightarrow>
        (return_error 200 (Some code) text :: api_data response, s))"
    by (simp add: handler_moves_def moves_def stay split: prod.split)
  from guards_move [OF count this] None show ?thesis
    by (simp add: handle_def Let_def handler_moves_def moves_def)
next
  case (Some d)
  obtain gs pat e where d: "d = (gs, pat, e)" by (cases d)
  with h [OF _ dispatched_handler] Some show ?thesis by (simp add: handle_def Let_def)
qed

lemma serve_moves:
  assumes identify: "moves S (uuidP (ap_runtime A) :: (world, err, uuid) prog)"
    and record_: "\<And>e w. S w (write_log e w)"
    and inner: "\<And>w'. db_now w' = db_now w \<Longrightarrow> S w' (snd (handle A q w'))"
  shows "S w (snd (serve A q w))"
proof -
  let ?log = "RequestLogger db_now write_log (hq_method q) (hq_path q) (\<lambda>_. handle A q) (to_request q (\<lambda>_. []))"
  have logged: "S w' (snd (?log w'))" if "db_now w' = db_now w" for w'
    using inner [OF that] record_ follow
    by (auto simp: RequestLogger_def Let_def split: prod.split return_value.split)
  obtain u w1 where u: "rt_uuid (ap_runtime A) w = (u, w1)" by fastforce
  then have "db_now w1 = db_now w" by (auto simp: db_runtime_def)
  then have "S w1 (snd (?log w1))" by (rule logged)
  moreover have "S w w1" using movesD [OF identify, of w] u by (simp add: uuidP_def)
  ultimately have "S w (snd (?log w1))" using follow by blast
  moreover have "snd (serve A q w) =
      (if BodyLimit < length (hq_body q) \<or> \<not> fb_known (ap_fiber A) (hq_method q) then w
       else if hq_header q ''X-Request-ID'' = [] then snd (?log w1) else snd (?log w))"
    using u by (simp add: serve_def RequestID_def to_request_def Let_def split: prod.split)
  ultimately show ?thesis using logged [of w] stay by simp
qed

text \<open>If every handler outside \<open>X\<close> moves along the relation, a request moves along it, or it is dispatched to an
  endpoint in \<open>X\<close> and gets to its handler with the claims of the token of an admin; up to there, and afterwards, it
  moves along the relation.\<close>

definition handled_by :: "string set \<Rightarrow> api \<Rightarrow> http_request \<Rightarrow> world \<Rightarrow> world \<Rightarrow> bool" where
  "handled_by X A q w w' \<longleftrightarrow>
     (\<exists>gs pat e h cl v. dispatch (ap_fiber A) (hq_method q) (hq_path q) api_routes = Some (gs, pat, e) \<and> e \<in> X \<and>
        (e, h) \<in> set (api_handlers A) \<and> carries A q w cl \<and> cl_role cl = ''admin'' \<and> S w v \<and>
        S (snd (h ((to_request q (fb_params (ap_fiber A) pat (hq_path q)))\<lparr>rq_locals := Some cl\<rparr>) v)) w')"

lemma handled_before: "S w u \<Longrightarrow> db_now u = db_now w \<Longrightarrow> handled_by X A q u w' \<Longrightarrow> handled_by X A q w w'"
  unfolding handled_by_def by (meson follow carries_clock)

lemma handled_after: "S w' u \<Longrightarrow> handled_by X A q w w' \<Longrightarrow> handled_by X A q w u"
  unfolding handled_by_def by (meson follow)

lemma guards_state:
  fixes c :: "'b request"
  assumes "\<And>k win. moves S (ct_Increment ct k win)"
  shows "S w (snd (apply_guards E R secret ct gs (\<lambda>c s. (panic_response :: 'd response, s)) c w))"
proof -
  have "handler_moves S (\<lambda>(c :: 'b request) s. (panic_response :: 'd response, s))"
    by (simp add: handler_moves_def moves_def stay)
  from guards_move [OF assms this] show ?thesis by (simp add: handler_moves_def moves_def)
qed

lemma handle_traced:
  assumes count: "\<And>k win. moves S (ct_Increment rlCounter k win)"
    and others: "\<And>e h. (e, h) \<in> set (api_handlers A) \<Longrightarrow> e \<notin> X \<Longrightarrow> handler_moves S h"
    and groups: "fiber_groups (ap_fiber A)" and X: "X \<subseteq> set admin_endpoints - set public_endpoints"
  shows "S w (snd (handle A q w)) \<or> handled_by X A q w (snd (handle A q w))"
proof (cases "\<exists>gs pat e. dispatch (ap_fiber A) (hq_method q) (hq_path q) api_routes = Some (gs, pat, e) \<and> e \<in> X")
  case False
  have "S w (snd (handle A q w))"
  proof (rule handle_moves [OF count])
    fix gs pat e h
    assume "dispatch (ap_fiber A) (hq_method q) (hq_path q) api_routes = Some (gs, pat, e)" "(e, h) \<in> set (api_handlers A)"
    with False others have "handler_moves S h" by blast
    from guards_move [OF count this] show "S w (snd (apply_guards (ap_ext A) (ap_runtime A) (ap_secret A) rlCounter gs h
        (to_request q (fb_params (ap_fiber A) pat (hq_path q))) w))" by (simp add: handler_moves_def moves_def)
  qed
  then show ?thesis by blast
next
  case True
  then obtain gs pat e where d: "dispatch (ap_fiber A) (hq_method q) (hq_path q) api_routes = Some (gs, pat, e)"
    and e: "e \<in> X" by blast
  let ?h = "the (map_of (api_handlers A) e)" and ?c = "to_request q (fb_params (ap_fiber A) pat (hq_path q))"
  let ?mw = "apply_guards (ap_ext A) (ap_runtime A) (ap_secret A) rlCounter gs :: (world, string, api_data) middleware"
  have run: "handle A q w = ?mw ?h ?c w" using d by (simp add: handle_def Let_def)
  have up_to: "S w (snd (?mw (\<lambda>c s. (panic_response, s)) ?c w))" by (rule guards_state [OF count])
  from e X have "e \<notin> set public_endpoints" "e \<in> set admin_endpoints" by auto
  with dispatched_guarded [OF groups world_counter_clock [of "ap_ext A", folded rlCounter_def] d this(1),
      where c = ?c and s = w and secret = "ap_secret A" and E = "ap_ext A"]
  have "outcome ?mw ?c w (\<lambda>c' s'. \<exists>cl. carries A q w cl \<and> c' = ?c\<lparr>rq_locals := Some cl\<rparr> \<and> cl_role cl = ''admin'')"
    by (simp add: valid_claims_carries)
  then show ?thesis unfolding outcome_def
  proof (elim disjE exE conjE)
    fix resp :: "api_data response" and v
    assume "\<forall>h. ?mw h ?c w = (resp, v)"
    with up_to run show ?thesis by simp
  next
    fix c' v cl
    assume pass: "\<forall>h. ?mw h ?c w = h c' v" and cl: "carries A q w cl" "c' = ?c\<lparr>rq_locals := Some cl\<rparr>" "cl_role cl = ''admin''"
    with up_to have "S w v" by simp
    with d e dispatched_handler [OF d, of A] cl pass run stay show ?thesis unfolding handled_by_def by metis
  qed
qed

lemma serve_traced:
  assumes identify: "moves S (uuidP (ap_runtime A) :: (world, err, uuid) prog)"
    and record_: "\<And>e w. S w (write_log e w)"
    and inner: "\<And>w'. S w' (snd (handle A q w')) \<or> handled_by X A q w' (snd (handle A q w'))"
  shows "S w (snd (serve A q w)) \<or> handled_by X A q w (snd (serve A q w))"
proof -
  let ?log = "RequestLogger db_now write_log (hq_method q) (hq_path q) (\<lambda>_. handle A q) (to_request q (\<lambda>_. []))"
  have logged: "S w' (snd (?log w')) \<or> handled_by X A q w' (snd (?log w'))" for w'
  proof -
    have "S (snd (handle A q w')) (snd (?log w'))"
      by (auto simp: RequestLogger_def Let_def stay record_ split: prod.split return_value.split)
    with inner [of w'] show ?thesis using follow handled_after by blast
  qed
  obtain u w1 where u: "rt_uuid (ap_runtime A) w = (u, w1)" by fastforce
  then have now: "db_now w1 = db_now w" by (auto simp: db_runtime_def)
  have "S w w1" using movesD [OF identify, of w] u by (simp add: uuidP_def)
  with logged [of w1] have "S w (snd (?log w1)) \<or> handled_by X A q w (snd (?log w1))"
    using follow handled_before [OF _ now] by blast
  moreover have "snd (serve A q w) =
      (if BodyLimit < length (hq_body q) \<or> \<not> fb_known (ap_fiber A) (hq_method q) then w
       else if hq_header q ''X-Request-ID'' = [] then snd (?log w1) else snd (?log w))"
    using u by (simp add: serve_def RequestID_def to_request_def Let_def split: prod.split)
  ultimately show ?thesis using logged [of w] stay by auto
qed

text \<open>What leaves the relation can be traced to one request.\<close>

lemma requests_traced:
  assumes "\<And>q w. \<not> B q w \<Longrightarrow> S w (snd (serve A q w))"
  shows "S w (snd (serve_all A qs w)) \<or> (\<exists>pre q post. qs = pre @ q # post \<and> B q (snd (serve_all A pre w)))"
proof (induction qs arbitrary: w)
  case (Cons q qs)
  obtain r w' where q: "serve A q w = (r, w')" by fastforce
  then have snd_Cons: "snd (serve_all A (q # ps) w) = snd (serve_all A ps w')" for ps by (simp split: prod.split)
  show ?case
  proof (cases "B q w")
    case True
    then have "\<exists>pre q' post. q # qs = pre @ q' # post \<and> B q' (snd (serve_all A pre w))" by (intro exI [of _ "[]"]) simp
    then show ?thesis by blast
  next
    case False
    with assms q have step: "S w w'" by (metis snd_conv)
    from Cons.IH [of w'] show ?thesis
    proof
      assume "S w' (snd (serve_all A qs w'))"
      with step follow show ?thesis unfolding snd_Cons by blast
    next
      assume "\<exists>pre q post. qs = pre @ q # post \<and> B q (snd (serve_all A pre w'))"
      then obtain pre q' post where "qs = pre @ q' # post" "B q' (snd (serve_all A pre w'))" by blast
      then have "q # qs = (q # pre) @ q' # post \<and> B q' (snd (serve_all A (q # pre) w))" unfolding snd_Cons by simp
      then show ?thesis by blast
    qed
  qed
qed (simp add: stay)

end

section \<open>What anyone can do\<close>

text \<open>A handler that is reached without a token\<close>

definition public_moves :: "(world \<Rightarrow> world \<Rightarrow> bool) \<Rightarrow> string \<times> api_handler \<Rightarrow> bool" where
  "public_moves S = (\<lambda>(e, h). e \<in> set public_endpoints \<longrightarrow> handler_moves S h)"

locale public_api = walk S for S :: "world \<Rightarrow> world \<Rightarrow> bool" +
  fixes A :: api
  assumes count: "moves S (RedisIncrement world_exec key win)"
    and register: "moves S (RegisterUser (ap_ext A) (ap_runtime A) (world_identity (ap_ext A)) n e p pc)"
    and login: "moves S (LoginUser (ap_ext A) (ap_runtime A) (ap_secret A) (world_identity (ap_ext A)) e p)"
    and refresh: "moves S (RefreshToken (ap_ext A) (ap_runtime A) (ap_secret A) (world_identity (ap_ext A)) t)"
    and logout: "moves S (LogoutUser (world_identity (ap_ext A)) t)"
    and verify: "moves S (VerifyEmail (ap_ext A) (ap_runtime A) (world_identity (ap_ext A)) t)"
    and forgot: "moves S (ForgotPassword (ap_ext A) (ap_runtime A) (world_identity (ap_ext A)) e)"
    and reset: "moves S (ResetPassword (ap_ext A) (ap_runtime A) (world_identity (ap_ext A)) t p pc)"
    and identify: "moves S (uuidP (ap_runtime A) :: (world, err, uuid) prog)"
begin

lemmas public_commands = count register login refresh logout verify forgot reset

lemma counter_moves: "moves S (ct_Increment rlCounter key win)"
  by (simp add: rlCounter_def NewRedisCounter_def count)

lemma identity_public_moves:
  "handler_moves S (Register (ap_ext A) (ap_runtime A) (world_identity (ap_ext A)))"
  "handler_moves S (Login (ap_ext A) (ap_runtime A) (ap_secret A) (world_identity (ap_ext A)))"
  "handler_moves S (RefreshToken_handler (ap_ext A) (ap_runtime A) (ap_secret A) (world_identity (ap_ext A)))"
  "handler_moves S (Logout (world_identity (ap_ext A)))"
  "handler_moves S (VerifyEmail_handler (ap_ext A) (ap_runtime A) (world_identity (ap_ext A)))"
  "handler_moves S (ForgotPassword_handler (ap_ext A) (ap_runtime A) (world_identity (ap_ext A)))"
  "handler_moves S (ResetPassword_handler (ap_ext A) (ap_runtime A) (world_identity (ap_ext A)))"
  by (auto simp: handler_moves_def moves_def Register_def Login_def RefreshToken_handler_def Logout_def
      VerifyEmail_handler_def ForgotPassword_handler_def ResetPassword_handler_def stay
      public_commands [THEN movesD] split: prod.split)

lemma dictionary_public_moves:
  "handler_moves S (ListWords_handler (ap_ext A) (PostgresWordRepository (ap_ext A)))"
  "handler_moves S (GetWord_handler (ap_ext A) (PostgresWordRepository (ap_ext A)))"
  "handler_moves S (GetDefinitions (ap_ext A) (PostgresWordRepository (ap_ext A)))"
  "handler_moves S (GetExamples (ap_ext A) (PostgresWordRepository (ap_ext A)))"
  "handler_moves S (GetRelatedWords (ap_ext A) (PostgresWordRepository (ap_ext A)))"
proof -
  have "frames (\<lambda>w :: world. w) (bindP (GetWord (ap_ext A) (PostgresWordRepository (ap_ext A)) i)
      (\<lambda>w. related_summaries (ap_ext A) (PostgresWordRepository (ap_ext A)) (wd_related w)))" for i
    by (intro frame_intros)
  from frames_id [OF this] show
    "handler_moves S (GetRelatedWords (ap_ext A) (PostgresWordRepository (ap_ext A)))"
    by (simp add: handler_moves_def moves_def GetRelatedWords_def stay)
qed (auto simp: handler_moves_def moves_def ListWords_handler_def GetWord_handler_def GetDefinitions_def
    GetExamples_def Let_def stay frames_id words_read split: sum.split)

lemma comments_public_moves: "handler_moves S (ListComments_handler (ap_ext A) db_comment_svc)"
  by (auto simp: handler_moves_def moves_def ListComments_handler_def with_uuid_def stay frames_id
      community_read split: prod.split sum.split)

lemma docs_move:
  "handler_moves S health_handler" "handler_moves S (\<lambda>c s. (r, s))"
  by (simp_all add: handler_moves_def moves_def health_handler_def stay)

lemmas public_handlers =
  identity_public_moves dictionary_public_moves comments_public_moves docs_move

lemma public_parts:
  "list_all (public_moves S) (identityHandler A)" "list_all (public_moves S) (dictionaryHandler A)"
  "list_all (public_moves S) (communityHandler A)" "list_all (public_moves S) (moderationHandler A)"
  "list_all (public_moves S) (aiHandler A)" "list_all (public_moves S) (docs_handlers A)"
  by (simp_all add: public_moves_def public_endpoints_def identityHandler_def dictionaryHandler_def communityHandler_def
      moderationHandler_def aiHandler_def docs_handlers_def Let_def public_handlers handler_moves_parsed)

lemma public_handler: "(e, h) \<in> set (api_handlers A) \<Longrightarrow> e \<in> set public_endpoints \<Longrightarrow> handler_moves S h"
  using public_parts by (fastforce simp: api_handlers_def list_all_iff public_moves_def docs_move)

text \<open>A request without a valid token\<close>

lemma anonymous_handled:
  assumes "fiber_groups (ap_fiber A)" and no: "\<And>cl. \<not> carries A q w cl"
  shows "S w (snd (handle A q w))"
proof (rule handle_moves [OF counter_moves])
  fix gs pat e h
  assume d: "dispatch (ap_fiber A) (hq_method q) (hq_path q) api_routes = Some (gs, pat, e)"
    and h: "(e, h) \<in> set (api_handlers A)"
  let ?c = "to_request q (fb_params (ap_fiber A) pat (hq_path q))"
  show "S w (snd (apply_guards (ap_ext A) (ap_runtime A) (ap_secret A) rlCounter gs h ?c w))"
  proof (cases "e \<in> set public_endpoints")
    case True
    from guards_move [OF counter_moves public_handler [OF h this]] show ?thesis
      by (simp add: handler_moves_def moves_def)
  next
    case False
    note out = dispatched_guarded [OF assms(1) world_counter_clock [folded rlCounter_def] d False,
        where c = ?c and s = w and secret = "ap_secret A"]
    show ?thesis by (rule outcome_moves [OF counter_moves out]) (use no in \<open>auto simp: valid_claims_carries\<close>)
  qed
qed

lemma anonymous_moves:
  assumes record_: "\<And>e w. S w (write_log e w)"
    and "fiber_groups (ap_fiber A)" and no: "\<And>cl. \<not> carries A q w cl"
  shows "S w (snd (serve A q w))"
  by (rule serve_moves [OF identify record_], rule anonymous_handled [OF assms(2)]) (use no carries_clock in blast)

end

section \<open>What signed-in users can do\<close>

definition member_moves :: "(world \<Rightarrow> world \<Rightarrow> bool) \<Rightarrow> string \<times> api_handler \<Rightarrow> bool" where
  "member_moves S = (\<lambda>(e, h). e \<notin> set admin_endpoints \<longrightarrow> handler_moves S h)"

locale member_api = public_api S A for S A +
  assumes profile: "moves S (UpdateProfile (ap_ext A) (ap_runtime A) (world_identity (ap_ext A)) u nm)"
    and password: "moves S (ChangePassword (ap_ext A) (ap_runtime A) (world_identity (ap_ext A)) u p q)"
    and submit: "moves S (SubmitContribution (ap_runtime A) db_contribution_svc i inp)"
    and withdraw: "moves S (WithdrawContribution db_contribution_svc i j)"
    and vote: "moves S (CastVote (ap_runtime A) db_vote_svc i ty j v)"
    and unvote: "moves S (RemoveVote db_vote_svc i ty j)"
    and bookmark: "moves S (AddBookmark (ap_runtime A) (db_bookmark_svc (ap_ext A)) i j)"
    and unbookmark: "moves S (RemoveBookmark (db_bookmark_svc (ap_ext A)) i j)"
    and post: "moves S (PostComment (ap_runtime A) db_comment_svc i j body)"
    and edit: "moves S (EditComment (ap_runtime A) db_comment_svc i j body)"
    and uncomment: "moves S (DeleteComment db_comment_svc i role j)"
    and flag: "moves S (FlagComment (ap_runtime A) db_comment_svc j)"
begin

lemmas member_commands = profile password submit withdraw vote unvote bookmark unbookmark post edit uncomment flag

lemma identity_member_moves:
  "handler_moves S (UpdateProfile_handler (ap_ext A) (ap_runtime A) (world_identity (ap_ext A)))"
  "handler_moves S (ChangePassword_handler (ap_ext A) (ap_runtime A) (world_identity (ap_ext A)))"
  "handler_moves S Me"
  by (auto simp: handler_moves_def moves_def UpdateProfile_handler_def ChangePassword_handler_def Me_def
      with_claims_def stay member_commands [THEN movesD] split: prod.split option.split)

lemma contribution_member_moves:
  "handler_moves S (ListContributions_handler (ap_ext A) db_contribution_svc)"
  "handler_moves S (GetContribution_handler (ap_ext A) db_contribution_svc)"
  "handler_moves S (SubmitContribution_handler (ap_ext A) (ap_runtime A) db_contribution_svc)"
  "handler_moves S (WithdrawContribution_handler (ap_ext A) db_contribution_svc)"
  by (auto simp: handler_moves_def moves_def ListContributions_handler_def GetContribution_handler_def
      SubmitContribution_handler_def WithdrawContribution_handler_def Let_def with_claims_def with_uuid_def
      stay frames_id community_read member_commands [THEN movesD] split: prod.split option.split sum.split)

lemma vote_member_moves:
  "handler_moves S (CastWordVote (ap_ext A) (ap_runtime A) db_vote_svc)"
  "handler_moves S (RemoveWordVote (ap_ext A) db_vote_svc)"
  "handler_moves S (CastDefinitionVote (ap_ext A) (ap_runtime A) db_vote_svc)"
  "handler_moves S (RemoveDefinitionVote (ap_ext A) db_vote_svc)"
  by (auto simp: handler_moves_def moves_def CastWordVote_def RemoveWordVote_def CastDefinitionVote_def
      RemoveDefinitionVote_def castVote_def removeVote_def Let_def with_claims_def with_uuid_def stay
      member_commands [THEN movesD] split: prod.split option.split)

lemma bookmark_member_moves:
  "handler_moves S (ListBookmarks_handler (ap_ext A) (db_bookmark_svc (ap_ext A)))"
  "handler_moves S (AddBookmark_handler (ap_ext A) (ap_runtime A) (db_bookmark_svc (ap_ext A)))"
  "handler_moves S (RemoveBookmark_handler (ap_ext A) (db_bookmark_svc (ap_ext A)))"
  by (auto simp: handler_moves_def moves_def ListBookmarks_handler_def AddBookmark_handler_def
      RemoveBookmark_handler_def Let_def with_claims_def with_uuid_def stay frames_id community_read
      member_commands [THEN movesD] split: prod.split option.split sum.split)

lemma comment_member_moves:
  "handler_moves S (PostComment_handler (ap_ext A) (ap_runtime A) db_comment_svc)"
  "handler_moves S (EditComment_handler (ap_ext A) (ap_runtime A) db_comment_svc)"
  "handler_moves S (DeleteComment_handler (ap_ext A) db_comment_svc)"
  "handler_moves S (FlagComment_handler (ap_ext A) (ap_runtime A) db_comment_svc)"
  by (auto simp: handler_moves_def moves_def PostComment_handler_def EditComment_handler_def
      DeleteComment_handler_def FlagComment_handler_def Let_def with_claims_def with_uuid_def stay
      member_commands [THEN movesD] split: prod.split option.split)

lemma translate_moves: "handler_moves S (Translate (ap_ext A) (aiSvc A))"
  by (auto simp: handler_moves_def moves_def Translate_def Let_def stay frames_id translate_read split: prod.split)

lemmas member_handlers = public_handlers identity_member_moves contribution_member_moves vote_member_moves
  bookmark_member_moves comment_member_moves translate_moves

lemma member_parts:
  "list_all (member_moves S) (identityHandler A)" "list_all (member_moves S) (dictionaryHandler A)"
  "list_all (member_moves S) (communityHandler A)" "list_all (member_moves S) (moderationHandler A)"
  "list_all (member_moves S) (aiHandler A)" "list_all (member_moves S) (docs_handlers A)"
  by (simp_all add: member_moves_def admin_endpoints_def identityHandler_def dictionaryHandler_def communityHandler_def
      moderationHandler_def aiHandler_def docs_handlers_def Let_def member_handlers handler_moves_parsed)

lemma member_handler: "(e, h) \<in> set (api_handlers A) \<Longrightarrow> e \<notin> set admin_endpoints \<Longrightarrow> handler_moves S h"
  using member_parts by (fastforce simp: api_handlers_def list_all_iff member_moves_def docs_move)

lemma public_not_admin: "e \<in> set public_endpoints \<Longrightarrow> e \<notin> set admin_endpoints"
proof -
  have "list_all (\<lambda>e. e \<notin> set admin_endpoints) public_endpoints" by code_simp
  then show "e \<in> set public_endpoints \<Longrightarrow> e \<notin> set admin_endpoints" by (auto simp: list_all_iff)
qed

text \<open>A request without the token of an admin\<close>

lemma member_handled:
  assumes "fiber_groups (ap_fiber A)"
    and no: "\<And>cl. carries A q w cl \<Longrightarrow> cl_role cl \<noteq> ''admin''"
  shows "S w (snd (handle A q w))"
proof (rule handle_moves [OF counter_moves])
  fix gs pat e h
  assume d: "dispatch (ap_fiber A) (hq_method q) (hq_path q) api_routes = Some (gs, pat, e)"
    and h: "(e, h) \<in> set (api_handlers A)"
  let ?c = "to_request q (fb_params (ap_fiber A) pat (hq_path q))"
  show "S w (snd (apply_guards (ap_ext A) (ap_runtime A) (ap_secret A) rlCounter gs h ?c w))"
  proof (cases "e \<in> set admin_endpoints")
    case False
    from guards_move [OF counter_moves member_handler [OF h this]] show ?thesis
      by (simp add: handler_moves_def moves_def)
  next
    case True
    with public_not_admin have "e \<notin> set public_endpoints" by blast
    note out = dispatched_guarded [OF assms(1) world_counter_clock [folded rlCounter_def] d this,
        where c = ?c and s = w and secret = "ap_secret A"]
    show ?thesis by (rule outcome_moves [OF counter_moves out]) (use no True in \<open>auto simp: valid_claims_carries\<close>)
  qed
qed

lemma member_request_moves:
  assumes record_: "\<And>e w. S w (write_log e w)"
    and "fiber_groups (ap_fiber A)"
    and no: "\<And>cl. carries A q w cl \<Longrightarrow> cl_role cl \<noteq> ''admin''"
  shows "S w (snd (serve A q w))"
  by (rule serve_moves [OF identify record_], rule member_handled [OF assms(2,3)]) (use no carries_clock in blast)

end

section \<open>What admins can do\<close>

text \<open>The endpoints that change the standing of an account\<close>

definition account_endpoints :: "string set" where
  "account_endpoints = {''moderation.BanUser'', ''moderation.UnbanUser'', ''moderation.ChangeUserRole''}"

definition curator_moves :: "(world \<Rightarrow> world \<Rightarrow> bool) \<Rightarrow> string \<times> api_handler \<Rightarrow> bool" where
  "curator_moves S = (\<lambda>(e, h). e \<notin> account_endpoints \<longrightarrow> handler_moves S h)"

locale curator_api = member_api S A for S A +
  assumes create: "moves S (CreateWord (ap_ext A) (ap_runtime A) (PostgresWordRepository (ap_ext A)) a wi)"
    and update: "moves S (UpdateWord (ap_ext A) (ap_runtime A) (PostgresWordRepository (ap_ext A)) a t wi)"
    and delete: "moves S (SoftDeleteWord (ap_ext A) (PostgresWordRepository (ap_ext A)) t)"
    and decision: "moves S (Update_contribution db_contribution_svc c)"
    and enrich: "moves S (TriggerDefinitionEnrichment (ap_runtime A) (enrichmentSvc A) i j)"
    and example: "moves S (TriggerExampleSuggestion (ap_runtime A) (enrichmentSvc A) i j)"
    and related: "moves S (TriggerRelatedWordSuggestion (ap_runtime A) (enrichmentSvc A) i j)"
    and check: "moves S (TriggerQualityCheck (ap_runtime A) (enrichmentSvc A) i j)"
    and accept: "moves S (ApproveAIRequest (ap_runtime A) (enrichmentSvc A) i j)"
    and dismiss: "moves S (RejectAIRequest (ap_runtime A) (enrichmentSvc A) i j)"
begin

lemmas curator_commands = create update delete decision enrich example related check accept dismiss

lemma decide_moves: "S s (snd (decide (ap_ext A) db_contribution_svc r i ch s))"
proof -
  obtain x s1 where x: "GetContribution db_contribution_svc r ''admin'' i s = (x, s1)" by fastforce
  then have "s1 = s" using frames_id [OF community_read(2)] by (metis snd_conv)
  with x stay movesD [OF decision, of s] show ?thesis
    by (auto simp: decide_def split: sum.split prod.split) (metis snd_conv)+
qed

lemma dictionary_admin_moves:
  "handler_moves S (AdminCreateWord (ap_ext A) (ap_runtime A) (PostgresWordRepository (ap_ext A)))"
  "handler_moves S (AdminUpdateWord (ap_ext A) (ap_runtime A) (PostgresWordRepository (ap_ext A)))"
  "handler_moves S (AdminDeleteWord (ap_ext A) (PostgresWordRepository (ap_ext A)))"
  by (auto simp: handler_moves_def moves_def AdminCreateWord_def AdminUpdateWord_def AdminDeleteWord_def
      with_claims_def stay curator_commands [THEN movesD] split: prod.split option.split)

lemma contribution_admin_moves:
  "handler_moves S (ApproveContribution_handler (ap_ext A) (ap_runtime A) db_contribution_svc)"
  "handler_moves S (RejectContribution_handler (ap_ext A) (ap_runtime A) db_contribution_svc)"
  by (auto simp: handler_moves_def moves_def ApproveContribution_handler_def RejectContribution_handler_def
      with_claims_def with_uuid_def stay decide_moves split: prod.split option.split)

lemma moderation_admin_moves:
  "handler_moves S (GetModerationQueue_handler (db_moderation_svc (ap_ext A)))"
  "handler_moves S (GetFlaggedComments_handler (db_moderation_svc (ap_ext A)))"
  "handler_moves S (GetModerationStats_handler (db_moderation_svc (ap_ext A)))"
  "handler_moves S (ListUsers_handler (db_moderation_svc (ap_ext A)))"
  "handler_moves S (GetUser_handler (ap_ext A) (db_moderation_svc (ap_ext A)))"
  by (auto simp: handler_moves_def moves_def GetModerationQueue_handler_def GetFlaggedComments_handler_def
      GetModerationStats_handler_def ListUsers_handler_def GetUser_handler_def respond_user_def Let_def with_uuid_def
      stay frames_id moderation_read split: prod.split option.split sum.split)

lemma ai_admin_moves:
  "handler_moves S (EnrichDefinition (ap_ext A) (ap_runtime A) spawn (enrichmentSvc A))"
  "handler_moves S (SuggestExample (ap_ext A) (ap_runtime A) spawn (enrichmentSvc A))"
  "handler_moves S (SuggestRelated (ap_ext A) (ap_runtime A) spawn (enrichmentSvc A))"
  "handler_moves S (QualityCheck (ap_ext A) (ap_runtime A) spawn (enrichmentSvc A))"
  "handler_moves S (ListAIRequests (ap_ext A) (enrichmentSvc A))"
  "handler_moves S (GetAIRequest_handler (ap_ext A) (enrichmentSvc A))"
  "handler_moves S (ApproveAIRequest_handler (ap_ext A) (ap_runtime A) (enrichmentSvc A))"
  "handler_moves S (RejectAIRequest_handler (ap_ext A) (ap_runtime A) (enrichmentSvc A))"
  by (auto simp: handler_moves_def moves_def EnrichDefinition_def SuggestExample_def SuggestRelated_def
      QualityCheck_def on_word_def ListAIRequests_def GetAIRequest_handler_def ApproveAIRequest_handler_def
      RejectAIRequest_handler_def respond_request_def with_admin_def with_uuid_def stay
      curator_commands [THEN movesD] frames_id enrichment_svc_read split: prod.split option.split sum.split)

lemmas curator_handlers = member_handlers dictionary_admin_moves contribution_admin_moves moderation_admin_moves
  ai_admin_moves

lemma curator_parts:
  "list_all (curator_moves S) (identityHandler A)" "list_all (curator_moves S) (dictionaryHandler A)"
  "list_all (curator_moves S) (communityHandler A)" "list_all (curator_moves S) (moderationHandler A)"
  "list_all (curator_moves S) (aiHandler A)" "list_all (curator_moves S) (docs_handlers A)"
  by (simp_all add: curator_moves_def account_endpoints_def identityHandler_def dictionaryHandler_def communityHandler_def
      moderationHandler_def aiHandler_def docs_handlers_def Let_def curator_handlers handler_moves_parsed)

lemma curator_handler: "(e, h) \<in> set (api_handlers A) \<Longrightarrow> e \<notin> account_endpoints \<Longrightarrow> handler_moves S h"
  using curator_parts by (fastforce simp: api_handlers_def list_all_iff curator_moves_def docs_move)

text \<open>A request moves along the relation, or an admin gets to one of the three handlers.\<close>

lemma account_request_traced:
  assumes record_: "\<And>e w. S w (write_log e w)" and groups: "fiber_groups (ap_fiber A)"
  shows "S w (snd (serve A q w)) \<or> handled_by account_endpoints A q w (snd (serve A q w))"
proof (rule serve_traced [OF identify record_], rule handle_traced [OF counter_moves curator_handler groups])
  have "list_all (\<lambda>e. e \<in> set admin_endpoints \<and> e \<notin> set public_endpoints)
      [''moderation.BanUser'', ''moderation.UnbanUser'', ''moderation.ChangeUserRole'']" by code_simp
  then show "account_endpoints \<subseteq> set admin_endpoints - set public_endpoints" by (simp add: account_endpoints_def)
qed

end

locale admin_api = curator_api S A for S A +
  assumes ban: "moves S (BanUser (ap_runtime A) (db_moderation_svc (ap_ext A)) i j reason)"
    and unban: "moves S (UnbanUser (ap_runtime A) (db_moderation_svc (ap_ext A)) i j)"
    and role: "moves S (ChangeUserRole (ap_runtime A) (db_moderation_svc (ap_ext A)) i j rl)"
begin

lemma account_moves:
  "handler_moves S (BanUser_handler (ap_ext A) (ap_runtime A) (db_moderation_svc (ap_ext A)))"
  "handler_moves S (UnbanUser_handler (ap_ext A) (ap_runtime A) (db_moderation_svc (ap_ext A)))"
  "handler_moves S (ChangeUserRole_handler (ap_ext A) (ap_runtime A) (db_moderation_svc (ap_ext A)))"
  by (auto simp: handler_moves_def moves_def BanUser_handler_def
      UnbanUser_handler_def ChangeUserRole_handler_def respond_user_def Let_def with_claims_def with_uuid_def
      stay ban [THEN movesD] unban [THEN movesD] role [THEN movesD] split: prod.split option.split)

lemma handlers_move: "list_all (\<lambda>(e, h). handler_moves S h) (api_handlers A)"
  by (simp add: api_handlers_def identityHandler_def dictionaryHandler_def communityHandler_def
      moderationHandler_def aiHandler_def docs_handlers_def Let_def curator_handlers account_moves handler_moves_parsed)

text \<open>Any request, and any sequence of them\<close>

lemma any_request_handled: "S w (snd (handle A q w))"
proof (rule handle_moves [OF counter_moves])
  fix gs pat e h
  assume "(e, h) \<in> set (api_handlers A)"
  with handlers_move have "handler_moves S h" by (auto simp: list_all_iff)
  from guards_move [OF counter_moves this]
  show "S w (snd (apply_guards (ap_ext A) (ap_runtime A) (ap_secret A) rlCounter gs h
      (to_request q (fb_params (ap_fiber A) pat (hq_path q))) w))"
    by (simp add: handler_moves_def moves_def)
qed

lemma any_request_moves:
  assumes record_: "\<And>e w. S w (write_log e w)"
  shows "S w (snd (serve A q w))"
  by (rule serve_moves [OF identify record_]) (rule any_request_handled)

lemma all_requests_move:
  assumes record_: "\<And>e w. S w (write_log e w)"
  shows "S w (snd (serve_all A qs w))"
  using requests_traced [of "\<lambda>_ _. False", OF any_request_moves [OF record_]] by simp

end

end
