(* ===== verification/Footprints.thy ===== *)
theory Footprints
  imports Read_Only
begin

text \<open>
  The footprint of the commands: those that open and close sessions write Redis and the mail, the
  others of the identity context accounts as well, those of the community context contributions, votes, bookmarks and comments. A view of the state
  that does not show these is left as it is.
\<close>

section \<open>Identity\<close>

definition session_blind :: "(world \<Rightarrow> 'x) \<Rightarrow> bool" where
  "session_blind f \<longleftrightarrow>
     (\<forall>w x. f (w\<lparr>db_draws := x\<rparr>) = f w) \<and> (\<forall>w x. f (w\<lparr>wd_redis := x\<rparr>) = f w) \<and> (\<forall>w x. f (w\<lparr>wd_mail := x\<rparr>) = f w)"

definition identity_blind :: "(world \<Rightarrow> 'x) \<Rightarrow> bool" where
  "identity_blind f \<longleftrightarrow> session_blind f \<and> (\<forall>w x. f (w\<lparr>db_users := x\<rparr>) = f w)"

lemma session_blindD:
  assumes "session_blind f"
  shows "f (w\<lparr>db_draws := n\<rparr>) = f w" "f (w\<lparr>wd_redis := r\<rparr>) = f w" "f (w\<lparr>wd_mail := m\<rparr>) = f w"
  using assms by (simp_all add: session_blind_def)

lemma frames_session [frame_intros]:
  assumes "session_blind f"
  shows "frames f (uuidP (db_runtime E))" "frames f (saltP (db_runtime E))" "frames f (rt_rand (db_runtime E) n)"
    "frames f (world_exec cs)" "frames f (ml_verification (world_mailer E) a t)" "frames f (ml_reset (world_mailer E) a t)"
  by (simp_all add: frames_mailer session_blindD [OF assms])
    (auto simp: frames_def uuidP_def saltP_def db_runtime_def world_exec_def session_blindD [OF assms] split: prod.split)

lemma frames_user_queries [frame_intros]:
  "frames f (GetUserByEmail e)" "frames f (UserRepo_FindByEmail e)" "frames f (parse_uuidP E t er)"
  unfolding UserRepo_FindByEmail_def GetUserByEmail_def parse_uuidP_def by (intro frame_intros)+

lemma frames_sessions [frame_intros]:
  assumes "session_blind f"
  shows "frames f (ts_StoreRefresh (NewTokenStore E world_exec) t v ttl)"
    "frames f (ts_GetRefresh (NewTokenStore E world_exec) t)" "frames f (ts_RevokeRefresh (NewTokenStore E world_exec) t)"
    "frames f (ts_StoreVerification (NewTokenStore E world_exec) t v ttl)"
    "frames f (ts_GetVerification (NewTokenStore E world_exec) t)"
    "frames f (ts_DeleteVerification (NewTokenStore E world_exec) t)"
    "frames f (ts_StoreReset (NewTokenStore E world_exec) t v ttl)"
    "frames f (ts_GetReset (NewTokenStore E world_exec) t)" "frames f (ts_DeleteReset (NewTokenStore E world_exec) t)"
    "frames f (randomHex (db_runtime E) n)" "frames f (NewUser E (db_runtime E) nm e p)"
    "frames f (RedisIncrement world_exec key win)"
  unfolding token_defs token_store.simps redis_set_def redis_get_cmd_def redis_del_def randomHex_def NewUser_def
    RedisIncrement_def
  by (intro frame_intros assms)+

lemma frames_accounts [frame_intros]:
  assumes "identity_blind f"
  shows "frames f (UserRepo_Create E u)" "frames f (UserRepo_Update u)"
proof -
  from assms have f: "f (w\<lparr>db_users := us\<rparr>) = f w" for w us by (simp add: identity_blind_def)
  have stmts: "frames f (CreateUser r)" "frames f (UpdateUser q)" for r q
    unfolding CreateUser_def UpdateUser_def
    by (auto simp: frames_def sqlP_def bindP_def GetUserByID_def readP_def f split: prod.split option.split sum.split)
  show "frames f (UserRepo_Create E u)" "frames f (UserRepo_Update u)"
    unfolding UserRepo_Create_def UserRepo_Update_def by (intro frame_intros stmts)+
qed

lemma frames_session_commands:
  assumes "session_blind f"
  shows "frames f (LoginUser E (db_runtime E) secret (world_identity E) e p)"
    "frames f (RefreshToken E (db_runtime E) secret (world_identity E) t)" "frames f (LogoutUser (world_identity E) t)"
    "frames f (ForgotPassword E (db_runtime E) (world_identity E) e)"
  unfolding LoginUser_def RefreshToken_def LogoutUser_def ForgotPassword_def identity_fields
  by (intro frame_intros assms)+

lemma frames_identity_commands:
  assumes "identity_blind f"
  shows "frames f (RegisterUser E (db_runtime E) (world_identity E) n e p pc)"
    "frames f (VerifyEmail E (db_runtime E) (world_identity E) t)"
    "frames f (ResetPassword E (db_runtime E) (world_identity E) t p pc)"
    "frames f (UpdateProfile E (db_runtime E) (world_identity E) u n)"
    "frames f (ChangePassword E (db_runtime E) (world_identity E) u p q)"
proof -
  from assms have session: "session_blind f" by (simp add: identity_blind_def)
  show "frames f (RegisterUser E (db_runtime E) (world_identity E) n e p pc)"
    "frames f (VerifyEmail E (db_runtime E) (world_identity E) t)"
    "frames f (ResetPassword E (db_runtime E) (world_identity E) t p pc)"
    "frames f (UpdateProfile E (db_runtime E) (world_identity E) u n)"
    "frames f (ChangePassword E (db_runtime E) (world_identity E) u p q)"
    unfolding RegisterUser_def VerifyEmail_def ResetPassword_def UpdateProfile_def ChangePassword_def identity_fields
    by (intro frame_intros session assms)+
qed

section \<open>Community\<close>

definition community_blind :: "('z db_scheme \<Rightarrow> 'x) \<Rightarrow> bool" where
  "community_blind f \<longleftrightarrow>
     (\<forall>d x. f (d\<lparr>db_contributions := x\<rparr>) = f d) \<and> (\<forall>d x. f (d\<lparr>db_votes := x\<rparr>) = f d) \<and>
     (\<forall>d x. f (d\<lparr>db_bookmarks := x\<rparr>) = f d) \<and> (\<forall>d x. f (d\<lparr>db_comments := x\<rparr>) = f d) \<and>
     (\<forall>d x. f (d\<lparr>db_draws := x\<rparr>) = f d)"

lemma community_blindD:
  assumes "community_blind f"
  shows "f (d\<lparr>db_contributions := cs\<rparr>) = f d" "f (d\<lparr>db_votes := vs\<rparr>) = f d" "f (d\<lparr>db_bookmarks := bs\<rparr>) = f d"
    "f (d\<lparr>db_comments := ms\<rparr>) = f d" "f (d\<lparr>db_draws := n\<rparr>) = f d"
  using assms by (simp_all add: community_blind_def)

lemma frames_community_statements [frame_intros]:
  assumes "community_blind f"
  shows "frames f (uuidP (db_runtime E))" "frames f (CreateContribution i ty u tg pl)"
    "frames f (UpdateContribution i st rv nt at)" "frames f (UpsertVote r)" "frames f (DeleteVote u ty t)"
    "frames f (CreateBookmark i u w)" "frames f (DeleteBookmark u w)" "frames f (CreateComment i u ty t body)"
    "frames f (UpdateComment i body)" "frames f (DeleteComment_stmt i)"
  unfolding CreateContribution_def UpdateContribution_def UpsertVote_def DeleteVote_def CreateBookmark_def
    DeleteBookmark_def CreateComment_def UpdateComment_def DeleteComment_stmt_def
  by (auto simp: frames_def uuidP_def db_runtime_def sqlP_def
      bindP_def readP_def GetContributionByID_def GetCommentByID_def Let_def community_blindD [OF assms] split: prod.split option.split sum.split)

lemma frames_community_queries [frame_intros]:
  "frames f (GetVoteByUserAndTarget u ty t)" "frames f (GetBookmarkByUserAndWord u w)" "frames f (GetCommentByID i)"
  "frames f (CommentRepo_FindByID i)" "frames f (BookmarkRepo_Exists u w)" "frames f (VoteRepo_Find u ty t)"
  unfolding GetVoteByUserAndTarget_def GetBookmarkByUserAndWord_def GetCommentByID_def CommentRepo_FindByID_def
    BookmarkRepo_Exists_def VoteRepo_Find_def
  by (intro frame_intros)+

lemma frames_community_repositories [frame_intros]:
  assumes "community_blind f"
  shows "frames f (ContribRepo_Create c)" "frames f (ContribRepo_Update c)" "frames f (VoteRepo_Upsert v)"
    "frames f (VoteRepo_Delete u ty t)" "frames f (BookmarkRepo_Create E b)" "frames f (BookmarkRepo_Delete u w)"
    "frames f (CommentRepo_Create m)" "frames f (CommentRepo_Update m)" "frames f (CommentRepo_Delete i)"
  unfolding ContribRepo_Create_def ContribRepo_Update_def VoteRepo_Upsert_def VoteRepo_Delete_def
    BookmarkRepo_Create_def BookmarkRepo_Delete_def CommentRepo_Create_def CommentRepo_Update_def CommentRepo_Delete_def
  by (intro frame_intros assms)+

lemma frames_community_commands:
  assumes "community_blind f"
  shows "frames f (SubmitContribution (db_runtime E) db_contribution_svc u inp)"
    "frames f (WithdrawContribution db_contribution_svc u i)"
    "frames f (AddBookmark (db_runtime E) (db_bookmark_svc E) u i)" "frames f (RemoveBookmark (db_bookmark_svc E) u i)"
    "frames f (PostComment (db_runtime E) db_comment_svc u i body)"
    "frames f (EditComment (db_runtime E) db_comment_svc u i body)"
    "frames f (DeleteComment db_comment_svc u role i)" "frames f (FlagComment (db_runtime E) db_comment_svc i)"
  unfolding SubmitContribution_def WithdrawContribution_def AddBookmark_def RemoveBookmark_def PostComment_def
    EditComment_def DeleteComment_def FlagComment_def NewContribution_def NewBookmark_def NewComment_def
    community_repositories contribution_svc.simps contribution_repository.simps bookmark_svc.simps
    bookmark_repository.simps comment_svc.simps comment_repository.simps
  by (intro frame_intros assms)+

lemma frames_votes:
  assumes "community_blind f"
  shows "frames f (CastVote (db_runtime E) db_vote_svc u ty t x)" "frames f (RemoveVote db_vote_svc u ty t)"
proof -
  show "frames f (CastVote (db_runtime E) db_vote_svc u ty t x)"
    unfolding CastVote_def CastVote_domain_def community_repositories vote_svc.simps vote_repository.simps
    by (cases "ty = VoteTargetWord"; cases "ty = VoteTargetDefinition"; simp; intro frame_intros assms)
  show "frames f (RemoveVote db_vote_svc u ty t)"
    unfolding RemoveVote_def community_repositories vote_svc.simps vote_repository.simps by (intro frame_intros assms)
qed

end
