(* ===== verification/Server_Steps.thy ===== *)
theory Server_Steps
  imports Server_Contract Footprints Content_Invariant
begin

text \<open>
  The contracts of \<open>Server_Contract\<close> on four relations: a run of \<open>system_step\<close>, the equality of what
  the contexts below accounts have stored, the equality of the dictionary with its logs, and the
  standing of the accounts.
\<close>

section \<open>Requests are runs of the program\<close>

lemma run_moves:
  "(\<And>w w'. run_step m w w' \<Longrightarrow> system_step E secret w w') \<Longrightarrow> moves (system_step E secret)\<^sup>*\<^sup>* m"
  by (auto simp: moves_def run_step_def)

lemmas step_intros = identity_step.intros dictionary_step.intros community_step.intros moderation_step.intros
  ai_step.intros

lemma record_runs: "(system_step E secret)\<^sup>*\<^sup>* w (write_log entry w)"
  using system_step.record_ [of "write_log entry w" w entry E secret] by (auto simp: write_log_def)

interpretation runs: admin_api "(system_step (ap_ext A) (ap_secret A))\<^sup>*\<^sup>*" A for A
  by unfold_locales
    (auto simp: enrichmentSvc_def intro!: run_moves intro: system_step.intros step_intros)

section \<open>What stays\<close>

text \<open>What is stored below the accounts, and the part of it that only admins write\<close>

definition content ::
  "world \<Rightarrow> (word_row list \<times> definition_row list \<times> example_row list) \<times> (audit_row list \<times> ai_row list) \<times>
     contribution_row list \<times> vote_row list \<times> bookmark_row list \<times> comment_row list" where
  "content w = ((db_words w, db_definitions w, db_examples w), (db_audit_logs w, db_ai_requests w),
     db_contributions w, db_votes w, db_bookmarks w, db_comments w)"

definition curated ::
  "world \<Rightarrow> (word_row list \<times> definition_row list \<times> example_row list) \<times> audit_row list \<times> ai_row list" where
  "curated w = ((db_words w, db_definitions w, db_examples w), db_audit_logs w, db_ai_requests w)"

definition same :: "(world \<Rightarrow> 'x) \<Rightarrow> world \<Rightarrow> world \<Rightarrow> bool" where
  "same f w w' \<longleftrightarrow> f w' = f w"

lemma moves_same: "moves (same f) m = frames f m"
  by (simp add: moves_def frames_def same_def)

lemma blind_views:
  "session_blind content" "session_blind curated" "session_blind db_user_map" "identity_blind content" "identity_blind curated"
  "community_blind curated" "community_blind (db_user_map :: world \<Rightarrow> _)"
  by (simp_all add: session_blind_def identity_blind_def community_blind_def content_def curated_def db_user_map_def fun_eq_iff)

interpretation visitors: public_api "same content" A for A
  by unfold_locales
    (simp_all only: moves_same frames_session frames_sessions frames_session_commands frames_identity_commands blind_views
       same_def)

interpretation members: member_api "same curated" A for A
  by unfold_locales
    (simp_all only: moves_same frames_session frames_sessions frames_session_commands frames_identity_commands frames_community_commands frames_votes
       blind_views same_def)

text \<open>The log of requests\<close>

lemma recorded: "same content w (write_log entry w)" "same curated w (write_log entry w)" "db_user_map (write_log entry w) = db_user_map w"
  by (simp_all add: same_def write_log_def content_def curated_def db_user_map_def fun_eq_iff)

section \<open>The standing of accounts\<close>

text \<open>The role of an account and whether it is active; an account that is new is an active user.\<close>

definition standing :: "world \<Rightarrow> uuid \<Rightarrow> (string \<times> bool) option" where
  "standing w i = map_option (\<lambda>u. (us_role u, us_is_active u)) (db_user_map w i)"

definition keeps_standing :: "world \<Rightarrow> world \<Rightarrow> bool" where
  "keeps_standing w w' \<longleftrightarrow>
     (\<forall>i. standing w' i = standing w i \<or> standing w i = None \<and> standing w' i = Some (RoleUser, True))"

lemma keeps_standing_refl: "keeps_standing w w"
  by (simp add: keeps_standing_def)

lemma keeps_standing_trans: "keeps_standing u v \<Longrightarrow> keeps_standing v w \<Longrightarrow> keeps_standing u w"
  unfolding keeps_standing_def by (metis option.distinct(1))

lemma standing_frames: "frames db_user_map m \<Longrightarrow> moves keeps_standing m"
  by (simp add: moves_def frames_def keeps_standing_def standing_def)

lemma standing_keeps: "(\<And>w. keeps (keeps_standing w) m) \<Longrightarrow> moves keeps_standing m"
  unfolding moves_def keeps_def using keeps_standing_refl by blast

lemma keeps_frames: "frames db_user_map m \<Longrightarrow> keeps (keeps_standing w) m"
  by (simp add: frames_def keeps_def keeps_standing_def standing_def)

text \<open>A command that stores what it has read keeps the standing.\<close>

definition loaded :: "world \<Rightarrow> user \<Rightarrow> world \<Rightarrow> bool" where
  "loaded w u s \<longleftrightarrow> keeps_standing w s \<and> db_user_map s (us_id u) = Some u"

lemma find_loads:
  assumes "\<And>u. triple (loaded w u) (k u) (\<lambda>_. keeps_standing w) (\<lambda>_. keeps_standing w)"
  shows "keeps (keeps_standing w) (bindP (UserRepo_FindByID i) k)"
  unfolding keeps_triple
proof (rule triple_bind [OF _ assms])
  show "triple (keeps_standing w) (UserRepo_FindByID i) (loaded w) (\<lambda>_. keeps_standing w)"
    by (auto simp: triple_def loaded_def UserRepo_FindByID_run db_user_map_def user_toDomain_def
        dest: lookup_by_Some split: option.split sum.split)
qed

lemma loaded_frame:
  assumes "frames db_user_map m" and "\<And>x. triple (loaded w u) (k x) (\<lambda>_. keeps_standing w) (\<lambda>_. keeps_standing w)"
  shows "triple (loaded w u) (bindP m k) (\<lambda>_. keeps_standing w) (\<lambda>_. keeps_standing w)"
proof (rule triple_bind [OF _ assms(2)])
  show "triple (loaded w u) m (\<lambda>_. loaded w u) (\<lambda>_. keeps_standing w)"
    using assms(1) by (auto simp: triple_def loaded_def frames_def keeps_standing_def standing_def split: sum.split)
qed

lemma loaded_keeps: "keeps (keeps_standing w) m \<Longrightarrow> triple (loaded w u) m (\<lambda>_. keeps_standing w) (\<lambda>_. keeps_standing w)"
  unfolding keeps_triple by (erule triple_weaken) (simp_all add: loaded_def)

lemma loaded_store:
  assumes "us_id v = us_id u" "us_role v = us_role u" "us_is_active v = us_is_active u"
  shows "triple (loaded w u) (UserRepo_Update v) (\<lambda>_. keeps_standing w) (\<lambda>_. keeps_standing w)"
proof -
  have "keeps_standing w (snd (UserRepo_Update v s))" if "loaded w u s" for s :: world
  proof -
    let ?v = "v\<lparr>us_updated_at := db_now s\<rparr>"
    from that have "db_user_map s (us_id ?v) = Some u" using assms(1) by (simp add: loaded_def)
    with db_user_map_update [of ?v s] assms have "standing
        (s\<lparr>db_users := update_where (\<lambda>r. ur_id r = us_id v) (set_user_columns (user_params ?v)) (db_users s)\<rparr>) = standing s"
      by (auto simp: standing_def fun_eq_iff)
    with that show ?thesis by (auto simp: UserRepo_Update_run loaded_def keeps_standing_def)
  qed
  then show ?thesis by (simp add: triple_def split: sum.split)
qed

lemma loaded_update:
  assumes "us_id v = us_id u" "us_role v = us_role u" "us_is_active v = us_is_active u"
    and "\<And>x. keeps (keeps_standing w) (k x)"
  shows "triple (loaded w u) (bindP (UserRepo_Update v) k) (\<lambda>_. keeps_standing w) (\<lambda>_. keeps_standing w)"
  by (rule triple_bind [OF loaded_store [OF assms(1-3)]]) (use assms(4) keeps_triple in blast)

lemma loaded_if:
  "triple P m Q R \<Longrightarrow> triple P n Q R \<Longrightarrow> triple P (if b then m else n) Q R"
  by simp

lemma loaded_reject: "triple (loaded w u) m (\<lambda>_. keeps_standing w) (\<lambda>_. keeps_standing w) \<Longrightarrow>
  triple (loaded w u) (rejectP c e m) (\<lambda>_. keeps_standing w) (\<lambda>_. keeps_standing w)"
  by (simp add: rejectP_def failP_def triple_def loaded_def)

text \<open>A new account is an active user.\<close>

lemma NewUser_role: "fst (NewUser E R n e p s) = Inr u \<Longrightarrow> us_role u = RoleUser \<and> us_is_active u"
  using NewUser_Inr [of E R n e p s u "snd (NewUser E R n e p s)"] by (metis prod.collapse)

lemma create_stands:
  assumes "us_role u = RoleUser" "us_is_active u" "keeps_standing w s"
  shows "keeps_standing w (snd (UserRepo_Create E u s))"
proof (cases "UserRepo_Create E u s")
  case (Pair x s')
  show ?thesis
  proof (cases x)
    case (Inl e)
    with Pair UserRepo_Create_Inl assms(3) show ?thesis by simp blast
  next
    case (Inr y)
    with Pair have new: "us_id u \<notin> ur_id ` set (db_users s)" and s': "s' = s\<lparr>db_users := db_users s @ [user_params u]\<rparr>"
      by (auto simp: UserRepo_Create_Inr)
    have none: "lookup_by ur_id (us_id u) (db_users s) = None" using new by (simp add: lookup_by_None)
    then have "db_user_map s (us_id u) = None" by (simp add: db_user_map_def)
    moreover have "db_user_map s' = (db_user_map s)(us_id u \<mapsto> u)"
      using none by (auto simp: s' db_user_map_def fun_eq_iff table_simps split: option.split)
    ultimately have "keeps_standing s s'" using assms by (auto simp: keeps_standing_def standing_def)
    with assms(3) Pair keeps_standing_trans show ?thesis by simp
  qed
qed

lemma register_stands:
  assumes "\<And>u x. keeps (keeps_standing w) (k u x)"
  shows "keeps (keeps_standing w) (bindP (NewUser E (db_runtime E) n e p) (\<lambda>user. bindP (UserRepo_Create E user) (k user)))"
  unfolding keeps_triple
proof (rule triple_bind [where R = "\<lambda>u s. keeps_standing w s \<and> us_role u = RoleUser \<and> us_is_active u"])
  show "triple (keeps_standing w) (NewUser E (db_runtime E) n e p)
      (\<lambda>u s. keeps_standing w s \<and> us_role u = RoleUser \<and> us_is_active u) (\<lambda>_. keeps_standing w)"
    using frames_sessions(11) [OF blind_views(3), of E n e p]
    by (auto simp: triple_def keeps_standing_def standing_def frames_def split: sum.split dest!: NewUser_role)
next
  fix u
  have "triple (\<lambda>s. keeps_standing w s \<and> us_role u = RoleUser \<and> us_is_active u) (UserRepo_Create E u)
      (\<lambda>_. keeps_standing w) (\<lambda>_. keeps_standing w)"
    using create_stands by (auto simp: triple_def split: sum.split)
  from triple_bind [OF this] assms show "triple (\<lambda>s. keeps_standing w s \<and> us_role u = RoleUser \<and> us_is_active u)
      (bindP (UserRepo_Create E u) (k u)) (\<lambda>_. keeps_standing w) (\<lambda>_. keeps_standing w)"
    unfolding keeps_triple by blast
qed

text \<open>The commands\<close>

lemmas untouched = frames_simple frames_session [OF blind_views(3)] frames_sessions [OF blind_views(3)] frames_runtime_db(2)
lemmas untouched_keeps = untouched [THEN keeps_frames]

lemma keeps_parsed: "(\<And>i. keeps I (k i)) \<Longrightarrow> keeps I (bindP (parse_uuidP E t er) k)"
  by (rule keeps_bind [OF keeps_parse_uuid])

lemma identity_stands:
  "moves keeps_standing (RegisterUser E (db_runtime E) (world_identity E) n e p pc)"
  "moves keeps_standing (VerifyEmail E (db_runtime E) (world_identity E) t)"
  "moves keeps_standing (ResetPassword E (db_runtime E) (world_identity E) t p pc)"
  "moves keeps_standing (UpdateProfile E (db_runtime E) (world_identity E) i n)"
  "moves keeps_standing (ChangePassword E (db_runtime E) (world_identity E) i p q)"
  unfolding RegisterUser_def VerifyEmail_def ResetPassword_def UpdateProfile_def ChangePassword_def identity_fields
  by (rule standing_keeps,
      (rule keeps_reject keeps_parsed register_stands find_loads loaded_update loaded_store loaded_if loaded_reject
        untouched_keeps keeps_else keeps_try keeps_bind
       | rule loaded_frame, rule untouched | rule loaded_keeps
       | simp add: MarkEmailVerified_def SetPasswordHash_def)+)+

lemma standing_recorded: "keeps_standing w (write_log entry w)"
  by (simp add: keeps_standing_def standing_def recorded(3))

section \<open>What the curation of content leaves alone\<close>

text \<open>A view of the state on tables that no command on words, contributions or requests to the model writes passes
  through these commands, as it passes through their statements.\<close>

locale unstored =
  fixes f :: "world \<Rightarrow> 'x"
  assumes session: "session_blind f" and community: "community_blind f" and dictionary: "dictionary_blind f"
    and audits: "f (w\<lparr>db_audit_logs := ls\<rparr>) = f w" and requests: "f (w\<lparr>db_ai_requests := rs\<rparr>) = f w"
begin

lemmas blind = session community dictionary

lemma audited: "frames f (CreateAuditLog l)"
  unfolding CreateAuditLog_def CreateAuditLog_stmt_def by (intro frames_sqlP; simp add: audits)

lemma statements:
  "frames f (SoftDeleteWord_stmt i)" "frames f (CreateAIRequest q)" "frames f (UpdateAIRequest q)"
  unfolding CreateAIRequest_def UpdateAIRequest_def SoftDeleteWord_stmt_def
  by ((intro frames_sqlP; simp add: requests) | simp add: frames_def dictionary_blindD [OF dictionary])+

lemma repositories:
  "frames f (WordRepo_SoftDelete i)" "frames f (UserRepo_FindByID i)" "frames f (ContribRepo_FindByID i)"
  "frames f (AiRepo_FindByID i)" "frames f (AiRepo_Create q)" "frames f (AiRepo_Update q)"
  unfolding WordRepo_SoftDelete_def UserRepo_FindByID_def GetUserByID_def ContribRepo_FindByID_def GetContributionByID_def
    AiRepo_FindByID_def GetAIRequestByID_def AiRepo_Create_def AiRepo_Update_def
  by (intro frame_intros statements)+

lemma children:
  "frames f (add_definitions (db_runtime E) k xs w)" "frames f (add_examples (db_runtime E) ys w)"
  by (induction xs arbitrary: k w; auto intro!: frame_intros blind)
    (induction ys arbitrary: w; auto intro!: frame_intros blind)

lemma dictionary_frames:
  "frames f (CreateWord E (db_runtime E) (PostgresWordRepository E) a wi)"
  "frames f (UpdateWord E (db_runtime E) (PostgresWordRepository E) a t wi)"
  "frames f (SoftDeleteWord E (PostgresWordRepository E) t)"
  unfolding CreateWord_def UpdateWord_def SoftDeleteWord_def PostgresWordRepository_def word_repository.simps Let_def
  by (intro frame_intros blind repositories children)+

lemma decision_frames: "frames f (Update_contribution db_contribution_svc c)"
  unfolding Update_contribution_def community_repositories contribution_svc.simps contribution_repository.simps
  by (intro frame_intros blind repositories)

lemma enrichment_frames:
  "frames f (TriggerDefinitionEnrichment (db_runtime E) (db_enrichment_svc E llm model) i j)"
  "frames f (TriggerExampleSuggestion (db_runtime E) (db_enrichment_svc E llm model) i j)"
  "frames f (TriggerRelatedWordSuggestion (db_runtime E) (db_enrichment_svc E llm model) i j)"
  "frames f (TriggerQualityCheck (db_runtime E) (db_enrichment_svc E llm model) i j)"
  "frames f (ApproveAIRequest (db_runtime E) (db_enrichment_svc E llm model) i j)"
  "frames f (RejectAIRequest (db_runtime E) (db_enrichment_svc E llm model) i j)"
  unfolding TriggerDefinitionEnrichment_def TriggerExampleSuggestion_def TriggerRelatedWordSuggestion_def
    TriggerQualityCheck_def trigger_def NewAIRequest_def ApproveAIRequest_def RejectAIRequest_def mergeAIOutput_def
    merge_definition_def merge_example_def merge_related_def ai_log_def NewAuditLog_def Let_def enrichment_fields
  by (intro frame_intros blind repositories audited)+

lemmas curation_frames = dictionary_frames decision_frames enrichment_frames

end

lemma users_unstored: "dictionary_blind (db_user_map :: world \<Rightarrow> _)"
  "db_user_map (w\<lparr>db_audit_logs := ls\<rparr>) = db_user_map w" "db_user_map (w\<lparr>db_ai_requests := rs\<rparr>) = db_user_map w"
  by (simp_all add: dictionary_blind_def db_user_map_def fun_eq_iff)

interpretation accounts_view: unstored db_user_map
  by unfold_locales (simp_all only: blind_views users_unstored)

lemmas curation_stands = accounts_view.curation_frames [THEN standing_frames]

interpretation accounts: curator_api keeps_standing A for A
proof unfold_locales
  fix u v w :: world
  show "keeps_standing w w" by (rule keeps_standing_refl)
  show "keeps_standing u v \<Longrightarrow> keeps_standing v w \<Longrightarrow> keeps_standing u w" by (rule keeps_standing_trans)
qed ((rule identity_stands
    | rule standing_frames, rule frames_session frames_sessions frames_session_commands frames_community_commands frames_votes, rule blind_views
    | rule curation_stands | unfold enrichmentSvc_def, rule curation_stands)+)

end
