(* ===== verification/Server_Properties.thy ===== *)
theory Server_Properties
  imports Server_Steps Route_Properties Identity_Properties Sample
begin

text \<open>
  The program at its interface: what sequences of HTTP requests can do to the state, and what they
  cannot do without a token.
\<close>

section \<open>An installation\<close>

definition demo_parsers :: body_parsers where
  "demo_parsers =
     \<lparr>bp_string = (\<lambda>_ c. rq_body c), bp_register = (\<lambda>c. (\<lparr>rg_name = [], rg_email = [], rg_password = [], rg_confirmation = []\<rparr>, False)),
      bp_login = (\<lambda>c. (\<lparr>lg_email = [], lg_password = []\<rparr>, False)),
      bp_reset = (\<lambda>c. (\<lparr>rp_token = [], rp_password = [], rp_confirmation = []\<rparr>, False)),
      bp_password = (\<lambda>c. (\<lparr>cp_current = [], cp_new = []\<rparr>, False)),
      bp_word = (\<lambda>c. (\<lparr>wq_banjar = [], wq_syllabified = [], wq_class = [], wq_dialect = [], wq_homonym = 0, wq_is_root = False,
        wq_root = None, wq_definitions = [], wq_examples = [], wq_reference = []\<rparr>, False)),
      bp_submit = (\<lambda>c. (\<lparr>sq_type = [], sq_target = None, sq_payload = None\<rparr>, False)),
      bp_translate = (\<lambda>c. (\<lparr>tq_text = fst (rq_body c), tq_context = []\<rparr>, True))\<rparr>"

definition demo_api :: api where
  "demo_api =
     \<lparr>ap_ext = demo_ext, ap_secret = ''k'', ap_client = \<lparr>oc_key = ''key'', oc_url = ''http://localhost'', oc_model = ''m''\<rparr>,
      ap_transport = (\<lambda>_ _. Inl (Other ''offline'')), ap_model = ''m'', ap_parsers = demo_parsers,
      ap_fiber = demo_fiber, ap_openapi = [], ap_swagger = [], ap_logger = TextHandler LevelInfo\<rparr>"

text \<open>A request without a token, and the same with a header that is no token\<close>

definition demo_request :: "string \<Rightarrow> string \<Rightarrow> string \<Rightarrow> http_request" where
  "demo_request m path auth =
     \<lparr>hq_method = m, hq_path = path, hq_header = (\<lambda>_. auth), hq_query = (\<lambda>_. []), hq_ip = ''::1'', hq_body = []\<rparr>"

lemma demo_api_fields: "ap_ext demo_api = demo_ext" "ap_fiber demo_api = demo_fiber" "ap_secret demo_api = ''k''"
  by (simp_all add: demo_api_def)

lemma no_header_no_token: "\<not> has_prefix auth ''Bearer '' \<Longrightarrow> \<not> carries A (demo_request m path auth) w cl"
  by (auto simp: carries_def valid_claims_def to_request_def demo_request_def has_prefix_def)

definition sample_world :: world where
  "sample_world = db.extend sample_db
     \<lparr>wd_redis = \<lparr>rd_clock = 7, rd_data = (\<lambda>_. None)\<rparr>, wd_mail = no_mail None, wd_log = []\<rparr>"

text \<open>A token that the demonstration library signed is accepted with the claims that it was signed for only.\<close>

lemma demo_parsed: "GenerateAccessToken demo_ext secret t u role = Inr tok \<Longrightarrow> ParseToken demo_ext secret' now tok = Inr cl \<Longrightarrow>
  cl_user_id cl = u \<and> cl_role cl = role"
  by (auto simp: GenerateAccessToken_def ParseToken_def demo_ext_def demo_jwt_parse_def demo_decode_token split: if_splits)

lemma carries_generated:
  assumes "ap_ext A = demo_ext" and "GenerateAccessToken demo_ext secret t u role = Inr tok"
    and "carries A (demo_request m path (''Bearer '' @ tok)) w cl"
  shows "cl_role cl = role"
  using assms demo_parsed by (auto simp: carries_def valid_claims_def to_request_def demo_request_def)

section \<open>Requests and steps\<close>

text \<open>Every sequence of HTTP requests is a run of the program's commands: whatever methods, paths, headers and
  bodies the requests have, the state after them is reached by steps of \<open>system_step\<close>.\<close>

theorem requests_run_commands:
  "(system_step (ap_ext A) (ap_secret A))\<^sup>*\<^sup>* w (snd (serve_all A qs w))"
  by (rule runs.all_requests_move [OF record_runs])

section \<open>What needs a token\<close>

text \<open>C9. Without a token nothing below the accounts changes: if after a sequence of requests any word, definition, example,
  contribution, vote, bookmark, comment, audit log or request to the language model differs, one of the requests carried a
  token that \<open>ParseToken\<close> accepts, with the secret of the server and at the time at which it was handled.\<close>

theorem content_changes_traced:
  assumes "fiber_groups (ap_fiber A)"
  shows "content (snd (serve_all A qs w)) = content w \<or>
    (\<exists>pre q post cl. qs = pre @ q # post \<and> carries A q (snd (serve_all A pre w)) cl)"
proof -
  have "same content v (snd (serve A q v))" if "\<not> (\<exists>cl. carries A q v cl)" for q v
    using visitors.anonymous_moves [OF recorded(1) assms] that by blast
  from visitors.requests_traced [of "\<lambda>q v. \<exists>cl. carries A q v cl", OF this, of w qs] show ?thesis
    unfolding same_def by blast
qed

theorem content_changes_traced_witness:
  "content (snd (serve_all demo_api [demo_request ''DELETE'' ''/api/v2/admin/words/9'' ''Basic'',
       demo_request ''POST'' ''/api/v2/words/9/votes'' []] sample_world)) = content sample_world"
  using content_changes_traced [of demo_api "[demo_request ''DELETE'' ''/api/v2/admin/words/9'' ''Basic'',
       demo_request ''POST'' ''/api/v2/words/9/votes'' []]" sample_world] demo_fiber_groups
  by (auto simp: demo_api_fields no_header_no_token has_prefix_def append_eq_Cons_conv Cons_eq_append_conv)

text \<open>C2. Only admins curate, promote and ban: if after a sequence of requests the dictionary, the audit log or the requests to
  the language model differ, or an account that existed has another role, is banned or unbanned, or a new account
  is not an active user, one of the requests carried a token that \<open>ParseToken\<close> accepts, with the secret of the server
  and at the time at which it was handled, and that names the role of an admin.\<close>

theorem curation_traced:
  assumes "fiber_groups (ap_fiber A)"
  shows "curated (snd (serve_all A qs w)) = curated w \<and> keeps_standing w (snd (serve_all A qs w)) \<or>
    (\<exists>pre q post cl. qs = pre @ q # post \<and> carries A q (snd (serve_all A pre w)) cl \<and> cl_role cl = ''admin'')"
proof -
  let ?admin = "\<lambda>q v. \<exists>cl. carries A q v cl \<and> cl_role cl = ''admin''"
  have "same curated v (snd (serve A q v))" "keeps_standing v (snd (serve A q v))" if "\<not> ?admin q v" for q v
    using members.member_request_moves [OF recorded(2) assms] accounts.member_request_moves [OF standing_recorded assms] that by blast+
  note moved = this
  from members.requests_traced [of ?admin, OF moved(1), of w qs] accounts.requests_traced [of ?admin, OF moved(2), of w qs]
  show ?thesis unfolding same_def by blast
qed

theorem curation_traced_witness:
  "\<exists>tok. GenerateAccessToken demo_ext ''k'' 0 (x_uuid_string demo_ext 1) ''user'' = Inr tok \<and>
     (let w = snd (serve_all demo_api [demo_request ''PATCH'' ''/api/v2/admin/users/2/ban'' (''Bearer '' @ tok),
          demo_request ''DELETE'' ''/api/v2/admin/words/9'' (''Bearer '' @ tok)] sample_world)
      in curated w = curated sample_world \<and> standing w 1 = standing sample_world 1)"
proof -
  obtain tok where tok: "GenerateAccessToken demo_ext ''k'' 0 (x_uuid_string demo_ext 1) ''user'' = Inr tok"
    using demo_sign by blast
  let ?qs = "[demo_request ''PATCH'' ''/api/v2/admin/users/2/ban'' (''Bearer '' @ tok),
    demo_request ''DELETE'' ''/api/v2/admin/words/9'' (''Bearer '' @ tok)]"
  have role: "cl_role cl = ''user''" if "carries demo_api (demo_request m path (''Bearer '' @ tok)) v cl" for m path v cl
    using carries_generated [OF _ tok that] by (simp add: demo_api_fields)
  have no: "\<not> (\<exists>pre q post cl. ?qs = pre @ q # post \<and> carries demo_api q (snd (serve_all demo_api pre sample_world)) cl \<and>
      cl_role cl = ''admin'')"
    using role by (fastforce simp: Cons_eq_append_conv)
  have "standing sample_world 1 \<noteq> None"
    by (simp add: standing_def db_user_map_def sample_world_def db.defs sample_db_def db_empty_def table_simps)
  with curation_traced [of demo_api ?qs sample_world] no demo_fiber_groups tok
  show ?thesis by (auto simp: demo_api_fields keeps_standing_def Let_def)
qed

end
