(* ===== verification/Account_Standing.thy ===== *)
theory Account_Standing
  imports Server_Properties Moderation_Properties
begin

text \<open>
  What a request can do to the role of an account and to whether it is active: the effect of the three commands that
  change it, of their handlers, and of a request on its way through the router, the guards and the middleware.
\<close>

section \<open>The commands\<close>

lemma standing_framed: "frames db_user_map m \<Longrightarrow> standing (snd (m s)) = standing s"
  by (simp add: frames_def standing_def fun_eq_iff)

lemma log_action_standing: "standing (snd (log_action (db_runtime E) (db_moderation_svc E) a act ty t meta (s :: world))) = standing s"
proof -
  have "frames db_user_map (log_action (db_runtime E) (db_moderation_svc E) a act ty t meta :: (world, err, unit) prog)"
    unfolding log_action_def NewAuditLog_def moderation_fields Let_def
    by (intro frame_intros accounts_view.blind accounts_view.audited)+
  then show ?thesis by (rule standing_framed)
qed

text \<open>A user is stored with another standing, and the action is logged; the first may fail, and then the second is
  not tried.\<close>

lemma store_and_log_standing:
  fixes s :: world
  assumes "db_user_map s t = Some x" "us_id v = t"
    and "s' = snd (bindP (UserRepo_Update v) (\<lambda>_. bindP (log_action (db_runtime E) (db_moderation_svc E) a act ty i meta)
      (\<lambda>_. retP y)) s)"
  shows "standing s' = standing s \<or> us_role v \<in> {RoleUser, RoleAdmin} \<and>
    standing s' = (standing s)(t \<mapsto> (us_role v, us_is_active v))"
proof -
  let ?v = "v\<lparr>us_updated_at := db_now s\<rparr>"
  obtain r s1 where store: "UserRepo_Update v s = (r, s1)" by fastforce
  have stored: "standing s1 = standing s \<or> us_role v \<in> {RoleUser, RoleAdmin} \<and>
      standing s1 = (standing s)(t \<mapsto> (us_role v, us_is_active v))"
  proof (cases "us_role v \<in> {RoleUser, RoleAdmin}")
    case True
    with store have "db_user_map s1 = (db_user_map s)(t \<mapsto> ?v\<lparr>us_email := us_email x, us_created_at := us_created_at x\<rparr>)"
      using db_user_map_update [where d = s and u = ?v] assms(1,2) by (auto simp: UserRepo_Update_run)
    with True show ?thesis by (simp add: standing_def fun_eq_iff)
  next
    case False
    with store show ?thesis by (simp add: UserRepo_Update_run)
  qed
  have "standing s' = standing s1"
    using store log_action_standing [of E a act ty i meta s1]
    by (auto simp: assms(3) bindP_def retP_def split: sum.split prod.split)
  with stored show ?thesis by simp
qed

lemma standing_of: "db_user_map s t = Some x \<Longrightarrow> standing s t = Some (us_role x, us_is_active x) \<and> us_id x = t"
  using db_user_map_Some by (force simp: standing_def)

lemma ban_standing:
  fixes s :: world
  assumes "standing s u = Some (role, active)"
    and "standing (snd (BanUser (db_runtime E) (db_moderation_svc E) a t reason s)) u \<noteq> Some (role, active)"
  shows "u = t \<and> role \<noteq> RoleAdmin \<and>
    standing (snd (BanUser (db_runtime E) (db_moderation_svc E) a t reason s)) u = Some (role, False)"
proof (cases "db_user_map s t")
  case None
  with assms show ?thesis by (simp add: BanUser_def UserRepo_FindByID_run prog_defs)
next
  case (Some x)
  let ?v = "Ban (db_now s) x"
  from assms Some have role: "us_role x \<noteq> RoleAdmin" by (auto simp: BanUser_def UserRepo_FindByID_run prog_defs)
  with Some have "snd (BanUser (db_runtime E) (db_moderation_svc E) a t reason s) =
      snd (bindP (UserRepo_Update ?v) (\<lambda>_. bindP (log_action (db_runtime E) (db_moderation_svc E) a ActionBanUser ''user'' t
        (Some [(''reason'', JStr reason)])) (\<lambda>_. retP ?v)) s)"
    by (simp add: BanUser_def UserRepo_FindByID_run rejectP_def bindP_def elseP_def nowP_def getP_def)
  from store_and_log_standing [OF Some _ this] standing_of [OF Some] assms role show ?thesis
    by (auto simp: Ban_def split: if_splits)
qed

lemma unban_standing:
  fixes s :: world
  assumes "standing s u = Some (role, active)"
    and "standing (snd (UnbanUser (db_runtime E) (db_moderation_svc E) a t s)) u \<noteq> Some (role, active)"
  shows "u = t \<and> standing (snd (UnbanUser (db_runtime E) (db_moderation_svc E) a t s)) u = Some (role, True)"
proof (cases "db_user_map s t")
  case None
  with assms show ?thesis by (simp add: UnbanUser_def UserRepo_FindByID_run prog_defs)
next
  case (Some x)
  let ?v = "Unban (db_now s) x"
  from Some have "snd (UnbanUser (db_runtime E) (db_moderation_svc E) a t s) =
      snd (bindP (UserRepo_Update ?v) (\<lambda>_. bindP (log_action (db_runtime E) (db_moderation_svc E) a ActionUnbanUser ''user'' t
        None) (\<lambda>_. retP ?v)) s)"
    by (simp add: UnbanUser_def UserRepo_FindByID_run bindP_def elseP_def nowP_def getP_def)
  from store_and_log_standing [OF Some _ this] standing_of [OF Some] assms show ?thesis
    by (auto simp: Unban_def split: if_splits)
qed

lemma role_standing:
  fixes s :: world
  assumes "standing s u = Some (role, active)"
    and "standing (snd (ChangeUserRole (db_runtime E) (db_moderation_svc E) a t new s)) u \<noteq> Some (role, active)"
  shows "u = t \<and> a \<noteq> t \<and> new \<in> {RoleUser, RoleAdmin} \<and>
    standing (snd (ChangeUserRole (db_runtime E) (db_moderation_svc E) a t new s)) u = Some (new, active)"
proof (cases "db_user_map s t")
  case None
  with assms show ?thesis by (simp add: ChangeUserRole_def UserRepo_FindByID_run prog_defs split: if_splits)
next
  case (Some x)
  let ?v = "x\<lparr>us_role := new, us_updated_at := db_now s\<rparr>"
  from assms Some have ok: "new \<in> {RoleUser, RoleAdmin}" "a \<noteq> t"
    by (auto simp: ChangeUserRole_def prog_defs split: if_splits)
  with Some have "snd (ChangeUserRole (db_runtime E) (db_moderation_svc E) a t new s) =
      snd (bindP (UserRepo_Update ?v) (\<lambda>_. bindP (log_action (db_runtime E) (db_moderation_svc E) a ActionChangeRole ''user'' t
        (Some [(''new_role'', JStr new)])) (\<lambda>_. retP ?v)) s)"
    by (auto simp: ChangeUserRole_def UserRepo_FindByID_run rejectP_def bindP_def elseP_def nowP_def getP_def sumP_def Promote_def)
  from store_and_log_standing [OF Some _ this] standing_of [OF Some] assms ok show ?thesis
    by (auto split: if_splits)
qed

section \<open>The handlers\<close>

lemma account_handlers:
  "(''moderation.BanUser'', h) \<in> set (api_handlers A) \<Longrightarrow> h = tagged ModerationPart (parsed (bp_string (ap_parsers A) ''reason'')
     (BanUser_handler (ap_ext A) (ap_runtime A) (db_moderation_svc (ap_ext A))))"
  "(''moderation.UnbanUser'', h) \<in> set (api_handlers A) \<Longrightarrow>
     h = tagged ModerationPart (UnbanUser_handler (ap_ext A) (ap_runtime A) (db_moderation_svc (ap_ext A)))"
  "(''moderation.ChangeUserRole'', h) \<in> set (api_handlers A) \<Longrightarrow>
     h = tagged ModerationPart (parsed (bp_string (ap_parsers A) ''role'')
       (ChangeUserRole_handler (ap_ext A) (ap_runtime A) (db_moderation_svc (ap_ext A))))"
  by (auto simp: api_handlers_def identityHandler_def dictionaryHandler_def communityHandler_def moderationHandler_def
      aiHandler_def docs_handlers_def Let_def)

text \<open>What the handler of an endpoint, called with these claims, may make of the standing of the account \<open>u\<close>\<close>

definition standing_change :: "api \<Rightarrow> string \<Rightarrow> raw_request \<Rightarrow> claims \<Rightarrow> uuid \<Rightarrow> string \<times> bool \<Rightarrow> (string \<times> bool) option \<Rightarrow> bool" where
  "standing_change A e c cl u = (\<lambda>(role, active) after.
     x_uuid_parse (ap_ext A) (rq_param c ''id'') = (u, True) \<and>
     (e = ''moderation.BanUser'' \<and> role \<noteq> ''admin'' \<and> after = Some (role, False) \<or>
      e = ''moderation.UnbanUser'' \<and> after = Some (role, True) \<or>
      e = ''moderation.ChangeUserRole'' \<and> fst (x_uuid_parse (ap_ext A) (cl_user_id cl)) \<noteq> u \<and>
        (\<exists>new. bp_string (ap_parsers A) ''role'' c = (new, True) \<and> new \<in> {''user'', ''admin''} \<and> after = Some (new, active))))"

lemma handler_standing:
  assumes "(e, h) \<in> set (api_handlers A)" and "e \<in> account_endpoints" and "rq_locals c = Some cl"
    and "standing s u = Some (role, active)" and "standing (snd (h c s)) u \<noteq> Some (role, active)"
  shows "standing_change A e c cl u (role, active) (standing (snd (h c s)) u)"
proof -
  let ?E = "ap_ext A" and ?R = "ap_runtime A" and ?v = "db_moderation_svc (ap_ext A)"
  let ?a = "fst (x_uuid_parse ?E (cl_user_id cl))"
  note handlers = with_claims_def GetClaims_def with_uuid_def parsed_def respond_user_def Let_def
  obtain t ok where t: "x_uuid_parse ?E (rq_param c ''id'') = (t, ok)" by fastforce
  from assms(2) consider "e = ''moderation.BanUser''" | "e = ''moderation.UnbanUser''" | "e = ''moderation.ChangeUserRole''"
    by (auto simp: account_endpoints_def)
  then show ?thesis
  proof cases
    case 1
    have h: "h = tagged ModerationPart (parsed (bp_string (ap_parsers A) ''reason'') (BanUser_handler ?E ?R ?v))"
      using account_handlers(1) [of h A] assms(1) 1 by simp
    have run: "snd (h c s) = (if ok then snd (BanUser ?R ?v ?a t (fst (bp_string (ap_parsers A) ''reason'' c)) s) else s)"
      using t assms(3) by (simp add: h BanUser_handler_def handlers)
    with assms(4,5) have ok by (auto split: if_splits)
    with run assms(5) have "standing (snd (BanUser ?R ?v ?a t (fst (bp_string (ap_parsers A) ''reason'' c)) s)) u \<noteq> Some (role, active)"
      by simp
    from ban_standing [OF assms(4) this] 1 t run \<open>ok\<close> show ?thesis by (auto simp: standing_change_def RoleAdmin_def)
  next
    case 2
    have h: "h = tagged ModerationPart (UnbanUser_handler ?E ?R ?v)"
      using account_handlers(2) [of h A] assms(1) 2 by simp
    have run: "snd (h c s) = (if ok then snd (UnbanUser ?R ?v ?a t s) else s)"
      using t assms(3) by (simp add: h UnbanUser_handler_def handlers)
    with assms(4,5) have ok by (auto split: if_splits)
    with run assms(5) have "standing (snd (UnbanUser ?R ?v ?a t s)) u \<noteq> Some (role, active)" by simp
    from unban_standing [OF assms(4) this] 2 t run \<open>ok\<close> show ?thesis by (auto simp: standing_change_def)
  next
    case 3
    obtain new set where new: "bp_string (ap_parsers A) ''role'' c = (new, set)" by fastforce
    have h: "h = tagged ModerationPart (parsed (bp_string (ap_parsers A) ''role'') (ChangeUserRole_handler ?E ?R ?v))"
      using account_handlers(3) [of h A] assms(1) 3 by simp
    have run: "snd (h c s) = (if ok \<and> set \<and> new \<noteq> [] then snd (ChangeUserRole ?R ?v ?a t new s) else s)"
      using t new assms(3) by (simp add: h ChangeUserRole_handler_def handlers)
    with assms(4,5) have ok: "ok \<and> set \<and> new \<noteq> []" by (auto split: if_splits)
    with run assms(5) have "standing (snd (ChangeUserRole ?R ?v ?a t new s)) u \<noteq> Some (role, active)" by simp
    from role_standing [OF assms(4) this] 3 t run ok new show ?thesis
      by (auto simp: standing_change_def RoleAdmin_def RoleUser_def)
  qed
qed

section \<open>A request\<close>

lemma kept_standing: "keeps_standing w w' \<Longrightarrow> standing w u = Some x \<Longrightarrow> standing w' u = Some x"
  unfolding keeps_standing_def by (metis option.distinct(1))

lemma account_standing_cases:
  assumes "fiber_groups (ap_fiber A)" and "standing w u = Some x"
  shows "standing (snd (serve A q w)) u = Some x \<or>
    (\<exists>gs pat e cl. dispatch (ap_fiber A) (hq_method q) (hq_path q) api_routes = Some (gs, pat, e) \<and> carries A q w cl \<and>
       cl_role cl = ''admin'' \<and>
       standing_change A e ((to_request q (fb_params (ap_fiber A) pat (hq_path q)))\<lparr>rq_locals := Some cl\<rparr>) cl u x
         (standing (snd (serve A q w)) u))"
  using accounts.account_request_traced [OF standing_recorded assms(1), of w q]
proof
  assume "keeps_standing w (snd (serve A q w))"
  then show ?thesis using kept_standing assms(2) by blast
next
  assume "accounts.handled_by account_endpoints A q w (snd (serve A q w))"
  then obtain gs pat e h cl v where d: "dispatch (ap_fiber A) (hq_method q) (hq_path q) api_routes = Some (gs, pat, e)"
    and h: "e \<in> account_endpoints" "(e, h) \<in> set (api_handlers A)" and cl: "carries A q w cl" "cl_role cl = ''admin''"
    and v: "keeps_standing w v"
    and out: "keeps_standing (snd (h ((to_request q (fb_params (ap_fiber A) pat (hq_path q)))\<lparr>rq_locals := Some cl\<rparr>) v)) (snd (serve A q w))"
    unfolding accounts.handled_by_def by blast
  let ?c = "(to_request q (fb_params (ap_fiber A) pat (hq_path q)))\<lparr>rq_locals := Some cl\<rparr>"
  obtain role active where x: "x = (role, active)" by fastforce
  from kept_standing [OF v assms(2)] x have v: "standing v u = Some (role, active)" by simp
  show ?thesis
  proof (cases "standing (snd (h ?c v)) u = Some (role, active)")
    case True
    with kept_standing [OF out] x show ?thesis by blast
  next
    case False
    from handler_standing [OF h(2,1) _ v False] have change: "standing_change A e ?c cl u x (standing (snd (h ?c v)) u)"
      by (simp add: x)
    then obtain y where "standing (snd (h ?c v)) u = Some y" by (auto simp: standing_change_def x)
    with kept_standing [OF out this] change have "standing_change A e ?c cl u x (standing (snd (serve A q w)) u)" by simp
    with d cl show ?thesis by blast
  qed
qed

text \<open>C1. The role of an account and whether it is active change in three ways only. Whatever a request is: after it an account
  stands as before, or the request carried a token that the server accepts, with the role of an admin, it was routed
  to one of three endpoints with the id of this account, and was a ban, of an account that is no admin, a lifted ban,
  or a change of role to the one in the body, by another account than the one of the token.\<close>

theorem account_standing_traced:
  assumes "fiber_groups (ap_fiber A)" and "standing w u = Some (role, active)"
  shows "standing (snd (serve A q w)) u = Some (role, active) \<or>
    (\<exists>gs pat e cl c. dispatch (ap_fiber A) (hq_method q) (hq_path q) api_routes = Some (gs, pat, e) \<and>
       carries A q w cl \<and> cl_role cl = ''admin'' \<and>
       c = (to_request q (fb_params (ap_fiber A) pat (hq_path q)))\<lparr>rq_locals := Some cl\<rparr> \<and>
       x_uuid_parse (ap_ext A) (rq_param c ''id'') = (u, True) \<and>
       (e = ''moderation.BanUser'' \<and> role \<noteq> ''admin'' \<and> standing (snd (serve A q w)) u = Some (role, False) \<or>
        e = ''moderation.UnbanUser'' \<and> standing (snd (serve A q w)) u = Some (role, True) \<or>
        e = ''moderation.ChangeUserRole'' \<and> fst (x_uuid_parse (ap_ext A) (cl_user_id cl)) \<noteq> u \<and>
          (\<exists>new. bp_string (ap_parsers A) ''role'' c = (new, True) \<and> new \<in> {''user'', ''admin''} \<and>
             standing (snd (serve A q w)) u = Some (new, active))))"
  using account_standing_cases [OF assms, of q] unfolding standing_change_def prod.case by blast

theorem account_standing_traced_witness:
  "\<exists>tok. GenerateAccessToken demo_ext ''k'' 0 (x_uuid_string demo_ext 2) ''admin'' = Inr tok \<and>
     standing sample_world 1 = Some (''user'', True) \<and>
     standing (snd (serve demo_api (demo_request ''PATCH'' ''/api/v2/admin/users/x/ban'' (''Bearer '' @ tok)) sample_world)) 1
       \<in> {Some (''user'', True), Some (''user'', False)}"
proof -
  obtain tok where tok: "GenerateAccessToken demo_ext ''k'' 0 (x_uuid_string demo_ext 2) ''admin'' = Inr tok"
    using demo_sign by blast
  let ?q = "demo_request ''PATCH'' ''/api/v2/admin/users/x/ban'' (''Bearer '' @ tok)"
  have user: "standing sample_world 1 = Some (''user'', True)"
    by (simp add: standing_def db_user_map_def sample_world_def db.defs sample_db_def db_empty_def table_simps user_toDomain_def sample_user_def)
  have "\<exists>gs. dispatch demo_fiber ''PATCH'' ''/api/v2/admin/users/x/ban'' api_routes =
      Some (gs, ''/api/v2/admin/users/:id/ban'', ''moderation.BanUser'')" by (rule exI, code_simp)
  moreover have "hq_method ?q = ''PATCH''" "hq_path ?q = ''/api/v2/admin/users/x/ban''" by (simp_all add: demo_request_def)
  ultimately show ?thesis
    using account_standing_traced [of demo_api sample_world 1 "''user''" True ?q] demo_fiber_groups user tok
    by (auto simp: demo_api_fields)
qed

end
