(* ===== verification/Request_Log.thy ===== *)
theory Request_Log
  imports Server_Properties Ai_Contract
begin

text \<open>
  What the log says about a request. No command writes it: the view \<open>wd_log\<close> passes through all of them, so
  what a request adds to it is the one entry of the middleware, or none.
\<close>

section \<open>No command writes the log\<close>

lemma log_blind:
  "session_blind wd_log" "identity_blind wd_log" "community_blind wd_log" "dictionary_blind wd_log"
  by (simp_all add: session_blind_def identity_blind_def community_blind_def dictionary_blind_def)

interpretation log_view: unstored wd_log
  by unfold_locales (simp_all add: log_blind)

lemma log_moderation:
  "frames (wd_log :: world \<Rightarrow> _) (BanUser (db_runtime E) (db_moderation_svc E) i j reason)"
  "frames (wd_log :: world \<Rightarrow> _) (UnbanUser (db_runtime E) (db_moderation_svc E) i j)"
  "frames (wd_log :: world \<Rightarrow> _) (ChangeUserRole (db_runtime E) (db_moderation_svc E) i j rl)"
  unfolding BanUser_def UnbanUser_def ChangeUserRole_def log_action_def NewAuditLog_def moderation_fields Let_def
  by (intro frame_intros log_blind log_view.repositories log_view.audited)+

interpretation unlogged: admin_api "same wd_log" A for A
  by unfold_locales
    (simp_all only: moves_same frames_session frames_sessions frames_session_commands frames_identity_commands
       frames_community_commands frames_votes log_view.curation_frames log_moderation enrichmentSvc_def log_blind
       same_def)

lemma handle_log: "wd_log (snd (handle A q w)) = wd_log w"
  using unlogged.any_request_handled [of w A q] by (simp add: same_def)

section \<open>What a request adds\<close>

definition logged :: "log_entry \<Rightarrow> string \<Rightarrow> log_value option" where
  "logged e key = map_of (le_attrs e) key"

lemma RequestLogger_adds:
  assumes "RequestLogger now write_log m p next c w = (resp, w')" and "\<And>c w. wd_log (snd (next c w)) = wd_log w"
  shows "case rs_return resp of
      Panics \<Rightarrow> wd_log w' = wd_log w
    | ReturnsNil \<Rightarrow> \<exists>e. wd_log w' = wd_log w @ [e] \<and> le_level e = LevelInfo \<and>
        logged e ''status'' = Some (LogInt (int (rs_status resp))) \<and> logged e ''error'' = None \<and>
        logged e ''request_id'' = (if rq_header c ''X-Request-ID'' = [] then None else Some (LogString (rq_header c ''X-Request-ID'')))
    | ReturnsError sent text \<Rightarrow> \<exists>e. wd_log w' = wd_log w @ [e] \<and> le_level e = LevelError \<and>
        logged e ''status'' = Some (LogInt (int sent)) \<and> logged e ''error'' = Some (LogString text) \<and>
        logged e ''request_id'' = (if rq_header c ''X-Request-ID'' = [] then None else Some (LogString (rq_header c ''X-Request-ID'')))"
proof -
  obtain w1 where step: "next c w = (resp, w1)" using assms(1) by (auto simp: RequestLogger_def Let_def split: prod.splits)
  with assms(2) [of c w] have "wd_log w1 = wd_log w" by simp
  with assms(1) step show ?thesis
    by (cases "rs_return resp") (auto simp: RequestLogger_def Let_def write_log_def logged_def map_add_def)
qed

lemma request_logged_cases:
  assumes serve: "serve A q w = ((reqID, resp), w')"
  shows "if 1048576 < length (hq_body q) then reqID = [] \<and> rs_status resp = 413 \<and> w' = w
     else if \<not> fb_known (ap_fiber A) (hq_method q) then
       reqID = [] \<and> rs_status resp = 400 \<and> rs_body resp = TextBody ''Invalid http method'' \<and> w' = w
     else
       reqID = (if hq_header q ''X-Request-ID'' = [] then x_uuid_string (ap_ext A) (x_new_uuid (ap_ext A) (db_draws w))
             else hq_header q ''X-Request-ID'') \<and>
       (case rs_return resp of
          Panics \<Rightarrow> wd_log w' = wd_log w
        | ReturnsNil \<Rightarrow> \<exists>e. wd_log w' = wd_log w @ [e] \<and> le_level e = LevelInfo \<and>
            logged e ''status'' = Some (LogInt (int (rs_status resp))) \<and> logged e ''error'' = None \<and>
            logged e ''request_id'' = (if hq_header q ''X-Request-ID'' = [] then None else Some (LogString reqID))
        | ReturnsError sent text \<Rightarrow> \<exists>e. wd_log w' = wd_log w @ [e] \<and> le_level e = LevelError \<and>
            logged e ''status'' = Some (LogInt (int sent)) \<and> logged e ''error'' = Some (LogString text) \<and>
            logged e ''request_id'' = (if hq_header q ''X-Request-ID'' = [] then None else Some (LogString reqID)))"
proof (cases "1048576 < length (hq_body q) \<or> \<not> fb_known (ap_fiber A) (hq_method q)")
  case True
  with serve show ?thesis by (auto simp: serve_def BodyLimit_def ErrorHandler_def Send_def invalid_method_def)
next
  case False
  let ?c = "to_request q (\<lambda>_. [])"
  let ?log = "RequestLogger db_now write_log (hq_method q) (hq_path q) (\<lambda>_. handle A q) ?c"
  let ?w1 = "if hq_header q ''X-Request-ID'' = [] then w\<lparr>db_draws := Suc (db_draws w)\<rparr> else w"
  have run: "?log ?w1 = (resp, w')"
    and reqID: "reqID = (if hq_header q ''X-Request-ID'' = [] then x_uuid_string (ap_ext A) (x_new_uuid (ap_ext A) (db_draws w))
      else hq_header q ''X-Request-ID'')"
    using serve False
    by (auto simp: serve_def BodyLimit_def RequestID_def to_request_def db_runtime_def Let_def split: prod.splits if_splits)
  have header: "rq_header ?c = hq_header q" by (simp add: to_request_def)
  have start: "wd_log ?w1 = wd_log w" by simp
  from RequestLogger_adds [OF run handle_log, unfolded header start] False show ?thesis
    by (cases "rs_return resp") (simp_all add: reqID split: if_splits)
qed

text \<open>C8. A request with a body above the limit or with a method that Fiber does not know is answered before the middleware:
  it gets no request id and no entry in the log, and changes nothing. Every other response has a request id: the one of
  the request, or a new one; and the log gets one entry for the request, unless the handler panics: with the status of the response if the handler
  returns no error, with the status sent before the error otherwise. The entry has the request id only if the
  request came with one: an id that the server has made is never logged.\<close>

theorem request_logged:
  "case serve A q w of ((reqID, resp), w') \<Rightarrow>
     if 1048576 < length (hq_body q) then reqID = [] \<and> rs_status resp = 413 \<and> w' = w
     else if \<not> fb_known (ap_fiber A) (hq_method q) then
       reqID = [] \<and> rs_status resp = 400 \<and> rs_body resp = TextBody ''Invalid http method'' \<and> w' = w
     else
       reqID = (if hq_header q ''X-Request-ID'' = [] then x_uuid_string (ap_ext A) (x_new_uuid (ap_ext A) (db_draws w))
             else hq_header q ''X-Request-ID'') \<and>
       (case rs_return resp of
          Panics \<Rightarrow> wd_log w' = wd_log w
        | ReturnsNil \<Rightarrow> \<exists>e. wd_log w' = wd_log w @ [e] \<and> le_level e = LevelInfo \<and>
            logged e ''status'' = Some (LogInt (int (rs_status resp))) \<and> logged e ''error'' = None \<and>
            logged e ''request_id'' = (if hq_header q ''X-Request-ID'' = [] then None else Some (LogString reqID))
        | ReturnsError sent text \<Rightarrow> \<exists>e. wd_log w' = wd_log w @ [e] \<and> le_level e = LevelError \<and>
            logged e ''status'' = Some (LogInt (int sent)) \<and> logged e ''error'' = Some (LogString text) \<and>
            logged e ''request_id'' = (if hq_header q ''X-Request-ID'' = [] then None else Some (LogString reqID)))"
proof -
  obtain reqID resp w' where run: "serve A q w = ((reqID, resp), w')" by (metis surj_pair)
  from request_logged_cases [OF run] show ?thesis unfolding run prod.case .
qed

text \<open>C38. A request with a known method and a body within the limit, which no route takes and on whose path no group has a
  guard, is answered with the status of the router, 404 for example, but logged with the status 200: the logger runs
  before the error handler.\<close>

theorem unmatched_logged_200:
  assumes "dispatch (ap_fiber A) (hq_method q) (hq_path q) api_routes = None"
    and "group_guards (ap_fiber A) (hq_path q) api_routes = []" and "length (hq_body q) \<le> 1048576"
    and "fb_known (ap_fiber A) (hq_method q)" and "serve A q w = ((reqID, resp), w')"
  shows "rs_status resp = fst (fb_unmatched (ap_fiber A) (hq_method q) (hq_path q)) \<and>
    (\<exists>e. wd_log w' = wd_log w @ [e] \<and> logged e ''status'' = Some (LogInt 200) \<and> le_level e = LevelError)"
proof -
  obtain code msg where router: "fb_unmatched (ap_fiber A) (hq_method q) (hq_path q) = (code, msg)" by fastforce
  have out: "handle A q v = (return_error 200 (Some code) msg, v)" for v
    using assms(1,2) router by (simp add: handle_def Let_def)
  then have resp: "resp = return_error 200 (Some code) msg"
    using assms(3-5) by (auto simp: serve_def BodyLimit_def RequestID_def RequestLogger_def Let_def split: prod.splits if_splits)
  with request_logged_cases [OF assms(5)] assms(3,4) router show ?thesis
    by (auto simp: return_error_def ErrorHandler_def Send_def)
qed

theorem unmatched_logged_200_witness:
  "\<exists>reqID resp w' e. serve demo_api (demo_request ''GET'' ''/nowhere'' []) sample_world = ((reqID, resp), w') \<and>
     rs_status resp = 404 \<and> wd_log w' = [e] \<and> logged e ''status'' = Some (LogInt 200)"
proof -
  let ?q = "demo_request ''GET'' ''/nowhere'' []"
  obtain reqID resp w' where run: "serve demo_api ?q sample_world = ((reqID, resp), w')" by (metis surj_pair)
  have "dispatch demo_fiber ''GET'' ''/nowhere'' api_routes = None" "group_guards demo_fiber ''/nowhere'' api_routes = []"
    by code_simp+
  moreover have "hq_method ?q = ''GET''" "hq_path ?q = ''/nowhere''" "hq_body ?q = []"
    by (simp_all add: demo_request_def)
  moreover have "fst (fb_unmatched demo_fiber m path) = 404" "fb_known demo_fiber ''GET''" for m path
    by (simp_all add: demo_fiber_def)
  moreover have "wd_log sample_world = []" by (simp add: sample_world_def db.defs)
  ultimately have "rs_status resp = 404" "\<exists>e. wd_log w' = [e] \<and> logged e ''status'' = Some (LogInt 200)"
    using unmatched_logged_200 [OF _ _ _ _ run] by (auto simp: demo_api_fields)
  with run show ?thesis by blast
qed

end
