(* ===== verification/Envelopes.thy ===== *)
theory Envelopes
  imports Server_Properties
begin

text \<open>
  What a client can rely on in every answer of the server: which codes come with which status, that no message of an
  error is empty, and that its body has the shape that the tests of the repository check (\<open>testutil/oas.go\<close>). The
  reference is the table of error codes in \<open>PRD.md\<close>; what leaves it is listed by endpoint. An answer that is in order
  is preserved by the pieces that handlers are made of, then by the guards, the router and the middleware.
\<close>

section \<open>The error envelope as JSON\<close>

definition error_detail_json :: "error_detail \<Rightarrow> json" where
  "error_detail_json d =
     JObj ((if ed_field d = [] then [] else [(''field'', JStr (ed_field d))]) @ [(''message'', JStr (ed_message d))])"

definition error_json :: "error_response \<Rightarrow> json" where
  "error_json e =
     JObj [(''success'', JBool False),
       (''error'', JObj ([(''code'', JStr (er_code e)), (''message'', JStr (er_message e))] @
          (if er_details e = [] then []
           else [(''details'', JArr (map error_detail_json (er_details e)))])))]"

text \<open>The checks of the test helper on a parsed body: \<open>NotEmpty\<close> fails for a missing field and for an empty text.\<close>

definition AssertErrorEnvelope :: "json \<Rightarrow> bool" where
  "AssertErrorEnvelope body =
     (case body of
        JObj env \<Rightarrow>
          map_of env ''success'' = Some (JBool False) \<and>
          (case map_of env ''error'' of
             Some (JObj err) \<Rightarrow>
               map_of err ''code'' \<notin> {None, Some JNull, Some (JStr [])} \<and>
               map_of err ''message'' \<notin> {None, Some JNull, Some (JStr [])}
           | _ \<Rightarrow> False)
      | _ \<Rightarrow> False)"

lemma error_json_ok: "AssertErrorEnvelope (error_json e) = (er_code e \<noteq> [] \<and> er_message e \<noteq> [])"
  by (simp add: AssertErrorEnvelope_def error_json_def)

section \<open>Codes and statuses\<close>

text \<open>The table of error codes in \<open>PRD.md\<close>, section 5.8\<close>

definition documented_errors :: "(nat \<times> string) list" where
  "documented_errors =
     [(422, ''VALIDATION_ERROR''), (401, ''UNAUTHORIZED''), (403, ''FORBIDDEN''), (404, ''NOT_FOUND''),
      (409, ''CONFLICT''), (429, ''RATE_LIMITED''), (503, ''AI_UNAVAILABLE''), (500, ''INTERNAL_ERROR'')]"

text \<open>The answers of an endpoint that are not in the table\<close>

definition endpoint_deviations :: "string \<Rightarrow> (nat \<times> string) list" where
  "endpoint_deviations e =
     (if e = ''moderation.GetUser'' then [(400, ''NOT_FOUND'')]
      else if e \<in> {''ai.EnrichDefinition'', ''ai.SuggestExample'', ''ai.SuggestRelated''} then
        [(400, ''INTERNAL_ERROR''), (401, ''INTERNAL_ERROR'')]
      else if e \<in> {''ai.QualityCheck'', ''ai.ApproveAIRequest'', ''ai.RejectAIRequest''} then
        [(400, ''VALIDATION_ERROR''), (401, ''FORBIDDEN'')]
      else if e \<in> {''ai.ListAIRequests'', ''ai.GetAIRequest''} then [(400, ''VALIDATION_ERROR'')]
      else [])"

definition deviations :: "api \<Rightarrow> http_request \<Rightarrow> (nat \<times> string) list" where
  "deviations A q =
     (if BodyLimit < length (hq_body q) then [(413, ''INTERNAL_ERROR'')]
      else case dispatch (ap_fiber A) (hq_method q) (hq_path q) api_routes of
        None \<Rightarrow> [(404, ''INTERNAL_ERROR''), (405, ''INTERNAL_ERROR'')]
      | Some (gs, pat, e) \<Rightarrow> endpoint_deviations e)"

text \<open>An answer is in order if its status fits its body, up to the pairs in \<open>T\<close>, and an error passes the check.\<close>

definition answer_ok :: "(nat \<times> string) list \<Rightarrow> 'd response \<Rightarrow> bool" where
  "answer_ok T r \<longleftrightarrow>
     (case rs_body r of
        ErrorBody e \<Rightarrow>
          (rs_status r, er_code e) \<in> set documented_errors \<union> set T \<and>
          AssertErrorEnvelope (error_json e)
      | DataBody d \<Rightarrow> rs_status r \<in> {200, 201, 202}
      | PageBody d m \<Rightarrow> rs_status r = 200
      | NoBody \<Rightarrow> rs_status r = 204
      | TextBody t \<Rightarrow> False)"

definition answers :: "(nat \<times> string) list \<Rightarrow> ('s, 'b, 'd) handler \<Rightarrow> bool" where
  "answers T h \<longleftrightarrow> (\<forall>c s. answer_ok T (fst (h c s)))"

lemmas code_texts = CodeValidation_def CodeUnauth_def CodeForbidden_def CodeNotFound_def CodeConflict_def
  CodeRateLimited_def CodeAIUnavail_def CodeInternal_def

lemmas error_constructors = Validation_def Unauthorized_def Forbidden_def NotFound_def Conflict_def RateLimited_def
  AIUnavailable_def Internal_def newError_def code_texts

lemma answer_sent [simp]:
  "answer_ok T (Send 422 (Validation m ds)) = (m \<noteq> [])" "answer_ok T (Send 401 (Unauthorized m)) = (m \<noteq> [])"
  "answer_ok T (Send 403 (Forbidden m)) = (m \<noteq> [])" "answer_ok T (Send 404 (NotFound m)) = (m \<noteq> [])"
  "answer_ok T (Send 409 (Conflict m)) = (m \<noteq> [])" "answer_ok T (Send 429 (RateLimited m)) = (m \<noteq> [])"
  "answer_ok T (Send 503 (AIUnavailable m)) = (m \<noteq> [])" "answer_ok T (Send 500 (Internal m)) = (m \<noteq> [])"
  by (simp_all add: answer_ok_def Send_def error_json_ok documented_errors_def error_constructors)

text \<open>Off the table\<close>

lemma answer_deviating:
  "(400, ''VALIDATION_ERROR'') \<in> set T \<Longrightarrow> answer_ok T (Send 400 (Validation m ds)) = (m \<noteq> [])"
  "(401, ''FORBIDDEN'') \<in> set T \<Longrightarrow> answer_ok T (Send 401 (Forbidden m)) = (m \<noteq> [])"
  "(400, ''NOT_FOUND'') \<in> set T \<Longrightarrow> answer_ok T (Send 400 (NotFound m)) = (m \<noteq> [])"
  by (auto simp: answer_ok_def Send_def error_json_ok documented_errors_def error_constructors)

lemma answer_data [simp]:
  "answer_ok T (OK d)" "answer_ok T (Created d)" "answer_ok T (Accepted d)" "answer_ok T (Paginated d m)"
  "answer_ok T NoContent"
  by (simp_all add: answer_ok_def OK_def Created_def Accepted_def Paginated_def NoContent_def)

lemma answer_error_handler:
  "(code, ''INTERNAL_ERROR'') \<in> set T \<Longrightarrow> t \<noteq> [] \<Longrightarrow> answer_ok T (ErrorHandler (Some code) t)"
  "(code, ''INTERNAL_ERROR'') \<in> set T \<Longrightarrow> t \<noteq> [] \<Longrightarrow> answer_ok T (return_error sent (Some code) t)"
  by (auto simp: answer_ok_def return_error_def ErrorHandler_def Send_def error_json_ok)

lemma answer_panic [simp]: "answer_ok T panic_response"
  by (simp add: answer_ok_def panic_response_def ErrorHandler_def Send_def documented_errors_def error_json_ok)

section \<open>The texts of errors\<close>

lemma sentinel_texts [simp]:
  "identity_text a \<noteq> []" "dictionary_text b \<noteq> []" "community_text c \<noteq> []" "community_cmd_text d \<noteq> []"
  "moderation_text e \<noteq> []" "moderation_cmd_text f \<noteq> []" "ai_text g \<noteq> []" "ai_cmd_text h \<noteq> []"
proof -
  show "identity_text a \<noteq> []" by (cases a) simp_all
  show "dictionary_text b \<noteq> []" by (cases b) simp_all
  show "community_text c \<noteq> []" by (cases c) simp_all
  show "community_cmd_text d \<noteq> []" by (cases d) simp_all
  show "moderation_text e \<noteq> []" by (cases e) simp_all
  show "moderation_cmd_text f \<noteq> []" by (cases f) simp_all
  show "ai_text g \<noteq> []" by (cases g) simp_all
  show "ai_cmd_text h \<noteq> []" by (cases h) simp_all
qed

lemma wrapped_text: "errors_is e t \<Longrightarrow> (\<And>p x. t \<noteq> Wrapped p x) \<Longrightarrow> err_text sql t \<noteq> [] \<Longrightarrow> err_text sql e \<noteq> []"
  by (induction e t rule: errors_is.induct) auto

lemma sentinel_text [simp]:
  "errors_is e (Identity a) \<Longrightarrow> err_text sql e \<noteq> []" "errors_is e (Dictionary b) \<Longrightarrow> err_text sql e \<noteq> []"
  "errors_is e (Community c) \<Longrightarrow> err_text sql e \<noteq> []" "errors_is e (CommunityCmd d) \<Longrightarrow> err_text sql e \<noteq> []"
  "errors_is e (Ai g) \<Longrightarrow> err_text sql e \<noteq> []" "errors_is e (AiCmd h) \<Longrightarrow> err_text sql e \<noteq> []"
  by (erule wrapped_text; simp)+

section \<open>Handlers\<close>

lemma answersD: "answers T h \<Longrightarrow> answer_ok T (fst (h c s))"
  by (simp add: answers_def)

lemma answer_respond [simp]:
  assumes "\<And>e. answer_ok T (on_err e)" and "\<And>x. answer_ok T (on_ok x)"
  shows "answer_ok T (fst (respond on_err on_ok m s))"
  using assms by (simp add: respond_def split: prod.split sum.split)

lemma answers_tagged [simp]: "answers T (tagged f h) = answers T h"
proof -
  have mapped: "answer_ok T \<lparr>rs_status = rs_status r, rs_body = map_body f (rs_body r), rs_return = rs_return r\<rparr> = answer_ok T r"
    for r by (cases "rs_body r") (simp_all add: answer_ok_def)
  have "answer_ok T (fst (tagged f h c s)) = answer_ok T (fst (h c s))" for c s
    by (simp add: tagged_def mapped split: prod.split)
  then show ?thesis by (simp add: answers_def)
qed

lemma answers_parsed [intro]: "answers T h \<Longrightarrow> answers T (parsed p h)"
  by (simp add: answers_def parsed_def)

lemma answer_errors [simp]:
  "answer_ok T (mapDomainError E e)" "answer_ok T (mapWordError E e)" "answer_ok T (mapContributionError E e)"
  "answer_ok T (mapCommentError E e)" "answer_ok T (internal_error e)" "answer_ok T (mapModerationError e)"
  "answer_ok T (mapEnrichmentError E e)"
  by (auto simp: mapDomainError_def mapWordError_def mapContributionError_def mapCommentError_def internal_error_def
      mapModerationError_def mapEnrichmentError_def Let_def)

lemma answer_parse: "Parse c = Inl e \<Longrightarrow> answer_ok T (Send 422 e)"
  by (auto simp: Parse_def parsePositiveInt_def split: option.splits if_splits)

lemma answer_on_uuid: "(\<And>i. answer_ok T (fst (k i s))) \<Longrightarrow> answer_ok T bad \<Longrightarrow> answer_ok T (fst (with_uuid E t bad k s))"
  by (simp add: with_uuid_def split: prod.split)

lemma answer_on_claims: "(\<And>cl. answer_ok T (fst (h cl c s))) \<Longrightarrow> answer_ok T (fst (with_claims h c s))"
  by (simp add: with_claims_def split: option.split)

lemmas answer_pieces = answer_on_uuid answer_on_claims answer_respond

lemma identity_answers:
  "answers T (Register E R v)" "answers T (Login E R secret v)" "answers T (RefreshToken_handler E R secret v)"
  "answers T (Logout v)" "answers T (VerifyEmail_handler E R v)" "answers T (ForgotPassword_handler E R v)"
  "answers T (ResetPassword_handler E R v)" "answers T Me" "answers T (UpdateProfile_handler E R v)"
  "answers T (ChangePassword_handler E R v)"
  by (auto simp: answers_def Register_def Login_def RefreshToken_handler_def Logout_def VerifyEmail_handler_def
      ForgotPassword_handler_def ResetPassword_handler_def Me_def UpdateProfile_handler_def ChangePassword_handler_def
      split: prod.split option.split intro!: answer_pieces)

text \<open>The list of words alone puts the text of an error into its answer. It is the text of a driver, as no other error
  comes from its statements.\<close>

definition driver_texts :: "ext \<Rightarrow> bool" where
  "driver_texts E \<longleftrightarrow> (\<forall>e. x_sql_text E e \<noteq> [])"

lemma list_errors:
  assumes "(if q \<noteq> [] then SearchWords (PostgresWordRepository E) q f p n else ListWords (PostgresWordRepository E) f p n) d = (Inl e, d')"
  shows "\<exists>x. e = Sql x"
  using assms
  by (auto simp: SearchWords_def ListWords_def PostgresWordRepository_def WordRepo_FindAll_def WordRepo_Search_def Let_def
      ListWords_stmt_def SearchWords_stmt_def CountWords_def CountSearchWords_def readP_def prog_defs hydrateMany_run limit_offset_def
      count_int_def split: if_splits sum.splits prod.splits)

lemma list_answers:
  "driver_texts E \<Longrightarrow> answers T (ListWords_handler E (PostgresWordRepository E) :: ('b db_scheme, 'a, dictionary_data) handler)"
proof -
  assume "driver_texts E"
  then have shown: "answer_ok T (Send 500 (Internal (err_text (x_sql_text E) e)) :: dictionary_data response)" if "\<exists>x. e = Sql x" for e
    using that by (auto simp: driver_texts_def)
  have "answer_ok T (fst (ListWords_handler E (PostgresWordRepository E) c s))" for c :: "'a request" and s :: "'b db_scheme"
  proof (cases "Parse c")
    case (Inl e)
    with answer_parse show ?thesis by (simp add: ListWords_handler_def)
  next
    case (Inr p)
    obtain r s' where run: "(if rq_query c ''q'' \<noteq> []
        then SearchWords (PostgresWordRepository E) (rq_query c ''q'') (buildFilter c) (pg_page p) (pg_per_page p)
        else ListWords (PostgresWordRepository E) (buildFilter c) (pg_page p) (pg_per_page p)) s = (r, s')" by fastforce
    with Inr have "fst (ListWords_handler E (PostgresWordRepository E) c s) =
        (case r of Inl e \<Rightarrow> Send 500 (Internal (err_text (x_sql_text E) e))
         | Inr x \<Rightarrow> Paginated (SummaryData (map toWordSummaryResponse (lr_words x))) (lr_meta x))"
      by (simp add: ListWords_handler_def Let_def respond_def split: sum.split)
    moreover have "answer_ok T (Send 500 (Internal (err_text (x_sql_text E) e)) :: dictionary_data response)" if "r = Inl e" for e
      using run that by (intro shown list_errors [where d = s and d' = s']) simp
    ultimately show ?thesis by (cases r) auto
  qed
  then show "answers T (ListWords_handler E (PostgresWordRepository E) :: ('b db_scheme, 'a, dictionary_data) handler)"
    by (simp add: answers_def)
qed

lemma dictionary_answers:
  "answers T (GetWord_handler E v)" "answers T (GetDefinitions E v)"
  "answers T (GetExamples E v)" "answers T (GetRelatedWords E v)" "answers T (AdminCreateWord E R v)"
  "answers T (AdminUpdateWord E R v)" "answers T (AdminDeleteWord E v)"
  by (auto simp: answers_def GetWord_handler_def GetDefinitions_def GetExamples_def
      GetRelatedWords_def AdminCreateWord_def AdminUpdateWord_def AdminDeleteWord_def Let_def
      split: prod.split sum.split intro!: answer_pieces dest: answer_parse)

lemma answer_decide [simp]:
  assumes "\<And>x e. change x = Inl e \<Longrightarrow> e = Community ErrInvalidTransition"
  shows "answer_ok T (fst (decide E v r i change s))"
  by (auto simp: decide_def dest!: assms split: prod.split sum.split)

lemma decision_errors:
  "Approve now r n x = Inl e \<Longrightarrow> e = Community ErrInvalidTransition"
  "Reject now r n x = Inl e \<Longrightarrow> e = Community ErrInvalidTransition"
  by (auto simp: Approve_def Reject_def split: if_splits)

lemma contribution_answers:
  "answers T (ListContributions_handler E cs)" "answers T (SubmitContribution_handler E R cs)"
  "answers T (GetContribution_handler E cs)" "answers T (WithdrawContribution_handler E cs)"
  "answers T (ApproveContribution_handler E R cs)" "answers T (RejectContribution_handler E R cs)"
  by (auto simp: answers_def ListContributions_handler_def SubmitContribution_handler_def
      GetContribution_handler_def WithdrawContribution_handler_def ApproveContribution_handler_def
      RejectContribution_handler_def Let_def split: prod.split sum.split option.split
      intro!: answer_pieces answer_decide dest: decision_errors answer_parse)

lemma vote_answers:
  "answers T (CastWordVote E R vs)" "answers T (RemoveWordVote E vs)" "answers T (CastDefinitionVote E R vs)"
  "answers T (RemoveDefinitionVote E vs)"
  by (auto simp: answers_def CastWordVote_def RemoveWordVote_def CastDefinitionVote_def RemoveDefinitionVote_def
      castVote_def removeVote_def Let_def split: prod.split intro!: answer_pieces)

lemma bookmark_answers:
  "answers T (ListBookmarks_handler E bs)" "answers T (AddBookmark_handler E R bs)" "answers T (RemoveBookmark_handler E bs)"
  by (auto simp: answers_def ListBookmarks_handler_def AddBookmark_handler_def RemoveBookmark_handler_def Let_def
      split: prod.split sum.split intro!: answer_pieces dest: answer_parse)

lemma comment_answers:
  "answers T (ListComments_handler E ms)" "answers T (PostComment_handler E R ms)"
  "answers T (EditComment_handler E R ms)" "answers T (DeleteComment_handler E ms)" "answers T (FlagComment_handler E R ms)"
  by (auto simp: answers_def ListComments_handler_def PostComment_handler_def EditComment_handler_def
      DeleteComment_handler_def FlagComment_handler_def Let_def split: prod.split sum.split intro!: answer_pieces dest: answer_parse)

lemma moderation_answers:
  "answers T (GetModerationQueue_handler v)" "answers T (GetFlaggedComments_handler v)"
  "answers T (GetModerationStats_handler v)" "answers T (ListUsers_handler v)"
  "answers T (BanUser_handler E R v)" "answers T (UnbanUser_handler E R v)" "answers T (ChangeUserRole_handler E R v)"
  by (auto simp: answers_def GetModerationQueue_handler_def GetFlaggedComments_handler_def
      GetModerationStats_handler_def ListUsers_handler_def BanUser_handler_def
      UnbanUser_handler_def ChangeUserRole_handler_def respond_user_def Let_def
      split: prod.split sum.split intro!: answer_pieces dest: answer_parse)

lemma answer_start_job [simp]: "answer_ok T (fst (start_job E sp m s))"
  by (simp add: start_job_def split: prod.split sum.split)

lemma translate_answers: "answers T (Translate E ts)"
  by (auto simp: answers_def Translate_def Let_def split: prod.split intro!: answer_pieces)

text \<open>The handlers that leave the table\<close>

lemma user_answers: "(400, ''NOT_FOUND'') \<in> set T \<Longrightarrow> answers T (GetUser_handler E v)"
  by (auto simp: answers_def GetUser_handler_def answer_deviating intro!: answer_pieces)

lemma adminAndWord_answers:
  assumes "(400, ''INTERNAL_ERROR'') \<in> set T" "(401, ''INTERNAL_ERROR'') \<in> set T"
  shows "adminAndWord E c = Inl r \<Longrightarrow> answer_ok T r"
  using assms by (auto simp: adminAndWord_def answer_error_handler split: option.splits prod.splits if_splits)

lemma trigger_answers:
  assumes "(400, ''INTERNAL_ERROR'') \<in> set T" "(401, ''INTERNAL_ERROR'') \<in> set T"
  shows "answers T (EnrichDefinition E R sp v)" "answers T (SuggestExample E R sp v)"
    "answers T (SuggestRelated E R sp v)"
  by (auto simp: answers_def EnrichDefinition_def SuggestExample_def SuggestRelated_def on_word_def
      dest: adminAndWord_answers [OF assms] split: sum.split prod.split)

lemma review_answers:
  assumes "(400, ''VALIDATION_ERROR'') \<in> set T" "(401, ''FORBIDDEN'') \<in> set T"
  shows "answers T (QualityCheck E R sp v)" "answers T (ApproveAIRequest_handler E R v)"
    "answers T (RejectAIRequest_handler E R v)"
  using assms
  by (auto simp: answers_def QualityCheck_def ApproveAIRequest_handler_def RejectAIRequest_handler_def
      respond_request_def with_admin_def answer_deviating split: option.split intro!: answer_pieces)

lemma requests_answers:
  assumes "(400, ''VALIDATION_ERROR'') \<in> set T"
  shows "answers T (ListAIRequests E v)" "answers T (GetAIRequest_handler E v)"
  using assms
  by (auto simp: answers_def ListAIRequests_def ai_page_def GetAIRequest_handler_def respond_request_def
      answer_deviating split: prod.split intro!: answer_pieces)

lemmas table_answers = identity_answers dictionary_answers contribution_answers vote_answers bookmark_answers
  comment_answers moderation_answers translate_answers

section \<open>The server\<close>

lemma answers_constant [intro]: "answer_ok T r \<Longrightarrow> answers T (\<lambda>c s. (r, s))"
  by (simp add: answers_def)

lemma health_answers: "answers T health_handler"
  by (simp add: answers_def health_handler_def)

definition keeps_table :: "string \<times> api_handler \<Rightarrow> bool" where
  "keeps_table = (\<lambda>(e, h). answers (endpoint_deviations e) h)"

lemma parts_answer:
  assumes "driver_texts (ap_ext A)"
  shows "list_all keeps_table (identityHandler A)" "list_all keeps_table (dictionaryHandler A)"
  "list_all keeps_table (communityHandler A)" "list_all keeps_table (moderationHandler A)"
  "list_all keeps_table (aiHandler A)" "list_all keeps_table (docs_handlers A)"
  by (simp_all add: keeps_table_def identityHandler_def dictionaryHandler_def communityHandler_def
      moderationHandler_def aiHandler_def docs_handlers_def Let_def answers_parsed table_answers list_answers [OF assms] answers_constant)
    (simp_all add: endpoint_deviations_def user_answers trigger_answers review_answers requests_answers)

lemma handlers_answer: "driver_texts (ap_ext A) \<Longrightarrow> (e, h) \<in> set (api_handlers A) \<Longrightarrow> answers (endpoint_deviations e) h"
  using parts_answer [of A] by (fastforce simp: api_handlers_def list_all_iff keeps_table_def health_answers)

lemma limiter_answers: "answers T h \<Longrightarrow> answers T (AdaptiveLimiter ct kf win h)"
  by (auto simp: answers_def AdaptiveLimiter_def split: prod.split sum.split)

lemma guard_answers: "answers T h \<Longrightarrow> answers T (guard_mw E R secret ct g h)"
proof (cases "is_limit g")
  case True
  with limiter_answers show "answers T h \<Longrightarrow> answers T (guard_mw E R secret ct g h)"
    by (auto simp: is_limit_def guard_mw_def loginRL_def limiter_eta)
next
  case False
  then show "answers T h \<Longrightarrow> answers T (guard_mw E R secret ct g h)"
    by (cases g) (auto simp: answers_def is_limit_def guard_mw_def RequireAuth_def TryAuth_def
        RequireRole_def Let_def split: sum.split option.split)
qed

lemma guards_answer: "answers T h \<Longrightarrow> answers T (apply_guards E R secret ct gs h)"
  by (induction gs) (simp_all add: guard_answers)

text \<open>For a request without a route the router of Fiber brings 404 or 405, with a message.\<close>

definition fiber_errors :: "fiber \<Rightarrow> bool" where
  "fiber_errors F \<longleftrightarrow> (\<forall>m p. fst (fb_unmatched F m p) \<in> {404, 405} \<and> snd (fb_unmatched F m p) \<noteq> [])"

lemma handle_answers:
  assumes "fiber_errors (ap_fiber A)" "driver_texts (ap_ext A)" and "length (hq_body q) \<le> BodyLimit"
  shows "answer_ok (deviations A q) (fst (handle A q w))"
proof (cases "dispatch (ap_fiber A) (hq_method q) (hq_path q) api_routes")
  case None
  obtain code msg where router: "fb_unmatched (ap_fiber A) (hq_method q) (hq_path q) = (code, msg)" by fastforce
  with assms(1) have "code \<in> {404, 405} \<and> msg \<noteq> []" unfolding fiber_errors_def by (metis fst_conv snd_conv)
  with None assms(3) have "answers (deviations A q) (\<lambda>(c :: raw_request) (s :: world). (return_error 200 (Some code) msg :: api_data response, s))"
    by (auto simp: deviations_def intro!: answers_constant answer_error_handler)
  from answersD [OF guards_answer [OF this]] None router show ?thesis by (simp add: handle_def Let_def)
next
  case (Some d)
  obtain gs pat e where d: "d = (gs, pat, e)" by (cases d)
  with assms(3) Some have "deviations A q = endpoint_deviations e" by (simp add: deviations_def)
  with answersD [OF guards_answer [OF handlers_answer [OF assms(2) dispatched_handler]]] Some d show ?thesis
    by (simp add: handle_def Let_def)
qed

lemma logged_response: "fst (RequestLogger now write m p next c s) = fst (next c s)"
  by (simp add: RequestLogger_def Let_def split: prod.split return_value.split)

lemma serve_answers:
  assumes "fiber_errors (ap_fiber A)" "driver_texts (ap_ext A)" and "fb_known (ap_fiber A) (hq_method q)"
  shows "answer_ok (deviations A q) (snd (fst (serve A q w)))"
proof (cases "BodyLimit < length (hq_body q)")
  case True
  then show ?thesis by (simp add: serve_def deviations_def answer_error_handler)
next
  case False
  have inner: "answer_ok (deviations A q) (fst (RequestLogger db_now write_log (hq_method q) (hq_path q) (\<lambda>_. handle A q)
      (to_request q (\<lambda>_. [])) v))" for v
    unfolding logged_response using handle_answers [OF assms(1,2), of q v] False by simp
  with False assms(3) show ?thesis by (auto simp: serve_def RequestID_def Let_def split: prod.split) (metis fst_conv inner)+
qed

text \<open>C10. Every answer to a request with a method that Fiber knows is in order: an error has one of the eight codes of the
  documentation with the status documented for it, or is one of the deviations listed for the endpoint (none for
  identity, dictionary, community), and its body passes the check of the test helper; data comes with 200, 201 or 202,
  a page with 200, no body with 204. A plain text comes with 400, and only for an unknown method. The router and the
  driver of the database are assumed to give their errors a text.\<close>

theorem answers_documented:
  assumes "fiber_errors (ap_fiber A)" and "\<And>e. x_sql_text (ap_ext A) e \<noteq> []"
  shows "case serve A q w of ((reqID, resp), w') \<Rightarrow>
    (case rs_body resp of
       ErrorBody e \<Rightarrow>
         (rs_status resp, er_code e) \<in> set documented_errors \<union> set (deviations A q) \<and> AssertErrorEnvelope (error_json e)
     | DataBody d \<Rightarrow> rs_status resp \<in> {200, 201, 202}
     | PageBody d m \<Rightarrow> rs_status resp = 200
     | NoBody \<Rightarrow> rs_status resp = 204
     | TextBody t \<Rightarrow> rs_status resp = 400 \<and> \<not> fb_known (ap_fiber A) (hq_method q))"
proof -
  obtain reqID resp w' where run: "serve A q w = ((reqID, resp), w')" by (metis surj_pair)
  show ?thesis
  proof (cases "fb_known (ap_fiber A) (hq_method q)")
    case True
    have "driver_texts (ap_ext A)" using assms(2) by (simp add: driver_texts_def)
    from serve_answers [OF assms(1) this True, of w] show ?thesis
      by (auto simp: run answer_ok_def split: body.splits)
  next
    case False
    then have "serve A q w = (([], if BodyLimit < length (hq_body q) then ErrorHandler (Some 413) ''Request Entity Too Large''
        else invalid_method), w)" by (simp add: serve_def)
    with False show ?thesis
      by (simp add: deviations_def ErrorHandler_def Send_def invalid_method_def error_json_ok)
  qed
qed

theorem answers_documented_witness:
  "case serve demo_api (demo_request ''DELETE'' ''/api/v2/admin/words/9'' ''Basic'') sample_world of ((reqID, resp), w') \<Rightarrow>
     (case rs_body resp of
        ErrorBody e \<Rightarrow>
          (rs_status resp, er_code e) \<in> set documented_errors \<and> AssertErrorEnvelope (error_json e)
      | DataBody d \<Rightarrow> rs_status resp \<in> {200, 201, 202}
      | PageBody d m \<Rightarrow> rs_status resp = 200
      | NoBody \<Rightarrow> rs_status resp = 204
      | TextBody t \<Rightarrow> False)"
proof -
  let ?q = "demo_request ''DELETE'' ''/api/v2/admin/words/9'' ''Basic''"
  have "fiber_errors (ap_fiber demo_api)" by (simp add: fiber_errors_def demo_api_fields demo_fiber_def)
  moreover have "x_sql_text (ap_ext demo_api) e \<noteq> []" for e by (cases e) (simp_all add: demo_api_fields demo_ext_def)
  ultimately have answer: "case serve demo_api ?q sample_world of ((reqID, resp), w') \<Rightarrow>
    (case rs_body resp of
       ErrorBody e \<Rightarrow>
         (rs_status resp, er_code e) \<in> set documented_errors \<union> set (deviations demo_api ?q) \<and> AssertErrorEnvelope (error_json e)
     | DataBody d \<Rightarrow> rs_status resp \<in> {200, 201, 202}
     | PageBody d m \<Rightarrow> rs_status resp = 200
     | NoBody \<Rightarrow> rs_status resp = 204
     | TextBody t \<Rightarrow> rs_status resp = 400 \<and> \<not> fb_known (ap_fiber demo_api) (hq_method ?q))"
    by (rule answers_documented)
  have "(case dispatch demo_fiber ''DELETE'' ''/api/v2/admin/words/9'' api_routes of
      Some (gs, pat, e) \<Rightarrow> endpoint_deviations e = [] | None \<Rightarrow> False)" by code_simp
  then have none: "deviations demo_api ?q = []"
    by (auto simp: deviations_def demo_api_fields demo_request_def split: option.splits)
  have known: "fb_known (ap_fiber demo_api) (hq_method ?q)" by (simp add: demo_api_fields demo_fiber_def demo_request_def)
  show ?thesis using answer known unfolding none list.set Un_empty_right by (auto split: prod.splits body.splits)
qed

end
