(* ===== verification/Interleaving.thy ===== *)
theory Interleaving
  imports Sample
begin

text \<open>
  Requests that overlap. A handler that changes a contribution reads it with one statement, changes
  the copy, and stores the copy with another; between the two, statements of other requests run.
  The state is the database with the copies that handlers hold. What holds of one operation after
  another (\<open>Decisions\<close>) is weaker here: the content of a contribution is kept, the decision is not.
\<close>

type_synonym 'z shared = "'z db_scheme \<times> contribution list"

text \<open>\<open>insert\<close> stores a contribution that \<open>NewContribution\<close> made at some time before; \<open>elsewhere\<close> is any part of
  another request, or of this one, that leaves the contributions alone, the checks before an insertion for example.\<close>

inductive overlapped_step :: "ext \<Rightarrow> 'z shared \<Rightarrow> 'z shared \<Rightarrow> bool" for E where
  load: "ContribRepo_FindByID i d = (Inr c, d') \<Longrightarrow> overlapped_step E (d, held) (d', c # held)"
| store: "c \<in> set held \<Longrightarrow> contribution_step c c' \<Longrightarrow> ContribRepo_Update c' d = (r, d') \<Longrightarrow>
    overlapped_step E (d, held) (d', held)"
| insert: "NewContribution (db_runtime E) u ty t p (d0 :: 'z db_scheme) = (Inr c, d0') \<Longrightarrow> ContribRepo_Create c d = (r, d') \<Longrightarrow>
    overlapped_step E (d, held) (d', held)"
| elsewhere: "frames db_contributions m \<Longrightarrow> keeps db_ok m \<Longrightarrow> m d = (r :: err + unit, d') \<Longrightarrow>
    overlapped_step E (d, held) (d', held)"

inductive_cases overlapped_stepE: "overlapped_step E s s'"

section \<open>What is kept\<close>

text \<open>What no overlap changes of a contribution: its content, and that it is no longer pending.\<close>

definition persists :: "contribution \<Rightarrow> contribution \<Rightarrow> bool" where
  "persists c c' \<longleftrightarrow> same_content c c' \<and> (if cb_status c = StatusPending then True else cb_status c' \<noteq> StatusPending)"

lemma persists_refl: "persists c c"
  by (simp add: persists_def same_content_def)

lemma persists_trans: "persists a b \<Longrightarrow> persists b c \<Longrightarrow> persists a c"
  by (auto simp: persists_def same_content_def split: if_splits)

definition all_persist :: "(uuid \<Rightarrow> contribution option) \<Rightarrow> (uuid \<Rightarrow> contribution option) \<Rightarrow> bool" where
  "all_persist C C' \<longleftrightarrow> (\<forall>i c. C i = Some c \<longrightarrow> (\<exists>c'. C' i = Some c' \<and> persists c c'))"

lemma all_persist_refl: "all_persist C C"
  using persists_refl by (auto simp: all_persist_def)

lemma all_persist_trans: "all_persist A B \<Longrightarrow> all_persist B C \<Longrightarrow> all_persist A C"
  unfolding all_persist_def using persists_trans by blast

lemma all_persist_update: "C i = Some c \<Longrightarrow> persists c c' \<Longrightarrow> all_persist C (C(i \<mapsto> c'))"
  using persists_refl by (auto simp: all_persist_def)

lemma evolves_persist: "evolves C C' \<Longrightarrow> all_persist C C'"
  using evolves_Some unfolding all_persist_def persists_def by fastforce

lemma store_persists:
  assumes "db_ok d" "contribution_step c c'" "ContribRepo_Update c' d = (r, d')"
  shows "db_ok d' \<and> all_persist (db_contribution d) (db_contribution d')"
proof -
  note up = pg_contributions.update_contribution [unfolded contribution_fields, OF assms(1,3)]
  have "cb_status c' \<noteq> StatusPending"
    using contribution_step_status [OF assms(2)]
    by (auto simp: StatusPending_def StatusApproved_def StatusRejected_def StatusWithdrawn_def)
  then have "persists v (v\<lparr>cb_status := cb_status c', cb_reviewer := cb_reviewer c', cb_note := cb_note c',
      cb_reviewed_at := cb_reviewed_at c'\<rparr>)" for v
    by (simp add: persists_def same_content_def)
  with up all_persist_refl all_persist_update show ?thesis by fastforce
qed

lemma insert_persists:
  fixes d0 :: "'a db_scheme"
  assumes "NewContribution (db_runtime E) u ty t p d0 = (Inr c, d0')" and "ContribRepo_Create c d = (r, d')"
  shows "all_persist (db_contribution d) (db_contribution d')"
proof (cases r)
  case (Inl e)
  with assms(2) have "d' = d" using pg_contributions.create_contribution_err by fastforce
  then show ?thesis by (simp add: all_persist_refl)
next
  case (Inr c')
  have "cb_status c = StatusPending" "cb_reviewer c = None" "cb_note c = None" "cb_reviewed_at c = None"
    using NewContribution_pending [OF assms(1)] by simp_all
  from ContribRepo_Create_ok [OF assms(2) [unfolded Inr] this] persists_refl show ?thesis
    by (auto simp: all_persist_def)
qed

lemma overlapped_step_persists:
  assumes "overlapped_step E s s'" and "db_ok (fst s)"
  shows "db_ok (fst s') \<and> all_persist (db_contribution (fst s)) (db_contribution (fst s'))"
  using assms
proof (induction rule: overlapped_step.induct)
  case (load i d c d' held)
  then show ?case by (auto simp: ContribRepo_FindByID_run all_persist_refl split: option.splits)
next
  case (store c held c' d r d')
  then show ?case using store_persists by simp
next
  case (insert u ty t p d0 c d0' d r d' held)
  with insert_persists [OF insert(1,2)] keepsD [OF keeps_ContribRepo(1) _ insert(2)] show ?case by simp
next
  case (elsewhere m d r d' held)
  have "db_contribution d' = db_contribution d" by (rule framesD [OF frames_contribution [OF elsewhere(1)] elsewhere(3)])
  with keepsD [OF elsewhere(2) _ elsewhere(3)] elsewhere(4) all_persist_refl show ?case by simp
qed

lemma overlapped_steps_persist:
  assumes "(overlapped_step E)\<^sup>*\<^sup>* s s'" and "db_ok (fst s)"
  shows "db_ok (fst s') \<and> all_persist (db_contribution (fst s)) (db_contribution (fst s'))"
  using assms(1)
proof (induction rule: rtranclp_induct)
  case base
  then show ?case using assms(2) all_persist_refl by blast
next
  case (step s1 s2)
  with overlapped_step_persists [OF step(2)] all_persist_trans show ?case by blast
qed

section \<open>One operation after another is a special case\<close>

abbreviation overlapped :: "ext \<Rightarrow> 'z db_scheme \<Rightarrow> 'z db_scheme \<Rightarrow> bool" where
  "overlapped E d d' \<equiv> \<exists>held'. (overlapped_step E)\<^sup>*\<^sup>* (d, []) (d', held')"

lemma load_store:
  assumes "db_contribution d i = Some c" "contribution_step c c'"
    and "frames db_contributions m" "keeps db_ok m" "m d = (x :: err + unit, d1)"
    and "ContribRepo_Update c' d1 = (u, d2)"
    and "frames db_contributions l" "keeps db_ok l" "l d2 = (y :: err + unit, d3)"
  shows "overlapped E d d1" "overlapped E d d2" "overlapped E d d3"
proof -
  have "ContribRepo_FindByID i d = (Inr c, d)" using assms(1) by (simp add: ContribRepo_FindByID_run)
  then have load: "(overlapped_step E)\<^sup>*\<^sup>* (d, []) (d, [c])" by (intro r_into_rtranclp overlapped_step.load)
  from rtranclp.rtrancl_into_rtrancl [OF this overlapped_step.elsewhere [OF assms(3-5)]]
  have merge: "(overlapped_step E)\<^sup>*\<^sup>* (d, []) (d1, [c])" .
  from rtranclp.rtrancl_into_rtrancl [OF this overlapped_step.store [OF _ assms(2,6)]]
  have store: "(overlapped_step E)\<^sup>*\<^sup>* (d, []) (d2, [c])" by simp
  from rtranclp.rtrancl_into_rtrancl [OF this overlapped_step.elsewhere [OF assms(7-9)]] merge store
  show "overlapped E d d1" "overlapped E d d2" "overlapped E d d3" by blast+
qed

lemma direct_store:
  assumes "db_contribution d i = Some c" "contribution_step c c'" "ContribRepo_Update c' d = (u, d')"
  shows "overlapped E d d'"
proof -
  let ?skip = "retP () :: ('a db_scheme, err, unit) prog"
  have "frames db_contributions ?skip" "keeps db_ok ?skip" by (intro frame_intros triple_intros)+
  with load_store(2) [OF assms(1,2), of ?skip "Inr ()" d u d' ?skip "Inr ()" d' E] assms(3) show ?thesis
    by (simp add: retP_def)
qed

text \<open>A submission ends in its checks, or it draws an identifier and inserts.\<close>

lemma Submit_parts:
  fixes d :: "'a db_scheme"
  assumes "SubmitContribution (db_runtime E) db_contribution_svc u inp d = (r, d')"
  obtains "d' = d" | c d1 where
    "NewContribution (db_runtime E) u (ci_type inp) (ci_target inp) (ci_payload inp) d = (Inr c, d1)"
    "ContribRepo_Create c d1 = (r, d')"
proof -
  let ?check = "case ci_target inp of
      Some t \<Rightarrow> if ci_type inp \<noteq> ContributionTypeNewWord then bindP (word_Exists t) (\<lambda>exists.
          rejectP (\<not> exists) (CommunityCmd ErrTargetWordNotFound) (retP ())) else retP ()
    | None \<Rightarrow> (retP () :: ('a db_scheme, err, unit) prog)"
  let ?new = "NewContribution (db_runtime E) u (ci_type inp) (ci_target inp) (ci_payload inp)"
  have quiet: "frames (\<lambda>d :: 'a db_scheme. d) ?check" by (auto split: option.split intro!: frame_intros)
  obtain v d0 where v: "IsEmailVerified_check u d = (v, d0)" by fastforce
  then have "d0 = d" by (auto simp: IsEmailVerified_check_def readP_def split: option.splits)
  obtain x d1 where x: "?check d = (x, d1)" by fastforce
  with framesD [OF quiet x] have "?check d = (x, d)" by simp
  obtain z d2 where z: "?new d = (z, d2)" by fastforce
  have unmade: "d2 = d" if "z = Inl e" for e
    using z that by (auto simp: NewContribution_def rejectP_def bindP_def failP_def retP_def uuidP_def nowP_def getP_def
        split: if_splits prod.splits)
  have "SubmitContribution (db_runtime E) db_contribution_svc u inp d =
      (case v of Inl e \<Rightarrow> (Inl e, d) | Inr b \<Rightarrow>
         if b then bindP ?check (\<lambda>_. bindP ?new ContribRepo_Create) d else (Inl (CommunityCmd ErrEmailNotVerified), d))"
    using v \<open>d0 = d\<close> unfolding SubmitContribution_def contribution_fields
    by (auto simp: bindP_def [of "IsEmailVerified_check u"] rejectP_def [where e = "CommunityCmd ErrEmailNotVerified"]
        failP_def split: sum.split)
  moreover have "bindP ?check (\<lambda>_. bindP ?new ContribRepo_Create) d =
      (case x of Inl e \<Rightarrow> (Inl e, d) | Inr _ \<Rightarrow> (case z of Inl e \<Rightarrow> (Inl e, d2) | Inr c \<Rightarrow> ContribRepo_Create c d2))"
    using \<open>?check d = (x, d)\<close> z by (simp add: bindP_def split: sum.split)
  ultimately show thesis using assms z unmade that by (cases v; cases x; cases z) (auto split: if_splits)
qed

text \<open>Each decision of \<open>Decisions\<close> is a run of overlapped steps.\<close>

lemma decision_overlaps:
  assumes "decision_step E d d'"
  shows "overlapped E d d'"
  using assms
proof (cases rule: decision_step.cases)
  case (submit u inp r)
  then show ?thesis
  proof (cases rule: Submit_parts)
    case (2 c d1)
    let ?draw = "\<lambda>s. (Inr () :: err + unit, s\<lparr>db_draws := db_draws d1\<rparr>)"
    from 2(1) have "?draw d = (Inr (), d1)" by (auto simp: NewContribution_def prog_Inr uuidP_def nowP_def getP_def db_runtime_def)
    moreover have "frames db_contributions ?draw" "keeps db_ok ?draw" by (simp_all add: frames_def keeps_def)
    ultimately have "overlapped_step E (d, []) (d1, [])" by (intro overlapped_step.elsewhere)
    moreover have "overlapped_step E (d1, []) (d', [])" by (rule overlapped_step.insert [OF 2])
    ultimately show ?thesis by (meson converse_rtranclp_into_rtranclp r_into_rtranclp)
  qed blast
next
  case (withdraw u i r)
  then show ?thesis by (cases rule: Withdraw_parts) (auto intro: direct_store contribution_step.withdraw)
next
  case (approve_http a i t nt resp)
  then show ?thesis by (cases rule: decide_parts) (auto intro: direct_store Approve_step)
next
  case (reject_http a i t nt resp)
  then show ?thesis by (cases rule: decide_parts) (auto intro: direct_store Reject_step)
next
  case (approve a i nt r)
  then show ?thesis
  proof (cases rule: ModApprove_parts)
    case (merged c c' m d1 u d2)
    obtain y d3 where l: "log_action (db_runtime E) (db_moderation_svc E) a ActionApproveContribution
        ''contribution'' i None d2 = (y, d3)" by fastforce
    from load_store [OF merged(1) Approve_step [OF merged(2)] frames_merge [OF blind_tables(1)] keeps_mergeContribution
        merged(3,4) frames_log keeps_log_action l] merged(5) l
    show ?thesis by auto
  qed blast
next
  case (reject a i nt r)
  then show ?thesis
  proof (cases rule: ModReject_parts)
    case (stored c c' u d2)
    let ?skip = "retP () :: ('a db_scheme, err, unit) prog"
    have skip: "frames db_contributions ?skip" "keeps db_ok ?skip" "?skip d = (Inr (), d)"
      by (intro frame_intros triple_intros, intro triple_intros, simp add: retP_def)
    obtain y d3 where l: "log_action (db_runtime E) (db_moderation_svc E) a ActionRejectContribution
        ''contribution'' i (Some [(''note'', JStr nt)]) d2 = (y, d3)" by fastforce
    from load_store [OF stored(1) Reject_step [OF stored(2)] skip stored(3) frames_log keeps_log_action l] stored(4) l
    show ?thesis by auto
  qed blast
qed

section \<open>Properties\<close>

text \<open>C12. However the statements of requests overlap, no contribution is lost, its author, type, target, payload and
  time of submission never change, and once it is decided or withdrawn it is never pending again.\<close>

theorem overlapped_content_kept:
  assumes "(overlapped_step E)\<^sup>*\<^sup>* (d, held) (d', held')" and "db_ok d" and "db_contribution d i = Some c"
  shows "db_ok d' \<and> (\<exists>c'. db_contribution d' i = Some c' \<and> same_content c c' \<and>
    (if cb_status c = StatusPending then True else cb_status c' \<noteq> StatusPending))"
  using overlapped_steps_persist [OF assms(1)] assms(2,3) unfolding all_persist_def persists_def by fastforce

theorem overlapped_content_kept_witness:
  "\<exists>s' c'. (overlapped_step demo_ext)\<^sup>*\<^sup>* (sample_db, []) s' \<and> snd s' = [pending_contribution] \<and>
     db_contribution (fst s') 22 = Some c' \<and> cb_payload c' = cb_payload pending_contribution \<and> cb_status c' \<noteq> StatusPending"
proof -
  have "ContribRepo_FindByID 21 sample_db = (Inr pending_contribution, sample_db)"
    by (simp add: ContribRepo_FindByID_run sample_contributions)
  then have step: "(overlapped_step demo_ext)\<^sup>*\<^sup>* (sample_db, []) (sample_db, [pending_contribution])"
    by (intro r_into_rtranclp overlapped_step.load)
  from overlapped_content_kept [OF this sample_db_ok sample_contributions(2)] step show ?thesis
    by (fastforce simp: same_content_def StatusPending_def StatusApproved_def)
qed

text \<open>C13. A decision is not final when requests overlap: a withdrawal that falls between the moment in which an approval
  reads the contribution and the moment in which it stores it succeeds and is then overwritten, so the withdrawn
  contribution ends as approved. After the withdrawal an approval that starts then is refused with 409.\<close>

theorem withdrawal_overwritten:
  assumes "db_ok d" and "a \<in> user_ids d"
    and "GetContribution db_contribution_svc a ''admin'' i d = (Inr c, d0)"
    and "Approve t a nt c = Inr c'"
    and "WithdrawContribution db_contribution_svc u i d0 = (Inr w, d1)"
  shows "cb_status w = StatusWithdrawn \<and> db_contribution d1 i = Some w \<and>
    rs_status (fst (decide E db_contribution_svc a i (Approve t a nt) d1)) = 409 \<and>
    (\<exists>d2. Update_contribution db_contribution_svc c' d1 = (Inr (), d2) \<and>
      db_contribution d2 i = Some c' \<and> cb_status c' = StatusApproved)"
proof -
  from pg_contributions.get_authorised [OF contribution_fields(1) assms(3)]
  have c: "db_contribution d i = Some c" and d0: "d0 = d" by simp_all
  from assms(5) c obtain x where wd: "Withdraw u c = Inr w" "ContribRepo_Update w d = (Inr x, d1)"
    by (auto simp: WithdrawContribution_def ContribRepo_FindByID_run prog_Inr d0)
  then have w: "w = c\<lparr>cb_status := StatusWithdrawn\<rparr>" by (auto simp: Withdraw_def split: if_splits)
  from update_contribution_row [OF assms(1) c contribution_step.withdraw [OF wd(1)] wd(2)]
  have d1: "db_ok d1" "db_contribution d1 = (db_contribution d)(i \<mapsto> w)" by simp_all
  have users: "user_ids d1 = user_ids d"
    using wd(2) by (auto simp: ContribRepo_Update_run user_ids_def split: if_splits)
  have c': "cb_id c' = cb_id c" "cb_status c' = StatusApproved" "cb_reviewer c' = Some a"
    "c' = w\<lparr>cb_status := cb_status c', cb_reviewer := cb_reviewer c', cb_note := cb_note c', cb_reviewed_at := cb_reviewed_at c'\<rparr>"
    using assms(4) by (auto simp: Approve_def w split: if_splits)
  have id: "cb_id c' = i" using pg_contributions.contributions_id [OF c] c'(1) by simp
  let ?d2 = "d1\<lparr>db_contributions := update_where (\<lambda>r. cr_id r = i)
    (\<lambda>r. r\<lparr>cr_status := cb_status c', cr_reviewer := cb_reviewer c', cr_note := cb_note c',
       cr_reviewed_at := cb_reviewed_at c'\<rparr>) (db_contributions d1)\<rparr>"
  have "Update_contribution db_contribution_svc c' d1 = (Inr (), ?d2)"
    using assms(2) by (simp add: Update_contribution_def ContribRepo_Update_run c'(2,3) id d1(2) users
        contribution_status_enum_def StatusApproved_def)
  moreover have "db_contribution ?d2 i = Some c'"
    unfolding db_contribution_update d1(2) by (simp add: c'(4) [symmetric])
  moreover have "rs_status (fst (decide E db_contribution_svc a i (Approve t a nt) d1)) = 409"
    by (simp add: decide_def GetContribution_def ContribRepo_FindByID_run d1(2) prog_defs Approve_def w Send_def
        StatusWithdrawn_def StatusPending_def)
  ultimately show ?thesis using c'(2) d1(2) w by auto
qed

theorem withdrawal_overwritten_witness:
  "\<exists>c' d1 d2. WithdrawContribution db_contribution_svc 1 21 sample_db =
      (Inr (pending_contribution\<lparr>cb_status := StatusWithdrawn\<rparr>), d1) \<and>
     Update_contribution db_contribution_svc c' d1 = (Inr (), d2) \<and> db_contribution d2 21 = Some c' \<and>
     cb_status c' = StatusApproved"
proof -
  have load: "GetContribution db_contribution_svc 2 ''admin'' 21 sample_db = (Inr pending_contribution, sample_db)"
    by (simp add: GetContribution_def ContribRepo_FindByID_run sample_contributions prog_defs)
  obtain c' where ap: "Approve 5 2 [] pending_contribution = Inr c'"
    by (simp add: Approve_def pending_contribution_def)
  obtain d1 where wd: "WithdrawContribution db_contribution_svc 1 21 sample_db =
      (Inr (pending_contribution\<lparr>cb_status := StatusWithdrawn\<rparr>), d1)"
    by (simp add: WithdrawContribution_def ContribRepo_FindByID_run sample_contributions Withdraw_def prog_defs
        pending_contribution_def ContribRepo_Update_run contribution_status_enum_def StatusWithdrawn_def)
  from withdrawal_overwritten [OF sample_db_ok _ load ap wd, of demo_ext] wd show ?thesis by auto
qed

end
