(* ===== verification/Identity_Overlap.thy ===== *)
theory Identity_Overlap
  imports Identity_Properties Footprints
begin

text \<open>
  Two refreshes with the same token that overlap: what a refresh does once it has read the token.
\<close>

text \<open>\<open>RefreshToken\<close> from the second statement on, with the user that the first one read\<close>

definition RefreshToken_issue ::
  "ext \<Rightarrow> 's runtime \<Rightarrow> string \<Rightarrow> 's identity_svc \<Rightarrow> string \<Rightarrow> string \<Rightarrow> ('s, err, string \<times> string) prog" where
  "RefreshToken_issue E R secret v oldRefreshToken userID =
     bindP (parse_uuidP E userID (Identity ErrWrongPassword)) (\<lambda>i.
     bindP (usr_FindByID (is_users v) i) (\<lambda>user.
     bindP (nowP R) (\<lambda>now.
     bindP (sumP (GenerateAccessToken E secret now (x_uuid_string E (us_id user)) (us_role user))) (\<lambda>newAccessToken.
     bindP (randomHex R 32) (\<lambda>newRefreshToken.
     bindP (ts_StoreRefresh (is_tokens v) newRefreshToken (x_uuid_string E (us_id user)) refreshTTL) (\<lambda>_.
     bindP (tryP (ts_RevokeRefresh (is_tokens v) oldRefreshToken)) (\<lambda>_.
     retP (newAccessToken, newRefreshToken))))))))"

lemma RefreshToken_split:
  "RefreshToken E R secret v old =
     bindP (elseP (ts_GetRefresh (is_tokens v) old) (Identity ErrWrongPassword)) (RefreshToken_issue E R secret v old)"
  by (simp add: RefreshToken_def RefreshToken_issue_def [abs_def])

context postgres
begin

lemma issue_sound:
  assumes "RefreshToken_issue E (db_runtime E) secret (world_identity E) old t w = (Inr (acc, new), w')"
  shows "\<exists>i u. x_uuid_parse E t = (i, True) \<and> db_user_map w i = Some u \<and>
      GenerateAccessToken E secret (db_now w) (x_uuid_string E i) (us_role u) = Inr acc \<and>
      refresh_tokens w' = ((refresh_tokens w)(token_hash E new \<mapsto> x_uuid_string E i))(token_hash E old := None)"
proof -
  from assms obtain i u w1 w2 r where
    i: "x_uuid_parse E t = (i, True)" and u: "db_user_map w i = Some u" and
    acc: "GenerateAccessToken E secret (db_now w) (x_uuid_string E (us_id u)) (us_role u) = Inr acc" and
    rnd: "randomHex (db_runtime E) 32 w = (Inr new, w1)" and
    st: "ts_StoreRefresh (NewTokenStore E world_exec) new (x_uuid_string E (us_id u)) refreshTTL w1 = (Inr (), w2)" and
    rv: "ts_RevokeRefresh (NewTokenStore E world_exec) old w2 = (r, w')"
    by (auto simp: RefreshToken_issue_def world_parts PostgresUserRepository_def prog_Inr nowP_def db_runtime_def parse_uuidP_Inr
        UserRepo_FindByID_run split: option.splits)
  obtain x where r: "r = Inr ()" using rv revoke_refresh_runs [of E old w2] by (cases r) auto
  have "us_id u = i" using u by (auto dest: db_user_map_Some)
  moreover have "0 < refreshTTL" by (simp add: refreshTTL_def)
  ultimately show ?thesis
    using wd.randomHex_frame [OF rnd] wd.store_refresh [OF _ st] wd.revoke_refresh [OF rv [unfolded r]] i u acc
    by (intro exI [of _ i] exI [of _ u]) simp
qed

lemma read_sound: "ts_GetRefresh (NewTokenStore E world_exec) old w = (Inr t, w') \<Longrightarrow> refresh_tokens w (token_hash E old) = Some t"
  using wd.get_refresh by blast

end

lemmas issue_world = postgres.issue_sound [OF pg]
  and read_world = postgres.read_sound [OF pg]

lemma issue_runs:
  assumes "rand_total E" "x_uuid_parse E t = (i, True)" "db_user_map w i = Some u"
    and "GenerateAccessToken E secret (db_now w) (x_uuid_string E i) (us_role u) = Inr acc"
  shows "\<exists>new w'. RefreshToken_issue E (db_runtime E) secret (world_identity E) old t w = (Inr (acc, new), w')"
proof -
  have i: "us_id u = i" using assms(3) by (auto dest: db_user_map_Some)
  have find: "UserRepo_FindByID i w = (Inr u, w)" using assms(3) by (simp add: UserRepo_FindByID_run)
  obtain n w1 where n: "randomHex (db_runtime E) 32 w = (Inr n, w1)" using randomHex_runs [OF assms(1)] by blast
  obtain w2 where st: "ts_StoreRefresh (NewTokenStore E world_exec) n (x_uuid_string E i) refreshTTL w1 = (Inr (), w2)"
    using store_refresh_runs by blast
  obtain r w3 where rv: "ts_RevokeRefresh (NewTokenStore E world_exec) old w2 = (r, w3)" by fastforce
  show ?thesis
    using find n st rv assms(2,4)
    by (simp add: RefreshToken_issue_def world_parts PostgresUserRepository_def prog_defs db_runtime_def parse_uuidP_def i)
qed

lemma refresh_leaves:
  assumes "RefreshToken E (db_runtime E) secret (world_identity E) old w = (r, w')"
  shows "db_now w' = db_now w \<and> db_user_map w' = db_user_map w"
proof -
  have "session_blind (\<lambda>w :: world. (db_now w, db_user_map w))"
    by (simp add: session_blind_def db_user_map_def fun_eq_iff)
  from framesD [OF frames_session_commands(2) [OF this] assms] show ?thesis by simp
qed

text \<open>C21. Rotation does not hold when refreshes overlap: a refresh that has read a token before another one with the
  same token revokes it is completed all the same, and both new refresh tokens are stored for the user.\<close>

theorem refresh_token_spent_twice:
  assumes "sql_text_ok E" and "rand_total E" and "db_ok w"
    and "ts_GetRefresh (NewTokenStore E world_exec) old w = (Inr t, w0)"
    and "RefreshToken E (db_runtime E) secret (world_identity E) old w0 = (Inr (acc, new), w1)"
  shows "refresh_tokens w1 (token_hash E old) = None \<and>
    (\<exists>new' w2 i. RefreshToken_issue E (db_runtime E) secret (world_identity E) old t w1 = (Inr (acc, new'), w2) \<and>
      x_uuid_parse E t = (i, True) \<and>
      refresh_tokens w2 = ((refresh_tokens w)(token_hash E new \<mapsto> x_uuid_string E i, token_hash E old := None,
        token_hash E new' \<mapsto> x_uuid_string E i))(token_hash E old := None))"
proof -
  have read: "refresh_tokens w (token_hash E old) = Some t" by (rule read_world [OF assms(1,4)])
  with assms(4) get_refresh_runs have w0: "w0 = w" by fastforce
  from refresh_world [OF assms(1) assms(3) assms(5) [unfolded w0]] revoke_refresh_runs read
  obtain i u where i: "x_uuid_parse E t = (i, True)" and u: "db_user_map w i = Some u"
    and acc: "GenerateAccessToken E secret (db_now w) (x_uuid_string E i) (us_role u) = Inr acc"
    and w1: "refresh_tokens w1 = ((refresh_tokens w)(token_hash E new \<mapsto> x_uuid_string E i))(token_hash E old := None)"
    by (metis option.inject)
  from refresh_leaves [OF assms(5)] w0 u acc obtain new' w2
    where run: "RefreshToken_issue E (db_runtime E) secret (world_identity E) old t w1 = (Inr (acc, new'), w2)"
    using issue_runs [OF assms(2) i, of w1 u secret acc old] by auto
  from issue_world [OF assms(1) run] i w1 run show ?thesis by auto
qed

theorem refresh_token_spent_twice_witness:
  "\<exists>acc new w1 new' w2. RefreshToken demo_ext (db_runtime demo_ext) ''k'' (world_identity demo_ext) ''t'' banned_world =
      (Inr (acc, new), w1) \<and> refresh_tokens w1 (token_hash demo_ext ''t'') = None \<and>
     RefreshToken_issue demo_ext (db_runtime demo_ext) ''k'' (world_identity demo_ext) ''t'' (x_uuid_string demo_ext 101) w1 =
      (Inr (acc, new'), w2)"
proof -
  obtain acc where "GenerateAccessToken demo_ext ''k'' (db_now banned_world) (x_uuid_string demo_ext 101)
      (us_role (Ban 0 demo_user)) = Inr acc" using demo_sign by blast
  from refresh_runs [OF demo_rand_total banned_world_facts(1) demo_uuid banned_world_facts(3) this]
  obtain new w1 where r: "RefreshToken demo_ext (db_runtime demo_ext) ''k'' (world_identity demo_ext) ''t'' banned_world =
      (Inr (acc, new), w1)" by blast
  from refresh_token_spent_twice [OF demo_sql_text_ok demo_rand_total banned_world_facts(4)
      get_refresh_runs [OF banned_world_facts(1)] r] r show ?thesis by blast
qed

end
