(* ===== verification/Redis_Outage.thy ===== *)
theory Redis_Outage
  imports Identity_Properties
begin

text \<open>
  Refreshing while Redis may fail: any call may return an error, and may then have been carried out or not. The
  service drops the error of the call that revokes the old token.
\<close>

section \<open>A Redis whose calls may fail\<close>

text \<open>\<open>F w cs\<close> is the error of the call \<open>cs\<close> in the state \<open>w\<close>, if it has one, and whether the call was carried out
  nevertheless (the reply was lost).\<close>

type_synonym faults = "world \<Rightarrow> command list \<Rightarrow> (bool \<times> err) option"

definition faulty_exec :: "faults \<Rightarrow> world redis_exec" where
  "faulty_exec F cs w =
     (case F w cs of
        None \<Rightarrow> world_exec cs w
      | Some (carried_out, e) \<Rightarrow> (Inl e, if carried_out then snd (world_exec cs w) else w))"

definition faulty_identity :: "faults \<Rightarrow> ext \<Rightarrow> world identity_svc" where
  "faulty_identity F E =
     \<lparr>is_users = PostgresUserRepository E, is_tokens = NewTokenStore E (faulty_exec F), is_mail = world_mailer E\<rparr>"

lemma no_faults: "faulty_identity (\<lambda>_ _. None) E = world_identity E"
proof -
  have "faulty_exec (\<lambda>_ _. None) = world_exec" by (simp add: fun_eq_iff faulty_exec_def)
  then show ?thesis by (simp add: faulty_identity_def world_identity_def)
qed

interpretation faulty: redis_tokens "faulty_exec F" wd_clock wd_data E for F E
  by unfold_locales
    (auto simp: faulty_exec_def world_exec_def redis_mem_def split: option.splits prod.splits if_splits)

lemma frames_faulty:
  assumes "\<And>w s. f (w\<lparr>wd_redis := s\<rparr>) = f w"
  shows "frames f (ts_GetRefresh (NewTokenStore E (faulty_exec F)) t)"
    "frames f (ts_StoreRefresh (NewTokenStore E (faulty_exec F)) t v ttl)"
    "frames f (ts_RevokeRefresh (NewTokenStore E (faulty_exec F)) t)"
proof -
  have exec: "frames f (faulty_exec F cs)" for cs
    using assms by (auto simp: frames_def faulty_exec_def world_exec_def split: option.split prod.split)
  then show "frames f (ts_GetRefresh (NewTokenStore E (faulty_exec F)) t)"
    "frames f (ts_StoreRefresh (NewTokenStore E (faulty_exec F)) t v ttl)"
    "frames f (ts_RevokeRefresh (NewTokenStore E (faulty_exec F)) t)"
    unfolding token_defs token_store.simps redis_set_def redis_get_cmd_def redis_del_def by (intro frame_intros exec)+
qed

lemma faulty_tokens:
  "ts_GetRefresh (NewTokenStore E (faulty_exec F)) t s = (Inr v, s') \<Longrightarrow>
     refresh_tokens s (token_hash E t) = Some v \<and> refresh_tokens s' = refresh_tokens s"
  "0 < ttl \<Longrightarrow> ts_StoreRefresh (NewTokenStore E (faulty_exec F)) t v ttl s = (Inr (), s') \<Longrightarrow>
     refresh_tokens s' = (refresh_tokens s)(token_hash E t \<mapsto> v)"
  using faulty.get_refresh [where F = F and E = E] faulty.store_refresh [where F = F and E = E]
  unfolding refresh_tokens_def by blast+

text \<open>A revocation succeeds or was at least carried out, or it failed and changed nothing.\<close>

lemma faulty_revoke:
  assumes "ts_RevokeRefresh (NewTokenStore E (faulty_exec F)) t s = (r, s')"
  shows "refresh_tokens s' = (refresh_tokens s)(token_hash E t := None) \<or>
    s' = s \<and> (\<exists>e. F s [Del (refreshKey E t)] = Some (False, e))"
proof -
  have deleted: "refresh_tokens (snd (world_exec [Del (refreshKey E t)] s)) = (refresh_tokens s)(token_hash E t := None)"
    by (auto simp: world_exec_def redis_mem_def refresh_tokens_def token_view_def refreshKey_def redis_get_def fun_eq_iff
        split: option.split prod.split)
  have run: "ts_RevokeRefresh (NewTokenStore E (faulty_exec F)) t = redis_del (faulty_exec F) (refreshKey E t)"
    by (simp add: NewTokenStore_def RevokeRefreshToken_def)
  have after: "s' = snd (faulty_exec F [Del (refreshKey E t)] s)"
    using assms unfolding run redis_del_def bindP_def retP_def failP_def by (auto split: prod.splits sum.splits option.splits)
  show ?thesis
  proof (cases "F s [Del (refreshKey E t)]")
    case None
    with after deleted show ?thesis by (simp add: faulty_exec_def)
  next
    case (Some p)
    with after deleted show ?thesis by (cases p) (auto simp: faulty_exec_def)
  qed
qed

section \<open>Refreshing\<close>

text \<open>C11. A refresh that succeeds gives out a pair for the user that the token was stored for, with the role that this
  user has now. Then either the old token is gone, and a second refresh with it is refused, whatever Redis does in
  that one; or the call that was to delete the old token failed and was not carried out, the error was dropped, and
  the old token is still stored beside the new one.\<close>

theorem refresh_rotates:
  assumes run: "RefreshToken E (db_runtime E) secret (faulty_identity F E) old w = (Inr (acc, new), w')"
  shows "\<exists>i t u. refresh_tokens w (token_hash E old) = Some t \<and> x_uuid_parse E t = (i, True) \<and> db_user_map w i = Some u \<and>
    GenerateAccessToken E secret (db_now w) (x_uuid_string E i) (us_role u) = Inr acc \<and> db_user_map w' = db_user_map w \<and>
    (refresh_tokens w' = ((refresh_tokens w)(token_hash E new \<mapsto> x_uuid_string E i))(token_hash E old := None) \<and>
       (\<forall>G. fst (RefreshToken E (db_runtime E) secret (faulty_identity G E) old w') = Inl (Identity ErrWrongPassword)) \<or>
     (\<exists>e. F w' [Del (''refresh:'' @ token_hash E old)] = Some (False, e)) \<and>
       refresh_tokens w' = (refresh_tokens w)(token_hash E new \<mapsto> x_uuid_string E i) \<and>
       refresh_tokens w' (token_hash E old) \<noteq> None)"
proof -
  let ?ts = "NewTokenStore E (faulty_exec F)"
  have now: "rt_now (db_runtime E) = (db_now :: world \<Rightarrow> _)" by (simp add: db_runtime_def)
  from run obtain t i u s1 s2 s3 r where
    get: "ts_GetRefresh ?ts old w = (Inr t, s1)" and i: "x_uuid_parse E t = (i, True)" and u: "db_user_map s1 i = Some u" and
    acc: "GenerateAccessToken E secret (db_now s1) (x_uuid_string E (us_id u)) (us_role u) = Inr acc" and
    rnd: "randomHex (db_runtime E) 32 s1 = (Inr new, s2)" and
    st: "ts_StoreRefresh ?ts new (x_uuid_string E (us_id u)) refreshTTL s2 = (Inr (), s3)" and
    rv: "ts_RevokeRefresh ?ts old s3 = (r, w')"
    by (auto simp: RefreshToken_def faulty_identity_def PostgresUserRepository_def prog_Inr nowP_def parse_uuidP_Inr UserRepo_FindByID_run
        now split: option.splits)
  have id: "us_id u = i" using u by (auto dest: db_user_map_Some)
  have blind: "db_user_map (v\<lparr>wd_redis := x\<rparr>) = db_user_map v" "db_now (v\<lparr>wd_redis := x\<rparr>) = db_now v" for v :: world and x
    by (simp_all add: db_user_map_def fun_eq_iff)
  have users: "db_user_map s1 = db_user_map w" "db_now s1 = db_now w" "db_user_map s3 = db_user_map s2"
      "db_user_map w' = db_user_map s3"
    using framesD [OF frames_faulty(1) [OF blind(1)] get] framesD [OF frames_faulty(1) [OF blind(2)] get]
      framesD [OF frames_faulty(2) [OF blind(1)] st] framesD [OF frames_faulty(3) [OF blind(1)] rv] by simp_all
  have random: "db_user_map s2 = db_user_map s1" "refresh_tokens s2 = refresh_tokens s1"
    using rnd by (auto simp: randomHex_def prog_Inr dest!: framesD [OF frames_runtime(1)])
  have "0 < refreshTTL" by (simp add: refreshTTL_def)
  from faulty_tokens(2) [OF this st] faulty_tokens(1) [OF get] random id
  have stored: "refresh_tokens w (token_hash E old) = Some t"
    "refresh_tokens s3 = (refresh_tokens w)(token_hash E new \<mapsto> x_uuid_string E i)" by simp_all
  have refused: "fst (RefreshToken E (db_runtime E) secret (faulty_identity G E) old w') = Inl (Identity ErrWrongPassword)"
    if gone: "refresh_tokens w' (token_hash E old) = None" for G
  proof -
    obtain g v where g: "ts_GetRefresh (NewTokenStore E (faulty_exec G)) old w' = (g, v)" by fastforce
    with faulty_tokens(1) gone have "\<exists>e. g = Inl e" by (cases g) auto
    with g show ?thesis by (auto simp: RefreshToken_def faulty_identity_def prog_defs)
  qed
  from faulty_revoke [OF rv] show ?thesis
  proof
    assume "refresh_tokens w' = (refresh_tokens s3)(token_hash E old := None)"
    with refused stored i u acc users random id show ?thesis by auto
  next
    assume "w' = s3 \<and> (\<exists>e. F s3 [Del (refreshKey E old)] = Some (False, e))"
    with stored i u acc users random id show ?thesis by (auto simp: refreshKey_def)
  qed
qed

theorem refresh_rotates_witness:
  "\<exists>acc new w'. RefreshToken demo_ext (db_runtime demo_ext) ''k'' (faulty_identity (\<lambda>_ _. None) demo_ext) ''t'' banned_world =
      (Inr (acc, new), w') \<and>
     fst (RefreshToken demo_ext (db_runtime demo_ext) ''k'' (world_identity demo_ext) ''t'' w') = Inl (Identity ErrWrongPassword)"
proof -
  obtain acc where "GenerateAccessToken demo_ext ''k'' (db_now banned_world) (x_uuid_string demo_ext 101)
      (us_role (Ban 0 demo_user)) = Inr acc" using demo_sign by blast
  from refresh_runs [OF demo_rand_total banned_world_facts(1) demo_uuid banned_world_facts(3) this]
  obtain new w' where r: "RefreshToken demo_ext (db_runtime demo_ext) ''k'' (faulty_identity (\<lambda>_ _. None) demo_ext) ''t''
      banned_world = (Inr (acc, new), w')" unfolding no_faults by blast
  from refresh_rotates [OF r] have "fst (RefreshToken demo_ext (db_runtime demo_ext) ''k''
      (faulty_identity (\<lambda>_ _. None) demo_ext) ''t'' w') = Inl (Identity ErrWrongPassword)" by auto
  with r show ?thesis by (auto simp: no_faults)
qed

text \<open>The second case happens: if the call that deletes the token fails, the same token is good for a second refresh.\<close>

theorem failed_revocation_keeps_token:
  assumes "rand_total E" "uuid_text_ok E" and "refresh_tokens w (token_hash E old) = Some t" "x_uuid_parse E t = (i, True)"
    and "db_user_map w i = Some u" and sign: "\<And>now. \<exists>acc. GenerateAccessToken E secret now (x_uuid_string E i) (us_role u) = Inr acc"
    and F: "F = (\<lambda>v cs. if cs = [Del (refreshKey E old)] then Some (False, e) else None)"
  shows "\<exists>p w' p' w''. RefreshToken E (db_runtime E) secret (faulty_identity F E) old w = (Inr p, w') \<and>
    RefreshToken E (db_runtime E) secret (world_identity E) old w' = (Inr p', w'')"
proof -
  let ?ts = "NewTokenStore E (faulty_exec F)"
  have i: "us_id u = i" using assms(5) by (auto dest: db_user_map_Some)
  have find: "UserRepo_FindByID i w = (Inr u, w)" using assms(5) by (simp add: UserRepo_FindByID_run)
  have healthy: "ts_GetRefresh ?ts x = ts_GetRefresh (NewTokenStore E world_exec) x"
    "ts_StoreRefresh ?ts x y ttl = ts_StoreRefresh (NewTokenStore E world_exec) x y ttl" for x y ttl
    by (simp_all add: token_defs redis_get_cmd_def redis_set_def bindP_def faulty_exec_def F fun_eq_iff)
  have failing: "ts_RevokeRefresh ?ts old v = (Inl e, v)" for v
    by (simp add: NewTokenStore_def RevokeRefreshToken_def redis_del_def bindP_def faulty_exec_def F)
  obtain acc where acc: "GenerateAccessToken E secret (db_now w) (x_uuid_string E i) (us_role u) = Inr acc" using sign by blast
  obtain n w1 where n: "randomHex (db_runtime E) 32 w = (Inr n, w1)" using randomHex_runs [OF assms(1)] by blast
  obtain w' where st: "ts_StoreRefresh (NewTokenStore E world_exec) n (x_uuid_string E i) refreshTTL w1 = (Inr (), w')"
    using store_refresh_runs by blast
  have first: "RefreshToken E (db_runtime E) secret (faulty_identity F E) old w = (Inr (acc, n), w')"
    using get_refresh_runs [OF assms(3)] find n st acc assms(4)
    by (simp add: RefreshToken_def faulty_identity_def PostgresUserRepository_def prog_defs db_runtime_def parse_uuidP_def i
        healthy failing)
  have "db_user_map (v\<lparr>wd_redis := x\<rparr>) = db_user_map v" for v :: world and x by (simp add: db_user_map_def fun_eq_iff)
  from framesD [OF frames_faulty(2) [where F = F, OF this], OF st [folded healthy(2)]] have "db_user_map w' = db_user_map w1" .
  with n have users: "db_user_map w' = db_user_map w"
    by (auto simp: randomHex_def prog_Inr dest!: framesD [OF frames_runtime(1)])
  have "refresh_tokens w' = (refresh_tokens w)(token_hash E n \<mapsto> x_uuid_string E i)"
    using st n faulty_tokens(2) [of refreshTTL E F n "x_uuid_string E i" w1 w'] unfolding healthy
    by (auto simp: refreshTTL_def randomHex_def prog_Inr dest!: framesD [OF frames_runtime(1)])
  then obtain t' where t': "refresh_tokens w' (token_hash E old) = Some t'" "x_uuid_parse E t' = (i, True)"
    using assms(2-4) by (cases "token_hash E old = token_hash E n") (auto simp: uuid_text_ok_def)
  obtain acc' where "GenerateAccessToken E secret (db_now w') (x_uuid_string E i) (us_role u) = Inr acc'" using sign by blast
  from refresh_runs [OF assms(1) t' _ this] users assms(5) first show ?thesis by fastforce
qed

theorem failed_revocation_keeps_token_witness:
  "\<exists>p w' p' w''. RefreshToken demo_ext (db_runtime demo_ext) ''k'' (faulty_identity
       (\<lambda>v cs. if cs = [Del (refreshKey demo_ext ''t'')] then Some (False, Other ''EOF'') else None) demo_ext) ''t'' banned_world =
      (Inr p, w') \<and>
     RefreshToken demo_ext (db_runtime demo_ext) ''k'' (world_identity demo_ext) ''t'' w' = (Inr p', w'')"
  by (rule failed_revocation_keeps_token [OF demo_rand_total demo_uuid_text_ok banned_world_facts(1) demo_uuid banned_world_facts(3)
      demo_sign refl])

end
