(* ===== verification/Startup.thy ===== *)
theory Startup
  imports Server
begin

text \<open>
  The start of the server (\<open>main\<close> of \<open>cmd/api/main.go\<close>): the configuration, the connections to
  PostgreSQL and Redis, the mailer, the client of the language model, and the assembled server, or the message
  with which the process ends. The two drivers are parameters; their connections are made by the
  code of \<open>pkg/database\<close> and \<open>pkg/cache\<close>.
\<close>

section \<open>Connections\<close>

record pool_config =
  pc_source :: string
  pc_max_conns :: int
  pc_min_conns :: int
  pc_max_lifetime :: duration
  pc_max_idle_time :: duration

text \<open>The functions of \<open>pgxpool\<close>: an error, or what they make. The last two share a deadline, which is an
  argument.\<close>

record pgxpool =
  px_parse :: "string \<Rightarrow> string + pool_config"
  px_new :: "duration \<Rightarrow> pool_config \<Rightarrow> string + unit"
  px_ping :: "duration \<Rightarrow> pool_config \<Rightarrow> string + unit"

definition database_Connect :: "pgxpool \<Rightarrow> string \<Rightarrow> string + pool_config" where
  "database_Connect px dsn =
     (case px_parse px dsn of
        Inl e \<Rightarrow> Inl (''database: parse config: '' @ e)
      | Inr c0 \<Rightarrow>
          let cfg = c0\<lparr>pc_max_conns := 25, pc_min_conns := 5, pc_max_lifetime := 5 * minute, pc_max_idle_time := minute\<rparr> in
          (case px_new px (10 * second) cfg of
             Inl e \<Rightarrow> Inl (''database: connect: '' @ e)
           | Inr _ \<Rightarrow>
               (case px_ping px (10 * second) cfg of
                  Inl e \<Rightarrow> Inl (''database: ping: '' @ e)
                | Inr _ \<Rightarrow> Inr cfg)))"

record redis_options =
  ro_addr :: string
  ro_password :: string
  ro_db :: int
  ro_dial_timeout :: duration
  ro_read_timeout :: duration
  ro_write_timeout :: duration

definition cache_Connect :: "(duration \<Rightarrow> redis_options \<Rightarrow> string + unit) \<Rightarrow> string \<Rightarrow> string \<Rightarrow> string + redis_options" where
  "cache_Connect ping addr password =
     (let client = \<lparr>ro_addr = addr, ro_password = password, ro_db = 0, ro_dial_timeout = 5 * second,
                    ro_read_timeout = 3 * second, ro_write_timeout = 3 * second\<rparr> in
      case ping (5 * second) client of
        Inl e \<Rightarrow> Inl (''cache: ping: '' @ e)
      | Inr _ \<Rightarrow> Inr client)"

section \<open>The documentation page (\<open>internal/docs/handler.go\<close>)\<close>

definition swaggerUIHTML :: string where
  "swaggerUIHTML = join_with newline
     [''<!DOCTYPE html>'',
      ''<html lang='' @ quoted ''en'' @ ''>'',
      ''<head>'',
      ''  <meta charset='' @ quoted ''utf-8'' @ '' />'',
      ''  <title>Kamus Banjar API '' @ [CHR 0xE2, CHR 0x80, CHR 0x94] @ '' Docs</title>'',
      ''  <meta name='' @ quoted ''viewport'' @ '' content='' @ quoted ''width=device-width, initial-scale=1'' @ '' />'',
      ''  <link rel='' @ quoted ''stylesheet'' @ '' href='' @ quoted ''https://unpkg.com/swagger-ui-dist/swagger-ui.css'' @ '' />'',
      ''</head>'',
      ''<body>'',
      ''  <div id='' @ quoted ''swagger-ui'' @ ''></div>'',
      ''  <script src='' @ quoted ''https://unpkg.com/swagger-ui-dist/swagger-ui-bundle.js'' @ ''></script>'',
      ''  <script>'',
      ''    window.onload = function () {'',
      ''      SwaggerUIBundle({'',
      ''        url: '' @ quote @ ''/docs/openapi.yaml'' @ quote @ '','',
      ''        dom_id: '' @ quote @ ''#swagger-ui'' @ quote @ '','',
      ''        presets: [SwaggerUIBundle.presets.apis, SwaggerUIBundle.SwaggerUIStandalonePreset],'',
      ''        layout: '' @ quote @ ''BaseLayout'' @ quote @ '','',
      ''        deepLinking: true,'',
      ''      });'',
      ''    };'',
      ''  </script>'',
      ''</body>'',
      ''</html>'']"

section \<open>main\<close>

text \<open>What the process finds around it; \<open>pl_openapi\<close> is the embedded file, \<open>pl_listen\<close> the error of \<open>app.Listen\<close> for an
  address that it cannot serve.\<close>

record platform =
  pl_ext :: ext
  pl_pgx :: pgxpool
  pl_redis_ping :: "duration \<Rightarrow> redis_options \<Rightarrow> string + unit"
  pl_transport :: "http_call \<Rightarrow> world \<Rightarrow> err + nat \<times> string option"
  pl_parsers :: body_parsers
  pl_fiber :: fiber
  pl_openapi :: string
  pl_listen :: "string \<Rightarrow> string option"

definition configured_mailer :: "config \<Rightarrow> smtp_mailer option" where
  "configured_mailer cfg =
     (if SMTPHost cfg \<noteq> [] then
        Some \<lparr>sm_host = SMTPHost cfg, sm_port = SMTPPort cfg, sm_user = SMTPUser cfg, sm_pass = SMTPPass cfg,
              sm_from = SMTPFrom cfg\<rparr>
      else None)"

text \<open>A process that waits for a signal: its server, the state it starts in, given the state that PostgreSQL and Redis have,
  the address it is to serve, whether it does, and what it has logged about this.\<close>

record process =
  pr_api :: api
  pr_world :: world
  pr_addr :: string
  pr_listening :: bool
  pr_log :: "string list"

text \<open>The goroutine around \<open>app.Listen\<close>: its error is logged, and the process goes on waiting.\<close>

definition listen :: "platform \<Rightarrow> config \<Rightarrow> api \<Rightarrow> world \<Rightarrow> process" where
  "listen P cfg A w =
     (let addr = '':'' @ AppPort cfg in
      case pl_listen P addr of
        None \<Rightarrow> \<lparr>pr_api = A, pr_world = w, pr_addr = addr, pr_listening = True, pr_log = [''listening on '' @ addr]\<rparr>
      | Some e \<Rightarrow>
          \<lparr>pr_api = A, pr_world = w, pr_addr = addr, pr_listening = False,
           pr_log = [''listening on '' @ addr, ''server: '' @ e]\<rparr>)"

definition api_main :: "platform \<Rightarrow> (string \<Rightarrow> string) \<Rightarrow> world \<Rightarrow> string + process" where
  "api_main P env w =
     (case Load env of
        Inl e \<Rightarrow> Inl (''config: '' @ err_text (x_sql_text (pl_ext P)) e)
      | Inr cfg \<Rightarrow>
          (case database_Connect (pl_pgx P) (DSN cfg) of
             Inl e \<Rightarrow> Inl (''database: '' @ e)
           | Inr pool \<Rightarrow>
               (case cache_Connect (pl_redis_ping P) (RedisAddr cfg) (RedisPass cfg) of
                  Inl e \<Rightarrow> Inl (''redis: '' @ e)
                | Inr redis \<Rightarrow>
                    (case openrouter_New cfg of
                       Inl e \<Rightarrow> Inl (''ai: '' @ err_text (x_sql_text (pl_ext P)) e)
                     | Inr client \<Rightarrow>
                         Inr (listen P cfg
                           \<lparr>ap_ext = pl_ext P, ap_secret = JWTSecret cfg, ap_client = client,
                            ap_transport = pl_transport P, ap_model = OpenRouterModel cfg,
                            ap_parsers = pl_parsers P, ap_fiber = pl_fiber P, ap_openapi = pl_openapi P,
                            ap_swagger = swaggerUIHTML, ap_logger = logging_Init (AppEnv cfg)\<rparr>
                           (restart (configured_mailer cfg) w))))))"

section \<open>What a started server has\<close>

lemma Load_required:
  assumes "Load env = Inr cfg"
  shows "JWTSecret cfg \<noteq> []" "OpenRouterAPIKey cfg \<noteq> []"
  using assms Load_Inr_iff [of env] by (auto simp: Load_def required_env_def getEnv_def split: option.splits if_splits)

lemma Load_settings:
  assumes "Load env = Inr cfg"
  shows "DSN cfg = ''postgres://'' @ env ''DB_USER'' @ '':'' @ env ''DB_PASS'' @ ''@'' @ env ''DB_HOST'' @ '':'' @
      env ''DB_PORT'' @ ''/'' @ env ''DB_NAME'' @ ''?sslmode=disable''" "RedisAddr cfg = env ''REDIS_ADDR''"
    "RedisPass cfg = env ''REDIS_PASS''" "JWTSecret cfg = env ''JWT_SECRET''"
  using assms by (auto simp: Load_def DSN_def split: option.splits)

lemma getEnv_empty: "getEnv env key [] = env key"
  by (simp add: getEnv_def Let_def)

lemma Load_mailer:
  assumes "Load env = Inr cfg"
  shows "SMTPHost cfg = env ''SMTP_HOST''" "SMTPFrom cfg = env ''SMTP_FROM''"
    "(logging_Init (AppEnv cfg) = JSONHandler LevelInfo) = (env ''APP_ENV'' = ''production'')"
proof -
  have "SMTPHost cfg = getEnv env ''SMTP_HOST'' []" "SMTPFrom cfg = getEnv env ''SMTP_FROM'' []"
    "AppEnv cfg = getEnv env ''APP_ENV'' ''development''"
    using assms by (auto simp: Load_def split: option.splits)
  then show "SMTPHost cfg = env ''SMTP_HOST''" "SMTPFrom cfg = env ''SMTP_FROM''"
    "(logging_Init (AppEnv cfg) = JSONHandler LevelInfo) = (env ''APP_ENV'' = ''production'')"
    by (simp_all add: getEnv_empty logging_Init_def, simp add: getEnv_def Let_def)
qed

lemma restart_state:
  "db.truncate (restart m w) = db.truncate w" "wd_redis (restart m w) = wd_redis w" "ms_smtp (wd_mail (restart m w)) = m"
  by (simp_all add: restart_def no_mail_def db.defs)

lemma database_Connect_Inr:
  "(\<exists>pool. database_Connect px dsn = Inr pool) \<longleftrightarrow>
     (\<exists>c. px_parse px dsn = Inr c \<and>
        px_new px (10 * second) (c\<lparr>pc_max_conns := 25, pc_min_conns := 5, pc_max_lifetime := 5 * minute, pc_max_idle_time := minute\<rparr>) = Inr () \<and>
        px_ping px (10 * second) (c\<lparr>pc_max_conns := 25, pc_min_conns := 5, pc_max_lifetime := 5 * minute, pc_max_idle_time := minute\<rparr>) = Inr ())"
  by (auto simp: database_Connect_def Let_def split: sum.split)

lemma cache_Connect_Inr:
  "(\<exists>redis. cache_Connect ping addr password = Inr redis) \<longleftrightarrow>
     ping (5 * second) \<lparr>ro_addr = addr, ro_password = password, ro_db = 0, ro_dial_timeout = 5 * second,
       ro_read_timeout = 3 * second, ro_write_timeout = 3 * second\<rparr> = Inr ()"
  by (auto simp: cache_Connect_def Let_def split: sum.split)

lemma openrouter_New_loaded: "Load env = Inr cfg \<Longrightarrow> \<exists>client. openrouter_New cfg = Inr client"
  using Load_required(2) by (simp add: openrouter_New_def)

lemma Load_port: "Load env = Inr cfg \<Longrightarrow> AppPort cfg = (if env ''APP_PORT'' = [] then ''3000'' else env ''APP_PORT'')"
  by (auto simp: Load_def getEnv_def Let_def split: option.splits)

lemma required_set:
  "(\<exists>cfg. Load env = Inr cfg) \<longleftrightarrow>
     env ''DB_HOST'' \<noteq> [] \<and> env ''DB_PORT'' \<noteq> [] \<and> env ''DB_NAME'' \<noteq> [] \<and> env ''DB_USER'' \<noteq> [] \<and> env ''DB_PASS'' \<noteq> [] \<and>
     env ''REDIS_ADDR'' \<noteq> [] \<and> env ''JWT_SECRET'' \<noteq> [] \<and> env ''OPENROUTER_API_KEY'' \<noteq> []"
  by (auto simp: Load_Inr_iff required_env_def)

lemma listen_fields [simp]:
  "pr_api (listen P cfg A w) = A" "pr_world (listen P cfg A w) = w" "pr_addr (listen P cfg A w) = '':'' @ AppPort cfg"
  "pr_listening (listen P cfg A w) = (pl_listen P ('':'' @ AppPort cfg) = None)"
  "pr_log (listen P cfg A w) = [''listening on :'' @ AppPort cfg] @
     (case pl_listen P ('':'' @ AppPort cfg) of None \<Rightarrow> [] | Some e \<Rightarrow> [''server: '' @ e])"
  by (simp_all add: listen_def Let_def split: option.split)

lemma api_main_Inr:
  "(\<exists>p. api_main P env w = Inr p) \<longleftrightarrow>
     (\<exists>cfg. Load env = Inr cfg \<and> (\<exists>pool. database_Connect (pl_pgx P) (DSN cfg) = Inr pool) \<and>
        (\<exists>redis. cache_Connect (pl_redis_ping P) (RedisAddr cfg) (RedisPass cfg) = Inr redis))"
proof (cases "Load env")
  case (Inr cfg)
  with openrouter_New_loaded obtain client where "openrouter_New cfg = Inr client" by blast
  with Inr show ?thesis
    by (cases "database_Connect (pl_pgx P) (DSN cfg)";
        cases "cache_Connect (pl_redis_ping P) (RedisAddr cfg) (RedisPass cfg)") (simp_all add: api_main_def)
qed (simp add: api_main_def)

text \<open>C37. The process gets to wait for requests exactly when the eight required variables are set, \<open>pgx\<close> takes the
  connection string and makes the pool with the five settings of the program, PostgreSQL answers the ping within ten
  seconds, and Redis, called with its address and password, answers the ping within five. The client of the language
  model never keeps it from this. The process then signs and checks tokens with the configured secret, which is not
  empty; it sends mail by SMTP exactly when a host is configured, logs JSON exactly in production, and finds the
  database and Redis as they were. Whether it can listen on the configured port, or 3000, plays no role: if it cannot,
  it logs the error and goes on waiting, without serving anything.\<close>

theorem starts_exactly_when:
  "((\<exists>p. api_main P env w = Inr p) \<longleftrightarrow>
     env ''DB_HOST'' \<noteq> [] \<and> env ''DB_PORT'' \<noteq> [] \<and> env ''DB_NAME'' \<noteq> [] \<and> env ''DB_USER'' \<noteq> [] \<and> env ''DB_PASS'' \<noteq> [] \<and>
     env ''REDIS_ADDR'' \<noteq> [] \<and> env ''JWT_SECRET'' \<noteq> [] \<and> env ''OPENROUTER_API_KEY'' \<noteq> [] \<and>
     (\<exists>c. px_parse (pl_pgx P) (''postgres://'' @ env ''DB_USER'' @ '':'' @ env ''DB_PASS'' @ ''@'' @ env ''DB_HOST'' @ '':'' @
            env ''DB_PORT'' @ ''/'' @ env ''DB_NAME'' @ ''?sslmode=disable'') = Inr c \<and>
        px_new (pl_pgx P) (10 * second) (c\<lparr>pc_max_conns := 25, pc_min_conns := 5, pc_max_lifetime := 5 * minute,
          pc_max_idle_time := minute\<rparr>) = Inr () \<and>
        px_ping (pl_pgx P) (10 * second) (c\<lparr>pc_max_conns := 25, pc_min_conns := 5, pc_max_lifetime := 5 * minute,
          pc_max_idle_time := minute\<rparr>) = Inr ()) \<and>
     pl_redis_ping P (5 * second) \<lparr>ro_addr = env ''REDIS_ADDR'', ro_password = env ''REDIS_PASS'', ro_db = 0,
       ro_dial_timeout = 5 * second, ro_read_timeout = 3 * second, ro_write_timeout = 3 * second\<rparr> = Inr ()) \<and>
   (case api_main P env w of
      Inl message \<Rightarrow> take 4 message \<noteq> ''ai: ''
    | Inr p \<Rightarrow>
        ap_secret (pr_api p) = env ''JWT_SECRET'' \<and> ap_secret (pr_api p) \<noteq> [] \<and>
        (case ms_smtp (wd_mail (pr_world p)) of
           None \<Rightarrow> env ''SMTP_HOST'' = []
         | Some m \<Rightarrow> env ''SMTP_HOST'' \<noteq> [] \<and> sm_host m = env ''SMTP_HOST'' \<and> sm_from m = env ''SMTP_FROM'') \<and>
        (ap_logger (pr_api p) = JSONHandler LevelInfo) = (env ''APP_ENV'' = ''production'') \<and>
        db.truncate (pr_world p) = db.truncate w \<and> wd_redis (pr_world p) = wd_redis w \<and>
        pr_addr p = '':'' @ (if env ''APP_PORT'' = [] then ''3000'' else env ''APP_PORT'') \<and>
        (case pl_listen P (pr_addr p) of
           None \<Rightarrow> pr_listening p \<and> pr_log p = [''listening on '' @ pr_addr p]
         | Some e \<Rightarrow> \<not> pr_listening p \<and> pr_log p = [''listening on '' @ pr_addr p, ''server: '' @ e]))"
proof (rule conjI, goal_cases)
  case 1
  show ?case
  proof (cases "Load env")
    case (Inl e)
    with required_set [of env] show ?thesis unfolding api_main_Inr by auto
  next
    case (Inr cfg)
    note cfg = Load_settings [OF Inr]
    from Inr required_set [of env] show ?thesis
      unfolding api_main_Inr database_Connect_Inr cache_Connect_Inr by (auto simp: cfg)
  qed
next
  case 2
  show ?case
  proof (cases "Load env")
    case (Inl e)
    then show ?thesis by (simp add: api_main_def)
  next
    case (Inr cfg)
    note cfg = Load_settings [OF Inr] Load_mailer [OF Inr] Load_port [OF Inr]
    obtain client where client: "openrouter_New cfg = Inr client" using openrouter_New_loaded [OF Inr] by blast
    from Inr client Load_required(1) [OF Inr] show ?thesis
      by (auto simp: api_main_def cfg restart_state configured_mailer_def split: sum.split option.split)
  qed
qed

end
