(* ===== verification/Spec2Isabelle.thy ===== *)
theory Spec2Isabelle
  imports Foundation_Properties Identity_Properties Dictionary_Properties Community_Properties
    Moderation_Properties Ai_Properties Seed_Properties Route_Properties
    Bootstrap_Properties Sql_Values Account_Standing Request_Log Envelopes Server_Properties Interleaving
    Identity_Overlap Redis_Outage Startup
begin

text \<open>
  A verification of the Kamus Banjar API, version 2: a dictionary of the Banjar language behind an
  HTTP interface, written in Go. The repository is under \<open>src/\<close>; every path below is relative to it.

  THE PROGRAM

  Five bounded contexts under \<open>internal/\<close>, each in the layers domain, application, infrastructure
  and http: \<open>identity\<close> (users, passwords, tokens), \<open>dictionary\<close> (words with definitions and
  examples), \<open>community\<close> (contributions, votes, bookmarks, comments), \<open>moderation\<close> (decisions on
  contributions, users, audit log) and \<open>ai\<close> (translation and enrichment by a language model). They
  share the packages under \<open>pkg/\<close>. \<open>cmd/api/main.go\<close> assembles the server, \<open>scripts/seed/main.go\<close>
  fills the dictionary. The contexts interact through PostgreSQL, where all keep their state in one
  database, through Redis (tokens and rate limits), and by calls: moderation and ai load and store
  words and contributions by the repositories of the other contexts, a goroutine of ai stores the
  answer of the model when it arrives.

  HOW IT IS MODELLED

  Code with errors is a program of type \<open>('s, err, 'a) prog\<close> (\<open>Prelude\<close>): a function from the state
  to an error or a result, and the state afterwards, which an error does not roll back, as in the
  code. \<open>bindP\<close> is \<open>if err != nil\<close>, \<open>errP\<close> and \<open>elseP\<close> replace an error, \<open>tryP\<close> drops it, \<open>rejectP\<close> is a
  guard with early return. An interface of the code is a record of such programs and a command takes
  the records it needs, so the commands are modelled once and run on the models of PostgreSQL and
  Redis, as \<open>main\<close> assembles them. A handler maps a request and a state to a response and a state, a
  middleware maps handlers to handlers.

  Integers have the width of the code where it matters: \<open>int64\<close>, \<open>int32\<close> and \<open>int16\<close> (\<open>Prelude\<close>) wrap
  around as the conversions of the repositories do. Strings are byte strings; lengths in runes go
  through a decoder of UTF-8 (\<open>Go_Strings\<close>). Instants are microseconds. All functions are total:
  decoders recurse on the text, \<open>normalizeWordClass\<close> is a recursion with a termination proof, and the
  nesting of JSON stops at 10000 levels, as in \<open>encoding/json\<close>. No fuel is used.

  Code that is not under \<open>src/\<close> is a parameter. \<open>ext\<close> (\<open>External\<close>) bundles uuid, bcrypt, JWT, the
  random source, the texts of PostgreSQL's errors, collation and text search; what is relied on are
  the predicates \<open>uuid_text_ok\<close> (printed identifiers parse), \<open>bcrypt_ok\<close> (a hash is verified by its password),
  \<open>sql_text_ok\<close> (a unique violation has its SQLSTATE in its text), \<open>collation_ok\<close> (a total order),
  \<open>jwt_complete\<close> (a signed token parses with its claims until it expires), and \<open>demo_ext\<close> satisfies all of
  them. Nothing is assumed of which other tokens parse: a valid token is one that \<open>ParseToken\<close> accepts. A SQL
  statement is a definition over the tables as lists of rows with the checks of the schema in \<open>migrations/\<close>
  and of JSONB, which refuses the character \<open>\u0000\<close> (\<open>jsonb_ok\<close>; other texts are taken to be free of it). Rows that
  the order of a listing does not tell apart come in an order that depends on the window of the query (\<open>x_scan\<close>).
  \<open>runtime\<close> gives the time, new identifiers and randomness; a Redis server is a function \<open>exec\<close> with a
  contract, under which calls may fail; the state \<open>world\<close> has one that works (\<open>world_exec\<close>), \<open>Redis_Outage\<close>
  one of which any call may fail (\<open>faulty_exec\<close>). The language model, the HTTP transport and the mail dialer are
  arbitrary functions; Fiber is the record \<open>fiber\<close>, the matching of routes, the errors of the router and the
  known methods, with the documented behaviour \<open>fiber_groups\<close> and \<open>fiber_errors\<close>.

  THE THEORIES

  Shared: \<open>Prelude\<close> (programs, frames, triples, tables), \<open>Go_Strings\<close>, \<open>Json\<close>, \<open>Json_Text\<close>, \<open>Errors\<close>
  (the errors of all contexts), \<open>External\<close>, \<open>Database\<close> (rows, tables, the invariant \<open>db_ok\<close>),
  \<open>Sql_Values\<close> (enumerations of the driver), \<open>Redis\<close>.
  Packages: \<open>Pagination\<close>, \<open>Ratelimit\<close>, \<open>Auth\<close>, \<open>Httperr\<close>, \<open>Logging\<close>, \<open>Platform\<close> (\<open>config\<close>, \<open>middleware\<close>, \<open>mailer\<close>).
  Contexts: \<open>Identity_Domain\<close>, \<open>Identity_Store\<close>, \<open>Identity_Tokens\<close>, \<open>Identity_Service\<close>, \<open>Identity_Http\<close>;
  \<open>Dictionary_Domain\<close>, \<open>_Store\<close>, \<open>_Service\<close>, \<open>_Http\<close>; \<open>Community_Domain\<close>, \<open>_Store\<close>, \<open>_Service\<close>, \<open>_Http\<close>;
  \<open>Moderation\<close>, \<open>Moderation_Http\<close>; \<open>Ai_Requests\<close>, \<open>Ai_Service\<close>, \<open>Ai_Http\<close>. A theory \<open>_Domain\<close> is the package
  \<open>domain\<close>, \<open>_Store\<close> the package \<open>infrastructure\<close> with the statements of \<open>sqlc/\<close>, \<open>_Service\<close> the package
  \<open>application\<close>, \<open>_Http\<close> the package \<open>http\<close>; definitions keep the names of the functions, with the
  suffixes \<open>_stmt\<close>, \<open>_domain\<close>, \<open>_handler\<close> or the prefix of a repository (\<open>WordRepo_Create\<close>) where two
  layers use the same name.
  Assembly: \<open>World\<close> (database, Redis, mail and log in one state), \<open>Routes\<close> (all route tables), \<open>Server\<close>
  (the table of handlers over the assembled services, \<open>handle\<close> for the way of a request through its route,
  \<open>serve\<close> with the middleware of the application around it, \<open>serve_all\<close> for a sequence of requests),
  \<open>Startup\<close> (\<open>api_main\<close>: the start of the process up to the moment in which it waits for a signal, with the
  assembled server, its mailer and log, whether it listens, with \<open>pkg/database\<close> and \<open>pkg/cache\<close>), \<open>Seed\<close>.
  Proofs: \<open>_Invariant\<close>, \<open>_Contract\<close>, \<open>_Proofs\<close> and \<open>Decisions\<close> hold the lemmas of a context,
  \<open>Read_Only\<close> and \<open>Footprints\<close> say which part of the state a command leaves alone, \<open>Server_Contract\<close>
  and \<open>Server_Steps\<close> lift this to requests, \<open>Account_Standing\<close> follows one request to the commands that change
  an account, \<open>Interleaving\<close> and \<open>Identity_Overlap\<close> treat requests that
  overlap; \<open>Sample\<close> has the concrete states of the witnesses.

  INTERFACES

  Each interface between components is a locale, interpreted on the model of the code that provides
  it: \<open>redis_server\<close>, \<open>counter\<close>, \<open>token_store\<close>, \<open>user_repository\<close>, \<open>identity_service\<close>,
  \<open>word_repository_contract\<close> and \<open>dictionary_service\<close>, \<open>exist_checker\<close>,
  \<open>contribution_repository_contract\<close>, \<open>vote_repository_contract\<close>, \<open>bookmark_repository_contract\<close>,
  \<open>comment_repository_contract\<close>, \<open>ai_repository_contract\<close> and \<open>enrichment\<close>. The state of a repository is
  seen as a finite map from identifiers to aggregates, and the laws say what each operation does to
  the map. The commands are verified over these laws, and the interpretations (\<open>pg_words\<close>,
  \<open>pg_votes\<close>, \<open>world_redis\<close>, ...) carry the results to the code. The contracts of the whole server are
  \<open>walk\<close>, \<open>public_api\<close>, \<open>member_api\<close>, \<open>curator_api\<close> and \<open>admin_api\<close> (\<open>Server_Contract\<close>), each an extension of
  the one before: the commands that anyone, a signed-in user, an admin who leaves the accounts alone, any admin
  can reach move the state along a given relation. \<open>unstored\<close> (\<open>Server_Steps\<close>) is a view of the state on tables
  that curation does not write. The contracts of the server are interpreted on five relations (\<open>Server_Steps\<close>, \<open>Request_Log\<close>): runs of \<open>system_step\<close> (\<open>runs\<close>), what
  is stored below the accounts (\<open>visitors\<close>), what only admins write (\<open>members\<close>), the standing of the
  accounts (\<open>accounts\<close>), the log (\<open>unlogged\<close>).

  WHAT IS PROVED

  Invariants of everything that can happen: \<open>system_step\<close> (\<open>System_Invariant\<close>) is one command of any
  context, one step of the goroutine, a middleware, the seeder, a restart or the clock; all keep
  \<open>db_ok\<close>, and \<open>content_ok\<close> (\<open>Content_Invariant\<close>) on what the schema does not check. \<open>Decisions\<close> treats the sequences of operations
  on contributions. \<open>Foundation_Properties\<close>: page windows and their wrap-around, the rate limiter,
  tokens, configuration. \<open>Identity_Properties\<close>: registration, login, reset.
  \<open>Dictionary_Properties\<close>: round trips of words, pages, deletion. \<open>Community_Properties\<close>: contributions,
  votes as a refinement of a finite map, bookmarks, comments. \<open>Moderation_Properties\<close>: the merge, bans,
  roles, queues. \<open>Ai_Properties\<close>: every triggered job settles, reviews, translation.
  \<open>Seed_Properties\<close>: seeding again adds no word, the normalisation of classes. \<open>Route_Properties\<close>: which
  requests reach a handler. \<open>Bootstrap_Properties\<close>: the account of the seeder opens the admin area.
  \<open>Server_Properties\<close>: whatever requests arrive, the server runs commands of the system, so the
  invariants hold after any sequence of requests, and a change of the stored content, of the
  dictionary or of a role is traced to a request with a token of the right role. \<open>Account_Standing\<close>: which
  request, with which path, token and body, makes which change of a role or of a ban.
  \<open>Request_Log\<close>: what the log says about a request. \<open>Envelopes\<close>: which status and code an answer has, against the
  table of \<open>PRD.md\<close>. \<open>Interleaving\<close> and \<open>Identity_Overlap\<close>: what
  remains true when the statements of requests alternate, and two races that the code allows. \<open>Redis_Outage\<close>: the
  rotation of refresh tokens when Redis fails. \<open>Startup\<close>: when the process starts. Some of the properties state
  what the code does against its intention; their texts say so.

  Bounds: identifiers are words of 128 bits, new ones are assumed fresh where a property says so;
  offsets are exact while they fit 32 bits, and \<open>offset_wraps_to_first_page\<close> shows what happens beyond.
  In \<open>system_step\<close> a command is one step, except that the goroutine is two (\<open>runLLM_load\<close>,
  \<open>runLLM_store\<close>), between which any other command may run; starting the goroutine (\<open>spawn\<close>) changes
  nothing by itself. The statements of a command are separate steps in \<open>overlapped_step\<close>, for the
  contributions, and in \<open>RefreshToken_issue\<close>, for the refresh tokens.

  NOT MODELLED

  How a log entry becomes a line of text, signals and the shutdown, the connection of the mail dialer:
  input and output of libraries. The wrappers \<open>sqlc/db.go\<close> and the four further
  copies of \<open>sqlc/models.go\<close>: generated, without logic of their own. The package \<open>testutil\<close>: tests, except
  the check of error envelopes (\<open>Envelopes\<close>). The
  OpenAPI file and the seed file are parameters: what is embedded, what reading and decoding gives. The rendering of responses as JSON text and the parsing of request bodies into structs are
  left to Fiber and \<open>encoding/json\<close> (\<open>body_parsers\<close>); the content of both is modelled. Other
  interleavings inside a command than those named above are not modelled.
\<close>

text \<open>Whatever commands run, in any order, after the start of an empty server, the database stays well formed:
  keys and addresses are unique, references point to rows that are there, enumerations hold declared values.\<close>

theorem reachable_worlds_ok:
  assumes "(system_step E secret)\<^sup>*\<^sup>* (world_empty t) w"
  shows "db_ok w"
  using system_steps_ok [OF assms db_ok_world_empty] .

theorem reachable_worlds_ok_witness: "db_ok demo_world"
  using reachable_worlds_ok [OF demo_world_reachable] .

end
